(* ===== verification/Prelude.thy ===== *)
theory Prelude imports Main "HOL-Library.AList" "HOL-Library.Word" "HOL-Library.Sublist" begin

text \<open>
  Shared ground of the development: the types every component uses, the parts of the Rust
  standard library the sources call (\<open>str\<close> functions, \<open>format!\<close> of integers, \<open>HashMap\<close>),
  and the generic lemmas and fact collections the component proofs rest on.

  Strings are \<open>char list\<close>s. The sources only compare, split and search for ASCII patterns;
  the model is exact for ASCII text, where Rust's byte and character positions agree.
  A \<open>HashMap\<close> is an association list with distinct keys: the list order stands for one
  of the iteration orders that \<open>HashMap\<close> leaves unspecified.
\<close>

named_theorems sched_defs \<open>definitions of the scheduler's locked sections\<close>
named_theorems job_defs \<open>definitions of the job lifecycle transitions\<close>

type_synonym uuid = "128 word"   \<comment> \<open>\<open>uuid::Uuid\<close>: 128 bits\<close>
type_synonym time = int          \<comment> \<open>\<open>DateTime<Utc>\<close>: nanoseconds since the epoch\<close>
type_synonym u8 = "8 word"
type_synonym u32 = "32 word"
type_synonym u64 = "64 word"
type_synonym i32 = "32 word"     \<comment> \<open>read with \<open>sint\<close>\<close>

section \<open>Results\<close>

text \<open>\<open>Result<T, E>\<close> is \<open>E + T\<close>, with \<open>Inl\<close> for \<open>Err\<close>.\<close>

type_synonym ('e, 'a) result = "'e + 'a"

abbreviation Err :: "'e \<Rightarrow> ('e, 'a) result" where "Err \<equiv> Inl"
abbreviation Ok :: "'a \<Rightarrow> ('e, 'a) result" where "Ok \<equiv> Inr"

definition bind_res :: "('e, 'a) result \<Rightarrow> ('a \<Rightarrow> ('e, 'b) result) \<Rightarrow> ('e, 'b) result" where
  "bind_res r f = (case r of Inl e \<Rightarrow> Inl e | Inr a \<Rightarrow> f a)"

lemma bind_res_simps [simp]:
  "bind_res (Inl e) f = Inl e"
  "bind_res (Inr a) f = f a"
  by (simp_all add: bind_res_def)

lemma bind_res_Inr_iff: "bind_res r f = Inr b \<longleftrightarrow> (\<exists>a. r = Inr a \<and> f a = Inr b)"
  by (cases r) auto

definition is_ok :: "('e, 'a) result \<Rightarrow> bool" where
  "is_ok r = (case r of Inl _ \<Rightarrow> False | Inr _ \<Rightarrow> True)"

lemma is_ok_simps [simp]: "\<not> is_ok (Inl e)" "is_ok (Inr a)"
  by (simp_all add: is_ok_def)

definition opt_or :: "'a option \<Rightarrow> 'a \<Rightarrow> 'a" where
  "opt_or x d = (case x of None \<Rightarrow> d | Some a \<Rightarrow> a)"   \<comment> \<open>\<open>Option::unwrap_or\<close>\<close>

lemma opt_or_simps [simp]: "opt_or None d = d" "opt_or (Some a) d = a"
  by (simp_all add: opt_or_def)

section \<open>Strings\<close>

abbreviation nl :: char where "nl \<equiv> CHR 0x0A"

definition starts_with :: "string \<Rightarrow> string \<Rightarrow> bool" where
  "starts_with s p = prefix p s"

definition ends_with :: "string \<Rightarrow> string \<Rightarrow> bool" where
  "ends_with s p = suffix p s"

fun str_contains :: "string \<Rightarrow> string \<Rightarrow> bool" where
  "str_contains [] p = (p = [])"
| "str_contains (c # s) p = (prefix p (c # s) \<or> str_contains s p)"

lemma str_contains_iff: "str_contains s p \<longleftrightarrow> (\<exists>a b. s = a @ p @ b)"
proof (induction s)
  case Nil
  then show ?case by auto
next
  case (Cons c s)
  show ?case
  proof
    assume "str_contains (c # s) p"
    then consider "prefix p (c # s)" | "str_contains s p" by auto
    then show "\<exists>a b. c # s = a @ p @ b"
    proof cases
      case 1
      then show ?thesis by (metis append_Nil prefix_def)
    next
      case 2
      with Cons.IH show ?thesis by (metis append_Cons)
    qed
  next
    assume "\<exists>a b. c # s = a @ p @ b"
    then obtain a b where ab: "c # s = a @ p @ b" by blast
    show "str_contains (c # s) p"
    proof (cases a)
      case Nil
      with ab have "prefix p (c # s)" by (simp add: prefix_def)
      then show ?thesis by simp
    next
      case (Cons x a')
      with ab have "s = a' @ p @ b" by simp
      with Cons.IH show ?thesis by auto
    qed
  qed
qed

lemma str_contains_sublist: "str_contains s p \<longleftrightarrow> sublist p s"
  by (simp add: str_contains_iff sublist_def)

lemma str_contains_self [simp]: "str_contains p p"
  by (cases p) auto

lemma str_contains_append:
  "str_contains s p \<Longrightarrow> str_contains (a @ s) p"
  "str_contains s p \<Longrightarrow> str_contains (s @ b) p"
  unfolding str_contains_iff by (metis append.assoc)+

lemma str_contains_Nil [simp]: "str_contains s []"
  by (cases s) auto

abbreviation byte :: "char \<Rightarrow> nat" where "byte c \<equiv> of_char c"

definition is_upper_c :: "char \<Rightarrow> bool" where
  "is_upper_c c = (65 \<le> byte c \<and> byte c \<le> 90)"

definition is_lower_c :: "char \<Rightarrow> bool" where
  "is_lower_c c = (97 \<le> byte c \<and> byte c \<le> 122)"

definition is_digit_c :: "char \<Rightarrow> bool" where
  "is_digit_c c = (48 \<le> byte c \<and> byte c \<le> 57)"

definition is_ascii_alphanumeric :: "char \<Rightarrow> bool" where
  "is_ascii_alphanumeric c = (is_upper_c c \<or> is_lower_c c \<or> is_digit_c c)"

definition lower_c :: "char \<Rightarrow> char" where
  "lower_c c = (if is_upper_c c then char_of (byte c + 32) else c)"

definition to_lowercase :: "string \<Rightarrow> string" where
  "to_lowercase s = map lower_c s"

definition is_whitespace :: "char \<Rightarrow> bool" where
  "is_whitespace c = (c = CHR '' '' \<or> (9 \<le> byte c \<and> byte c \<le> 13))"

definition trim_start :: "string \<Rightarrow> string" where
  "trim_start s = dropWhile is_whitespace s"

definition trim_end :: "string \<Rightarrow> string" where
  "trim_end s = rev (dropWhile is_whitespace (rev s))"

definition trim :: "string \<Rightarrow> string" where
  "trim s = trim_end (trim_start s)"

text \<open>\<open>split_once\<close> and \<open>split\<close> on one character.\<close>

fun split_once :: "char \<Rightarrow> string \<Rightarrow> (string \<times> string) option" where
  "split_once d [] = None"
| "split_once d (c # s) =
     (if c = d then Some ([], s)
      else map_option (\<lambda>(a, b). (c # a, b)) (split_once d s))"

definition rsplit_once :: "char \<Rightarrow> string \<Rightarrow> (string \<times> string) option" where
  "rsplit_once d s = (case split_once d (rev s) of None \<Rightarrow> None | Some (b, a) \<Rightarrow> Some (rev a, rev b))"

fun split_on :: "char \<Rightarrow> string \<Rightarrow> string list" where
  "split_on d [] = [[]]"
| "split_on d (c # s) =
     (if c = d then [] # split_on d s
      else (case split_on d s of [] \<Rightarrow> [[c]] | w # ws \<Rightarrow> (c # w) # ws))"

text \<open>\<open>lines()\<close>: a trailing newline makes no empty last line, and a \<open>\\r\<close> before the
  newline is dropped.\<close>

definition strip_cr :: "string \<Rightarrow> string" where
  "strip_cr l = (if l \<noteq> [] \<and> last l = CHR 0x0D then butlast l else l)"

fun raw_lines :: "string \<Rightarrow> string \<Rightarrow> string list" where
  "raw_lines acc [] = (if acc = [] then [] else [rev acc])"
| "raw_lines acc (c # s) =
     (if c = nl then strip_cr (rev acc) # raw_lines [] s else raw_lines (c # acc) s)"

definition str_lines :: "string \<Rightarrow> string list" where
  "str_lines s = raw_lines [] s"

fun words_acc :: "string \<Rightarrow> string \<Rightarrow> string list" where
  "words_acc acc [] = (if acc = [] then [] else [rev acc])"
| "words_acc acc (c # s) =
     (if is_whitespace c then (if acc = [] then words_acc [] s else rev acc # words_acc [] s)
      else words_acc (c # acc) s)"

definition split_whitespace :: "string \<Rightarrow> string list" where
  "split_whitespace s = words_acc [] s"

definition strip_prefix :: "string \<Rightarrow> string \<Rightarrow> string option" where
  "strip_prefix p s = (if prefix p s then Some (drop (length p) s) else None)"

definition strip_suffix :: "string \<Rightarrow> string \<Rightarrow> string option" where
  "strip_suffix p s = (if suffix p s then Some (take (length s - length p) s) else None)"

text \<open>\<open>trim_start_matches(p)\<close> removes \<open>p\<close> as often as it is a prefix, and
  \<open>find(p)\<close> gives the first position of \<open>p\<close>.\<close>

function trim_start_matches :: "string \<Rightarrow> string \<Rightarrow> string" where
  "trim_start_matches p s =
     (if p \<noteq> [] \<and> prefix p s then trim_start_matches p (drop (length p) s) else s)"
  by pat_completeness auto
termination
  by (relation "measure (\<lambda>(p, s). length s)") (auto simp: prefix_def)

declare trim_start_matches.simps [simp del]

fun str_find :: "string \<Rightarrow> string \<Rightarrow> nat option" where
  "str_find p [] = (if p = [] then Some 0 else None)"
| "str_find p (c # s) = (if prefix p (c # s) then Some 0 else map_option Suc (str_find p s))"

text \<open>\<open>Iterator::find_map\<close>.\<close>

fun find_map :: "('a \<Rightarrow> 'b option) \<Rightarrow> 'a list \<Rightarrow> 'b option" where
  "find_map f [] = None"
| "find_map f (x # xs) = (case f x of Some y \<Rightarrow> Some y | None \<Rightarrow> find_map f xs)"

text \<open>\<open>format!("{}")\<close> of an unsigned and of a signed integer.\<close>

definition digit_char :: "nat \<Rightarrow> char" where
  "digit_char d = char_of (48 + d)"

fun show_nat :: "nat \<Rightarrow> string" where
  "show_nat n = (if n < 10 then [digit_char n] else show_nat (n div 10) @ [digit_char (n mod 10)])"

declare show_nat.simps [simp del]

definition show_int :: "int \<Rightarrow> string" where
  "show_int i = (if i < 0 then CHR ''-'' # show_nat (nat (- i)) else show_nat (nat i))"

fun join :: "string \<Rightarrow> string list \<Rightarrow> string" where
  "join sep [] = []"
| "join sep [x] = x"
| "join sep (x # y # xs) = x @ sep @ join sep (y # xs)"

lemma length_to_lowercase [simp]: "length (to_lowercase s) = length s"
  by (simp add: to_lowercase_def)

lemma to_lowercase_append: "to_lowercase (a @ b) = to_lowercase a @ to_lowercase b"
  by (simp add: to_lowercase_def)

lemma byte_char_of: "n < 256 \<Longrightarrow> byte (char_of n :: char) = n"
  by (simp add: of_char_of)

lemma lower_c_not_upper: "\<not> is_upper_c (lower_c c)"
  by (auto simp: lower_c_def is_upper_c_def byte_char_of)

lemma to_lowercase_idem [simp]: "to_lowercase (to_lowercase s) = to_lowercase s"
proof -
  have "lower_c (lower_c c) = lower_c c" for c
    using lower_c_not_upper [of c] by (simp add: lower_c_def [of "lower_c c"])
  then show ?thesis by (simp add: to_lowercase_def comp_def)
qed

lemma words_acc_word:
  "\<forall>c\<in>set w. \<not> is_whitespace c \<Longrightarrow> words_acc acc (w @ s) = words_acc (rev w @ acc) s"
  by (induction w arbitrary: acc) auto

lemma split_whitespace_word:
  assumes "\<forall>c\<in>set w. \<not> is_whitespace c" and "w \<noteq> []"
  shows "split_whitespace (w @ CHR '' '' # s) = w # split_whitespace s"
  using assms by (simp add: split_whitespace_def words_acc_word is_whitespace_def)

lemma split_once_Some: "split_once d s = Some (a, b) \<Longrightarrow> s = a @ d # b \<and> d \<notin> set a"
  by (induction s arbitrary: a b) (auto split: if_splits)

lemma split_once_None: "split_once d s = None \<longleftrightarrow> d \<notin> set s"
  by (induction s) auto

lemma split_once_append: "d \<notin> set a \<Longrightarrow> split_once d (a @ d # b) = Some (a, b)"
  by (induction a) auto

lemma split_on_nonempty: "split_on d s \<noteq> []"
  by (induction s) (auto split: list.splits)

lemma split_on_word: "d \<notin> set w \<Longrightarrow> hd (split_on d (w @ d # s)) = w"
proof (induction w)
  case (Cons c w)
  then show ?case
    using split_on_nonempty [of d "w @ d # s"] by (cases "split_on d (w @ d # s)") auto
qed simp

lemma byte_digit_char:
  assumes "d < 10"
  shows "byte (digit_char d) = 48 + d"
proof -
  from assms have "48 + d < 256" by linarith
  then show ?thesis unfolding digit_char_def by (rule byte_char_of)
qed

lemma digit_char_inj:
  assumes "a < 10" and "b < 10" and eq: "digit_char a = digit_char b"
  shows "a = b"
proof -
  from byte_digit_char [OF assms(1)] byte_digit_char [OF assms(2)]
  have "48 + a = 48 + b" unfolding eq by (rule trans [OF sym])
  then show ?thesis by linarith
qed

lemma show_nat_nonempty [simp]: "show_nat n \<noteq> []"
  by (subst show_nat.simps) simp

section \<open>Hash maps\<close>

text \<open>Counting and removal on association lists with distinct keys.\<close>

type_synonym ('k, 'v) hashmap = "('k \<times> 'v) list"

definition hm_wf :: "('k, 'v) hashmap \<Rightarrow> bool" where
  "hm_wf m = distinct (map fst m)"

definition values_count :: "('v \<Rightarrow> bool) \<Rightarrow> ('k, 'v) hashmap \<Rightarrow> nat" where
  "values_count P m = length (filter P (map snd m))"   \<comment> \<open>\<open>values().filter(P).count()\<close>\<close>

definition hm_modify :: "'k \<Rightarrow> ('v \<Rightarrow> 'v) \<Rightarrow> ('k, 'v) hashmap \<Rightarrow> ('k, 'v) hashmap" where
  "hm_modify k f m = (case map_of m k of None \<Rightarrow> m | Some v \<Rightarrow> AList.update k (f v) m)"

lemma hm_wf_Nil [simp]: "hm_wf []"
  by (simp add: hm_wf_def)

lemma hm_wf_update [simp, intro]: "hm_wf m \<Longrightarrow> hm_wf (AList.update k v m)"
  by (simp add: hm_wf_def distinct_update)

lemma hm_wf_delete [simp, intro]: "hm_wf m \<Longrightarrow> hm_wf (AList.delete k m)"
  by (simp add: hm_wf_def distinct_delete)

lemma hm_wf_modify [simp, intro]: "hm_wf m \<Longrightarrow> hm_wf (hm_modify k f m)"
  by (auto simp: hm_modify_def split: option.splits)

lemma map_of_modify:
  "map_of (hm_modify k f m) = (map_of m)(k := map_option f (map_of m k))"
  by (auto simp: hm_modify_def update_conv' split: option.splits)

lemma map_of_modify_same [simp]: "map_of (hm_modify k f m) k = map_option f (map_of m k)"
  by (simp add: map_of_modify)

lemma map_of_modify_other [simp]: "k' \<noteq> k \<Longrightarrow> map_of (hm_modify k f m) k' = map_of m k'"
  by (simp add: map_of_modify)

lemma dom_modify [simp]: "fst ` set (hm_modify k f m) = fst ` set m"
proof -
  have "dom (map_of (hm_modify k f m)) = dom (map_of m)"
    by (auto simp: map_of_modify split: if_splits)
  then show ?thesis by (simp add: dom_map_of_conv_image_fst)
qed

lemma values_count_Nil [simp]: "values_count P [] = 0"
  by (simp add: values_count_def)

lemma values_count_Cons [simp]:
  "values_count P ((k, v) # m) = (if P v then 1 else 0) + values_count P m"
  by (simp add: values_count_def)

lemma values_count_update_new:
  "map_of m k = None \<Longrightarrow>
     values_count P (AList.update k v m) = values_count P m + (if P v then 1 else 0)"
  by (induction m) (auto split: if_splits)

lemma values_count_update_old:
  assumes "hm_wf m" and "map_of m k = Some v"
  shows "values_count P (AList.update k v' m) + (if P v then 1 else 0)
       = values_count P m + (if P v' then 1 else 0)"
  using assms
proof (induction m)
  case Nil
  then show ?case by simp
next
  case (Cons a m)
  obtain k0 v0 where a: "a = (k0, v0)" by (cases a)
  show ?case
  proof (cases "k0 = k")
    case True
    with Cons.prems a show ?thesis by simp
  next
    case False
    with Cons.prems a have "hm_wf m" "map_of m k = Some v" by (auto simp: hm_wf_def)
    with Cons.IH False a show ?thesis by simp
  qed
qed

lemma values_count_modify_same:
  assumes "hm_wf m" and "\<And>v. map_of m k = Some v \<Longrightarrow> P (f v) = P v"
  shows "values_count P (hm_modify k f m) = values_count P m"
proof (cases "map_of m k")
  case None
  then show ?thesis by (simp add: hm_modify_def)
next
  case (Some v)
  with assms values_count_update_old [OF assms(1) Some, of P "f v"] show ?thesis
    by (simp add: hm_modify_def)
qed

lemma values_count_modify_down:
  assumes "hm_wf m" and "\<And>v. map_of m k = Some v \<Longrightarrow> P (f v) \<Longrightarrow> P v"
  shows "values_count P (hm_modify k f m) \<le> values_count P m"
proof (cases "map_of m k")
  case None
  then show ?thesis by (simp add: hm_modify_def)
next
  case (Some v)
  with assms values_count_update_old [OF assms(1) Some, of P "f v"] show ?thesis
    by (auto simp: hm_modify_def split: if_splits)
qed

lemma values_count_modify_up:
  assumes "hm_wf m"
  shows "values_count P (hm_modify k f m) \<le> Suc (values_count P m)"
proof (cases "map_of m k")
  case None
  then show ?thesis by (simp add: hm_modify_def)
next
  case (Some v)
  with values_count_update_old [OF assms Some, of P "f v"] show ?thesis
    by (auto simp: hm_modify_def split: if_splits)
qed

lemma values_count_delete_le: "values_count P (AList.delete k m) \<le> values_count P m"
  by (induction m) (auto simp: AList.delete_eq)

lemma values_count_update_le:
  assumes "hm_wf m"
  shows "values_count P (AList.update k v m) \<le> values_count P m + (if P v then 1 else 0)"
proof (cases "map_of m k")
  case None
  then show ?thesis by (simp add: values_count_update_new)
next
  case (Some w)
  show ?thesis using values_count_update_old [OF assms Some, of P v] by (auto split: if_splits)
qed

lemma values_count_pos: "map_of m k = Some v \<Longrightarrow> P v \<Longrightarrow> 0 < values_count P m"
  by (induction m) (auto split: if_splits)

lemma values_count_0: "hm_wf m \<Longrightarrow> values_count P m = 0 \<longleftrightarrow> (\<forall>k v. map_of m k = Some v \<longrightarrow> \<not> P v)"
  by (auto simp: values_count_def hm_wf_def filter_empty_conv dest: map_of_SomeD)

lemma values_count_mono:
  "(\<And>v. P v \<Longrightarrow> Q v) \<Longrightarrow> values_count P m \<le> values_count Q m"
  by (induction m) auto

end
