(* ===== verification/Net.thy ===== *)
theory Net imports Prelude begin

text \<open>
  The parts of Rust's standard library the network code reads numbers and addresses with:
  \<open>str::parse\<close> for unsigned and signed integers, \<open>Ipv4Addr::from_str\<close> and its \<open>Display\<close>,
  \<open>IpAddr\<close> and \<open>SocketAddr\<close>. An IPv4 address is the 32-bit word \<open>u32::from(addr)\<close>.
\<close>

section \<open>Integers\<close>

definition digits_value :: "string \<Rightarrow> nat" where
  "digits_value s = foldl (\<lambda>n c. 10 * n + (byte c - 48)) 0 s"

definition parse_digits :: "nat \<Rightarrow> string \<Rightarrow> nat option" where
  "parse_digits max_value s =
     (if s \<noteq> [] \<and> list_all is_digit_c s \<and> digits_value s \<le> max_value
      then Some (digits_value s) else None)"

text \<open>\<open>parse::<u8>()\<close> and its siblings accept one leading plus sign.\<close>

fun parse_unsigned :: "nat \<Rightarrow> string \<Rightarrow> nat option" where
  "parse_unsigned max_value (c # s) =
     (if c = CHR ''+'' then parse_digits max_value s else parse_digits max_value (c # s))"
| "parse_unsigned max_value [] = None"

fun parse_signed :: "nat \<Rightarrow> string \<Rightarrow> int option" where
  "parse_signed max_value (c # s) =
     (if c = CHR ''-'' then map_option (\<lambda>n. - int n) (parse_digits (max_value + 1) s)
      else map_option int (parse_unsigned max_value (c # s)))"
| "parse_signed max_value [] = None"

lemma digits_value_snoc [simp]: "digits_value (s @ [c]) = 10 * digits_value s + (byte c - 48)"
  by (simp add: digits_value_def)

lemma is_digit_digit_char: "d < 10 \<Longrightarrow> is_digit_c (digit_char d)"
  by (simp add: is_digit_c_def byte_digit_char)

lemma show_nat_digits: "list_all is_digit_c (show_nat n)"
proof (induction n rule: show_nat.induct)
  case (1 n)
  then show ?case by (subst show_nat.simps) (simp add: is_digit_digit_char)
qed

lemma digits_value_show [simp]: "digits_value (show_nat n) = n"
proof (induction n rule: show_nat.induct)
  case (1 n)
  show ?case
  proof (cases "n < 10")
    case True
    then have "byte (digit_char n) = 48 + n" by (rule byte_digit_char)
    with True show ?thesis by (subst show_nat.simps) (simp add: digits_value_def)
  next
    case False
    have "byte (digit_char (n mod 10)) = 48 + n mod 10" by (rule byte_digit_char) simp
    with False 1 show ?thesis by (subst show_nat.simps) simp
  qed
qed

lemma show_nat_inj: "show_nat a = show_nat b \<longleftrightarrow> a = b"
  by (metis digits_value_show)

lemma parse_digits_show: "n \<le> m \<Longrightarrow> parse_digits m (show_nat n) = Some n"
  by (simp add: parse_digits_def show_nat_digits)

lemma parse_unsigned_show: "n \<le> m \<Longrightarrow> parse_unsigned m (show_nat n) = Some n"
proof -
  assume n: "n \<le> m"
  obtain c s where cs: "show_nat n = c # s" by (cases "show_nat n") auto
  with show_nat_digits [of n] have "c \<noteq> CHR ''+''" by (auto simp: is_digit_c_def)
  with cs parse_digits_show [OF n] show ?thesis by simp
qed

lemma length_show_nat_lt: "n < 10 ^ k \<Longrightarrow> 0 < k \<Longrightarrow> length (show_nat n) \<le> k"
proof (induction n arbitrary: k rule: show_nat.induct)
  case (1 n)
  show ?case
  proof (cases "n < 10")
    case True
    with 1 show ?thesis by (subst show_nat.simps) simp
  next
    case False
    obtain k' where k: "k = Suc k'" using "1.prems"(2) by (cases k) auto
    have "k' \<noteq> 0" using False "1.prems"(1) k by (cases k') auto
    moreover have "n div 10 < 10 ^ k'" using "1.prems"(1) k by (simp add: less_mult_imp_div_less mult.commute)
    ultimately have "length (show_nat (n div 10)) \<le> k'" using "1.IH" [OF False, of k'] by simp
    with False k show ?thesis by (subst show_nat.simps) simp
  qed
qed

lemma hd_show_nat: "0 < n \<Longrightarrow> hd (show_nat n) \<noteq> CHR ''0''"
proof (induction n rule: show_nat.induct)
  case (1 n)
  show ?case
  proof (cases "n < 10")
    case True
    then have "byte (digit_char n) = 48 + n" by (rule byte_digit_char)
    with True 1 have "digit_char n \<noteq> CHR ''0''" by auto
    with True show ?thesis by (subst show_nat.simps) simp
  next
    case False
    then have "hd (show_nat (n div 10)) \<noteq> CHR ''0''" using 1 by simp
    with False show ?thesis by (subst show_nat.simps) simp
  qed
qed

section \<open>Addresses\<close>

type_synonym ipv4 = "32 word"

datatype ip_addr = V4 ipv4 | V6 "128 word"

record socket_addr =
  sa_ip :: ip_addr
  sa_port :: "16 word"

text \<open>An octet has one to three digits and no superfluous leading zero.\<close>

definition parse_octet :: "string \<Rightarrow> nat option" where
  "parse_octet s =
     (if length s \<le> 3 \<and> (length s = 1 \<or> hd s \<noteq> CHR ''0'') then parse_digits 255 s else None)"

definition mk_ipv4 :: "nat \<Rightarrow> nat \<Rightarrow> nat \<Rightarrow> nat \<Rightarrow> ipv4" where
  "mk_ipv4 a b c d = ((of_nat a * 256 + of_nat b) * 256 + of_nat c) * 256 + of_nat d"

lemma mk_ipv4_of_nat: "mk_ipv4 a b c d = of_nat (((a * 256 + b) * 256 + c) * 256 + d)"
  by (simp add: mk_ipv4_def)

definition parse_ipv4 :: "string \<Rightarrow> ipv4 option" where
  "parse_ipv4 s =
     (case split_on CHR ''.'' s of
        [a, b, c, d] \<Rightarrow>
          (case (parse_octet a, parse_octet b, parse_octet c, parse_octet d) of
             (Some w, Some x, Some y, Some z) \<Rightarrow> Some (mk_ipv4 w x y z)
           | _ \<Rightarrow> None)
      | _ \<Rightarrow> None)"

definition octets :: "ipv4 \<Rightarrow> nat list" where
  "octets w = [unat w div 16777216, unat w div 65536 mod 256, unat w div 256 mod 256, unat w mod 256]"

definition show_ipv4 :: "ipv4 \<Rightarrow> string" where
  "show_ipv4 w = join ''.'' (map show_nat (octets w))"

lemma unat_ipv4_less: "unat (w :: ipv4) < 4294967296"
proof -
  have "unat w < 2 ^ LENGTH(32)" by (rule unsigned_less)
  then show ?thesis by simp
qed

lemma parse_octet_show: "n < 256 \<Longrightarrow> parse_octet (show_nat n) = Some n"
proof -
  assume n: "n < 256"
  have "length (show_nat n) \<le> 3" using n by (intro length_show_nat_lt) simp_all
  moreover have "n = 0 \<Longrightarrow> length (show_nat n) = 1" by (subst show_nat.simps) simp
  ultimately show ?thesis
    using n hd_show_nat [of n] parse_digits_show [of n 255] by (cases "n = 0") (auto simp: parse_octet_def)
qed

lemma split_on_append: "d \<notin> set a \<Longrightarrow> split_on d (a @ d # b) = a # split_on d b"
  by (induction a) auto

lemma split_on_none: "d \<notin> set a \<Longrightarrow> split_on d a = [a]"
  by (induction a) auto

lemma dot_notin_show: "CHR ''.'' \<notin> set (show_nat n)"
  using show_nat_digits [of n] by (auto simp: list_all_iff is_digit_c_def)

lemma parse_show_ipv4: "parse_ipv4 (show_ipv4 w) = Some w"
proof -
  let ?n = "unat w"
  have less: "?n < 4294967296" by (rule unat_ipv4_less)
  have sp: "split_on CHR ''.'' (show_ipv4 w) = map show_nat (octets w)"
    by (simp add: show_ipv4_def octets_def split_on_append split_on_none dot_notin_show)
  have 1: "?n div 16777216 * 256 + ?n div 65536 mod 256 = ?n div 65536"
    using div_mult2_eq [of ?n 65536 256] div_mult_mod_eq [of "?n div 65536" 256] by simp
  have 2: "?n div 65536 * 256 + ?n div 256 mod 256 = ?n div 256"
    using div_mult2_eq [of ?n 256 256] div_mult_mod_eq [of "?n div 256" 256] by simp
  have "((?n div 16777216 * 256 + ?n div 65536 mod 256) * 256 + ?n div 256 mod 256) * 256 + ?n mod 256 = ?n"
    unfolding 1 2 by (rule div_mult_mod_eq)
  then have mk: "mk_ipv4 (?n div 16777216) (?n div 65536 mod 256) (?n div 256 mod 256) (?n mod 256) = w"
    by (simp only: mk_ipv4_of_nat) simp
  have "?n div 16777216 < 256" using less by simp
  then show ?thesis
    by (simp add: parse_ipv4_def sp octets_def parse_octet_show mk)
qed

end
