(* ===== verification/Whitelist.thy ===== *)
theory Whitelist imports Net begin

text \<open>
  The IP whitelist of \<open>src/auth/whitelist.rs\<close>: its entries, their text syntax, the subnet test,
  the decision for a socket address, reloading, and \<open>append_entry\<close> with its checks and file
  operations in their order.

  The YAML text of the file is read and written by the \<open>serde_yaml\<close> crate and host names are
  resolved by the system: \<open>yaml_de\<close>, \<open>yaml_ser\<close> and \<open>dns\<close> are arguments. The \<open>HashSet\<close> of entries
  is a list without repetitions. Error texts are kept up to the cause added by the crates.
\<close>

unbundle bit_operations_syntax

section \<open>Entries\<close>

datatype whitelist_entry =
    WIp ipv4
  | WCidr ipv4 u8
  | WHostname string ipv4

definition ip_in_subnet :: "ipv4 \<Rightarrow> ipv4 \<Rightarrow> u8 \<Rightarrow> bool" where
  "ip_in_subnet ip network prefix_len =
     (let mask = (if prefix_len = 0 then 0 else push_bit (32 - unat prefix_len) (NOT 0))
      in ip AND mask = network AND mask)"

fun entry_allows :: "ipv4 \<Rightarrow> whitelist_entry \<Rightarrow> bool" where
  "entry_allows ip (WIp allowed) = (ip = allowed)"
| "entry_allows ip (WCidr network p) = ip_in_subnet ip network p"
| "entry_allows ip (WHostname _ resolved) = (ip = resolved)"

definition is_allowed :: "whitelist_entry list \<Rightarrow> ipv4 \<Rightarrow> bool" where
  "is_allowed entries ip = list_ex (entry_allows ip) entries"

definition is_socket_allowed :: "whitelist_entry list \<Rightarrow> socket_addr \<Rightarrow> bool" where
  "is_socket_allowed entries addr =
     (case sa_ip addr of V4 ip \<Rightarrow> is_allowed entries ip | V6 _ \<Rightarrow> False)"

section \<open>Parsing\<close>

text \<open>\<open>dns name\<close> is what \<open>to_socket_addrs\<close> yields.\<close>

definition resolve_hostname :: "(string \<Rightarrow> ip_addr list option) \<Rightarrow> string \<Rightarrow> (string, ipv4) result" where
  "resolve_hostname dns hostname =
     (case dns hostname of
        None \<Rightarrow> Err (''Failed to resolve hostname: '' @ hostname)
      | Some addrs \<Rightarrow>
          (case find (\<lambda>a. case a of V4 _ \<Rightarrow> True | V6 _ \<Rightarrow> False) addrs of
             Some (V4 ip) \<Rightarrow> Ok ip
           | _ \<Rightarrow> Err (''No IPv4 address found for hostname: '' @ hostname)))"

definition parse_cidr :: "string \<Rightarrow> string \<Rightarrow> string \<Rightarrow> (string, whitelist_entry) result" where
  "parse_cidr entry_str ip_str prefix_str =
     (case parse_ipv4 ip_str of
        None \<Rightarrow> Err (''Invalid IP in CIDR notation: '' @ entry_str)
      | Some ip \<Rightarrow>
          (case parse_unsigned 255 prefix_str of
             None \<Rightarrow> Err (''Invalid prefix in CIDR notation: '' @ entry_str)
           | Some p \<Rightarrow>
               if p > 32 then Err (''Invalid CIDR prefix (must be 0-32): '' @ entry_str)
               else Ok (WCidr ip (of_nat p))))"

text \<open>One line: skipped (\<open>None\<close>), an entry, or an error that fails the whole load.\<close>

definition parse_line ::
    "(string \<Rightarrow> ip_addr list option) \<Rightarrow> string \<Rightarrow> (string, whitelist_entry option) result" where
  "parse_line dns line =
     (let entry_str = trim line in
      if entry_str = [] \<or> starts_with entry_str ''#'' then Ok None
      else case split_once CHR ''/'' entry_str of
        Some (ip_str, prefix_str) \<Rightarrow> bind_res (parse_cidr entry_str ip_str prefix_str) (\<lambda>e. Ok (Some e))
      | None \<Rightarrow>
          (case parse_ipv4 entry_str of
             Some ip \<Rightarrow> Ok (Some (WIp ip))
           | None \<Rightarrow>
               (case resolve_hostname dns entry_str of
                  Inr resolved \<Rightarrow> Ok (Some (WHostname entry_str resolved))
                | Inl _ \<Rightarrow> Ok None)))"

fun parse_entries_acc ::
    "(string \<Rightarrow> ip_addr list option) \<Rightarrow> string list \<Rightarrow> whitelist_entry list
     \<Rightarrow> (string, whitelist_entry list) result" where
  "parse_entries_acc dns [] parsed = Ok parsed"
| "parse_entries_acc dns (l # ls) parsed =
     bind_res (parse_line dns l)
       (\<lambda>r. parse_entries_acc dns ls (case r of None \<Rightarrow> parsed | Some e \<Rightarrow> List.insert e parsed))"

definition parse_entries ::
    "(string \<Rightarrow> ip_addr list option) \<Rightarrow> string list \<Rightarrow> (string, whitelist_entry list) result" where
  "parse_entries dns entries = parse_entries_acc dns entries []"

section \<open>The manager\<close>

text \<open>The file system as far as the manager uses it: the whitelist file (absent, or a text), and
  whether the temporary file exists; \<open>fs_fails\<close> says which operations fail, the two reads of a file that is
  there among them: the one before the write and the one of the reload after it. For \<open>load_config\<close> at startup a file
  that cannot be read is \<open>None\<close>, as an absent one is.\<close>

datatype fs_step = LockStep | ReadStep | MkdirStep | OpenTempStep | WriteTempStep | RenameStep | ReloadStep

record 't whitelist_manager =
  wm_entries :: "whitelist_entry list"
  wm_file :: "'t option"
  wm_temp :: bool
  wm_watcher :: bool

definition new_deny_all :: "'t whitelist_manager" where
  "new_deny_all = \<lparr>wm_entries = [], wm_file = None, wm_temp = False, wm_watcher = False\<rparr>"

definition entry_count :: "'t whitelist_manager \<Rightarrow> nat" where
  "entry_count m = length (wm_entries m)"

definition load_config :: "('t \<Rightarrow> string list option) \<Rightarrow> 't option \<Rightarrow> (string, string list) result" where
  "load_config yaml_de f =
     (case f of
        None \<Rightarrow> Err ''Failed to read whitelist config''
      | Some t \<Rightarrow> (case yaml_de t of
                     None \<Rightarrow> Err ''Failed to parse whitelist config''
                   | Some es \<Rightarrow> Ok es))"

definition reload ::
    "('t \<Rightarrow> string list option) \<Rightarrow> (string \<Rightarrow> ip_addr list option) \<Rightarrow> 't whitelist_manager
     \<Rightarrow> (string, 't whitelist_manager) result" where
  "reload yaml_de dns m =
     bind_res (load_config yaml_de (wm_file m))
       (\<lambda>es. bind_res (parse_entries dns es) (\<lambda>entries. Ok (m\<lparr>wm_entries := entries\<rparr>)))"

text \<open>The file watcher: the library may fail to make one, or to watch the file when there is one. What it calls on an
  event writes to the log and nothing else; the entries are read again only by a restart or an append.\<close>

record watch_env =
  we_new :: "(string, unit) result"
  we_watch :: "(string, unit) result"

definition setup_watcher :: "watch_env \<Rightarrow> 't whitelist_manager \<Rightarrow> (string, 't whitelist_manager) result" where
  "setup_watcher we m =
     bind_res (we_new we) (\<lambda>_.
       bind_res (if wm_file m \<noteq> None then we_watch we else Ok ()) (\<lambda>_. Ok (m\<lparr>wm_watcher := True\<rparr>)))"

datatype watch_event = WatchModify | WatchCreate | WatchOther | WatchError

definition on_watch_event :: "watch_event \<Rightarrow> 't whitelist_manager \<Rightarrow> string list \<times> 't whitelist_manager" where
  "on_watch_event ev m =
     (if ev = WatchModify \<or> ev = WatchCreate then [''Whitelist file changed, reloading...''] else [], m)"

definition new_manager ::
    "watch_env \<Rightarrow> ('t \<Rightarrow> string list option) \<Rightarrow> (string \<Rightarrow> ip_addr list option) \<Rightarrow> 't option
     \<Rightarrow> (string, 't whitelist_manager) result" where
  "new_manager we yaml_de dns f = bind_res (reload yaml_de dns \<lparr>wm_entries = [], wm_file = f, wm_temp = False, wm_watcher = False\<rparr>) (setup_watcher we)"

text \<open>The startup code of \<open>src/main.rs\<close>: a whitelist that cannot be loaded or watched denies everything.\<close>

definition init_whitelist where
  "init_whitelist we yaml_de dns f =
     (case new_manager we yaml_de dns f of Inr m \<Rightarrow> m | Inl _ \<Rightarrow> new_deny_all)"

definition parse_append_entry :: "string \<Rightarrow> (string, whitelist_entry) result" where
  "parse_append_entry entry_str =
     (case split_once CHR ''/'' entry_str of
        Some (ip_str, prefix_str) \<Rightarrow> parse_cidr entry_str ip_str prefix_str
      | None \<Rightarrow> (case parse_ipv4 entry_str of
                   None \<Rightarrow> Err (''Invalid IPv4 address: '' @ entry_str)
                 | Some ip \<Rightarrow> Ok (WIp ip)))"

text \<open>The result and the manager afterwards: a failed step leaves what the steps before it did.\<close>

definition append_entry ::
    "('t \<Rightarrow> string list option) \<Rightarrow> (string list \<Rightarrow> 't option) \<Rightarrow> (string \<Rightarrow> ip_addr list option)
     \<Rightarrow> (fs_step \<Rightarrow> bool) \<Rightarrow> string \<Rightarrow> 't whitelist_manager
     \<Rightarrow> (string, unit) result \<times> 't whitelist_manager" where
  "append_entry yaml_de yaml_ser dns fs_fails ip_or_cidr m =
     (let entry_str = trim ip_or_cidr in
      if entry_str = [] then (Err ''Cannot append empty whitelist entry'', m)
      else case parse_append_entry entry_str of
        Inl e \<Rightarrow> (Err e, m)
      | Inr parsed_entry \<Rightarrow>
      if List.member (wm_entries m) parsed_entry then (Ok (), m)
      else if fs_fails LockStep then (Err ''Failed to acquire exclusive whitelist lock'', m)
      else case (case wm_file m of
                   Some t \<Rightarrow> if fs_fails ReadStep then load_config yaml_de None else load_config yaml_de (Some t)
                 | None \<Rightarrow> Ok []) of
        Inl e \<Rightarrow> (Err ''Failed to load existing whitelist for append'', m)
      | Inr es \<Rightarrow>
      if fs_fails MkdirStep then (Err ''Failed to create whitelist directory'', m)
      else case yaml_ser (es @ [entry_str]) of
        None \<Rightarrow> (Err ''Failed to serialize whitelist config'', m)
      | Some yaml_content \<Rightarrow>
      if wm_temp m \<or> fs_fails OpenTempStep then (Err ''Failed to create temp whitelist file'', m)
      else if fs_fails WriteTempStep then (Err ''Failed to write whitelist data'', m\<lparr>wm_temp := True\<rparr>)
      else if fs_fails RenameStep
        then (Err ''Failed to atomically rename whitelist temp file'', m\<lparr>wm_temp := True\<rparr>)
      else
        let m1 = m\<lparr>wm_file := Some yaml_content\<rparr> in
        (case if fs_fails ReloadStep then bind_res (load_config yaml_de None) (\<lambda>_. Ok m1) else reload yaml_de dns m1 of
           Inl e \<Rightarrow> (Err ''Failed to reload whitelist after append'', m1)
         | Inr m2 \<Rightarrow> (Ok (), m2)))"

section \<open>Helper lemmas\<close>

lemma bit_prefix_mask: "bit (push_bit n (NOT 0) :: ipv4) i \<longleftrightarrow> n \<le> i \<and> i < 32"
  by (auto simp: bit_push_bit_iff bit_not_iff bit_simps)

lemma ipv4_eq_bits: "(a :: ipv4) = b \<longleftrightarrow> (\<forall>i. bit a i = bit b i)"
  by (auto intro: bit_eqI)

lemma and_prefix_mask_eq:
  "(ip :: ipv4) AND push_bit n (NOT 0) = network AND push_bit n (NOT 0) \<longleftrightarrow>
     (\<forall>i. n \<le> i \<longrightarrow> bit ip i = bit network i)"
proof -
  have "bit ip i \<Longrightarrow> i < 32" "bit network i \<Longrightarrow> i < 32" for i
    by (auto dest: bit_imp_le_length)
  then show ?thesis unfolding ipv4_eq_bits bit_and_iff bit_prefix_mask by blast
qed

lemma ip_in_subnet_bits:
  assumes "unat p \<le> 32"
  shows "ip_in_subnet ip network p \<longleftrightarrow> (\<forall>i. 32 - unat p \<le> i \<longrightarrow> bit ip i = bit network i)"
proof (cases "p = 0")
  case True
  have "\<not> bit ip i" "\<not> bit network i" if "32 \<le> i" for i
    using that by (auto dest: bit_imp_le_length)
  then show ?thesis using True by (simp add: ip_in_subnet_def)
next
  case False
  then show ?thesis unfolding ip_in_subnet_def Let_def by (simp only: if_False and_prefix_mask_eq)
qed

lemma ip_in_subnet_drop:
  assumes "unat p \<le> 32"
  shows "ip_in_subnet ip network p \<longleftrightarrow> drop_bit (32 - unat p) ip = drop_bit (32 - unat p) network"
proof -
  have "(\<forall>i. n \<le> i \<longrightarrow> bit ip i = bit network i) \<longleftrightarrow> (\<forall>i. bit ip (n + i) = bit network (n + i))" for n
    by (metis le_add1 le_Suc_ex)
  moreover have "drop_bit n ip = drop_bit n network \<longleftrightarrow>
      (\<forall>i. bit ip (n + i) = bit network (n + i))" for n
    unfolding ipv4_eq_bits by (simp add: bit_simps)
  ultimately show ?thesis by (simp add: ip_in_subnet_bits [OF assms])
qed

lemma unat_drop_bit_div: "unat (drop_bit n (w :: ipv4)) = unat w div 2 ^ n"
proof -
  have "unat w < 2 ^ LENGTH(32)" by (rule unsigned_less)
  then have "take_bit LENGTH(32) (unat w) = unat w" by (simp only: take_bit_nat_eq_self_iff)
  then show ?thesis unfolding unsigned_drop_bit_eq by (simp only: drop_bit_eq_div)
qed

lemma parse_entries_acc_Ok:
  "parse_entries_acc dns ls acc = Inr es \<Longrightarrow>
     (\<forall>l \<in> set ls. is_ok (parse_line dns l)) \<and>
     set es = set acc \<union> {e. \<exists>l \<in> set ls. parse_line dns l = Inr (Some e)}"
proof (induction ls arbitrary: acc)
  case (Cons l ls)
  from Cons.prems obtain r where r: "parse_line dns l = Inr r"
    and rest: "parse_entries_acc dns ls (case r of None \<Rightarrow> acc | Some e \<Rightarrow> List.insert e acc) = Inr es"
    by (cases "parse_line dns l") (auto simp: bind_res_def)
  from Cons.IH [OF rest] r show ?case by (cases r) (auto simp: is_ok_def)
qed simp

lemma parse_entries_acc_is_ok:
  "is_ok (parse_entries_acc dns ls acc) \<longleftrightarrow> (\<forall>l \<in> set ls. is_ok (parse_line dns l))"
proof (induction ls arbitrary: acc)
  case (Cons l ls)
  then show ?case by (cases "parse_line dns l") (auto simp: bind_res_def is_ok_def)
qed (simp add: is_ok_def)

lemma is_allowed_set: "is_allowed es ip \<longleftrightarrow> (\<exists>e \<in> set es. entry_allows ip e)"
  by (simp add: is_allowed_def list_ex_iff)

lemma new_manager_Inr:
  "new_manager we yaml_de dns f = Inr m \<longleftrightarrow>
     is_ok (we_new we) \<and> is_ok (we_watch we) \<and>
     (\<exists>t es ps. f = Some t \<and> yaml_de t = Some es \<and> parse_entries dns es = Inr ps \<and>
        m = \<lparr>wm_entries = ps, wm_file = f, wm_temp = False, wm_watcher = True\<rparr>)"
  by (auto simp: new_manager_def reload_def load_config_def bind_res_def setup_watcher_def is_ok_def
      split: option.splits sum.splits)

lemma init_whitelist_allowed:
  "is_allowed (wm_entries (init_whitelist we yaml_de dns f)) ip \<longleftrightarrow>
     is_ok (we_new we) \<and> is_ok (we_watch we) \<and>
     (\<exists>t es l e. f = Some t \<and> yaml_de t = Some es \<and> (\<forall>k \<in> set es. is_ok (parse_line dns k)) \<and>
        l \<in> set es \<and> parse_line dns l = Inr (Some e) \<and> entry_allows ip e)"
proof (cases "new_manager we yaml_de dns f")
  case (Inr m)
  then obtain t es ps where f: "is_ok (we_new we)" "is_ok (we_watch we)" "f = Some t" "yaml_de t = Some es"
    and ps: "parse_entries_acc dns es [] = Inr ps" and m: "wm_entries m = ps"
    by (auto simp: new_manager_Inr parse_entries_def)
  have "\<forall>k \<in> set es. is_ok (parse_line dns k)"
    using ps parse_entries_acc_is_ok [of dns es "[]"] by (simp add: is_ok_def)
  moreover have "wm_entries (init_whitelist we yaml_de dns f) = ps" by (simp add: init_whitelist_def Inr m)
  ultimately show ?thesis
    using f parse_entries_acc_Ok [OF ps] by (auto simp: is_allowed_set)
next
  case (Inl e)
  have "\<not> (\<forall>k \<in> set es. is_ok (parse_line dns k))"
    if "f = Some t" "yaml_de t = Some es" "is_ok (we_new we)" "is_ok (we_watch we)" for t es
    using that Inl new_manager_Inr [of we yaml_de dns f] parse_entries_acc_is_ok [of dns es "[]"]
    by (cases "parse_entries_acc dns es []") (auto simp: parse_entries_def is_ok_def)
  with Inl show ?thesis by (auto simp: init_whitelist_def new_deny_all_def is_allowed_def)
qed

text \<open>Edits of the file have no effect on a manager that runs, whatever the watcher reports.\<close>

lemma edits_not_in_force:
  "wm_entries (fold (\<lambda>(f, ev) m. snd (on_watch_event ev (m\<lparr>wm_file := f\<rparr>))) edits m) = wm_entries m"
  by (induction edits arbitrary: m) (auto simp: on_watch_event_def)

text \<open>A validated entry means the same in the file, because a trimmed text is trimmed.\<close>

lemma dropWhile_idem: "dropWhile P (dropWhile P xs) = dropWhile P xs"
  by (induction xs) auto

lemma dropWhile_snoc_nonempty:
  "xs \<noteq> [] \<Longrightarrow> \<not> P (hd xs) \<Longrightarrow> xs' = rev (dropWhile Q (rev xs)) \<Longrightarrow> xs' \<noteq> [] \<Longrightarrow> \<not> P (hd xs')"
  by (metis dropWhile_append1 hd_append2 rev_is_Nil_conv rev_rev_ident takeWhile_dropWhile_id rev_append)

lemma trim_trim: "trim (trim s) = trim s"
proof -
  have "trim_start (trim_end (trim_start s)) = trim_end (trim_start s)"
  proof (cases "trim_end (trim_start s)")
    case (Cons c cs)
    have ne: "trim_start s \<noteq> []" using Cons by (auto simp: trim_end_def)
    then have "\<not> is_whitespace (hd (trim_start s))"
      unfolding trim_start_def by (rule hd_dropWhile)
    then have "\<not> is_whitespace (hd (trim_end (trim_start s)))"
      using ne Cons dropWhile_snoc_nonempty [of "trim_start s" is_whitespace "trim_end (trim_start s)" is_whitespace]
      by (auto simp: trim_end_def)
    then show ?thesis using Cons by (simp add: trim_start_def)
  qed (simp add: trim_start_def)
  then show ?thesis by (simp add: trim_def) (simp add: trim_end_def dropWhile_idem)
qed

text \<open>No valid entry starts with \<open>#\<close>.\<close>

lemma parse_octet_hash: "parse_octet (CHR ''#'' # s) = None"
  by (simp add: parse_octet_def parse_digits_def is_digit_c_def)

lemma parse_ipv4_hash: "parse_ipv4 (CHR ''#'' # s) = None"
proof (cases "split_on CHR ''.'' s")
  case (Cons w ws)
  then show ?thesis by (simp add: parse_ipv4_def parse_octet_hash split: list.splits)
qed (simp add: parse_ipv4_def parse_octet_hash split: list.splits)

lemma parse_append_line:
  assumes "parse_append_entry (trim s) = Inr e"
  shows "parse_line dns (trim s) = Inr (Some e)"
proof -
  have ne: "trim s \<noteq> []" using assms by (auto simp: parse_append_entry_def parse_ipv4_def split: option.splits)
  moreover have "\<not> starts_with (trim s) ''#''"
  proof
    assume "starts_with (trim s) ''#''"
    then obtain r where "trim s = CHR ''#'' # r" by (auto simp: starts_with_def prefix_def)
    then show False using assms parse_ipv4_hash
      by (auto simp: parse_append_entry_def parse_cidr_def split: option.splits)
  qed
  ultimately show ?thesis using assms
    by (auto simp: parse_line_def parse_append_entry_def bind_res_def trim_trim Let_def split: option.splits sum.splits)
qed

text \<open>The three ways an append ends: nothing happened, only the temporary file is there, or the new text is.\<close>

lemma append_entry_cases:
  assumes step: "append_entry yaml_de yaml_ser dns fs_fails s m = (r, m')"
  obtains (unchanged) "m' = m" "is_ok r \<Longrightarrow> \<exists>e. parse_append_entry (trim s) = Inr e \<and> e \<in> set (wm_entries m)"
  | (temp) "m' = m\<lparr>wm_temp := True\<rparr>" "\<not> is_ok r" "\<not> wm_temp m" "fs_fails WriteTempStep \<or> fs_fails RenameStep"
  | (written) e es t where "parse_append_entry (trim s) = Inr e" "\<not> wm_temp m"
      "Some es = (case wm_file m of None \<Rightarrow> Some [] | Some old \<Rightarrow> yaml_de old)" "yaml_ser (es @ [trim s]) = Some t"
      "if fs_fails ReloadStep then \<not> is_ok r \<and> m' = m\<lparr>wm_file := Some t\<rparr>
       else case reload yaml_de dns (m\<lparr>wm_file := Some t\<rparr>) of
         Inl _ \<Rightarrow> \<not> is_ok r \<and> m' = m\<lparr>wm_file := Some t\<rparr> | Inr m2 \<Rightarrow> is_ok r \<and> m' = m2"
proof (cases "parse_append_entry (trim s)")
  case (Inl e)
  then show ?thesis using step unchanged by (auto simp: append_entry_def Let_def split: if_splits)
next
  case (Inr e)
  show ?thesis
  proof (cases "trim s = [] \<or> List.member (wm_entries m) e \<or> fs_fails LockStep \<or> wm_temp m")
    case True
    then show ?thesis using step Inr unchanged
      by (auto simp: append_entry_def Let_def split: if_splits sum.splits option.splits)
  next
    case False
    show ?thesis
    proof (cases "m' = m\<lparr>wm_temp := True\<rparr> \<and> \<not> is_ok r \<and> (fs_fails WriteTempStep \<or> fs_fails RenameStep)")
      case True
      then show ?thesis using temp False by simp
    next
      case no_temp: False
      show ?thesis using step False no_temp Inr unchanged written
        by (auto simp: append_entry_def Let_def load_config_def bind_res_def split: if_splits sum.splits option.splits)
    qed
  qed
qed

lemma append_entry_outcome:
  assumes codec: "\<And>es t. yaml_ser es = Some t \<Longrightarrow> yaml_de t = Some es"
    and step: "append_entry yaml_de yaml_ser dns fs_fails s m = (r, m')"
  shows "case r of
      Inl _ \<Rightarrow> wm_entries m' = wm_entries m \<and> wm_watcher m' = wm_watcher m \<and>
        (wm_file m' = wm_file m \<and> (wm_temp m' = wm_temp m \<or> \<not> wm_temp m \<and> (fs_fails WriteTempStep \<or> fs_fails RenameStep)) \<or>
         wm_temp m' = wm_temp m \<and>
           (\<exists>t es. wm_file m' = Some t \<and> yaml_de t = Some (es @ [trim s]) \<and>
              Some es = (case wm_file m of None \<Rightarrow> Some [] | Some old \<Rightarrow> yaml_de old) \<and>
              (fs_fails ReloadStep \<or> \<not> is_ok (parse_entries dns (es @ [trim s])))))
    | Inr _ \<Rightarrow> (\<exists>e. parse_append_entry (trim s) = Inr e \<and> e \<in> set (wm_entries m') \<and>
        (m' = m \<or> (\<not> wm_temp m \<and> wm_temp m' = wm_temp m \<and>
           (\<exists>t es. wm_file m' = Some t \<and> yaml_de t = Some (es @ [trim s]) \<and>
              Some es = (case wm_file m of None \<Rightarrow> Some [] | Some old \<Rightarrow> yaml_de old) \<and>
              parse_entries dns (es @ [trim s]) = Inr (wm_entries m')))))"
  using step
proof (cases rule: append_entry_cases)
  case unchanged
  then show ?thesis by (auto split: sum.splits)
next
  case temp
  then show ?thesis by (auto split: sum.splits)
next
  case (written e es t)
  have de: "yaml_de t = Some (es @ [trim s])" by (rule codec [OF written(4)])
  have line: "parse_line dns (trim s) = Inr (Some e)" by (rule parse_append_line [OF written(1)])
  show ?thesis
  proof (cases "fs_fails ReloadStep")
    case True
    then show ?thesis using written de by (auto split: sum.splits)
  next
    case False
    show ?thesis
    proof (cases "parse_entries dns (es @ [trim s])")
      case (Inl x)
      then show ?thesis using False written de by (auto simp: reload_def load_config_def bind_res_def split: sum.splits)
    next
      case (Inr ps)
      then have "e \<in> set ps"
        using parse_entries_acc_Ok [of dns "es @ [trim s]" "[]" ps] line by (auto simp: parse_entries_def)
      with Inr False written de show ?thesis by (auto simp: reload_def load_config_def bind_res_def split: sum.splits)
    qed
  qed
qed

section \<open>Properties\<close>

text \<open>C33: the subnet test is CIDR membership: for every prefix length up to 32, an address is in the
  subnet exactly when it and the network address agree after dropping the low
  \<open>32 - prefix\<close> bits; the mask never overflows, prefix 0 covers every address.\<close>

theorem cidr_membership:
  assumes "unat p \<le> 32"
  shows "ip_in_subnet ip network p \<longleftrightarrow>
    unat ip div 2 ^ (32 - unat p) = unat network div 2 ^ (32 - unat p)"
  unfolding ip_in_subnet_drop [OF assms] unat_drop_bit_div [symmetric] by (metis word_eq_iff_unsigned)

theorem cidr_membership_witness:
  "ip_in_subnet (mk_ipv4 10 1 2 3) (mk_ipv4 10 1 0 0) 16 \<and> \<not> ip_in_subnet (mk_ipv4 10 2 2 3) (mk_ipv4 10 1 0 0) 16"
  using cidr_membership [of 16 "mk_ipv4 10 1 2 3" "mk_ipv4 10 1 0 0"]
    cidr_membership [of 16 "mk_ipv4 10 2 2 3" "mk_ipv4 10 1 0 0"]
  by (simp add: mk_ipv4_def)

text \<open>The whitelist denies by default and fails closed. After startup an address is let through
  only when it is IPv4, the file could be read and parsed, every line of it is well formed, and
  some line that is no comment gives an entry that covers it; a single malformed CIDR line
  denies everyone.\<close>

theorem whitelist_denies_by_default:
  "is_socket_allowed (wm_entries (init_whitelist we yaml_de dns f)) addr \<longleftrightarrow>
     is_ok (we_new we) \<and> is_ok (we_watch we) \<and>
     (\<exists>ip t es l e. sa_ip addr = V4 ip \<and> f = Some t \<and> yaml_de t = Some es \<and>
        (\<forall>k \<in> set es. is_ok (parse_line dns k)) \<and>
        l \<in> set es \<and> parse_line dns l = Inr (Some e) \<and> entry_allows ip e)"
  unfolding is_socket_allowed_def by (cases "sa_ip addr") (auto simp: init_whitelist_allowed)

theorem whitelist_denies_by_default_witness:
  "\<not> is_socket_allowed (wm_entries (init_whitelist \<lparr>we_new = Ok (), we_watch = Ok ()\<rparr> Some (\<lambda>_. None) (Some [''10.0.0.1'', ''10.0.0.0/33''])))
      \<lparr>sa_ip = V4 (mk_ipv4 10 0 0 1), sa_port = 5\<rparr>"
proof -
  have "\<not> is_ok (parse_line (\<lambda>_. None) ''10.0.0.0/33'')" by code_simp
  then show ?thesis unfolding whitelist_denies_by_default by simp
qed

text \<open>C37: appending an entry, for every outcome, in memory and on disk. On success either the entry was in memory
  already and nothing changed, or the file holds its old lines and the new one (only the new one when there was no file),
  and memory is the parse of exactly that file, so the new entry is in force. On an error the entries in force are the
  old ones, and the file is never lost or cut: it is either what it was (a temporary file is left behind only by a failed
  write or rename), or, when the reload after the rename is what failed, the complete new text. A temporary file left by
  an interrupted append makes every later append of a new entry fail.\<close>

theorem append_entry_correct:
  assumes codec: "\<And>es t. yaml_ser es = Some t \<Longrightarrow> yaml_de t = Some es"
    and step: "append_entry yaml_de yaml_ser dns fs_fails s m = (r, m')"
  shows "case r of
      Inl _ \<Rightarrow> wm_entries m' = wm_entries m \<and> wm_watcher m' = wm_watcher m \<and>
        (wm_file m' = wm_file m \<and> (wm_temp m' = wm_temp m \<or> \<not> wm_temp m \<and> (fs_fails WriteTempStep \<or> fs_fails RenameStep)) \<or>
         wm_temp m' = wm_temp m \<and>
           (\<exists>t es. wm_file m' = Some t \<and> yaml_de t = Some (es @ [trim s]) \<and>
              Some es = (case wm_file m of None \<Rightarrow> Some [] | Some old \<Rightarrow> yaml_de old) \<and>
              (fs_fails ReloadStep \<or> \<not> is_ok (parse_entries dns (es @ [trim s])))))
    | Inr _ \<Rightarrow> (\<exists>e. parse_append_entry (trim s) = Inr e \<and> e \<in> set (wm_entries m') \<and>
        (m' = m \<or> (\<not> wm_temp m \<and> wm_temp m' = wm_temp m \<and>
           (\<exists>t es. wm_file m' = Some t \<and> yaml_de t = Some (es @ [trim s]) \<and>
              Some es = (case wm_file m of None \<Rightarrow> Some [] | Some old \<Rightarrow> yaml_de old) \<and>
              parse_entries dns (es @ [trim s]) = Inr (wm_entries m')))))"
  using codec step by (rule append_entry_outcome)

theorem append_entry_correct_witness:
  "\<exists>m'. append_entry Some Some (\<lambda>_. None) (\<lambda>_. False) '' 10.0.0.7 '' new_deny_all = (Ok (), m') \<and>
     wm_entries m' = [WIp (mk_ipv4 10 0 0 7)]"
proof -
  obtain r m' where s: "append_entry Some Some (\<lambda>_. None) (\<lambda>_. False) '' 10.0.0.7 '' new_deny_all = (r, m')"
    by (cases "append_entry Some Some (\<lambda>_. None) (\<lambda>_. False) '' 10.0.0.7 '' new_deny_all") auto
  have "case append_entry Some Some (\<lambda>_. None) (\<lambda>_. False) '' 10.0.0.7 '' new_deny_all of
      (r, m') \<Rightarrow> r = Ok () \<and> wm_entries m' = [WIp (mk_ipv4 10 0 0 7)]"
    by code_simp
  then show ?thesis using append_entry_correct [of Some Some, OF _ s] s by auto
qed

end
