(* ===== verification/Error_Utils.thy ===== *)
theory Error_Utils imports Prelude begin

text \<open>
  \<open>src/packages/error_utils.rs\<close>: structured command errors, the stable error codes, the
  classification of an error chain and the diagnostic log lines.

  An \<open>anyhow::Error\<close> is its cause chain, outermost layer first: the messages added by
  \<open>.context(...)\<close> and the root, which is a \<open>CommandError\<close> or a plain message. Its
  \<open>Debug\<close> rendering belongs to the \<open>anyhow\<close> crate and is the argument \<open>dbg\<close> wherever the
  code prints it.
\<close>

section \<open>Command errors and error chains\<close>

definition MAX_OUTPUT_LINES :: nat where "MAX_OUTPUT_LINES = 200"

record command_error =
  ce_program :: string
  ce_args :: "string list"
  ce_exit_code :: "i32 option"
  ce_stdout :: string
  ce_stderr :: string
  ce_spawn_error :: "string option"
  ce_timed_out :: bool

datatype cause = Msg string | Command command_error

type_synonym anyhow = "cause list"

definition anyhow_msg :: "string \<Rightarrow> anyhow" where "anyhow_msg m = [Msg m]"
definition anyhow_new :: "command_error \<Rightarrow> anyhow" where "anyhow_new ce = [Command ce]"
definition add_context :: "string \<Rightarrow> anyhow \<Rightarrow> anyhow" where "add_context m e = Msg m # e"

section \<open>Error codes\<close>

definition PKG_MANAGER_ERROR :: string where "PKG_MANAGER_ERROR = ''PKG_MANAGER_ERROR''"
definition COMMAND_NOT_FOUND :: string where "COMMAND_NOT_FOUND = ''COMMAND_NOT_FOUND''"
definition CACHE_REFRESH_ERROR :: string where "CACHE_REFRESH_ERROR = ''CACHE_REFRESH_ERROR''"
definition NETWORK_ERROR :: string where "NETWORK_ERROR = ''NETWORK_ERROR''"
definition GPG_ERROR :: string where "GPG_ERROR = ''GPG_ERROR''"
definition PKG_NOT_FOUND :: string where "PKG_NOT_FOUND = ''PKG_NOT_FOUND''"
definition DEPENDENCY_CONFLICT :: string where "DEPENDENCY_CONFLICT = ''DEPENDENCY_CONFLICT''"
definition PERMISSION_DENIED :: string where "PERMISSION_DENIED = ''PERMISSION_DENIED''"
definition REBOOT_ERROR :: string where "REBOOT_ERROR = ''REBOOT_ERROR''"
definition TIMEOUT :: string where "TIMEOUT = ''TIMEOUT''"
definition AGENT_REBOOTED :: string where "AGENT_REBOOTED = ''AGENT_REBOOTED''"
definition AGENT_RESTARTED :: string where "AGENT_RESTARTED = ''AGENT_RESTARTED''"
definition UNKNOWN_ERROR :: string where "UNKNOWN_ERROR = ''UNKNOWN_ERROR''"

lemmas error_codes = PKG_MANAGER_ERROR_def COMMAND_NOT_FOUND_def CACHE_REFRESH_ERROR_def
  NETWORK_ERROR_def GPG_ERROR_def PKG_NOT_FOUND_def DEPENDENCY_CONFLICT_def
  PERMISSION_DENIED_def REBOOT_ERROR_def TIMEOUT_def AGENT_REBOOTED_def AGENT_RESTARTED_def
  UNKNOWN_ERROR_def

section \<open>Summaries\<close>

definition first_nonempty_line :: "string \<Rightarrow> string option" where
  "first_nonempty_line s = find (\<lambda>l. l \<noteq> []) (map trim (str_lines s))"

definition or_else :: "'a option \<Rightarrow> 'a option \<Rightarrow> 'a option" where
  "or_else a b = (case a of None \<Rightarrow> b | Some x \<Rightarrow> Some x)"

definition summary :: "command_error \<Rightarrow> string" where
  "summary ce =
     (case ce_spawn_error ce of
        Some se \<Rightarrow> ce_program ce @ '' failed to start: '' @ se
      | None \<Rightarrow>
          if ce_timed_out ce then
            ce_program ce @ '' timed out: '' @ opt_or (first_nonempty_line (ce_stderr ce)) []
          else
            let detail = opt_or (or_else (first_nonempty_line (ce_stderr ce))
                                         (first_nonempty_line (ce_stdout ce))) [] in
            (case ce_exit_code ce of
               Some code \<Rightarrow> ce_program ce @ '' failed (exit '' @ show_int (sint code) @ ''): '' @ detail
             | None \<Rightarrow> ce_program ce @ '' failed (signal): '' @ detail))"

fun cause_to_string :: "cause \<Rightarrow> string" where
  "cause_to_string (Msg m) = m"
| "cause_to_string (Command ce) = summary ce"

definition error_to_string :: "anyhow \<Rightarrow> string" where
  "error_to_string e = (case e of [] \<Rightarrow> [] | c # _ \<Rightarrow> cause_to_string c)"

lemma error_to_string_context [simp]: "error_to_string (add_context m e) = m"
  by (simp add: error_to_string_def add_context_def)

text \<open>Constructors. \<open>from_output\<close> takes the exit code and the decoded streams of the
  \<open>std::process::Output\<close>, \<open>from_spawn_error\<close> the rendered \<open>io::Error\<close>.\<close>

definition from_output :: "string \<Rightarrow> string list \<Rightarrow> i32 option \<Rightarrow> string \<Rightarrow> string \<Rightarrow> command_error" where
  "from_output program args code out err =
     \<lparr>ce_program = program, ce_args = args, ce_exit_code = code, ce_stdout = out,
      ce_stderr = err, ce_spawn_error = None, ce_timed_out = False\<rparr>"

definition from_spawn_error :: "string \<Rightarrow> string list \<Rightarrow> string \<Rightarrow> command_error" where
  "from_spawn_error program args io_err =
     \<lparr>ce_program = program, ce_args = args, ce_exit_code = None, ce_stdout = [],
      ce_stderr = [], ce_spawn_error = Some io_err, ce_timed_out = False\<rparr>"

definition from_timeout :: "string \<Rightarrow> string list \<Rightarrow> nat \<Rightarrow> command_error" where
  "from_timeout program args timeout_secs =
     \<lparr>ce_program = program, ce_args = args, ce_exit_code = None, ce_stdout = [],
      ce_stderr = ''command timed out after '' @ show_nat timeout_secs @ ''s and was killed (SIGKILL)'',
      ce_spawn_error = None, ce_timed_out = True\<rparr>"

section \<open>Walking the chain\<close>

fun extract_command_output :: "anyhow \<Rightarrow> command_error option" where
  "extract_command_output [] = None"
| "extract_command_output (Command ce # _) = Some ce"
| "extract_command_output (Msg _ # e) = extract_command_output e"

definition extract_exit_code :: "anyhow \<Rightarrow> i32 option" where
  "extract_exit_code e = Option.bind (extract_command_output e) ce_exit_code"

definition extract_stdout :: "anyhow \<Rightarrow> string option" where
  "extract_stdout e = map_option ce_stdout (extract_command_output e)"

definition extract_stderr :: "anyhow \<Rightarrow> string option" where
  "extract_stderr e = map_option ce_stderr (extract_command_output e)"

text \<open>The joined message of \<open>classify_error\<close>: the non-empty messages of the chain, separated
  by a bar.\<close>

definition join_step :: "string \<Rightarrow> cause \<Rightarrow> string" where
  "join_step joined c =
     (let s = cause_to_string c in
      if s = [] then joined else if joined = [] then s else joined @ '' | '' @ s)"

definition joined_message :: "anyhow \<Rightarrow> string" where
  "joined_message e = foldl join_step [] e"

definition contains_any :: "string \<Rightarrow> string list \<Rightarrow> bool" where
  "contains_any s ps = list_ex (str_contains s) ps"

definition network_signatures :: "string list" where
  "network_signatures = [''404'', ''not found'', ''failed to fetch'', ''unable to fetch'',
     ''could not resolve'', ''connection refused'', ''network is unreachable'']"

definition classify_message :: "string \<Rightarrow> bool \<Rightarrow> string" where
  "classify_message lower has_ce =
     (if contains_any lower [''gpg'', ''signature'', ''untrusted''] then GPG_ERROR
      else if contains_any lower network_signatures then
        (if contains_any lower [''unable to locate package'', ''no package available'',
                                ''package foo'', ''no such package'']
         then PKG_NOT_FOUND else NETWORK_ERROR)
      else if contains_any lower [''unable to locate package'', ''no package available'']
        then PKG_NOT_FOUND
      else if contains_any lower [''dependency'', ''dependencies'', ''conflict'', ''broken count'',
                                  ''held broken package''] then DEPENDENCY_CONFLICT
      else if contains_any lower [''permission denied'', ''lock file''] then PERMISSION_DENIED
      else if contains_any lower [''reboot'', ''shutdown''] then REBOOT_ERROR
      else if contains_any lower [''cache refresh'', ''check-update''] then CACHE_REFRESH_ERROR
      else if has_ce then PKG_MANAGER_ERROR
      else UNKNOWN_ERROR)"

definition classify_error :: "anyhow \<Rightarrow> string" where
  "classify_error err =
     (let lower = to_lowercase (joined_message err) in
      case extract_command_output err of
        None \<Rightarrow> classify_message lower False
      | Some ce \<Rightarrow>
          if ce_timed_out ce then TIMEOUT
          else if ce_spawn_error ce \<noteq> None then
            (if contains_any lower [''no such file'', ''not found''] then COMMAND_NOT_FOUND
             else if str_contains lower ''permission denied'' then PERMISSION_DENIED
             else COMMAND_NOT_FOUND)
          else classify_message lower True)"

section \<open>Log lines\<close>

definition needs_quoting :: "char \<Rightarrow> bool" where
  "needs_quoting c = (is_whitespace c \<or>
     c \<in> {CHR 0x27, CHR 0x22, CHR ''$'', CHR 0x60, CHR 0x5C, CHR ''|'', CHR ''&'', CHR '';'',
          CHR ''>'', CHR ''<''})"

definition quote_arg :: "string \<Rightarrow> string" where
  "quote_arg a =
     (if list_ex needs_quoting a then
        [CHR 0x27] @ concat (map (\<lambda>c. if c = CHR 0x27 then [CHR 0x27, CHR 0x5C, CHR 0x27, CHR 0x27]
                                      else [c]) a) @ [CHR 0x27]
      else a)"

definition format_command :: "string \<Rightarrow> string list \<Rightarrow> string" where
  "format_command program args = program @ concat (map (\<lambda>a. '' '' @ quote_arg a) args)"

definition append_stream_lines :: "string list \<Rightarrow> string \<Rightarrow> string \<Rightarrow> string list" where
  "append_stream_lines lines stream_name content =
     (case str_lines content of
        [] \<Rightarrow> lines @ [''['' @ stream_name @ ''] (empty)'']
      | l # ls \<Rightarrow> lines @ [''['' @ stream_name @ '']''] @ map (\<lambda>x. ''  '' @ x) (l # ls))"

definition output_log_lines :: "command_error \<Rightarrow> string list" where
  "output_log_lines ce =
     (let cmd_repr = format_command (ce_program ce) (ce_args ce);
          header = (case ce_exit_code ce of
                      Some code \<Rightarrow> ''Command failed (exit '' @ show_int (sint code) @ ''): '' @ cmd_repr
                    | None \<Rightarrow> ''Command failed (signal): '' @ cmd_repr)
      in case ce_spawn_error ce of
           Some se \<Rightarrow> [header, ''Spawn error: '' @ se]
         | None \<Rightarrow>
             let lines = append_stream_lines
                           (append_stream_lines [header] ''stderr'' (ce_stderr ce))
                           ''stdout'' (ce_stdout ce)
             in if length lines > MAX_OUTPUT_LINES
                then take MAX_OUTPUT_LINES lines
                     @ [''... output truncated at '' @ show_nat MAX_OUTPUT_LINES @ '' lines'']
                else lines)"

definition format_error_chain :: "(anyhow \<Rightarrow> string) \<Rightarrow> anyhow \<Rightarrow> string" where
  "format_error_chain dbg e = dbg e"

definition diagnostic_log_lines :: "(anyhow \<Rightarrow> string) \<Rightarrow> anyhow \<Rightarrow> string list" where
  "diagnostic_log_lines dbg e =
     ''Error chain:'' # str_lines (format_error_chain dbg e) @
     (case extract_command_output e of
        None \<Rightarrow> []
      | Some ce \<Rightarrow> [[], ''Command output:''] @ output_log_lines ce)"

definition format_error_for_cache :: "(anyhow \<Rightarrow> string) \<Rightarrow> anyhow \<Rightarrow> string" where
  "format_error_for_cache dbg e =
     (case extract_command_output e of Some ce \<Rightarrow> summary ce | None \<Rightarrow> format_error_chain dbg e)"

section \<open>Lemmas\<close>

lemma extract_context [simp]:
  "extract_command_output (add_context m e) = extract_command_output e"
  by (simp add: add_context_def)

lemma extract_exit_code_context [simp]: "extract_exit_code (add_context m e) = extract_exit_code e"
  and extract_stdout_context [simp]: "extract_stdout (add_context m e) = extract_stdout e"
  and extract_stderr_context [simp]: "extract_stderr (add_context m e) = extract_stderr e"
  by (simp_all add: extract_exit_code_def extract_stdout_def extract_stderr_def)

lemma extract_new [simp]: "extract_command_output (anyhow_new ce) = Some ce"
  by (simp add: anyhow_new_def)

lemma contains_any_simps [simp]:
  "contains_any s [] = False"
  "contains_any s (p # ps) = (str_contains s p \<or> contains_any s ps)"
  by (simp_all add: contains_any_def)

text \<open>A message of the chain is a part of the joined message, wherever it stands.\<close>

lemma join_step_keeps: "str_contains acc p \<Longrightarrow> str_contains (join_step acc c) p"
  by (auto simp: join_step_def Let_def str_contains_append)

lemma foldl_join_keeps: "str_contains acc p \<Longrightarrow> str_contains (foldl join_step acc e) p"
  by (induction e arbitrary: acc) (auto simp: join_step_keeps)

lemma join_step_adds: "str_contains (join_step acc c) (cause_to_string c)"
proof -
  have "str_contains (acc @ '' | '' @ cause_to_string c) (cause_to_string c)"
    by (rule str_contains_append) (rule str_contains_append, simp)
  then show ?thesis by (auto simp: join_step_def Let_def)
qed

lemma foldl_join_contains:
  "c \<in> set e \<Longrightarrow> str_contains (foldl join_step acc e) (cause_to_string c)"
proof (induction e arbitrary: acc)
  case Nil
  then show ?case by simp
next
  case (Cons d e)
  then show ?case
    by (cases "c = d") (auto simp: foldl_join_keeps join_step_adds)
qed

lemma joined_message_contains: "c \<in> set e \<Longrightarrow> str_contains (joined_message e) (cause_to_string c)"
  unfolding joined_message_def by (rule foldl_join_contains)

lemma to_lowercase_contains:
  "str_contains s p \<Longrightarrow> str_contains (to_lowercase s) (to_lowercase p)"
  unfolding str_contains_iff by (metis to_lowercase_append)

lemma str_contains_trans: "str_contains s p \<Longrightarrow> str_contains p q \<Longrightarrow> str_contains s q"
  unfolding str_contains_sublist by (metis sublist_order.order.trans)

lemma length_append_stream_lines: "length (append_stream_lines ls n c) \<ge> Suc (length ls)"
  by (auto simp: append_stream_lines_def split: list.splits)

section \<open>Properties\<close>

text \<open>Context layers never hide the structured command error: exit code, captured
  streams and the timeout classification of a failure are those of the \<open>CommandError\<close> at the
  root, however many \<open>.context(...)\<close> layers the callers add.\<close>

theorem context_preserves_diagnostics:
  "extract_exit_code (foldr add_context ctxs (anyhow_new ce)) = ce_exit_code ce \<and>
   extract_stdout (foldr add_context ctxs (anyhow_new ce)) = Some (ce_stdout ce) \<and>
   extract_stderr (foldr add_context ctxs (anyhow_new ce)) = Some (ce_stderr ce) \<and>
   (ce_timed_out ce \<longrightarrow> classify_error (foldr add_context ctxs (anyhow_new ce)) = TIMEOUT)"
proof -
  have *: "extract_command_output (foldr add_context ctxs (anyhow_new ce)) = Some ce"
    by (induction ctxs) simp_all
  then show ?thesis
    by (simp add: extract_exit_code_def extract_stdout_def extract_stderr_def classify_error_def
        Let_def)
qed

theorem context_preserves_diagnostics_witness:
  "classify_error (add_context ''refresh failed'' (anyhow_new (from_timeout ''apt-get'' [''update''] 300))) = TIMEOUT"
  using context_preserves_diagnostics [of "[''refresh failed'']" "from_timeout ''apt-get'' [''update''] 300"]
  by (simp add: from_timeout_def)

text \<open>A GPG signature failure reported anywhere in the chain is classified \<open>GPG_ERROR\<close>
  before every other signature, unless the command never ran or timed out.\<close>

theorem gpg_failure_classified:
  assumes "c \<in> set e"
    and "str_contains (to_lowercase (cause_to_string c)) ''gpg''"
    and "\<forall>ce. extract_command_output e = Some ce \<longrightarrow> \<not> ce_timed_out ce \<and> ce_spawn_error ce = None"
  shows "classify_error e = GPG_ERROR"
proof -
  have "str_contains (to_lowercase (joined_message e)) (to_lowercase (cause_to_string c))"
    by (rule to_lowercase_contains) (rule joined_message_contains [OF assms(1)])
  then have "str_contains (to_lowercase (joined_message e)) ''gpg''"
    using assms(2) by (rule str_contains_trans)
  then show ?thesis
    using assms(3) by (auto simp: classify_error_def classify_message_def Let_def split: option.splits)
qed

theorem gpg_failure_classified_witness:
  "classify_error (add_context ''Failed to execute apt command''
     (anyhow_new (from_output ''apt-get'' [''update''] (Some 100) []
                    ''W: GPG error: signature was invalid''))) = GPG_ERROR"
proof (rule gpg_failure_classified)
  let ?ce = "from_output ''apt-get'' [''update''] (Some 100) [] ''W: GPG error: signature was invalid''"
  show "Command ?ce \<in> set (add_context ''Failed to execute apt command'' (anyhow_new ?ce))"
    by (simp add: add_context_def anyhow_new_def)
  show "str_contains (to_lowercase (cause_to_string (Command ?ce))) ''gpg''"
    by code_simp
  show "\<forall>ce. extract_command_output (add_context ''Failed to execute apt command'' (anyhow_new ?ce))
          = Some ce \<longrightarrow> \<not> ce_timed_out ce \<and> ce_spawn_error ce = None"
    by (simp add: from_output_def)
qed

lemma classify_message_range:
  "classify_message l b \<in> {GPG_ERROR, PKG_NOT_FOUND, NETWORK_ERROR, DEPENDENCY_CONFLICT,
     PERMISSION_DENIED, REBOOT_ERROR, CACHE_REFRESH_ERROR, PKG_MANAGER_ERROR, UNKNOWN_ERROR}"
  by (simp add: classify_message_def)

text \<open>The log lines of a failed command are bounded: at most the limit and the truncation
  marker, whatever the command printed, and the command itself is always on the first line.\<close>

theorem output_log_lines_bounded:
  "length (output_log_lines ce) \<le> MAX_OUTPUT_LINES + 1 \<and>
   (\<exists>pre. hd (output_log_lines ce) = pre @ format_command (ce_program ce) (ce_args ce))"
proof
  show "length (output_log_lines ce) \<le> MAX_OUTPUT_LINES + 1"
    by (auto simp: output_log_lines_def Let_def MAX_OUTPUT_LINES_def split: option.splits)
  have hd_app: "ls \<noteq> [] \<Longrightarrow> hd (append_stream_lines ls n c) = hd ls"
    and ne: "append_stream_lines ls n c \<noteq> []" for ls n c
    by (auto simp: append_stream_lines_def split: list.splits)
  have hd_take: "ls \<noteq> [] \<Longrightarrow> hd (take MAX_OUTPUT_LINES ls @ x) = hd ls" for ls x :: "string list"
    by (cases ls) (auto simp: MAX_OUTPUT_LINES_def)
  show "\<exists>pre. hd (output_log_lines ce) = pre @ format_command (ce_program ce) (ce_args ce)"
  proof (cases "ce_exit_code ce")
    case None
    then have "hd (output_log_lines ce)
        = ''Command failed (signal): '' @ format_command (ce_program ce) (ce_args ce)"
      by (auto simp: output_log_lines_def Let_def hd_app ne hd_take split: option.splits)
    then show ?thesis by blast
  next
    case (Some code)
    then have "hd (output_log_lines ce)
        = (''Command failed (exit '' @ show_int (sint code) @ ''): '')
          @ format_command (ce_program ce) (ce_args ce)"
      by (auto simp: output_log_lines_def Let_def hd_app ne hd_take split: option.splits)
    then show ?thesis by blast
  qed
qed

end
