(* ===== verification/Runner.thy ===== *)
theory Runner imports Error_Utils begin

text \<open>
  \<open>src/packages/coordinator.rs\<close>: command execution. What the operating system does with a command
  is an argument \<open>os\<close> over a state \<open>'w\<close> of the machine: it maps program and arguments to the fate of
  the child process. \<open>sys_run\<close> is the \<open>SystemCommandRunner\<close> on it; the code that only uses the
  \<open>CommandRunner\<close> trait takes any \<open>runner\<close>, and its contract is the locale \<open>command_runner\<close>.
\<close>

record command_output =
  co_status_code :: "i32 option"
  co_stdout :: string
  co_stderr :: string
  co_timed_out :: bool

definition co_success :: "command_output \<Rightarrow> bool" where
  "co_success o1 = (co_status_code o1 = Some 0)"

text \<open>\<open>Overran\<close>: still running at the deadline; killed, with the reaped exit code (if any) and what
  the child printed.\<close>

datatype child_fate =
    SpawnFailed string
  | WaitFailed string
  | Exited "i32 option" string string
  | Overran "i32 option" string string

definition exit_error :: "string \<Rightarrow> string list \<Rightarrow> i32 option \<Rightarrow> string \<Rightarrow> string \<Rightarrow> anyhow" where
  "exit_error program args code out err =
     anyhow_new \<lparr>ce_program = program, ce_args = args, ce_exit_code = code, ce_stdout = out,
                 ce_stderr = err, ce_spawn_error = None, ce_timed_out = False\<rparr>"

definition exited_result ::
    "string \<Rightarrow> string list \<Rightarrow> i32 option \<Rightarrow> string \<Rightarrow> string \<Rightarrow> (anyhow, command_output) result" where
  "exited_result program args code out err =
     (if code \<noteq> Some 0 then Err (exit_error program args code out err)
      else Ok \<lparr>co_status_code = code, co_stdout = out, co_stderr = err, co_timed_out = False\<rparr>)"

definition run_async ::
    "string \<Rightarrow> string list \<Rightarrow> nat option \<Rightarrow> child_fate \<Rightarrow> (anyhow, command_output) result" where
  "run_async program args timeout fate =
     (case fate of
        SpawnFailed e \<Rightarrow>
          Err (add_context (''Failed to execute '' @ program) (anyhow_new (from_spawn_error program args e)))
      | WaitFailed e \<Rightarrow>
          Err (add_context (''Failed to wait on '' @ program) (anyhow_new (from_spawn_error program args e)))
      | Exited code out err \<Rightarrow> exited_result program args code out err
      | Overran code out err \<Rightarrow>
          (case timeout of
             None \<Rightarrow> exited_result program args code out err
           | Some secs \<Rightarrow>
               (let msg = program @ '' timed out after '' @ show_nat secs @ ''s''
                in Err (add_context msg
                     (anyhow_new \<lparr>ce_program = program, ce_args = args, ce_exit_code = code,
                        ce_stdout = out, ce_stderr = (if err = [] then msg else err),
                        ce_spawn_error = None, ce_timed_out = True\<rparr>)))))"

type_synonym 'w os = "string \<Rightarrow> string list \<Rightarrow> 'w \<Rightarrow> child_fate \<times> 'w"

type_synonym 'w runner = "string \<Rightarrow> string list \<Rightarrow> nat option \<Rightarrow> 'w \<Rightarrow> (anyhow, command_output) result \<times> 'w"

definition sys_run :: "'w os \<Rightarrow> 'w runner" where
  "sys_run os program args timeout w =
     (let (fate, w') = os program args w in (run_async program args timeout fate, w'))"

definition run_command_timed ::
    "'w runner \<Rightarrow> string \<Rightarrow> string list \<Rightarrow> nat \<Rightarrow> 'w \<Rightarrow> (anyhow, string) result \<times> 'w" where
  "run_command_timed runner program args timeout w =
     (let (r, w') = runner program args (Some timeout) w in (map_sum id co_stdout r, w'))"

definition run_command :: "'w runner \<Rightarrow> string \<Rightarrow> string list \<Rightarrow> 'w \<Rightarrow> (anyhow, string) result \<times> 'w" where
  "run_command runner program args w =
     (let (r, w') = runner program args None w in (map_sum id co_stdout r, w'))"

definition accept_exit :: "i32 list \<Rightarrow> (anyhow, command_output) result \<Rightarrow> (anyhow, string) result" where
  "accept_exit acceptable_codes r =
     (case r of
        Inr o1 \<Rightarrow> Ok (co_stdout o1)
      | Inl e \<Rightarrow>
          (case extract_command_output e of
             Some ce \<Rightarrow>
               (case ce_exit_code ce of
                  Some code \<Rightarrow> if List.member acceptable_codes code then Ok (ce_stdout ce) else Err e
                | None \<Rightarrow> Err e)
           | None \<Rightarrow> Err e))"

definition run_command_with_acceptable_exit_timed ::
    "'w runner \<Rightarrow> string \<Rightarrow> string list \<Rightarrow> i32 list \<Rightarrow> nat \<Rightarrow> 'w \<Rightarrow> (anyhow, string) result \<times> 'w" where
  "run_command_with_acceptable_exit_timed runner program args acceptable_codes timeout w =
     (let (r, w') = runner program args (Some timeout) w in (accept_exit acceptable_codes r, w'))"

definition run_command_with_acceptable_exit ::
    "'w runner \<Rightarrow> string \<Rightarrow> string list \<Rightarrow> i32 list \<Rightarrow> 'w \<Rightarrow> (anyhow, string) result \<times> 'w" where
  "run_command_with_acceptable_exit runner program args acceptable_codes w =
     (let (r, w') = runner program args None w in (accept_exit acceptable_codes r, w'))"

section \<open>The contract of a runner\<close>

text \<open>An output is a success: every other end of the command is an error that names the command.\<close>

locale command_runner =
  fixes runner :: "'w runner"
  assumes ok_success: "fst (runner p as t w) = Inr o1 \<Longrightarrow> co_success o1"
    and err_command: "fst (runner p as t w) = Inl e \<Longrightarrow>
      (\<exists>ce. extract_command_output e = Some ce \<and> ce_program ce = p \<and> ce_args ce = as)"
begin

lemma not_success: "runner p as t w = (Inr o1, w') \<Longrightarrow> co_status_code o1 = Some 0"
  using ok_success [of p as t w o1] by (simp add: co_success_def)

lemma timed_stdout:
  "run_command_timed runner p as t w = (Inr out, w') \<longleftrightarrow>
     (\<exists>o1. runner p as (Some t) w = (Inr o1, w') \<and> co_stdout o1 = out)"
  unfolding run_command_timed_def
  by (cases "runner p as (Some t) w"; cases "fst (runner p as (Some t) w)") auto

end

lemma extract_add_context [simp]: "extract_command_output (add_context m e) = extract_command_output e"
  by (simp add: add_context_def)

lemma extract_anyhow_new [simp]: "extract_command_output (anyhow_new ce) = Some ce"
  by (simp add: anyhow_new_def)

interpretation sys: command_runner "sys_run os" for os
proof
  fix p as t w o1
  assume "fst (sys_run os p as t w) = Inr o1"
  then show "co_success o1"
    by (auto simp: sys_run_def run_async_def exited_result_def co_success_def Let_def
        split: prod.splits child_fate.splits option.splits if_splits)
next
  fix p as t w e
  assume "fst (sys_run os p as t w) = Inl e"
  then show "\<exists>ce. extract_command_output e = Some ce \<and> ce_program ce = p \<and> ce_args ce = as"
    by (auto simp: sys_run_def run_async_def exited_result_def exit_error_def from_spawn_error_def Let_def
        split: prod.splits child_fate.splits option.splits if_splits)
qed

end
