(* ===== verification/Cache.thy ===== *)
theory Cache imports Runner begin

text \<open>
  \<open>src/packages/cache.rs\<close>: the state of the package index, when it is stale, how refreshes are
  recorded, and the retry of a patch run after a fetch error. Times are seconds; the jitter drawn at
  startup and the content of the state file are arguments.
\<close>

section \<open>State\<close>

definition JITTER_MAX_SECS :: nat where "JITTER_MAX_SECS = 300"
definition DEFAULT_STALE_THRESHOLD_SECS :: u64 where "DEFAULT_STALE_THRESHOLD_SECS = 60 * 60"

record package_cache_state =
  pc_last_update :: "int option"
  pc_last_update_success :: bool
  pc_last_update_error :: "string option"
  pc_stale_threshold_secs :: u64
  pc_jitter_secs :: u64

text \<open>The state file: the parsed timestamp (if any) and the success flag.\<close>

type_synonym cache_state_file = "int option \<times> bool"

definition with_threshold_and_jitter ::
    "cache_state_file option \<Rightarrow> u64 \<Rightarrow> u64 \<Rightarrow> package_cache_state" where
  "with_threshold_and_jitter state_file stale_threshold_secs jitter_secs =
     (case state_file of
        Some (t, ok) \<Rightarrow>
          \<lparr>pc_last_update = t, pc_last_update_success = ok, pc_last_update_error = None,
           pc_stale_threshold_secs = stale_threshold_secs, pc_jitter_secs = jitter_secs\<rparr>
      | None \<Rightarrow>
          \<lparr>pc_last_update = None, pc_last_update_success = False, pc_last_update_error = None,
           pc_stale_threshold_secs = stale_threshold_secs, pc_jitter_secs = jitter_secs\<rparr>)"

text \<open>\<open>saturating_add\<close> on \<open>u64\<close>.\<close>

definition effective_threshold_secs :: "package_cache_state \<Rightarrow> u64" where
  "effective_threshold_secs c =
     (if uint (pc_stale_threshold_secs c) + uint (pc_jitter_secs c) < 2 ^ 64
      then pc_stale_threshold_secs c + pc_jitter_secs c else - 1)"

text \<open>\<open>chrono::Duration::from_std\<close> fails above \<open>i64::MAX / 1000\<close> seconds; then the maximal
  \<open>TimeDelta\<close> is used.\<close>

definition time_delta_max :: int where "time_delta_max = 9223372036854775"

definition is_stale :: "int \<Rightarrow> package_cache_state \<Rightarrow> bool" where
  "is_stale now c =
     (case pc_last_update c of
        None \<Rightarrow> True
      | Some t \<Rightarrow> now - t > min (uint (effective_threshold_secs c)) time_delta_max)"

definition persisted_state :: "package_cache_state \<Rightarrow> cache_state_file" where
  "persisted_state c = (pc_last_update c, pc_last_update_success c)"

definition update_success :: "int \<Rightarrow> package_cache_state \<Rightarrow> package_cache_state" where
  "update_success now c =
     c\<lparr>pc_last_update := Some now, pc_last_update_success := True, pc_last_update_error := None\<rparr>"

definition update_failure :: "int \<Rightarrow> string \<Rightarrow> package_cache_state \<Rightarrow> package_cache_state" where
  "update_failure now error c =
     (let c1 = c\<lparr>pc_last_update_success := False, pc_last_update_error := Some error\<rparr>
      in if pc_last_update c1 = None then c1\<lparr>pc_last_update := Some now\<rparr> else c1)"

section \<open>Fetch errors\<close>

definition is_fetch_error :: "anyhow \<Rightarrow> bool" where
  "is_fetch_error error =
     (let msg = to_lowercase (error_to_string error)
      in contains_any msg [''404'', ''not found'', ''failed to fetch'', ''unable to fetch''])"

text \<open>The closures act on the state \<open>'w\<close> of the machine.\<close>

definition apply_with_cache_retry ::
    "('w \<Rightarrow> (anyhow, unit) result \<times> 'w) \<Rightarrow> ('w \<Rightarrow> (anyhow, unit) result \<times> 'w) \<Rightarrow> 'w
     \<Rightarrow> (anyhow, unit) result \<times> 'w" where
  "apply_with_cache_retry refresh_fn apply_fn w =
     (case apply_fn w of
        (Inr _, w1) \<Rightarrow> (Ok (), w1)
      | (Inl e, w1) \<Rightarrow>
          if is_fetch_error e then
            (case refresh_fn w1 of
               (Inl e', w2) \<Rightarrow> (Err e', w2)
             | (Inr _, w2) \<Rightarrow> apply_fn w2)
          else (Err e, w1))"

section \<open>Helper lemmas\<close>

lemma effective_threshold_saturates:
  "uint (effective_threshold_secs c) =
     min (uint (pc_stale_threshold_secs c) + uint (pc_jitter_secs c)) (2 ^ 64 - 1)"
proof (cases "uint (pc_stale_threshold_secs c) + uint (pc_jitter_secs c) < 2 ^ 64")
  case True
  then have "uint (pc_stale_threshold_secs c + pc_jitter_secs c) =
      uint (pc_stale_threshold_secs c) + uint (pc_jitter_secs c)"
    by (simp add: uint_word_ariths(1))
  with True show ?thesis by (simp add: effective_threshold_secs_def)
next
  case False
  have "uint (- 1 :: u64) = 2 ^ 64 - 1" by (simp add: unsigned_minus_1_eq_mask mask_eq_exp_minus_1)
  with False show ?thesis by (simp add: effective_threshold_secs_def)
qed

lemma is_fetch_error_context:
  "is_fetch_error (add_context ctx e) = is_fetch_error (anyhow_msg ctx)"
  by (simp add: is_fetch_error_def error_to_string_context) (simp add: anyhow_msg_def error_to_string_def)

section \<open>Properties\<close>

text \<open>Staleness. A cache is stale exactly when it was never refreshed or the last update is more
  than threshold plus jitter seconds ago, the sum saturating instead of wrapping; right after a
  success it is fresh, and a failure never makes an old index look newer: it keeps the timestamp.
  Only when there was none does a failure set it, so a cache whose first refresh failed counts as
  fresh.\<close>

theorem cache_staleness:
  "(is_stale now c \<longleftrightarrow> (case pc_last_update c of None \<Rightarrow> True
      | Some t \<Rightarrow> min (min (uint (pc_stale_threshold_secs c) + uint (pc_jitter_secs c)) (2 ^ 64 - 1)) time_delta_max < now - t)) \<and>
   \<not> is_stale now (update_success now c) \<and>
   (pc_last_update c \<noteq> None \<longrightarrow> is_stale t1 (update_failure now e c) = is_stale t1 c) \<and>
   (pc_last_update c = None \<longrightarrow> \<not> is_stale now (update_failure now e c) \<and>
      persisted_state (update_failure now e c) = (Some now, False))"
proof -
  have nonneg: "\<not> min (uint (effective_threshold_secs c)) time_delta_max < 0" for c
    by (simp add: time_delta_max_def not_less)
  have eff: "effective_threshold_secs (update_success now c) = effective_threshold_secs c"
    "effective_threshold_secs (update_failure now e c) = effective_threshold_secs c"
    by (simp_all add: effective_threshold_secs_def update_success_def update_failure_def Let_def)
  have 1: "is_stale now c \<longleftrightarrow> (case pc_last_update c of None \<Rightarrow> True
      | Some t \<Rightarrow> min (min (uint (pc_stale_threshold_secs c) + uint (pc_jitter_secs c)) (2 ^ 64 - 1)) time_delta_max < now - t)"
    unfolding is_stale_def effective_threshold_saturates by (rule refl)
  have 2: "\<not> is_stale now (update_success now c)"
    using nonneg [of c] unfolding is_stale_def eff by (simp add: update_success_def)
  have 3: "pc_last_update c \<noteq> None \<Longrightarrow> is_stale t1 (update_failure now e c) = is_stale t1 c"
    unfolding is_stale_def eff by (auto simp: update_failure_def Let_def)
  have 4: "pc_last_update c = None \<Longrightarrow> \<not> is_stale now (update_failure now e c)"
    using nonneg [of c] unfolding is_stale_def eff by (simp add: update_failure_def Let_def)
  have 5: "pc_last_update c = None \<Longrightarrow> persisted_state (update_failure now e c) = (Some now, False)"
    by (simp add: persisted_state_def update_failure_def Let_def)
  show ?thesis using 1 2 3 4 5 by blast
qed

theorem cache_staleness_witness:
  "\<not> is_stale 5 (update_failure 5 ''no network'' (with_threshold_and_jitter None 3600 0))"
  using cache_staleness [of 5 "with_threshold_and_jitter None 3600 0" 5 "''no network''"]
  by (simp add: with_threshold_and_jitter_def)

end
