(* ===== verification/System.thy ===== *)
theory System imports Cache Net begin

text \<open>
  The part of \<open>src/packages/mod.rs\<close> shared by the package backends: the input validators, system
  information, reboot detection, the reboot command, and the status of services under systemd and
  OpenRC. Commands run through a \<open>runner\<close> over the machine state; the files and commands the code
  looks at directly are the fields of \<open>host_env\<close>.
\<close>

section \<open>Validation\<close>

definition MAX_NAME_LENGTH :: nat where "MAX_NAME_LENGTH = 256"
definition SELF_PACKAGE_NAME :: string where "SELF_PACKAGE_NAME = ''linux-patch-api''"
definition SELF_SERVICE_NAME :: string where "SELF_SERVICE_NAME = ''linux-patch-api''"
definition MAX_RESTART_DELAY_SECONDS :: nat where "MAX_RESTART_DELAY_SECONDS = 300"

definition quoted :: "string \<Rightarrow> string" where
  "quoted s = CHR 0x27 # s @ [CHR 0x27]"

definition validate_package_name :: "string \<Rightarrow> (string, unit) result" where
  "validate_package_name name =
     (if name = [] then Err ''Package name cannot be empty''
      else if length name > MAX_NAME_LENGTH
        then Err (''Package name exceeds maximum length of '' @ show_nat MAX_NAME_LENGTH @ '' characters'')
      else if \<not> is_ascii_alphanumeric (hd name)
        then Err (''Package name must start with an alphanumeric character: '' @ quoted name)
      else if \<not> list_all (\<lambda>c. is_ascii_alphanumeric c \<or> c \<in> set ''+._-'') name
        then Err (''Package name contains invalid characters: '' @ quoted name
          @ ''. Only alphanumeric, plus, dot, underscore, and hyphen are allowed'')
      else Ok ())"

definition validate_version_string :: "string \<Rightarrow> (string, unit) result" where
  "validate_version_string version =
     (if version = [] then Err ''Version string cannot be empty''
      else if length version > MAX_NAME_LENGTH
        then Err (''Version string exceeds maximum length of '' @ show_nat MAX_NAME_LENGTH @ '' characters'')
      else if \<not> is_ascii_alphanumeric (hd version)
        then Err (''Version string must start with an alphanumeric character: '' @ quoted version)
      else if \<not> list_all (\<lambda>c. is_ascii_alphanumeric c \<or> c \<in> set ''+._-:~'') version
        then Err (''Version string contains invalid characters: '' @ quoted version
          @ ''. Only alphanumeric, plus, dot, underscore, hyphen, colon, and tilde are allowed'')
      else Ok ())"

definition validate_service_name :: "string \<Rightarrow> (string, unit) result" where
  "validate_service_name name =
     (if name = [] then Err ''Service name cannot be empty''
      else if length name > MAX_NAME_LENGTH
        then Err (''Service name exceeds maximum length of '' @ show_nat MAX_NAME_LENGTH @ '' characters'')
      else if \<not> is_ascii_alphanumeric (hd name)
        then Err (''Service name must start with an alphanumeric character: '' @ quoted name)
      else if \<not> list_all (\<lambda>c. is_ascii_alphanumeric c \<or> c \<in> set ''_.@+-'') name
        then Err (''Service name contains invalid characters: '' @ quoted name
          @ ''. Only alphanumeric, underscore, dot, at-sign, plus, and hyphen are allowed'')
      else Ok ())"

section \<open>System information\<close>

record system_info =
  si_hostname :: string
  si_os :: string
  si_os_version :: string
  si_kernel :: string
  si_architecture :: string
  si_last_update_check :: "string option"
  si_last_update_apply :: "string option"
  si_pending_reboot :: bool

record host_env =
  he_reboot_required :: bool        \<comment> \<open>\<open>/var/run/reboot-required\<close> exists\<close>
  he_boot_reboot_required :: bool   \<comment> \<open>\<open>/boot/.reboot-required\<close> exists\<close>
  he_available :: "string \<Rightarrow> bool"  \<comment> \<open>\<open>which cmd\<close> succeeds\<close>
  he_environ :: "string option"     \<comment> \<open>\<open>/proc/1/environ\<close>\<close>
  he_cgroup :: "string option"      \<comment> \<open>\<open>/proc/1/cgroup\<close>\<close>
  he_dockerenv :: bool
  he_containerenv :: bool
  he_uname :: "string option"       \<comment> \<open>stdout of \<open>uname -r\<close>\<close>
  he_os_release :: "string option"  \<comment> \<open>\<open>/etc/os-release\<close>\<close>

definition trim_quotes :: "string \<Rightarrow> string" where
  "trim_quotes s = rev (dropWhile (\<lambda>c. c = CHR 0x22) (rev (dropWhile (\<lambda>c. c = CHR 0x22) s)))"

definition os_field :: "string \<Rightarrow> string \<Rightarrow> string" where
  "os_field key line = trim_quotes (trim (trim_start_matches key line))"

definition os_release_step :: "string \<times> string \<Rightarrow> string \<Rightarrow> string \<times> string" where
  "os_release_step st line =
     (let (os, version) = st in
      if starts_with line ''PRETTY_NAME='' then (os_field ''PRETTY_NAME='' line, version)
      else if starts_with line ''NAME='' then (os_field ''NAME='' line, version)
      else if starts_with line ''VERSION='' then (os, os_field ''VERSION='' line)
      else if starts_with line ''VERSION_ID='' then (os, os_field ''VERSION_ID='' line)
      else (os, version))"

definition os_info :: "string option \<Rightarrow> string \<times> string" where
  "os_info content =
     (case content of
        None \<Rightarrow> (''Linux'', ''unknown'')
      | Some c \<Rightarrow> foldl os_release_step (''Linux'', ''unknown'') (str_lines c))"

section \<open>Reboot detection\<close>

definition REBOOT_REQUIRED_PACKAGE_PREFIXES :: "string list" where
  "REBOOT_REQUIRED_PACKAGE_PREFIXES =
     [''kernel'', ''linux-image'', ''linux-headers'', ''linux-generic'', ''linux-base'', ''linux-firmware'',
      ''glibc'', ''libc6'', ''systemd'', ''dbus'', ''openssl'', ''libssl'', ''grub'', ''shim'', ''initramfs'',
      ''kmod'', ''microcode'', ''intel-microcode'', ''amd64-microcode'']"

definition package_requires_reboot :: "string \<Rightarrow> bool" where
  "package_requires_reboot package_name =
     (let name_lower = to_lowercase package_name in
      list_ex (\<lambda>p. starts_with name_lower p \<or> str_contains name_lower p) REBOOT_REQUIRED_PACKAGE_PREFIXES)"

definition is_lxc_container :: "host_env \<Rightarrow> bool" where
  "is_lxc_container h =
     ((case he_environ h of Some e \<Rightarrow> str_contains e ''container=lxc'' | None \<Rightarrow> False) \<or>
      (case he_cgroup h of Some g \<Rightarrow> str_contains g ''lxc'' | None \<Rightarrow> False) \<or>
      he_dockerenv h \<or> he_containerenv h)"

definition get_running_kernel_version :: "host_env \<Rightarrow> string option" where
  "get_running_kernel_version h =
     (case he_uname h of None \<Rightarrow> None
      | Some s \<Rightarrow> let t = trim s in if t \<noteq> [] then Some t else None)"

text \<open>The order of \<open>&str\<close>: byte by byte.\<close>

fun str_less :: "string \<Rightarrow> string \<Rightarrow> bool" where
  "str_less [] [] = False"
| "str_less [] (d # t) = True"
| "str_less (c # s) [] = False"
| "str_less (c # s) (d # t) = (byte c < byte d \<or> (c = d \<and> str_less s t))"

definition take_best :: "string option \<Rightarrow> string \<Rightarrow> string option" where
  "take_best best ver =
     (case best of None \<Rightarrow> Some ver | Some b \<Rightarrow> if str_less b ver then Some ver else best)"

definition dpkg_kernel_step :: "string option \<Rightarrow> string \<Rightarrow> string option" where
  "dpkg_kernel_step best line =
     (if \<not> starts_with line ''ii  '' then best
      else case split_whitespace line of
        _ # name # _ \<Rightarrow>
          if starts_with name ''linux-image-'' then
            (let ver = trim_start_matches ''linux-image-'' name in
             if str_contains ver ''generic'' \<or> str_contains ver ''virtual'' \<or> str_contains ver ''meta'' then best
             else take_best best ver)
          else best
      | _ \<Rightarrow> best)"

definition rpm_kernel_step :: "string option \<Rightarrow> string \<Rightarrow> string option" where
  "rpm_kernel_step best line0 =
     (let line = trim line0 in
      if line = [] \<or> str_contains line ''not installed'' then best else take_best best line)"

definition apk_kernel :: "string \<Rightarrow> string \<Rightarrow> string option" where
  "apk_kernel pkg out =
     (case str_lines out of
        [] \<Rightarrow> None
      | line # _ \<Rightarrow>
          (case strip_prefix (pkg @ ''-'') (trim line) of
             None \<Rightarrow> None
           | Some rest \<Rightarrow>
               (case strip_suffix '' description:'' rest of
                  None \<Rightarrow> None
                | Some ver \<Rightarrow> if ver \<noteq> [] then Some ver else None)))"

definition pacman_kernel :: "string \<Rightarrow> string option" where
  "pacman_kernel out =
     (case str_lines out of
        [] \<Rightarrow> None
      | line # _ \<Rightarrow> (case split_whitespace line of _ # v # _ \<Rightarrow> Some v | _ \<Rightarrow> None))"

text \<open>One source of the installed kernel: a command, if its tool is available, and a parser.\<close>

definition kernel_source ::
    "'w runner \<Rightarrow> bool \<Rightarrow> string \<Rightarrow> string list \<Rightarrow> (string \<Rightarrow> string option) \<Rightarrow> 'w \<Rightarrow> string option \<times> 'w" where
  "kernel_source runner available program args parse w =
     (if available then
        (case runner program args (Some 60) w of
           (Inr o1, w1) \<Rightarrow> (parse (co_stdout o1), w1)
         | (Inl _, w1) \<Rightarrow> (None, w1))
      else (None, w))"

fun first_source :: "('w \<Rightarrow> string option \<times> 'w) list \<Rightarrow> 'w \<Rightarrow> string option \<times> 'w" where
  "first_source [] w = (None, w)"
| "first_source (f # fs) w =
     (case f w of (Some v, w1) \<Rightarrow> (Some v, w1) | (None, w1) \<Rightarrow> first_source fs w1)"

definition get_installed_kernel_version :: "'w runner \<Rightarrow> host_env \<Rightarrow> 'w \<Rightarrow> string option \<times> 'w" where
  "get_installed_kernel_version runner h =
     first_source
       ([kernel_source runner (he_available h ''dpkg'') ''dpkg'' [''-l'']
           (\<lambda>out. foldl dpkg_kernel_step None (str_lines out)),
         kernel_source runner (he_available h ''rpm'') ''rpm''
           [''-q'', ''kernel'', ''--qf'', ''%{VERSION}-%{RELEASE}.%{ARCH}'' @ [nl]]
           (\<lambda>out. foldl rpm_kernel_step None (str_lines out))]
        @ map (\<lambda>pkg. kernel_source runner (he_available h ''apk'') ''apk'' [''info'', ''-e'', pkg] (apk_kernel pkg))
              [''linux-virt'', ''linux-lts'', ''linux-hardened'', ''linux-rpi'']
        @ [kernel_source runner (he_available h ''pacman'') ''pacman'' [''-Q'', ''linux''] pacman_kernel])"

definition needs_restarting :: "'w runner \<Rightarrow> host_env \<Rightarrow> 'w \<Rightarrow> bool \<times> 'w" where
  "needs_restarting runner h w =
     (if he_available h ''dnf'' then
        (case runner ''dnf'' [''needs-restarting'', ''-r''] (Some 60) w of
           (Inr o1, w1) \<Rightarrow> (co_status_code o1 = Some 1, w1)
         | (Inl _, w1) \<Rightarrow> (False, w1))
      else (False, w))"

definition kernel_differs :: "'w runner \<Rightarrow> host_env \<Rightarrow> 'w \<Rightarrow> bool \<times> 'w" where
  "kernel_differs runner h w =
     (if is_lxc_container h then (False, w)
      else case get_installed_kernel_version runner h w of
        (None, w1) \<Rightarrow> (False, w1)
      | (Some installed, w1) \<Rightarrow>
          (case get_running_kernel_version h of
             None \<Rightarrow> (False, w1)
           | Some running \<Rightarrow> (installed \<noteq> running, w1)))"

definition check_pending_reboot :: "'w runner \<Rightarrow> host_env \<Rightarrow> 'w \<Rightarrow> bool \<times> 'w" where
  "check_pending_reboot runner h w =
     (if he_reboot_required h \<or> he_boot_reboot_required h then (True, w)
      else case needs_restarting runner h w of
        (True, w1) \<Rightarrow> (True, w1)
      | (False, w1) \<Rightarrow> kernel_differs runner h w1)"

definition query_line :: "'w runner \<Rightarrow> string \<Rightarrow> string list \<Rightarrow> 'w \<Rightarrow> string \<times> 'w" where
  "query_line runner program args w =
     (case runner program args (Some 60) w of
        (Inr o1, w1) \<Rightarrow> (trim (co_stdout o1), w1)
      | (Inl _, w1) \<Rightarrow> (''unknown'', w1))"

definition get_system_info :: "'w runner \<Rightarrow> host_env \<Rightarrow> 'w \<Rightarrow> system_info \<times> 'w" where
  "get_system_info runner h w =
     (let (hostname, w1) = query_line runner ''hostname'' [] w;
          (os, os_version) = os_info (he_os_release h);
          (kernel, w2) = query_line runner ''uname'' [''-r''] w1;
          (architecture, w3) = query_line runner ''uname'' [''-m''] w2;
          (pending_reboot, w4) = check_pending_reboot runner h w3
      in (\<lparr>si_hostname = hostname, si_os = os, si_os_version = os_version, si_kernel = kernel,
           si_architecture = architecture, si_last_update_check = None, si_last_update_apply = None,
           si_pending_reboot = pending_reboot\<rparr>, w4))"

section \<open>Reboot\<close>

definition div_ceil :: "nat \<Rightarrow> nat \<Rightarrow> nat" where
  "div_ceil a b = a div b + (if a mod b > 0 then 1 else 0)"

definition reboot_command :: "nat \<Rightarrow> string \<times> string list" where
  "reboot_command delay_seconds =
     (if delay_seconds > 0
      then (''shutdown'', [''-r'', ''+'' @ show_nat (max 1 (div_ceil delay_seconds 60))])
      else (''systemctl'', [''reboot'']))"

definition reboot_system :: "'w runner \<Rightarrow> nat \<Rightarrow> 'w \<Rightarrow> (anyhow, unit) result \<times> 'w" where
  "reboot_system runner delay_seconds w =
     (let (program, args) = reboot_command delay_seconds;
          (r, w1) = run_command_timed runner program args 60 w
      in (map_sum id (\<lambda>_. ()) r, w1))"

section \<open>Services\<close>

record service_status =
  ss_name :: string
  ss_display_name :: string
  ss_active_state :: string
  ss_sub_state :: string
  ss_load_state :: string
  ss_enabled_state :: string
  ss_main_pid :: "u32 option"
  ss_healthy :: bool

definition empty_service :: service_status where
  "empty_service = \<lparr>ss_name = [], ss_display_name = [], ss_active_state = [], ss_sub_state = [],
     ss_load_state = [], ss_enabled_state = [], ss_main_pid = None, ss_healthy = False\<rparr>"

definition parse_main_pid :: "string \<Rightarrow> u32 option" where
  "parse_main_pid value =
     (case parse_unsigned 4294967295 value of
        Some p \<Rightarrow> if p > 0 then Some (of_nat p) else None
      | None \<Rightarrow> None)"

definition show_step :: "service_status \<Rightarrow> string \<Rightarrow> service_status" where
  "show_step st line =
     (case split_once CHR ''='' line of
        None \<Rightarrow> st
      | Some (key, value) \<Rightarrow>
          if key = ''Id'' then st\<lparr>ss_name := value\<rparr>
          else if key = ''Description'' then st\<lparr>ss_display_name := value\<rparr>
          else if key = ''ActiveState'' then st\<lparr>ss_active_state := value\<rparr>
          else if key = ''SubState'' then st\<lparr>ss_sub_state := value\<rparr>
          else if key = ''LoadState'' then st\<lparr>ss_load_state := value\<rparr>
          else if key = ''UnitFileState'' then st\<lparr>ss_enabled_state := value\<rparr>
          else if key = ''MainPID'' then st\<lparr>ss_main_pid := parse_main_pid value\<rparr>
          else st)"

definition trim_end_matches :: "string \<Rightarrow> string \<Rightarrow> string" where
  "trim_end_matches p s = rev (trim_start_matches (rev p) (rev s))"

definition socket_active :: "'w runner \<Rightarrow> string \<Rightarrow> 'w \<Rightarrow> bool \<times> 'w" where
  "socket_active runner socket_name w =
     (case runner ''systemctl'' [''show'', socket_name, ''--property=ActiveState'', ''--no-pager''] (Some 60) w of
        (Inr o1, w1) \<Rightarrow> (str_contains (co_stdout o1) ''ActiveState=active'', w1)
      | (Inl _, w1) \<Rightarrow> (False, w1))"

definition get_systemd_service_status ::
    "'w runner \<Rightarrow> string \<Rightarrow> 'w \<Rightarrow> (anyhow, service_status option) result \<times> 'w" where
  "get_systemd_service_status runner name w =
     (case runner ''systemctl''
         [''show'', ''--property=Id,Description,ActiveState,SubState,LoadState,UnitFileState,MainPID'',
          ''--no-pager'', ''--'', name] (Some 60) w of
        (Inl e, w1) \<Rightarrow> (Err e, w1)
      | (Inr o1, w1) \<Rightarrow>
          if \<not> co_success o1 \<or> trim (co_stdout o1) = [] then (Ok None, w1)
          else
            let st = foldl show_step empty_service (str_lines (co_stdout o1)) in
            if ss_load_state st = ''not-found'' \<or> ss_load_state st = ''bad-setting'' \<or> ss_name st = []
            then (Ok None, w1)
            else
              let healthy = (ss_active_state st = ''active'' \<and> ss_sub_state st = ''running'') in
              if \<not> healthy \<and> ss_active_state st = ''inactive'' \<and> ss_enabled_state st = ''enabled'' then
                (let (h, w2) = socket_active runner (trim_end_matches ''.service'' (ss_name st) @ ''.socket'') w1
                 in (Ok (Some (st\<lparr>ss_healthy := h\<rparr>)), w2))
              else (Ok (Some (st\<lparr>ss_healthy := healthy\<rparr>)), w1))"

text \<open>The first line of the status, in lower case, gives the states.\<close>

definition openrc_states :: "string \<Rightarrow> string \<times> string \<times> bool" where
  "openrc_states status_line =
     (if str_contains status_line ''started'' \<or> str_contains status_line ''running''
        then (''active'', ''running'', True)
      else if str_contains status_line ''stopped'' \<or> str_contains status_line ''not running''
        then (''inactive'', ''dead'', False)
      else if str_contains status_line ''crashed'' \<or> str_contains status_line ''failed''
        then (''failed'', ''failed'', False)
      else (''unknown'', ''unknown'', False))"

definition openrc_enabled :: "'w runner \<Rightarrow> string \<Rightarrow> 'w \<Rightarrow> string \<times> 'w" where
  "openrc_enabled runner name w =
     (case runner ''rc-update'' [''show'', ''default''] (Some 60) w of
        (Inr o1, w1) \<Rightarrow>
          (if list_ex (\<lambda>l. starts_with (trim l) name) (str_lines (co_stdout o1))
           then ''enabled'' else ''disabled'', w1)
      | (Inl _, w1) \<Rightarrow> (''unknown'', w1))"

definition get_openrc_service_status ::
    "'w runner \<Rightarrow> string \<Rightarrow> 'w \<Rightarrow> (anyhow, service_status option) result \<times> 'w" where
  "get_openrc_service_status runner name w =
     (case runner ''rc-service'' [name, ''status''] (Some 60) w of
        (Inl e, w1) \<Rightarrow> (Err e, w1)
      | (Inr o1, w1) \<Rightarrow>
          if \<not> co_success o1 then
            (if str_contains (co_stderr o1) ''does not exist'' \<or> str_contains (co_stdout o1) ''does not exist''
             then (Ok None, w1)
             else (Err (anyhow_msg (''rc-service failed: '' @ co_stderr o1)), w1))
          else
            let status_line = to_lowercase (case str_lines (co_stdout o1) of l # _ \<Rightarrow> l | [] \<Rightarrow> []);
                (active_state, sub_state, healthy) = openrc_states status_line;
                (enabled_state, w2) = openrc_enabled runner name w1
            in (Ok (Some \<lparr>ss_name = name, ss_display_name = name, ss_active_state = active_state,
                  ss_sub_state = sub_state, ss_load_state = ''loaded'', ss_enabled_state = enabled_state,
                  ss_main_pid = None, ss_healthy = healthy\<rparr>), w2))"

section \<open>Helper lemmas\<close>

lemma is_ok_validate:
  "is_ok (validate_package_name s) \<longleftrightarrow> s \<noteq> [] \<and> length s \<le> MAX_NAME_LENGTH \<and> is_ascii_alphanumeric (hd s) \<and>
     (\<forall>c \<in> set s. is_ascii_alphanumeric c \<or> c \<in> set ''+._-'')"
  "is_ok (validate_version_string s) \<longleftrightarrow> s \<noteq> [] \<and> length s \<le> MAX_NAME_LENGTH \<and> is_ascii_alphanumeric (hd s) \<and>
     (\<forall>c \<in> set s. is_ascii_alphanumeric c \<or> c \<in> set ''+._-:~'')"
  "is_ok (validate_service_name s) \<longleftrightarrow> s \<noteq> [] \<and> length s \<le> MAX_NAME_LENGTH \<and> is_ascii_alphanumeric (hd s) \<and>
     (\<forall>c \<in> set s. is_ascii_alphanumeric c \<or> c \<in> set ''_.@+-'')"
  unfolding validate_package_name_def validate_version_string_def validate_service_name_def
  by (simp_all add: is_ok_def list_all_iff del: set_simps(2))

text \<open>The version a line of \<open>dpkg -l\<close> contributes, and the fold as a textual maximum.\<close>

definition dpkg_kernel :: "string \<Rightarrow> string option" where
  "dpkg_kernel line =
     (if \<not> starts_with line ''ii  '' then None
      else case split_whitespace line of
        _ # name # _ \<Rightarrow>
          if starts_with name ''linux-image-'' then
            (let ver = trim_start_matches ''linux-image-'' name in
             if str_contains ver ''generic'' \<or> str_contains ver ''virtual'' \<or> str_contains ver ''meta'' then None
             else Some ver)
          else None
      | _ \<Rightarrow> None)"

lemma dpkg_kernel_step_alt:
  "dpkg_kernel_step best line = (case dpkg_kernel line of None \<Rightarrow> best | Some v \<Rightarrow> take_best best v)"
  by (simp add: dpkg_kernel_step_def dpkg_kernel_def Let_def split: list.splits)

lemma foldl_dpkg:
  "foldl dpkg_kernel_step best lines = foldl take_best best (List.map_filter dpkg_kernel lines)"
  by (induction lines arbitrary: best) (simp_all add: dpkg_kernel_step_alt map_filter_simps split: option.splits)

lemma str_less_irrefl [simp]: "\<not> str_less s s"
  by (induction s) auto

lemma str_less_trans: "str_less a b \<Longrightarrow> str_less b c \<Longrightarrow> str_less a c"
proof (induction a b arbitrary: c rule: str_less.induct)
  case (2 d t)
  then show ?case by (cases c) auto
next
  case (4 x s y t)
  then show ?case by (cases c) auto
qed auto

lemma str_less_linear: "str_less a b \<or> a = b \<or> str_less b a"
  by (induction a b rule: str_less.induct) (auto simp: linorder_neq_iff)

lemma foldl_kernel_max:
  "foldl take_best best vs = Some m \<Longrightarrow>
     (m \<in> set vs \<or> best = Some m) \<and> (\<forall>v \<in> set vs. \<not> str_less m v) \<and>
     (\<forall>b. best = Some b \<longrightarrow> \<not> str_less m b)"
proof (induction vs arbitrary: best)
  case (Cons v vs)
  from Cons.IH [of "take_best best v"] Cons.prems
  have ih: "m \<in> set vs \<or> take_best best v = Some m" "\<forall>v \<in> set vs. \<not> str_less m v"
    "\<forall>b. take_best best v = Some b \<longrightarrow> \<not> str_less m b" by simp_all
  have "\<not> str_less m v \<and> (\<forall>b. best = Some b \<longrightarrow> \<not> str_less m b)"
  proof (cases best)
    case None
    with ih(3) show ?thesis by (simp add: take_best_def)
  next
    case (Some b)
    with ih(3) str_less_trans [of m v b] str_less_trans [of m b v] str_less_linear [of b v] show ?thesis
      by (auto simp: take_best_def split: if_splits)
  qed
  with ih(1,2) show ?case by (auto simp: take_best_def split: option.splits if_splits)
qed simp

context command_runner begin

lemma needs_restarting_never: "fst (needs_restarting runner h w) = False"
  using not_success by (auto simp: needs_restarting_def split: prod.splits sum.splits)

lemma openrc_missing_is_error:
  "fst (get_openrc_service_status runner name w) \<noteq> Inr None"
  using not_success [of "''rc-service''" "[name, ''status'']" "Some 60" w]
  by (auto simp: get_openrc_service_status_def co_success_def Let_def split: prod.splits sum.splits)

end

section \<open>Properties\<close>

text \<open>Input validation. A name or version that passes a validator is at most 256 bytes long, is no
  option (it does not start with a hyphen), and has no white space, path separator, quote or shell
  metacharacter.\<close>

theorem validated_text_safe:
  assumes "is_ok (validate_package_name s) \<or> is_ok (validate_version_string s) \<or> is_ok (validate_service_name s)"
  shows "0 < length s \<and> length s \<le> 256 \<and> hd s \<noteq> CHR ''-'' \<and>
    (\<forall>c \<in> set s. \<not> is_whitespace c \<and> c \<notin> set '' /;&|$`()<>*?![]{}'' \<and> c \<noteq> CHR 0x5C \<and> c \<noteq> CHR 0x22 \<and>
       c \<noteq> CHR 0x27 \<and> c \<noteq> CHR 0x00 \<and> 32 < byte c \<and> byte c < 127)"
proof -
  have s: "s \<noteq> []" "length s \<le> MAX_NAME_LENGTH" "is_ascii_alphanumeric (hd s)"
    "\<forall>c \<in> set s. is_ascii_alphanumeric c \<or> c \<in> set ''+._-:~@''"
    using assms unfolding is_ok_validate by auto
  have "hd s \<noteq> CHR ''-''" using s(3) by (auto simp: is_ascii_alphanumeric_def is_upper_c_def is_lower_c_def is_digit_c_def)
  moreover have "\<not> is_whitespace c \<and> c \<notin> set '' /;&|$`()<>*?![]{}'' \<and> c \<noteq> CHR 0x5C \<and> c \<noteq> CHR 0x22 \<and>
       c \<noteq> CHR 0x27 \<and> c \<noteq> CHR 0x00 \<and> 32 < byte c \<and> byte c < 127" if "c \<in> set s" for c
    using s(4) that
    by (auto simp: is_ascii_alphanumeric_def is_upper_c_def is_lower_c_def is_digit_c_def is_whitespace_def)
  ultimately show ?thesis using s(1,2) by (simp add: MAX_NAME_LENGTH_def)
qed

theorem validated_text_safe_witness: "hd ''libssl3'' \<noteq> CHR ''-'' \<and> is_ok (validate_package_name ''libssl3'')"
proof -
  have "is_ok (validate_package_name ''libssl3'')" by code_simp
  with validated_text_safe [of "''libssl3''"] show ?thesis by blast
qed

text \<open>Reboot detection with the real runner. \<open>dnf needs-restarting -r\<close> signals a needed reboot by
  exit code 1, which the runner turns into an error, so the branch that tests for it is dead: with
  no marker file the answer is the comparison of the kernels alone.\<close>

theorem needs_restarting_dead:
  assumes "\<not> he_reboot_required h" and "\<not> he_boot_reboot_required h"
  shows "check_pending_reboot (sys_run os) h w =
    kernel_differs (sys_run os) h (snd (needs_restarting (sys_run os) h w))"
  using sys.needs_restarting_never [of os h w] assms
  by (cases "needs_restarting (sys_run os) h w") (simp add: check_pending_reboot_def)

definition demo_env :: host_env where
  "demo_env = \<lparr>he_reboot_required = False, he_boot_reboot_required = False,
     he_available = (\<lambda>c. c = ''dnf''), he_environ = None, he_cgroup = None, he_dockerenv = False,
     he_containerenv = False, he_uname = None, he_os_release = None\<rparr>"

theorem needs_restarting_dead_witness:
  "fst (check_pending_reboot (sys_run (\<lambda>p as w. (Exited (Some 1) [] [], w))) demo_env ()) = False"
  using needs_restarting_dead [of demo_env "\<lambda>p as w. (Exited (Some 1) [] [], w)" "()"]
  by (simp add: demo_env_def kernel_differs_def get_installed_kernel_version_def kernel_source_def
      split: prod.splits)

text \<open>A delayed reboot is never early and less than a minute late: the minutes given to
  \<open>shutdown\<close> cover the requested seconds.\<close>

theorem reboot_delay_covers:
  assumes "0 < delay"
  shows "\<exists>m. reboot_command delay = (''shutdown'', [''-r'', ''+'' @ show_nat m]) \<and>
     delay \<le> 60 * m \<and> 60 * m < delay + 60"
proof -
  obtain q r where q: "q = delay div 60" and r: "r = delay mod 60" by blast
  have sum: "q * 60 + r = delay" unfolding q r by (rule div_mult_mod_eq)
  have "r < 60" unfolding r by simp
  have ceil: "div_ceil delay 60 = q + (if r > 0 then 1 else 0)" by (simp add: div_ceil_def q r)
  have "delay \<le> 60 * max 1 (div_ceil delay 60)" "60 * max 1 (div_ceil delay 60) < delay + 60"
    using assms sum \<open>r < 60\<close> unfolding ceil by (auto simp: max_def split: if_splits)
  then show ?thesis using assms by (auto simp: reboot_command_def)
qed

theorem reboot_delay_covers_witness:
  "\<exists>m. reboot_command 61 = (''shutdown'', [''-r'', ''+'' @ show_nat m]) \<and> 61 \<le> 60 * m \<and> 60 * m < 121"
  using reboot_delay_covers [of 61] by simp

text \<open>OpenRC services. A service reported as "not running" contains the word "running" and is
  classified as active and healthy; and with the real runner the answer "no such service" is never
  given: a failing \<open>rc-service\<close> is always an error.\<close>

theorem openrc_not_running_is_healthy:
  "openrc_states (pre @ ''not running'' @ post) = (''active'', ''running'', True) \<and>
   fst (get_openrc_service_status (sys_run os) name w) \<noteq> Inr None"
proof
  have "str_contains (pre @ ''not '' @ ''running'' @ post) ''running''"
    unfolding str_contains_iff by (metis append.assoc)
  then show "openrc_states (pre @ ''not running'' @ post) = (''active'', ''running'', True)"
    by (simp add: openrc_states_def)
  show "fst (get_openrc_service_status (sys_run os) name w) \<noteq> Inr None"
    by (rule sys.openrc_missing_is_error)
qed

text \<open>Versions are compared as texts. The installed kernel that \<open>dpkg -l\<close> yields is the greatest
  listed image version in the byte order of strings, whatever the order of the lines. (So 6.1.0-9
  wins over 6.1.0-10, and a machine that runs the newer kernel is reported to need a reboot.)\<close>

theorem kernel_order_is_textual:
  assumes "foldl dpkg_kernel_step None lines = Some best"
  shows "best \<in> set (List.map_filter dpkg_kernel lines) \<and>
    (\<forall>v \<in> set (List.map_filter dpkg_kernel lines). \<not> str_less best v)"
  using foldl_kernel_max [of None "List.map_filter dpkg_kernel lines" best] assms unfolding foldl_dpkg by auto

theorem kernel_order_is_textual_witness:
  "foldl dpkg_kernel_step None
     [''ii  linux-image-6.1.0-10-amd64 6.1.38 amd64'', ''ii  linux-image-6.1.0-9-amd64 6.1.27 amd64'']
     = Some ''6.1.0-9-amd64'' \<and> \<not> str_less ''6.1.0-9-amd64'' ''6.1.0-10-amd64''"
proof -
  let ?ls = "[''ii  linux-image-6.1.0-10-amd64 6.1.38 amd64'', ''ii  linux-image-6.1.0-9-amd64 6.1.27 amd64'']"
  have "foldl dpkg_kernel_step None ?ls = Some ''6.1.0-9-amd64''" by code_simp
  moreover have "List.map_filter dpkg_kernel ?ls = [''6.1.0-10-amd64'', ''6.1.0-9-amd64'']" by code_simp
  ultimately show ?thesis using kernel_order_is_textual [of ?ls "''6.1.0-9-amd64''"] by simp
qed

end
