(* ===== verification/Sorting.thy ===== *)
theory Sorting imports System "HOL-Library.Multiset" begin

text \<open>
  \<open>slice::sort_by\<close> and \<open>sort\<close> of Rust's standard library: a stable sort, shown to permute its list, to
  sort it and to keep the order of elements that compare equal; and the order of strings.
\<close>

section \<open>Stable sorting\<close>

text \<open>\<open>slice::sort_by\<close> is stable; \<open>le a b\<close> stands for a comparison that is not \<open>Greater\<close>.\<close>

fun insert_by :: "('a \<Rightarrow> 'a \<Rightarrow> bool) \<Rightarrow> 'a \<Rightarrow> 'a list \<Rightarrow> 'a list" where
  "insert_by le x [] = [x]"
| "insert_by le x (y # ys) = (if le x y then x # y # ys else y # insert_by le x ys)"

definition sort_by :: "('a \<Rightarrow> 'a \<Rightarrow> bool) \<Rightarrow> 'a list \<Rightarrow> 'a list" where
  "sort_by le xs = foldr (insert_by le) xs []"

text \<open>\<open>Vec<String>::sort\<close> compares bytes.\<close>

definition str_le :: "string \<Rightarrow> string \<Rightarrow> bool" where
  "str_le a b = (\<not> str_less b a)"

section \<open>Lemmas\<close>

lemma mset_insert_by: "mset (insert_by le x xs) = add_mset x (mset xs)"
  by (induction xs) simp_all

lemma mset_sort_by: "mset (sort_by le xs) = mset xs"
  by (induction xs) (simp_all add: sort_by_def mset_insert_by)

lemma set_insert_by [simp]: "set (insert_by le x xs) = insert x (set xs)"
  by (metis mset_insert_by set_mset_add_mset_insert set_mset_mset)

lemma sorted_insert_by:
  assumes total: "\<And>a b. le a b \<or> le b a" and trans: "\<And>a b c. le a b \<Longrightarrow> le b c \<Longrightarrow> le a c"
  shows "sorted_wrt le xs \<Longrightarrow> sorted_wrt le (insert_by le x xs)"
proof (induction xs)
  case (Cons y ys)
  show ?case
  proof (cases "le x y")
    case True
    with Cons.prems trans show ?thesis by auto
  next
    case False
    with total have "le y x" by blast
    with False Cons show ?thesis by auto
  qed
qed simp

lemma sorted_sort_by:
  assumes "\<And>a b. le a b \<or> le b a" and "\<And>a b c. le a b \<Longrightarrow> le b c \<Longrightarrow> le a c"
  shows "sorted_wrt le (sort_by le xs)"
  by (induction xs) (simp_all add: sort_by_def sorted_insert_by [OF assms])

lemma filter_insert_by:
  assumes "\<And>y. P x \<Longrightarrow> P y \<Longrightarrow> le x y"
  shows "filter P (insert_by le x xs) = filter P (x # xs)"
  using assms by (induction xs) auto

lemma filter_sort_by:
  assumes "\<And>x y. P x \<Longrightarrow> P y \<Longrightarrow> le x y"
  shows "filter P (sort_by le xs) = filter P xs"
proof (induction xs)
  case (Cons x xs)
  then show ?case
    using filter_insert_by [of P x le "foldr (insert_by le) xs []"] assms by (simp add: sort_by_def)
qed (simp add: sort_by_def)

lemma str_less_total: "\<not> str_less b a \<or> \<not> str_less a b"
  using str_less_trans [of a b a] by auto

lemma str_less_neg_trans: "\<not> str_less b a \<Longrightarrow> \<not> str_less c b \<Longrightarrow> \<not> str_less c a"
  using str_less_linear [of a b] str_less_linear [of b c] str_less_trans by metis

end
