(* ===== verification/Files.thy ===== *)
theory Files imports Error_Utils begin

text \<open>
  The calls of \<open>std::fs\<close> and \<open>std::path\<close> the enrollment code makes, on a store of files and
  directories. Every call may fail: \<open>fs_fault n\<close> is the error of the \<open>n\<close>-th call, if it has one, so
  a theorem for all stores covers a failure at every point of an operation. A call that fails
  changes nothing, except that a failed \<open>fs::write\<close> may have truncated its file. Reading a file
  as text fails when its bytes are not UTF-8, which \<open>fs_text\<close> decides.
\<close>

section \<open>The store\<close>

record fs =
  fs_files :: "(string, string \<times> nat) hashmap"   \<comment> \<open>content and permission bits\<close>
  fs_dirs :: "string list"
  fs_text :: "string \<Rightarrow> bool"
  fs_fault :: "nat \<Rightarrow> string option"
  fs_calls :: nat

type_synonym 'a io = "fs \<Rightarrow> (anyhow, 'a) result \<times> fs"

definition mode_0600 :: nat where "mode_0600 = 384"
definition mode_0644 :: nat where "mode_0644 = 420"

definition io_ok :: "'a \<Rightarrow> 'a io" where
  "io_ok a s = (Ok a, s)"

definition io_err :: "anyhow \<Rightarrow> 'a io" where
  "io_err e s = (Err e, s)"

text \<open>The \<open>?\<close> operator, and \<open>with_context\<close> on a call.\<close>

definition io_then :: "'a io \<Rightarrow> ('a \<Rightarrow> 'b io) \<Rightarrow> 'b io" where
  "io_then m f s = (case m s of (Inl e, s1) \<Rightarrow> (Inl e, s1) | (Inr a, s1) \<Rightarrow> f a s1)"

definition io_context :: "string \<Rightarrow> 'a io \<Rightarrow> 'a io" where
  "io_context msg m s = (case m s of (Inl e, s1) \<Rightarrow> (Inl (add_context msg e), s1) | (Inr a, s1) \<Rightarrow> (Inr a, s1))"

definition io_call :: "(fs \<Rightarrow> (string, 'a \<times> fs) result) \<Rightarrow> 'a io" where
  "io_call act s =
     (let s1 = s\<lparr>fs_calls := Suc (fs_calls s)\<rparr> in
      case fs_fault s (fs_calls s) of
        Some e \<Rightarrow> (Err (anyhow_msg e), s1)
      | None \<Rightarrow> (case act s1 of Inl e \<Rightarrow> (Err (anyhow_msg e), s1) | Inr (a, s2) \<Rightarrow> (Ok a, s2)))"

definition file_at :: "fs \<Rightarrow> string \<Rightarrow> (string \<times> nat) option" where
  "file_at s p = map_of (fs_files s) p"

definition path_exists :: "fs \<Rightarrow> string \<Rightarrow> bool" where
  "path_exists s p = (file_at s p \<noteq> None \<or> List.member (fs_dirs s) p)"

definition put_file :: "string \<Rightarrow> string \<times> nat \<Rightarrow> fs \<Rightarrow> fs" where
  "put_file p c s = s\<lparr>fs_files := AList.update p c (fs_files s)\<rparr>"

definition drop_file :: "string \<Rightarrow> fs \<Rightarrow> fs" where
  "drop_file p s = s\<lparr>fs_files := AList.delete p (fs_files s)\<rparr>"

section \<open>Calls\<close>

text \<open>\<open>create_dir_all\<close>, \<open>metadata\<close> and \<open>set_permissions\<close> of a directory.\<close>

definition fs_mkdir :: "string \<Rightarrow> unit io" where
  "fs_mkdir d = io_call (\<lambda>s. Ok ((), if d = [] then s else s\<lparr>fs_dirs := List.insert d (fs_dirs s)\<rparr>))"

definition fs_stat :: "string \<Rightarrow> unit io" where
  "fs_stat p = io_call (\<lambda>s. if path_exists s p then Ok ((), s) else Err ''No such file or directory'')"

definition fs_chmod_dir :: "string \<Rightarrow> unit io" where
  "fs_chmod_dir d = io_call (\<lambda>s. if path_exists s d then Ok ((), s) else Err ''No such file or directory'')"

definition fs_chmod :: "string \<Rightarrow> nat \<Rightarrow> unit io" where
  "fs_chmod p mode = io_call (\<lambda>s. case file_at s p of
      None \<Rightarrow> Err ''No such file or directory''
    | Some (c, _) \<Rightarrow> Ok ((), put_file p (c, mode) s))"

definition fs_copy :: "string \<Rightarrow> string \<Rightarrow> unit io" where
  "fs_copy a b = io_call (\<lambda>s. case file_at s a of
      None \<Rightarrow> Err ''No such file or directory''
    | Some c \<Rightarrow> Ok ((), put_file b c s))"

text \<open>\<open>OpenOptions\<close> with \<open>create_new\<close>: an existing file is an error.\<close>

definition fs_create_new :: "string \<Rightarrow> nat \<Rightarrow> unit io" where
  "fs_create_new p mode = io_call (\<lambda>s.
      if path_exists s p then Err ''File exists'' else Ok ((), put_file p ([], mode) s))"

definition fs_write_all :: "string \<Rightarrow> string \<Rightarrow> unit io" where
  "fs_write_all p data = io_call (\<lambda>s. case file_at s p of
      None \<Rightarrow> Ok ((), s)
    | Some (c, mode) \<Rightarrow> Ok ((), put_file p (c @ data, mode) s))"

definition fs_flush :: "unit io" where
  "fs_flush = io_call (\<lambda>s. Ok ((), s))"

definition fs_rename :: "string \<Rightarrow> string \<Rightarrow> unit io" where
  "fs_rename a b = io_call (\<lambda>s. case file_at s a of
      None \<Rightarrow> Err ''No such file or directory''
    | Some c \<Rightarrow> Ok ((), put_file b c (drop_file a s)))"

text \<open>\<open>fs::write\<close>: open (creating with mode 0644 or truncating), then write.\<close>

definition fs_write :: "string \<Rightarrow> string \<Rightarrow> unit io" where
  "fs_write p data =
     io_then (io_call (\<lambda>s. Ok ((), put_file p ([], case file_at s p of Some (_, m) \<Rightarrow> m | None \<Rightarrow> mode_0644) s)))
       (\<lambda>_. fs_write_all p data)"

definition read_to_string :: "string \<Rightarrow> string io" where
  "read_to_string p = io_call (\<lambda>s. case file_at s p of
      None \<Rightarrow> Err ''No such file or directory''
    | Some (c, _) \<Rightarrow> if fs_text s c then Ok (c, s) else Err ''stream did not contain valid UTF-8'')"

section \<open>Paths\<close>

definition path_parent :: "string \<Rightarrow> string" where
  "path_parent p = (case rsplit_once CHR ''/'' p of
      None \<Rightarrow> [] | Some (d, _) \<Rightarrow> if d = [] then ''/'' else d)"

definition file_name :: "string \<Rightarrow> string" where
  "file_name p = (case rsplit_once CHR ''/'' p of None \<Rightarrow> p | Some (_, n) \<Rightarrow> n)"

definition file_stem :: "string \<Rightarrow> string" where
  "file_stem p = (let n = file_name p in
     case rsplit_once CHR ''.'' n of None \<Rightarrow> n | Some (a, _) \<Rightarrow> if a = [] then n else a)"

definition with_extension :: "string \<Rightarrow> string \<Rightarrow> string" where
  "with_extension p ext =
     (case rsplit_once CHR ''/'' p of
        None \<Rightarrow> file_stem p @ ''.'' @ ext
      | Some (d, _) \<Rightarrow> d @ ''/'' @ file_stem p @ ''.'' @ ext)"

section \<open>Lemmas\<close>

named_theorems io_defs \<open>the calls on the store\<close>

lemmas io_call_defs [io_defs] = fs_mkdir_def fs_stat_def fs_chmod_dir_def fs_chmod_def fs_copy_def
  fs_create_new_def fs_write_all_def fs_flush_def fs_rename_def fs_write_def read_to_string_def

lemma file_at_put [simp]: "file_at (put_file p c s) q = (if q = p then Some c else file_at s q)"
  by (simp add: file_at_def put_file_def update_conv')

lemma file_at_drop [simp]: "file_at (drop_file p s) q = (if q = p then None else file_at s q)"
  by (simp add: file_at_def drop_file_def delete_conv')

lemma file_at_update [simp]:
  "file_at (s\<lparr>fs_calls := n\<rparr>) q = file_at s q" "file_at (s\<lparr>fs_dirs := d\<rparr>) q = file_at s q"
  by (simp_all add: file_at_def)

lemma put_drop_fields [simp]:
  "fs_dirs (put_file p c s) = fs_dirs s" "fs_dirs (drop_file p s) = fs_dirs s"
  "fs_fault (put_file p c s) = fs_fault s" "fs_fault (drop_file p s) = fs_fault s"
  "fs_calls (put_file p c s) = fs_calls s" "fs_calls (drop_file p s) = fs_calls s"
  "fs_text (put_file p c s) = fs_text s" "fs_text (drop_file p s) = fs_text s"
  by (simp_all add: put_file_def drop_file_def)

lemma io_then_Ok: "m s = (Inr a, s1) \<Longrightarrow> io_then m f s = f a s1"
  by (simp add: io_then_def)

lemma io_then_Err: "m s = (Inl e, s1) \<Longrightarrow> io_then m f s = (Inl e, s1)"
  by (simp add: io_then_def)

lemma io_context_state [simp]: "snd (io_context msg m s) = snd (m s)"
  by (simp add: io_context_def split: prod.splits sum.splits)

lemma io_context_ok [simp]: "is_ok (fst (io_context msg m s)) = is_ok (fst (m s))"
  by (simp add: io_context_def split: prod.splits sum.splits)

text \<open>An operation that never touches a file, up to a set of paths it may write.\<close>

definition writes_only :: "string set \<Rightarrow> 'a io \<Rightarrow> bool" where
  "writes_only P m \<longleftrightarrow> (\<forall>s q. q \<notin> P \<longrightarrow> file_at (snd (m s)) q = file_at s q)"

lemma writes_only_then:
  assumes "writes_only P m" and "\<And>a. writes_only P (f a)"
  shows "writes_only P (io_then m f)"
proof -
  have "file_at (snd (io_then m f s)) q = file_at s q" if "q \<notin> P" for s q
  proof (cases "m s")
    case (Pair r s1)
    then have "file_at s1 q = file_at s q" using assms(1) that unfolding writes_only_def by (metis snd_conv)
    moreover have "file_at (snd (f a s1)) q = file_at s1 q" for a
      using assms(2) [of a] that unfolding writes_only_def by blast
    ultimately show ?thesis using Pair by (cases r) (simp_all add: io_then_def)
  qed
  then show ?thesis by (simp add: writes_only_def)
qed

lemma writes_only_context [simp]: "writes_only P (io_context msg m) = writes_only P m"
  by (simp add: writes_only_def)

lemma writes_only_ok [simp]: "writes_only P (io_ok a)" "writes_only P (io_err e)"
  by (simp_all add: writes_only_def io_ok_def io_err_def)

lemma writes_only_call:
  assumes "\<And>s a s2 q. act s = Inr (a, s2) \<Longrightarrow> q \<notin> P \<Longrightarrow> file_at s2 q = file_at s q"
  shows "writes_only P (io_call act)"
  using assms unfolding writes_only_def io_call_def Let_def
  by (fastforce split: option.splits sum.splits)

lemma writes_only_calls [simp]:
  "writes_only P (fs_mkdir d)" "writes_only P (fs_stat p)" "writes_only P (fs_chmod_dir p)"
  "writes_only P fs_flush" "writes_only P (read_to_string p)"
  "p \<in> P \<Longrightarrow> writes_only P (fs_chmod p m)" "p \<in> P \<Longrightarrow> writes_only P (fs_copy a p)"
  "p \<in> P \<Longrightarrow> writes_only P (fs_create_new p m)" "p \<in> P \<Longrightarrow> writes_only P (fs_write_all p data)"
  "a \<in> P \<Longrightarrow> p \<in> P \<Longrightarrow> writes_only P (fs_rename a p)"
  unfolding io_call_defs by (rule writes_only_call; auto split: if_splits option.splits)+

lemma writes_only_write [simp]: "p \<in> P \<Longrightarrow> writes_only P (fs_write p data)"
  unfolding fs_write_def by (rule writes_only_then, rule writes_only_call) auto

lemma fs_write_fault [simp]: "fs_fault (snd (fs_write p d s)) = fs_fault s"
  by (auto simp: fs_write_def fs_write_all_def io_then_def io_call_def Let_def split: option.splits)

text \<open>What \<open>fs::write\<close> does to its file.\<close>

lemma fs_write_outcome:
  "is_ok (fst (fs_write p d s)) \<longleftrightarrow> fs_fault s (fs_calls s) = None \<and> fs_fault s (Suc (fs_calls s)) = None"
  "map_option fst (file_at (snd (fs_write p d s)) q) =
     (if q \<noteq> p \<or> fs_fault s (fs_calls s) \<noteq> None then map_option fst (file_at s q)
      else if fs_fault s (Suc (fs_calls s)) \<noteq> None then Some [] else Some d)"
  by (auto simp: fs_write_def fs_write_all_def io_then_def io_call_def Let_def split: option.splits)

end
