(* ===== verification/Middleware.thy ===== *)
theory Middleware imports Whitelist begin

text \<open>
  The request pipeline: \<open>src/api/rate_limit.rs\<close>, \<open>src/auth/security_headers.rs\<close>, the service of
  \<open>src/auth/whitelist.rs\<close>, \<open>AuthResult\<close> of \<open>src/auth/mod.rs\<close>, and their composition in
  \<open>src/main.rs\<close>. \<open>App::wrap\<close> of the \<open>actix-web\<close> crate makes the middleware that is registered
  last the outermost one.

  The token buckets are the \<open>governor\<close> crate's: \<open>check_key\<close> is an argument that gives the new bucket
  state and, on refusal, the seconds to wait. A service maps a request and a state to an outcome and a
  new state; the contract of a middleware is the locale \<open>middleware\<close>.
\<close>

section \<open>Requests\<close>

datatype http_method = GET | POST | PUT | DELETE | OtherMethod string

record http_request =
  rq_method :: http_method
  rq_path :: string
  rq_peer :: "socket_addr option"
  rq_headers :: "(string \<times> string) list"
  rq_query :: string
  rq_body :: string

datatype 'r outcome =
    Handled 'r
  | Forbidden string
  | BadRequest string
  | TooManyRequests nat   \<comment> \<open>\<open>Retry-After\<close>\<close>

type_synonym ('s, 'r) service = "http_request \<Rightarrow> 's \<Rightarrow> 'r outcome \<times> 's"

section \<open>security_headers.rs\<close>

definition CRITICAL_HEADERS :: "string list" where
  "CRITICAL_HEADERS = [''content-type'', ''authorization'', ''host'']"

definition eq_ignore_ascii_case :: "string \<Rightarrow> string \<Rightarrow> bool" where
  "eq_ignore_ascii_case a b = (to_lowercase a = to_lowercase b)"

fun count_exceeds_one :: "string \<Rightarrow> nat \<Rightarrow> (string \<times> string) list \<Rightarrow> bool" where
  "count_exceeds_one h n [] = False"
| "count_exceeds_one h n ((name, v) # hs) =
     (if eq_ignore_ascii_case name h
      then (if n + 1 > 1 then True else count_exceeds_one h (n + 1) hs)
      else count_exceeds_one h n hs)"

definition has_duplicate_critical_headers :: "(string \<times> string) list \<Rightarrow> bool" where
  "has_duplicate_critical_headers headers =
     list_ex (\<lambda>h. count_exceeds_one h 0 headers) CRITICAL_HEADERS"

definition security_headers :: "('s, 'r) service \<Rightarrow> ('s, 'r) service" where
  "security_headers service req s =
     (if has_duplicate_critical_headers (rq_headers req)
      then (BadRequest ''Duplicate critical headers not allowed'', s)
      else service req s)"

section \<open>The whitelist service\<close>

definition WHITELIST_EXEMPT_PATHS :: "string list" where
  "WHITELIST_EXEMPT_PATHS = [''/health'', ''/api/v1/system/info'']"

definition whitelist_service :: "whitelist_entry list \<Rightarrow> ('s, 'r) service \<Rightarrow> ('s, 'r) service" where
  "whitelist_service entries service req s =
     (if rq_path req \<in> set WHITELIST_EXEMPT_PATHS then service req s
      else case rq_peer req of
        Some addr \<Rightarrow>
          if is_socket_allowed entries addr then service req s
          else (Forbidden ''IP address not in whitelist'', s)
      | None \<Rightarrow> (Forbidden ''IP address not available - denied by policy'', s))"

section \<open>rate_limit.rs\<close>

definition EXEMPT_PATHS :: "string list" where
  "EXEMPT_PATHS = [''/health'', ''/api/v1/system/info'']"

record rate_limit_config =
  rlc_enabled :: bool
  rlc_destructive_per_minute :: nat
  rlc_destructive_burst :: nat
  rlc_read_per_minute :: nat
  rlc_read_burst :: nat

record 'g rate_limiters =
  rl_destructive :: 'g
  rl_read :: 'g
  rl_enabled :: bool

text \<open>\<open>NonZeroU32::new(0).unwrap()\<close> panics: \<open>None\<close>.\<close>

definition new_rate_limiters :: "(nat \<Rightarrow> nat \<Rightarrow> 'g) \<Rightarrow> rate_limit_config \<Rightarrow> 'g rate_limiters option" where
  "new_rate_limiters keyed c =
     (if rlc_destructive_per_minute c = 0 \<or> rlc_destructive_burst c = 0
         \<or> rlc_read_per_minute c = 0 \<or> rlc_read_burst c = 0 then None
      else Some \<lparr>rl_destructive = keyed (rlc_destructive_per_minute c) (rlc_destructive_burst c),
                 rl_read = keyed (rlc_read_per_minute c) (rlc_read_burst c),
                 rl_enabled = rlc_enabled c\<rparr>)"

text \<open>The result is the error's \<open>retry_after_secs\<close>, if any.\<close>

definition check_rate ::
    "('g \<Rightarrow> ip_addr \<Rightarrow> nat option \<times> 'g) \<Rightarrow> http_method \<Rightarrow> string \<Rightarrow> ip_addr
     \<Rightarrow> 'g rate_limiters \<Rightarrow> nat option \<times> 'g rate_limiters" where
  "check_rate check_key meth path peer_ip l =
     (if \<not> rl_enabled l then (None, l)
      else if path \<in> set EXEMPT_PATHS then (None, l)
      else case meth of
        GET \<Rightarrow> (let (r, g) = check_key (rl_read l) peer_ip
                in (map_option (max 1) r, l\<lparr>rl_read := g\<rparr>))
      | OtherMethod _ \<Rightarrow> (let (r, g) = check_key (rl_read l) peer_ip
                in (map_option (max 1) r, l\<lparr>rl_read := g\<rparr>))
      | _ \<Rightarrow> (let (r, g) = check_key (rl_destructive l) peer_ip
                in (map_option (max 1) r, l\<lparr>rl_destructive := g\<rparr>)))"

record ('g, 'a) server =
  sv_limiters :: "'g rate_limiters"
  sv_app :: 'a

definition rate_limit ::
    "('g \<Rightarrow> ip_addr \<Rightarrow> nat option \<times> 'g) \<Rightarrow> (('g, 'a) server, 'r) service \<Rightarrow> (('g, 'a) server, 'r) service" where
  "rate_limit check_key service req s =
     (case rq_peer req of
        None \<Rightarrow> service req s
      | Some addr \<Rightarrow>
          (let (r, l) = check_rate check_key (rq_method req) (rq_path req) (sa_ip addr) (sv_limiters s);
               s1 = s\<lparr>sv_limiters := l\<rparr>
           in case r of Some secs \<Rightarrow> (TooManyRequests secs, s1) | None \<Rightarrow> service req s1))"

text \<open>The answer actix makes of a refusal: status, headers and body.\<close>

definition rate_limit_error_text :: "nat \<Rightarrow> string" where
  "rate_limit_error_text secs = ''Rate limit exceeded. Retry after '' @ show_nat secs @ '' seconds.''"

fun refusal :: "'r outcome \<Rightarrow> (nat \<times> (string \<times> string) list \<times> string) option" where
  "refusal (TooManyRequests secs) =
     Some (429, [(''Retry-After'', show_nat secs), (''Content-Type'', ''text/plain; charset=utf-8'')], rate_limit_error_text secs)"
| "refusal (Forbidden msg) = Some (403, [], msg)"
| "refusal (BadRequest msg) = Some (400, [], msg)"
| "refusal (Handled r) = None"

section \<open>The application of main.rs\<close>

definition app_service ::
    "('g \<Rightarrow> ip_addr \<Rightarrow> nat option \<times> 'g) \<Rightarrow> whitelist_entry list
     \<Rightarrow> (('g, 'a) server, 'r) service \<Rightarrow> (('g, 'a) server, 'r) service" where
  "app_service check_key entries handler =
     rate_limit check_key (security_headers (whitelist_service entries handler))"

section \<open>auth/mod.rs\<close>

record auth_result =
  ar_mtls_valid :: bool
  ar_ip_allowed :: bool

definition is_authenticated :: "auth_result \<Rightarrow> bool" where
  "is_authenticated r = (ar_mtls_valid r \<and> ar_ip_allowed r)"

section \<open>The contract of a middleware\<close>

text \<open>A middleware looks at the request and its own part of the state: either it answers alone, or it
  passes the request on; it never changes the application's part (\<open>view\<close>) itself.\<close>

locale middleware =
  fixes mw :: "('s, 'r) service \<Rightarrow> ('s, 'r) service"
    and gate :: "http_request \<Rightarrow> 's \<Rightarrow> 'r outcome option \<times> 's"
    and view :: "'s \<Rightarrow> 'v"
  assumes law: "mw h req s = (case gate req s of (Some r, s') \<Rightarrow> (r, s') | (None, s') \<Rightarrow> h req s')"
    and app_frame: "view (snd (gate req s)) = view s"
    and refuses: "fst (gate req s) \<noteq> Some (Handled x)"
begin

lemma pass: "fst (gate req s) = None \<Longrightarrow> mw h req s = h req (snd (gate req s))"
  by (cases "gate req s") (simp add: law)

lemma refuse: "fst (gate req s) = Some r \<Longrightarrow> mw h req s = (r, snd (gate req s))"
  by (cases "gate req s") (simp add: law)

lemma passed_or_refused:
  "(\<exists>s'. view s' = view s \<and> mw h req s = h req s') \<or>
   (view (snd (mw h req s)) = view s \<and> (\<forall>x. fst (mw h req s) \<noteq> Handled x))"
proof (cases "fst (gate req s)")
  case None
  then show ?thesis using pass [OF None, of h] app_frame [of req s] by blast
next
  case (Some r)
  then have "r \<noteq> Handled x" for x using refuses [of req s x] by auto
  then show ?thesis using refuse [OF Some, of h] app_frame [of req s] by auto
qed

end

definition headers_gate :: "http_request \<Rightarrow> 's \<Rightarrow> 'r outcome option \<times> 's" where
  "headers_gate req s =
     (if has_duplicate_critical_headers (rq_headers req)
      then Some (BadRequest ''Duplicate critical headers not allowed'') else None, s)"

definition whitelist_gate :: "whitelist_entry list \<Rightarrow> http_request \<Rightarrow> 's \<Rightarrow> 'r outcome option \<times> 's" where
  "whitelist_gate entries req s =
     (if rq_path req \<in> set WHITELIST_EXEMPT_PATHS then None
      else case rq_peer req of
        Some addr \<Rightarrow> if is_socket_allowed entries addr then None
                     else Some (Forbidden ''IP address not in whitelist'')
      | None \<Rightarrow> Some (Forbidden ''IP address not available - denied by policy''), s)"

definition rate_gate ::
    "('g \<Rightarrow> ip_addr \<Rightarrow> nat option \<times> 'g) \<Rightarrow> http_request \<Rightarrow> ('g, 'a) server
     \<Rightarrow> 'r outcome option \<times> ('g, 'a) server" where
  "rate_gate check_key req s =
     (case rq_peer req of
        None \<Rightarrow> (None, s)
      | Some addr \<Rightarrow>
          (let (r, l) = check_rate check_key (rq_method req) (rq_path req) (sa_ip addr) (sv_limiters s)
           in (map_option TooManyRequests r, s\<lparr>sv_limiters := l\<rparr>)))"

interpretation headers_mw: middleware security_headers headers_gate sv_app
  by unfold_locales (auto simp: security_headers_def headers_gate_def)

interpretation whitelist_mw: middleware "whitelist_service entries" "whitelist_gate entries" sv_app
  for entries
  by unfold_locales (auto simp: whitelist_service_def whitelist_gate_def split: option.splits)

interpretation rate_mw: middleware "rate_limit check_key" "rate_gate check_key" sv_app for check_key
  by unfold_locales (auto simp: rate_limit_def rate_gate_def Let_def split: option.splits prod.splits)

lemma count_exceeds_one_iff:
  "count_exceeds_one h n hs \<longleftrightarrow>
     0 < length (filter (\<lambda>(name, v). eq_ignore_ascii_case name h) hs) \<and>
     1 < n + length (filter (\<lambda>(name, v). eq_ignore_ascii_case name h) hs)"
  by (induction h n hs rule: count_exceeds_one.induct) auto

lemma count_exceeds_one_0:
  "count_exceeds_one h 0 hs \<longleftrightarrow> 1 < length (filter (\<lambda>(name, v). eq_ignore_ascii_case name h) hs)"
  using count_exceeds_one_iff [of h 0 hs] by linarith

lemma has_duplicate_iff:
  "has_duplicate_critical_headers hs \<longleftrightarrow>
     (\<exists>h \<in> set CRITICAL_HEADERS. 1 < length (filter (\<lambda>(name, v). eq_ignore_ascii_case name h) hs))"
  by (simp only: has_duplicate_critical_headers_def list_ex_iff count_exceeds_one_0)

lemma app_service_cases:
  "(\<exists>s1. sv_app s1 = sv_app s \<and> app_service check_key entries handler req s = handler req s1 \<and>
      (rq_path req \<in> set WHITELIST_EXEMPT_PATHS \<or> (\<exists>addr. rq_peer req = Some addr \<and> is_socket_allowed entries addr)) \<and>
      (\<forall>h \<in> set CRITICAL_HEADERS. length (filter (\<lambda>(name, v). eq_ignore_ascii_case name h) (rq_headers req)) \<le> 1)) \<or>
   (sv_app (snd (app_service check_key entries handler req s)) = sv_app s \<and>
      (\<forall>x. fst (app_service check_key entries handler req s) \<noteq> Handled x))"
proof -
  let ?hd = "security_headers (whitelist_service entries handler)"
  consider (pass) s1 where "sv_app s1 = sv_app s" "app_service check_key entries handler req s = ?hd req s1"
    | (stop) "sv_app (snd (app_service check_key entries handler req s)) = sv_app s"
        "\<forall>x. fst (app_service check_key entries handler req s) \<noteq> Handled x"
    unfolding app_service_def using rate_mw.passed_or_refused [of s check_key ?hd req] by blast
  then show ?thesis
  proof cases
    case pass
    then show ?thesis
      by (cases "has_duplicate_critical_headers (rq_headers req)")
        (auto simp: security_headers_def whitelist_service_def has_duplicate_iff not_less split: option.splits)
  qed blast
qed

section \<open>Properties\<close>

text \<open>What reaches a handler. A request outside the two exempt paths is handled only when its peer
  is an IPv4 address of the whitelist and no critical header occurs twice (names compared without
  case); whenever the pipeline answers itself, the state of the application is unchanged.\<close>

theorem pipeline_protects_handlers:
  assumes "rq_path req \<notin> set WHITELIST_EXEMPT_PATHS"
  shows "(\<exists>s1. sv_app s1 = sv_app s \<and> app_service check_key entries handler req s = handler req s1 \<and>
       (\<exists>addr. rq_peer req = Some addr \<and> is_socket_allowed entries addr) \<and>
       (\<forall>h \<in> set CRITICAL_HEADERS. length (filter (\<lambda>(name, v). eq_ignore_ascii_case name h) (rq_headers req)) \<le> 1)) \<or>
     (sv_app (snd (app_service check_key entries handler req s)) = sv_app s \<and>
      (\<forall>x. fst (app_service check_key entries handler req s) \<noteq> Handled x))"
  using app_service_cases [of s check_key entries handler req] assms by blast

theorem pipeline_protects_handlers_witness:
  "sv_app (snd (app_service (\<lambda>g ip. (None, g)) [] (\<lambda>req s. (Handled (), s\<lparr>sv_app := 1\<rparr>))
      \<lparr>rq_method = POST, rq_path = ''/api/v1/packages'', rq_peer = None, rq_headers = [], rq_query = [], rq_body = []\<rparr>
      \<lparr>sv_limiters = \<lparr>rl_destructive = (), rl_read = (), rl_enabled = True\<rparr>, sv_app = (0 :: int)\<rparr>)) = 0"
  using pipeline_protects_handlers [of
      "\<lparr>rq_method = POST, rq_path = ''/api/v1/packages'', rq_peer = None, rq_headers = [], rq_query = [], rq_body = []\<rparr>"
      "\<lparr>sv_limiters = \<lparr>rl_destructive = (), rl_read = (), rl_enabled = True\<rparr>, sv_app = 0\<rparr>"
      "\<lambda>g ip. (None, g)" "[]" "\<lambda>req s. (Handled (), s\<lparr>sv_app := 1\<rparr>)"]
  by (auto simp: WHITELIST_EXEMPT_PATHS_def)

text \<open>The order of the checks. The rate limiter runs first: a request that the whitelist refuses has
  already used up quota of its tier and address, and a refusal for a duplicate header comes before
  the whitelist's, whatever the comment on the stack in \<open>main.rs\<close> says.\<close>

theorem pipeline_order:
  assumes peer: "rq_peer req = Some addr" and on: "rl_enabled (sv_limiters s)"
    and path: "rq_path req \<notin> set EXEMPT_PATHS" and denied: "\<not> is_socket_allowed entries addr"
    and meth: "rq_method req = POST" and quota: "check_key (rl_destructive (sv_limiters s)) (sa_ip addr) = (r, g)"
  shows "app_service check_key entries handler req s =
     (case r of
        Some secs \<Rightarrow> TooManyRequests (max 1 secs)
      | None \<Rightarrow> if has_duplicate_critical_headers (rq_headers req)
                then BadRequest ''Duplicate critical headers not allowed''
                else Forbidden ''IP address not in whitelist'',
      s\<lparr>sv_limiters := (sv_limiters s)\<lparr>rl_destructive := g\<rparr>\<rparr>)"
  using assms
  by (auto simp: app_service_def rate_limit_def check_rate_def security_headers_def whitelist_service_def
      EXEMPT_PATHS_def WHITELIST_EXEMPT_PATHS_def split: option.splits)

theorem pipeline_order_witness:
  "fst (app_service (\<lambda>g ip. (Some 0, g)) [] (\<lambda>req s. (Handled (), s))
      \<lparr>rq_method = POST, rq_path = ''/api/v1/packages'',
       rq_peer = Some \<lparr>sa_ip = V4 5, sa_port = 1\<rparr>, rq_headers = [], rq_query = [], rq_body = []\<rparr>
      \<lparr>sv_limiters = \<lparr>rl_destructive = (), rl_read = (), rl_enabled = True\<rparr>, sv_app = ()\<rparr>)
    = TooManyRequests 1"
  using pipeline_order [of
      "\<lparr>rq_method = POST, rq_path = ''/api/v1/packages'', rq_peer = Some \<lparr>sa_ip = V4 5, sa_port = 1\<rparr>, rq_headers = [], rq_query = [], rq_body = []\<rparr>"
      "\<lparr>sa_ip = V4 5, sa_port = 1\<rparr>"
      "\<lparr>sv_limiters = \<lparr>rl_destructive = (), rl_read = (), rl_enabled = True\<rparr>, sv_app = ()\<rparr>" "[]"
      "\<lambda>g ip. (Some 0, g)" "Some 0" "()" "\<lambda>req s. (Handled (), s)"]
  by (simp add: EXEMPT_PATHS_def is_socket_allowed_def is_allowed_def)

end
