(* ===== verification/Config.thy ===== *)
theory Config imports Files Middleware begin

text \<open>
  \<open>src/config/loader.rs\<close>: the configuration record with its defaults, the accessors, loading, the
  polling token that enrollment keeps in the file, and \<open>validate_certs\<close>, which decides at start
  whether the agent may serve or has to enroll.

  YAML is \<open>serde_yaml\<close>'s (\<open>yaml_de\<close>, \<open>yaml_ser\<close>); PEM, X.509 and the test build of a
  rustls configuration are the crates' (record \<open>cert_crates\<close>). Times are seconds.
\<close>

section \<open>The configuration\<close>

record server_config =
  sc_port :: "16 word"
  sc_bind :: string
  sc_timeout_seconds :: nat

record tls_config =
  tc_enabled :: bool
  tc_port :: "16 word"
  tc_ca_cert :: string
  tc_server_cert :: string
  tc_server_key :: string
  tc_crl_path :: string

record jobs_config =
  jc_max_concurrent :: nat
  jc_timeout_minutes :: nat
  jc_storage_path :: string
  jc_max_queue_depth :: nat

record logging_config =
  lc_level :: string
  lc_journal_enabled :: bool
  lc_syslog_enabled :: bool
  lc_syslog_server :: "string option"
  lc_file_path :: string
  lc_retention_days :: nat

record enrollment_config =
  ec_manager_url :: "string option"
  ec_polling_token :: string
  ec_polling_interval_seconds :: nat
  ec_max_poll_attempts :: nat
  ec_report_interface :: "string option"
  ec_report_ip :: "string option"
  ec_cert_renewal_threshold_days :: nat

record app_config =
  ac_server :: server_config
  ac_tls :: "tls_config option"
  ac_jobs :: jobs_config
  ac_logging :: logging_config
  ac_whitelist :: "string option"          \<comment> \<open>the path of \<open>WhitelistConfig\<close>\<close>
  ac_package_manager :: "string option"    \<comment> \<open>the backend of \<open>PackageManagerConfig\<close>\<close>
  ac_cache_stale_threshold_secs :: nat
  ac_enrollment :: "enrollment_config option"
  ac_rate_limit :: rate_limit_config

definition default_timeout :: nat where "default_timeout = 30"
definition default_crl_path :: string where "default_crl_path = ''/etc/linux_patch_api/certs/crl.pem''"
definition default_storage_path :: string where "default_storage_path = ''/var/lib/linux_patch_api/jobs''"
definition default_max_queue_depth :: nat where "default_max_queue_depth = 100"
definition default_log_level :: string where "default_log_level = ''info''"
definition default_log_path :: string where "default_log_path = ''/var/log/linux_patch_api/audit.log''"
definition default_retention_days :: nat where "default_retention_days = 30"
definition default_whitelist_path :: string where
  "default_whitelist_path = ''/etc/linux_patch_api/whitelist.yaml''"
definition default_backend :: string where "default_backend = ''auto''"
definition default_cache_stale_threshold_secs :: nat where "default_cache_stale_threshold_secs = 3600"
definition default_polling_interval :: nat where "default_polling_interval = 60"
definition default_max_poll_attempts :: nat where "default_max_poll_attempts = 1440"
definition default_cert_renewal_threshold_days :: nat where "default_cert_renewal_threshold_days = 7"

definition default_rate_limit :: rate_limit_config where
  "default_rate_limit =
     \<lparr>rlc_enabled = True, rlc_destructive_per_minute = 20, rlc_destructive_burst = 10,
      rlc_read_per_minute = 120, rlc_read_burst = 30\<rparr>"

definition default_enrollment :: enrollment_config where
  "default_enrollment =
     \<lparr>ec_manager_url = None, ec_polling_token = [], ec_polling_interval_seconds = 60,
      ec_max_poll_attempts = 1440, ec_report_interface = None, ec_report_ip = None,
      ec_cert_renewal_threshold_days = 7\<rparr>"

definition effective_manager_url :: "enrollment_config \<Rightarrow> string option" where
  "effective_manager_url e =
     (case ec_manager_url e of Some u \<Rightarrow> if u \<noteq> [] then Some u else None | None \<Rightarrow> None)"

definition tls_config_of :: "app_config \<Rightarrow> tls_config option" where
  "tls_config_of c = (case ac_tls c of Some t \<Rightarrow> if tc_enabled t then Some t else None | None \<Rightarrow> None)"

definition whitelist_path :: "app_config \<Rightarrow> string" where
  "whitelist_path c = opt_or (ac_whitelist c) ''/etc/linux_patch_api/whitelist.yaml''"

definition enrollment_manager_url :: "app_config \<Rightarrow> string option" where
  "enrollment_manager_url c = (case ac_enrollment c of None \<Rightarrow> None | Some e \<Rightarrow> effective_manager_url e)"

definition migrate_empty_strings :: "app_config \<Rightarrow> app_config" where
  "migrate_empty_strings c =
     (case ac_enrollment c of
        None \<Rightarrow> c
      | Some e \<Rightarrow> if ec_manager_url e = Some []
                  then c\<lparr>ac_enrollment := Some (e\<lparr>ec_manager_url := None\<rparr>)\<rparr> else c)"

text \<open>\<open>AppConfig::load\<close>. Its branch on \<open>skip_tls_validation\<close> is empty.\<close>

definition load_app_config :: "(string \<Rightarrow> (string, app_config) result) \<Rightarrow> string \<Rightarrow> app_config io" where
  "load_app_config yaml_de path =
     io_then (io_context (''Failed to read config file: '' @ path) (read_to_string path))
       (\<lambda>content. case yaml_de content of
          Inl e \<Rightarrow> io_err (add_context (''Failed to parse config file: '' @ path) (anyhow_msg e))
        | Inr c \<Rightarrow> io_ok (migrate_empty_strings c))"

text \<open>\<open>config/validator.rs\<close>: the warnings for a text that \<open>serde_yaml\<close> reads as a tree. Nothing calls it.\<close>

datatype yaml = YScalar string | YSequence "yaml list" | YMapping "(string \<times> yaml) list"

fun yaml_get :: "string \<Rightarrow> yaml \<Rightarrow> yaml option" where
  "yaml_get k (YMapping kvs) = map_of kvs k"
| "yaml_get k (YScalar _) = None"
| "yaml_get k (YSequence _) = None"

definition validate_config_warnings :: "(string \<Rightarrow> yaml option) \<Rightarrow> string \<Rightarrow> string list" where
  "validate_config_warnings parse config_yaml =
     (case parse config_yaml of
        None \<Rightarrow> []
      | Some v \<Rightarrow>
          (case yaml_get ''tls'' v of
             None \<Rightarrow> []
           | Some tls \<Rightarrow>
               if yaml_get ''min_tls_version'' tls \<noteq> None
               then [''Config contains deprecated '' @ [CHR 0x27] @ ''tls.min_tls_version'' @ [CHR 0x27] @ '' field. '' @
                     ''This field is ignored -- TLS 1.3 is the only supported version. '' @
                     ''Remove it from your config to silence this warning.'']
               else []))"


section \<open>The polling token\<close>

definition with_token :: "string \<Rightarrow> app_config \<Rightarrow> app_config" where
  "with_token token c =
     (case ac_enrollment c of
        Some e \<Rightarrow> c\<lparr>ac_enrollment := Some (e\<lparr>ec_polling_token := token\<rparr>)\<rparr>
      | None \<Rightarrow> c\<lparr>ac_enrollment := Some (default_enrollment\<lparr>ec_polling_token := token\<rparr>)\<rparr>)"

definition save_config ::
    "(app_config \<Rightarrow> string) \<Rightarrow> string \<Rightarrow> app_config \<Rightarrow> unit io" where
  "save_config yaml_ser path c =
     io_context (''Failed to write config file: '' @ path) (fs_write path (yaml_ser c))"

text \<open>Both update the record in memory first; the file may fail after that.\<close>

definition save_polling_token ::
    "(app_config \<Rightarrow> string) \<Rightarrow> string \<Rightarrow> string \<Rightarrow> app_config \<Rightarrow> app_config \<times> unit io" where
  "save_polling_token yaml_ser token path c =
     (let c1 = with_token token c in (c1, save_config yaml_ser path c1))"

definition clear_polling_token ::
    "(app_config \<Rightarrow> string) \<Rightarrow> string \<Rightarrow> app_config \<Rightarrow> app_config \<times> unit io" where
  "clear_polling_token yaml_ser path c =
     (let c1 = (case ac_enrollment c of
                  Some e \<Rightarrow> c\<lparr>ac_enrollment := Some (e\<lparr>ec_polling_token := []\<rparr>)\<rparr>
                | None \<Rightarrow> c)
      in (c1, save_config yaml_ser path c1))"

section \<open>Certificates\<close>

datatype cert_status =
    CertValid
  | CertExpiringSoon int
  | CertMissing "string list"
  | CertCorrupt string string
  | CertExpired string int
  | CertKeyMismatch
  | CertUntrusted

text \<open>The \<open>Display\<close> of a status; \<open>show_time\<close> is that of \<open>OffsetDateTime\<close>.\<close>

fun cert_status_text :: "(int \<Rightarrow> string) \<Rightarrow> cert_status \<Rightarrow> string" where
  "cert_status_text show_time CertValid = ''Valid''"
| "cert_status_text show_time (CertExpiringSoon t) = ''ExpiringSoon (not_after='' @ show_time t @ '')''"
| "cert_status_text show_time (CertMissing paths) = ''Missing: ['' @ join '', '' paths @ '']''"
| "cert_status_text show_time (CertCorrupt path e) = ''Corrupt: '' @ path @ '' ('' @ e @ '')''"
| "cert_status_text show_time (CertExpired path t) = ''Expired: '' @ path @ '' (not_after='' @ show_time t @ '')''"
| "cert_status_text show_time CertKeyMismatch = ''KeyMismatch''"
| "cert_status_text show_time CertUntrusted = ''Untrusted''"

record x509_view =
  xv_not_after :: int
  xv_issuer :: string
  xv_subject :: string

record ('der, 'key) cert_crates =
  cc_certs :: "string \<Rightarrow> (string, 'der list) result"         \<comment> \<open>\<open>rustls_pemfile::certs\<close>\<close>
  cc_key :: "string \<Rightarrow> (string, 'key option) result"          \<comment> \<open>\<open>rustls_pemfile::private_key\<close>\<close>
  cc_x509 :: "'der \<Rightarrow> (string, x509_view) result"              \<comment> \<open>\<open>parse_x509_certificate\<close>\<close>
  cc_tls13 :: bool                                                \<comment> \<open>\<open>with_protocol_versions(&[&TLS13])\<close> succeeds\<close>
  cc_single_cert :: "'der list \<Rightarrow> 'key \<Rightarrow> bool"              \<comment> \<open>\<open>with_single_cert\<close> accepts\<close>

definition verify_key_match :: "('der, 'key) cert_crates \<Rightarrow> 'der list \<Rightarrow> 'key \<Rightarrow> bool" where
  "verify_key_match cr server_certs key = (cc_tls13 cr \<and> cc_single_cert cr server_certs key)"

definition verify_ca_trust :: "('der, 'key) cert_crates \<Rightarrow> 'der \<Rightarrow> 'der \<Rightarrow> bool" where
  "verify_ca_trust cr server ca =
     (case cc_x509 cr server of Inl _ \<Rightarrow> False
      | Inr s \<Rightarrow> (case cc_x509 cr ca of Inl _ \<Rightarrow> False
        | Inr c \<Rightarrow> xv_issuer s = xv_subject c))"

text \<open>The last instant an \<open>OffsetDateTime\<close> can hold: adding a threshold beyond it panics, which is
  the value \<open>None\<close>.\<close>

definition max_datetime :: int where "max_datetime = 253402300799"

text \<open>Steps 3 to 5: expiry of both certificates, key match, trust.\<close>

definition judge_certs ::
    "('der, 'key) cert_crates \<Rightarrow> int \<Rightarrow> nat \<Rightarrow> string \<Rightarrow> string \<Rightarrow> 'der list \<Rightarrow> 'der list \<Rightarrow> 'key
     \<Rightarrow> cert_status option" where
  "judge_certs cr now threshold_days ca_path cert_path ca_certs server_certs key =
     (let ca = hd ca_certs; server = hd server_certs in
      case cc_x509 cr ca of
        Inl e \<Rightarrow> Some (CertCorrupt ca_path (''Failed to parse CA certificate DER: '' @ e))
      | Inr c \<Rightarrow>
        if xv_not_after c < now then Some (CertExpired ca_path (xv_not_after c))
        else case cc_x509 cr server of
          Inl e \<Rightarrow> Some (CertCorrupt cert_path (''Failed to parse server certificate DER: '' @ e))
        | Inr v \<Rightarrow>
          if xv_not_after v < now then Some (CertExpired cert_path (xv_not_after v))
          else if now + int threshold_days * 86400 > max_datetime then None
          else
            let expires_soon = (xv_not_after v < now + int threshold_days * 86400) in
            if \<not> verify_key_match cr server_certs key then Some CertKeyMismatch
            else if \<not> verify_ca_trust cr server ca then Some CertUntrusted
            else if expires_soon then Some (CertExpiringSoon (xv_not_after v))
            else Some CertValid)"

definition open_parse :: "string \<Rightarrow> string \<Rightarrow> (string \<Rightarrow> (string, 'a) result) \<Rightarrow> string \<Rightarrow> 'a io" where
  "open_parse open_msg parse_msg parse path =
     io_then (io_context (open_msg @ path)
         (io_call (\<lambda>s. case file_at s path of None \<Rightarrow> Err ''No such file or directory''
                                            | Some (c, _) \<Rightarrow> Ok (c, s))))
       (\<lambda>bytes. case parse bytes of Inl e \<Rightarrow> io_err (anyhow_msg (parse_msg @ e)) | Inr a \<Rightarrow> io_ok a)"

definition validate_certs :: "('der, 'key) cert_crates \<Rightarrow> int \<Rightarrow> app_config \<Rightarrow> cert_status option io" where
  "validate_certs cr now config =
     (case tls_config_of config of
        None \<Rightarrow> io_ok (Some CertValid)
      | Some tls \<Rightarrow>
        let threshold_days = (case ac_enrollment config of
              Some e \<Rightarrow> ec_cert_renewal_threshold_days e | None \<Rightarrow> 7);
            ca_path = tc_ca_cert tls; cert_path = tc_server_cert tls; key_path = tc_server_key tls
        in (\<lambda>s. let missing = filter (\<lambda>p. \<not> path_exists s p) [ca_path, cert_path, key_path] in
          if missing \<noteq> [] then io_ok (Some (CertMissing missing)) s
          else io_then (open_parse ''Failed to open CA certificate: ''
                 ''Failed to parse CA certificate PEM: '' (cc_certs cr) ca_path) (\<lambda>ca_certs.
            if ca_certs = [] then io_ok (Some (CertCorrupt ca_path ''No certificates found in CA PEM file''))
            else io_then (open_parse ''Failed to open server certificate: ''
                 ''Failed to parse server certificate PEM: '' (cc_certs cr) cert_path) (\<lambda>server_certs.
            if server_certs = []
            then io_ok (Some (CertCorrupt cert_path ''No certificates found in server PEM file''))
            else io_then (open_parse ''Failed to open server key: '' ''Failed to parse server key PEM: ''
                 (cc_key cr) key_path) (\<lambda>key. case key of
              None \<Rightarrow> io_ok (Some (CertCorrupt key_path ''No private key found in server key PEM file''))
            | Some k \<Rightarrow> io_ok (judge_certs cr now threshold_days ca_path cert_path ca_certs server_certs k)))) s))"

section \<open>Lemmas\<close>

lemma judge_accepts:
  assumes "judge_certs cr now days ca_path cert_path cas servers key = Some st"
    and "st = CertValid \<or> (\<exists>t. st = CertExpiringSoon t)"
  shows "\<exists>c v. cc_x509 cr (hd cas) = Ok c \<and> cc_x509 cr (hd servers) = Ok v \<and>
    now \<le> xv_not_after c \<and> now \<le> xv_not_after v \<and> cc_single_cert cr servers key \<and>
    xv_issuer v = xv_subject c \<and>
    st = (if xv_not_after v < now + int days * 86400 then CertExpiringSoon (xv_not_after v) else CertValid)"
  using assms
  by (auto simp: judge_certs_def Let_def verify_key_match_def verify_ca_trust_def
      split: sum.splits if_splits)

lemma open_parse_Ok:
  assumes "open_parse om pm parse path s = (Inr a, s')"
  shows "\<exists>c m. file_at s path = Some (c, m) \<and> parse c = Inr a" and "fs_files s' = fs_files s"
  using assms
  by (auto simp: open_parse_def io_then_def io_context_def io_call_def Let_def io_err_def io_ok_def
      split: sum.splits option.splits prod.splits)

lemma file_at_cong: "fs_files s' = fs_files s \<Longrightarrow> file_at s' p = file_at s p"
  by (simp add: file_at_def)

lemma with_token_token [simp]: "\<exists>e. ac_enrollment (with_token t c) = Some e \<and> ec_polling_token e = t"
  by (simp add: with_token_def split: option.splits)

lemma migrate_token:
  "ac_enrollment c = Some e \<Longrightarrow> \<exists>e'. ac_enrollment (migrate_empty_strings c) = Some e' \<and>
     ec_polling_token e' = ec_polling_token e"
  by (simp add: migrate_empty_strings_def)

lemma enrollment_url_migrate:
  "enrollment_manager_url (migrate_empty_strings c) = enrollment_manager_url c"
  by (auto simp: enrollment_manager_url_def migrate_empty_strings_def effective_manager_url_def
      split: option.splits)

lemma validate_certs_accepts:
  assumes tls: "tls_config_of cfg = Some tls"
    and ok: "validate_certs cr now cfg s = (Ok (Some st), s')"
    and st: "st = CertValid \<or> (\<exists>t. st = CertExpiringSoon t)"
  defines "days \<equiv> (case ac_enrollment cfg of Some e \<Rightarrow> ec_cert_renewal_threshold_days e | None \<Rightarrow> 7)"
  shows "\<exists>ca cert key cas servers k c v.
     map_option fst (file_at s (tc_ca_cert tls)) = Some ca \<and> cc_certs cr ca = Ok cas \<and> cas \<noteq> [] \<and>
     map_option fst (file_at s (tc_server_cert tls)) = Some cert \<and> cc_certs cr cert = Ok servers \<and> servers \<noteq> [] \<and>
     map_option fst (file_at s (tc_server_key tls)) = Some key \<and> cc_key cr key = Ok (Some k) \<and>
     cc_x509 cr (hd cas) = Ok c \<and> cc_x509 cr (hd servers) = Ok v \<and>
     now \<le> xv_not_after c \<and> now \<le> xv_not_after v \<and>
     cc_single_cert cr servers k \<and> xv_issuer v = xv_subject c \<and>
     st = (if xv_not_after v < now + int days * 86400 then CertExpiringSoon (xv_not_after v) else CertValid) \<and>
     fs_files s' = fs_files s"
proof -
  from tls ok st obtain cas s1 where 1: "open_parse ''Failed to open CA certificate: ''
      ''Failed to parse CA certificate PEM: '' (cc_certs cr) (tc_ca_cert tls) s = (Inr cas, s1)" "cas \<noteq> []"
    by (auto simp: validate_certs_def Let_def io_then_def io_ok_def split: if_splits sum.splits prod.splits)
  from tls ok st 1 obtain servers s2 where 2: "open_parse ''Failed to open server certificate: ''
      ''Failed to parse server certificate PEM: '' (cc_certs cr) (tc_server_cert tls) s1 = (Inr servers, s2)" "servers \<noteq> []"
    by (auto simp: validate_certs_def Let_def io_then_def io_ok_def split: if_splits sum.splits prod.splits)
  from tls ok st 1 2 obtain k s3 where 3: "open_parse ''Failed to open server key: '' ''Failed to parse server key PEM: ''
      (cc_key cr) (tc_server_key tls) s2 = (Inr (Some k), s3)"
    by (auto simp: validate_certs_def Let_def io_then_def io_ok_def split: if_splits sum.splits prod.splits option.splits)
  from tls ok st 1 2 3 have j: "judge_certs cr now days (tc_ca_cert tls) (tc_server_cert tls) cas servers k = Some st"
    by (auto simp: validate_certs_def days_def Let_def io_then_def io_ok_def split: if_splits)
  have same: "fs_files s' = fs_files s"
    using tls ok 1 2 3 open_parse_Ok(2) [OF 1(1)] open_parse_Ok(2) [OF 2(1)] open_parse_Ok(2) [OF 3]
    by (auto simp: validate_certs_def Let_def io_then_def io_ok_def split: if_splits)
  note files = file_at_cong [OF open_parse_Ok(2) [OF 1(1)]] file_at_cong [OF open_parse_Ok(2) [OF 2(1)]]
  show ?thesis
    using open_parse_Ok(1) [OF 1(1)] open_parse_Ok(1) [OF 2(1)] open_parse_Ok(1) [OF 3] judge_accepts [OF j st] 1(2) 2(2) same
    unfolding files by fastforce
qed

section \<open>Properties\<close>

text \<open>C22: the agent accepts its certificates only when every check passed: with TLS enabled,
  \<open>Valid\<close> or \<open>ExpiringSoon\<close> means that all three files exist and parse, neither certificate has
  expired, the key fits and the server certificate names the CA as its issuer; \<open>Valid\<close> is left
  exactly when the server certificate also outlives the renewal threshold.\<close>

theorem certs_accepted_sound:
  assumes tls: "tls_config_of cfg = Some tls"
    and ok: "validate_certs cr now cfg s = (Ok (Some st), s')"
    and st: "st = CertValid \<or> (\<exists>t. st = CertExpiringSoon t)"
    and days: "days = (case ac_enrollment cfg of Some e \<Rightarrow> ec_cert_renewal_threshold_days e | None \<Rightarrow> 7)"
  shows "\<exists>ca cert key cas servers k c v.
     map_option fst (file_at s (tc_ca_cert tls)) = Some ca \<and> cc_certs cr ca = Ok cas \<and> cas \<noteq> [] \<and>
     map_option fst (file_at s (tc_server_cert tls)) = Some cert \<and> cc_certs cr cert = Ok servers \<and> servers \<noteq> [] \<and>
     map_option fst (file_at s (tc_server_key tls)) = Some key \<and> cc_key cr key = Ok (Some k) \<and>
     cc_x509 cr (hd cas) = Ok c \<and> cc_x509 cr (hd servers) = Ok v \<and>
     now \<le> xv_not_after c \<and> now \<le> xv_not_after v \<and>
     cc_single_cert cr servers k \<and> xv_issuer v = xv_subject c \<and>
     st = (if xv_not_after v < now + int days * 86400 then CertExpiringSoon (xv_not_after v) else CertValid)"
  using validate_certs_accepts [OF tls ok st] unfolding days by blast

definition sample_config :: app_config where
  "sample_config =
     \<lparr>ac_server = \<lparr>sc_port = 12443, sc_bind = ''0.0.0.0'', sc_timeout_seconds = 30\<rparr>,
      ac_tls = Some \<lparr>tc_enabled = True, tc_port = 12443, tc_ca_cert = ''/c/ca.pem'', tc_server_cert = ''/c/server.pem'',
                     tc_server_key = ''/c/server.key.pem'', tc_crl_path = ''/c/crl.pem''\<rparr>,
      ac_jobs = \<lparr>jc_max_concurrent = 5, jc_timeout_minutes = 30, jc_storage_path = default_storage_path,
                 jc_max_queue_depth = default_max_queue_depth\<rparr>,
      ac_logging = \<lparr>lc_level = default_log_level, lc_journal_enabled = True, lc_syslog_enabled = False,
                    lc_syslog_server = None, lc_file_path = default_log_path, lc_retention_days = 30\<rparr>,
      ac_whitelist = None, ac_package_manager = None, ac_cache_stale_threshold_secs = 3600,
      ac_enrollment = Some default_enrollment, ac_rate_limit = default_rate_limit\<rparr>"

definition sample_store :: fs where
  "sample_store =
     \<lparr>fs_files = [(''/c/ca.pem'', ''A'', 420), (''/c/server.pem'', ''B'', 420), (''/c/server.key.pem'', ''K'', 384)],
      fs_dirs = [''/c''], fs_text = (\<lambda>_. True), fs_fault = (\<lambda>_. None), fs_calls = 0\<rparr>"

theorem certs_accepted_sound_witness:
  "fst (validate_certs \<lparr>cc_certs = (\<lambda>t. Ok [t]), cc_key = (\<lambda>t. Ok (Some t)),
       cc_x509 = (\<lambda>d. Ok \<lparr>xv_not_after = 2000000000, xv_issuer = ''CA'', xv_subject = ''CA''\<rparr>),
       cc_tls13 = True, cc_single_cert = (\<lambda>ds k. ds = [''B''] \<and> k = ''K'')\<rparr> 1999999999 sample_config sample_store)
     = Ok (Some (CertExpiringSoon 2000000000))"
proof -
  let ?cr = "\<lparr>cc_certs = (\<lambda>t. Ok [t]), cc_key = (\<lambda>t. Ok (Some t)),
       cc_x509 = (\<lambda>d. Ok \<lparr>xv_not_after = 2000000000, xv_issuer = ''CA'', xv_subject = ''CA''\<rparr>),
       cc_tls13 = True, cc_single_cert = (\<lambda>ds k. ds = [''B''] \<and> k = ''K'')\<rparr>"
  define v where "v = validate_certs ?cr 1999999999 sample_config sample_store"
  have f: "fst v = Ok (Some (CertExpiringSoon 2000000000))" unfolding v_def by code_simp
  then have v: "validate_certs ?cr 1999999999 sample_config sample_store = (Ok (Some (CertExpiringSoon 2000000000)), snd v)"
    unfolding v_def by (metis prod.collapse)
  have "tls_config_of sample_config = Some (the (ac_tls sample_config))" by (simp add: tls_config_of_def sample_config_def)
  from certs_accepted_sound [OF this v _ refl] f show ?thesis by (simp add: v_def)
qed

text \<open>The polling token survives a restart. When saving it succeeded, loading the file gives the
  configuration with the token; and when saving failed, the file is untouched if it could not be
  opened but is left empty, the whole configuration lost, if the write failed.\<close>

theorem polling_token_survives:
  assumes yaml: "yaml_de (yaml_ser (with_token token c)) = Ok (with_token token c)"
    and utf8: "fs_text s (yaml_ser (with_token token c))"
    and save: "save_polling_token yaml_ser token path c = (c1, act)" "act s = (r, s1)"
  shows "case r of
     Inr _ \<Rightarrow> fs_fault s1 (fs_calls s1) \<noteq> None \<or>
       (\<exists>e. load_app_config yaml_de path s1 = (Ok (migrate_empty_strings c1), s1\<lparr>fs_calls := Suc (fs_calls s1)\<rparr>) \<and>
            ac_enrollment (migrate_empty_strings c1) = Some e \<and> ec_polling_token e = token)
   | Inl _ \<Rightarrow> (if fs_fault s (fs_calls s) \<noteq> None then file_at s1 path = file_at s path
              else map_option fst (file_at s1 path) = Some [])"
proof -
  have c1: "c1 = with_token token c" and act: "act = save_config yaml_ser path c1"
    using save(1) by (auto simp: save_polling_token_def Let_def)
  obtain e where "ac_enrollment c1 = Some e" "ec_polling_token e = token"
    using with_token_token c1 by blast
  with migrate_token [of c1 e] obtain e' where e': "ac_enrollment (migrate_empty_strings c1) = Some e'"
    "ec_polling_token e' = token" by auto
  show ?thesis
    using save(2) yaml utf8 e' unfolding act c1
    by (auto simp: save_config_def io_context_def fs_write_def fs_write_all_def io_then_def io_call_def Let_def
        load_app_config_def read_to_string_def io_ok_def split: option.splits sum.splits prod.splits)
qed

theorem polling_token_survives_witness:
  "\<exists>e. fst (load_app_config (\<lambda>_. Ok (with_token ''tok'' sample_config)) ''/etc/config.yaml''
            (snd (snd (save_polling_token (\<lambda>_. ''yaml'') ''tok'' ''/etc/config.yaml'' sample_config) sample_store)))
          = Ok (migrate_empty_strings (with_token ''tok'' sample_config)) \<and>
       ac_enrollment (migrate_empty_strings (with_token ''tok'' sample_config)) = Some e \<and> ec_polling_token e = ''tok''"
proof -
  let ?sv = "save_polling_token (\<lambda>_. ''yaml'') ''tok'' ''/etc/config.yaml'' sample_config"
  define r where "r = snd ?sv sample_store"
  have ok: "fst r = Ok ()" unfolding r_def by code_simp
  have fault: "fs_fault (snd r) = (\<lambda>_. None)"
    by (simp add: r_def save_polling_token_def Let_def save_config_def) (simp add: sample_store_def)
  have sv: "?sv = (with_token ''tok'' sample_config, snd ?sv)" by (simp add: save_polling_token_def Let_def)
  have act: "snd ?sv sample_store = (Ok (), snd r)" using ok by (simp add: r_def prod_eq_iff)
  have "fs_text sample_store ''yaml''" by (simp add: sample_store_def)
  from polling_token_survives [OF refl this sv act] fault
  show ?thesis unfolding r_def by auto
qed

end
