(* ===== verification/Repo_Health.thy ===== *)
theory Repo_Health imports Provision Net begin

text \<open>
  \<open>src/enroll/repo_health.rs\<close>: the health of the repository's signing key, the self-heal that compares
  the repository configuration on disk with the manager's and provisions it again, and the background
  task that repeats it. The manager's answer is a value; \<open>from_timestamp\<close> is chrono's conversion.
\<close>

section \<open>Distribution and paths\<close>

definition trim_char :: "char \<Rightarrow> string \<Rightarrow> string" where
  "trim_char q s = rev (dropWhile (\<lambda>c. c = q) (rev (dropWhile (\<lambda>c. c = q) s)))"

definition unquote :: "string \<Rightarrow> string" where
  "unquote v = trim_char CHR 0x27 (trim_char CHR 0x22 (trim v))"

text \<open>The value of the last line \<open>key=value\<close> of \<open>/etc/os-release\<close>.\<close>

definition os_release_value :: "string \<Rightarrow> string \<Rightarrow> string option" where
  "os_release_value key content =
     foldl (\<lambda>acc line. case split_once CHR ''='' (trim line) of
              Some (k, v) \<Rightarrow> if k = key then Some (unquote v) else acc
            | None \<Rightarrow> acc) None (str_lines content)"

definition detect_distro_id :: "string option \<Rightarrow> (anyhow, string) result" where
  "detect_distro_id os_release =
     (case os_release of
        None \<Rightarrow> Err (anyhow_msg ''Failed to read /etc/os-release -- cannot determine distro for repo health check'')
      | Some content \<Rightarrow>
          (case os_release_value ''ID'' content of
             Some (c # cs) \<Rightarrow> Ok (c # cs)
           | _ \<Rightarrow>
               (case os_release_value ''ID_LIKE'' content of
                  Some like \<Rightarrow>
                    (case split_whitespace like of
                       first # _ \<Rightarrow> Ok first
                     | [] \<Rightarrow> Err (anyhow_msg ''Could not determine distro ID from /etc/os-release (no ID or ID_LIKE field)''))
                | None \<Rightarrow> Err (anyhow_msg ''Could not determine distro ID from /etc/os-release (no ID or ID_LIKE field)''))))"

definition expected_repo_paths :: "string \<Rightarrow> (anyhow, string \<times> string) result" where
  "expected_repo_paths distro_id =
     (if List.member apt_distros distro_id
      then Ok (''/etc/apt/sources.list.d/lpa.list'', ''/etc/apt/keyrings/lpa-repo.gpg'')
      else if List.member rpm_distros distro_id
      then Ok (''/etc/yum.repos.d/lpa.repo'', ''/etc/pki/rpm-gpg/lpa-repo.gpg'')
      else if distro_id = ''alpine''
      then Ok (''/etc/apk/repositories'', ''/etc/apk/keys/lpa-repo.rsa.pub'')
      else if List.member pacman_distros distro_id
      then Ok (''/etc/pacman.d/lpa-repo'', ''/etc/pacman.d/lpa-repo.gpg'')
      else Err (anyhow_msg (''Unrecognized distro '' @ quoted distro_id @ '' -- cannot determine expected repo file paths'')))"

section \<open>The signing key\<close>

datatype gpg_key_status = GpgValid | GpgExpired | GpgMissing | GpgRevoked

fun gpg_as_str :: "gpg_key_status \<Rightarrow> string" where
  "gpg_as_str GpgValid = ''valid''"
| "gpg_as_str GpgExpired = ''expired''"
| "gpg_as_str GpgMissing = ''missing''"
| "gpg_as_str GpgRevoked = ''revoked''"

definition gpg_line_step ::
    "(int \<Rightarrow> 't option) \<Rightarrow> gpg_key_status \<times> 't option \<Rightarrow> string \<Rightarrow> gpg_key_status \<times> 't option" where
  "gpg_line_step from_timestamp st line =
     (let (status, expiry) = st; fields = split_on CHR '':'' line in
      if length fields < 6 then st
      else if fields ! 0 = ''pub'' \<or> fields ! 0 = ''sub'' then
        (let validity = fields ! 1; expires = fields ! 5;
             expiry1 = (if expires = [] then expiry
                        else case parse_signed 9223372036854775807 expires of
                          Some secs \<Rightarrow> if secs > 0 then from_timestamp secs else expiry
                        | None \<Rightarrow> expiry);
             status1 = (if CHR ''e'' \<in> set validity then GpgExpired
                        else if CHR ''r'' \<in> set validity then GpgRevoked else status)
         in (status1, expiry1))
      else st)"

definition parse_gpg_key_status :: "(int \<Rightarrow> 't option) \<Rightarrow> string \<Rightarrow> gpg_key_status \<times> 't option" where
  "parse_gpg_key_status from_timestamp out =
     foldl (gpg_line_step from_timestamp) (GpgValid, None) (str_lines out)"

text \<open>\<open>gpg_show\<close> is the standard output of a successful \<open>gpg --show-keys\<close>.\<close>

definition check_gpg_key_health ::
    "(int \<Rightarrow> 't option) \<Rightarrow> string option \<Rightarrow> (string \<Rightarrow> string option) \<Rightarrow> fs \<Rightarrow> gpg_key_status \<times> 't option" where
  "check_gpg_key_health from_timestamp os_release gpg_show s =
     (case detect_distro_id os_release of
        Inl _ \<Rightarrow> (GpgMissing, None)
      | Inr d \<Rightarrow>
          (case expected_repo_paths d of
             Inl _ \<Rightarrow> (GpgMissing, None)
           | Inr (_, keyring_path) \<Rightarrow>
               (case file_at s keyring_path of
                  Some (c # cs, _) \<Rightarrow>
                    (case gpg_show keyring_path of
                       Some out \<Rightarrow> parse_gpg_key_status from_timestamp out
                     | None \<Rightarrow> (GpgValid, None))
                | _ \<Rightarrow> (GpgMissing, None))))"

section \<open>Self-heal\<close>

datatype repo_heal_result = AlreadyConfigured | Provisioned

definition read_file_content :: "string \<Rightarrow> string option io" where
  "read_file_content p s =
     (case read_to_string p s of
        (Inr (c # cs), s1) \<Rightarrow> (Ok (Some (c # cs)), s1)
      | (_, s1) \<Rightarrow> (Ok None, s1))"

definition expected_key :: "string \<Rightarrow> repo_config \<Rightarrow> string" where
  "expected_key distro_id repo =
     (if distro_id = ''alpine'' then opt_or (rc_apk_rsa_public_key repo) (rc_gpg_public_key repo)
      else rc_gpg_public_key repo)"

definition compare_and_provision ::
    "(string \<Rightarrow> gpg_outcome) \<Rightarrow> string \<Rightarrow> string \<times> string \<Rightarrow> repo_config \<Rightarrow> repo_heal_result io" where
  "compare_and_provision gpg distro_id paths repo =
     io_then (read_file_content (fst paths)) (\<lambda>sources.
     io_then (read_file_content (snd paths)) (\<lambda>keyring.
       if sources = Some (rc_sources_config repo) \<and> keyring = Some (expected_key distro_id repo)
       then io_ok AlreadyConfigured
       else io_then (io_context ''Failed to provision repo config during self-heal'' (provision_repo_config gpg repo))
              (\<lambda>_. io_ok Provisioned)))"

definition check_and_provision_repo_config ::
    "(string \<Rightarrow> gpg_outcome) \<Rightarrow> string option \<Rightarrow> (anyhow, repo_config) result \<Rightarrow> repo_heal_result io" where
  "check_and_provision_repo_config gpg os_release fetched =
     io_then (res_io (detect_distro_id os_release)) (\<lambda>distro_id.
     io_then (res_io (expected_repo_paths distro_id)) (\<lambda>paths.
     io_then (io_context ''Failed to fetch repo config from manager during self-heal'' (res_io fetched)) (\<lambda>repo.
       compare_and_provision gpg distro_id paths repo)))"

section \<open>The background task\<close>

record repo_sync_state =
  rs_synced :: "bool option"
  rs_last_sync_at :: "int option"

definition new_shared_sync_state :: repo_sync_state where
  "new_shared_sync_state = \<lparr>rs_synced = None, rs_last_sync_at = None\<rparr>"

definition update_sync_state :: "int \<Rightarrow> (anyhow, repo_heal_result) result \<Rightarrow> repo_sync_state" where
  "update_sync_state now r =
     \<lparr>rs_synced = Some (case r of Inr AlreadyConfigured \<Rightarrow> True | Inr Provisioned \<Rightarrow> True | Inl _ \<Rightarrow> False),
      rs_last_sync_at = Some now\<rparr>"

definition sync_interval :: nat where "sync_interval = 6 * 60 * 60"

definition sync_backoff :: "nat list" where "sync_backoff = [60, 300, 900, 3600]"

text \<open>The seconds after the spawn at which the task syncs, for the outcomes of its syncs; a sync takes no
  time here. The first is immediate.\<close>

fun sync_loop :: "nat \<Rightarrow> nat \<Rightarrow> bool list \<Rightarrow> nat list" where
  "sync_loop t retry_idx [] = []"
| "sync_loop t retry_idx (ok # oks) =
     (let t1 = t + sync_interval in
      t1 # (if ok then sync_loop t1 0 oks
            else sync_loop (t1 + sync_backoff ! min retry_idx (length sync_backoff - 1))
                   (if retry_idx < length sync_backoff then retry_idx + 1 else retry_idx) oks))"

definition sync_times :: "bool list \<Rightarrow> nat list" where
  "sync_times oks = (case oks of [] \<Rightarrow> [] | _ # rest \<Rightarrow> 0 # sync_loop 0 0 rest)"

section \<open>Lemmas\<close>

lemma io_res_then: "io_then (res_io (Inr a)) f s = f a s"
  by (simp add: io_then_def res_io_def)

definition readable :: "fs \<Rightarrow> string \<Rightarrow> string option" where
  "readable s p =
     (if fs_fault s (fs_calls s) = None then
        (case file_at s p of Some (c, _) \<Rightarrow> if fs_text s c \<and> c \<noteq> [] then Some c else None | None \<Rightarrow> None)
      else None)"

lemma read_file_content_eq:
  "read_file_content p s = (Ok (readable s p), s\<lparr>fs_calls := Suc (fs_calls s)\<rparr>)"
  by (auto simp: read_file_content_def read_to_string_def io_call_def Let_def readable_def
      split: option.splits list.splits prod.splits)

lemma readable_content: "readable s p = Some c \<Longrightarrow> map_option fst (file_at s p) = Some c"
  by (auto simp: readable_def split: if_splits option.splits)

lemma replace_file_outcome:
  assumes "is_ok (fst (replace_file p d s))"
  shows "map_option fst (file_at (snd (replace_file p d s)) p) = Some d"
proof -
  have neq: "p @ ''.tmp'' \<noteq> p" by simp
  obtain r s1 where w: "fs_write (p @ ''.tmp'') d s = (r, s1)" by (cases "fs_write (p @ ''.tmp'') d s")
  note o1 = fs_write_outcome [of "p @ ''.tmp''" d s, unfolded w]
  show ?thesis
  proof (cases r)
    case (Inl e)
    with assms w show ?thesis by (simp add: replace_file_def io_then_def io_context_def)
  next
    case (Inr u)
    then have "map_option fst (file_at s1 (p @ ''.tmp'')) = Some d" using o1(1) o1(2) [of "p @ ''.tmp''"] by simp
    then obtain m where "file_at s1 (p @ ''.tmp'') = Some (d, m)" by (cases "file_at s1 (p @ ''.tmp'')") auto
    with assms w Inr show ?thesis
      by (auto simp: replace_file_def io_then_def io_context_def fs_rename_def io_call_def Let_def
          split: option.splits if_splits)
  qed
qed

lemma writes_only_replace: "p \<in> P \<Longrightarrow> p @ ''.tmp'' \<in> P \<Longrightarrow> writes_only P (replace_file p d)"
  unfolding replace_file_def by (intro writes_only_then) auto

lemma writes_only_sources_dir: "writes_only P (sources_dir d)"
  using writes_only_calls(1) unfolding sources_dir_def writes_only_def by simp

lemma writes_only_keyring_dir: "writes_only P (ensure_keyring_dir d)" "writes_only P (ensure_dir d)"
  unfolding ensure_keyring_dir_def ensure_dir_def by (rule writes_only_cond; auto intro!: writes_only_then)+

lemma writes_only_res [simp]: "writes_only P (res_io r)"
  by (simp add: writes_only_def res_io_def)

text \<open>A successful provisioning of a distribution other than Alpine: the keyring was written, nothing else before it,
  and then the sources file holds the manager's text.\<close>

lemma provision_ok:
  assumes ok: "is_ok (fst (provision_repo_config gpg repo s))" and d: "rc_distro_id repo \<noteq> ''alpine''"
  shows "\<exists>sources_path s1 s2. sources_path_for (rc_distro_id repo) = Ok sources_path \<and>
     write_keyring gpg repo s1 = (Inr (), s2) \<and> (\<forall>q. file_at s1 q = file_at s q) \<and>
     map_option fst (file_at (snd (provision_repo_config gpg repo s)) sources_path) = Some (rc_sources_config repo) \<and>
     (\<forall>q. q \<noteq> sources_path \<longrightarrow> q \<noteq> sources_path @ ''.tmp'' \<longrightarrow>
        file_at (snd (provision_repo_config gpg repo s)) q = file_at s2 q)"
proof -
  obtain r s' where run: "provision_repo_config gpg repo s = (r, s')" by (cases "provision_repo_config gpg repo s")
  have prog: "io_then (ensure_keyring_dir (path_parent (rc_keyring_path repo))) (\<lambda>_.
        io_then (write_keyring gpg repo) (\<lambda>_.
        io_then (sources_dir (rc_distro_id repo)) (\<lambda>_.
        io_then (res_io (sources_path_for (rc_distro_id repo))) (\<lambda>sources_path.
        replace_file sources_path (rc_sources_config repo))))) s = (r, s')"
    using run d by (simp add: provision_repo_config_def)
  from prog ok [unfolded run] obtain s1 s2 s3 sources_path where
    0: "ensure_keyring_dir (path_parent (rc_keyring_path repo)) s = (Inr (), s1)" and
    1: "write_keyring gpg repo s1 = (Inr (), s2)" and
    2: "sources_dir (rc_distro_id repo) s2 = (Inr (), s3)" and
    3: "sources_path_for (rc_distro_id repo) = Inr sources_path" and
    4: "replace_file sources_path (rc_sources_config repo) s3 = (r, s')"
    by (elim io_thenE) (auto simp: res_io_def)
  have f0: "file_at s1 q = file_at s q" for q
    using writes_onlyD [OF writes_only_keyring_dir(1) [of "{}"], of q "path_parent (rc_keyring_path repo)" s] 0 by simp
  have f1: "file_at s3 q = file_at s2 q" for q
    using writes_onlyD [OF writes_only_sources_dir [of "{}"], of q "rc_distro_id repo" s2] 2 by simp
  have f2: "file_at s' q = file_at s3 q" if "q \<noteq> sources_path" "q \<noteq> sources_path @ ''.tmp''" for q
    using writes_onlyD [OF writes_only_replace [of sources_path "{sources_path, sources_path @ ''.tmp''}"], of q _ s3] 4 that
    by (metis insert_iff singletonD snd_conv)
  have "map_option fst (file_at s' sources_path) = Some (rc_sources_config repo)"
    using replace_file_outcome [of sources_path "rc_sources_config repo" s3] 4 ok [unfolded run] by simp
  with 1 3 f0 f1 f2 show ?thesis unfolding run by auto
qed

lemma compare_and_provision_eq:
  "compare_and_provision gpg d paths repo s =
     (let s1 = s\<lparr>fs_calls := Suc (fs_calls s)\<rparr>; s2 = s\<lparr>fs_calls := Suc (Suc (fs_calls s))\<rparr> in
      if readable s (fst paths) = Some (rc_sources_config repo) \<and> readable s1 (snd paths) = Some (expected_key d repo)
      then (Ok AlreadyConfigured, s2)
      else io_then (io_context ''Failed to provision repo config during self-heal'' (provision_repo_config gpg repo))
             (\<lambda>_. io_ok Provisioned) s2)"
  by (simp add: compare_and_provision_def io_then_def read_file_content_eq io_ok_def Let_def)

lemma heal_unfold:
  assumes "detect_distro_id os = Ok d" "expected_repo_paths d = Ok paths"
  shows "check_and_provision_repo_config gpg os (Ok repo) s = compare_and_provision gpg d paths repo s"
  using assms by (simp add: check_and_provision_repo_config_def io_res_then io_then_res)

lemma provisioned_run:
  assumes "compare_and_provision gpg d paths repo s = (Ok Provisioned, s')"
  shows "\<exists>s2 u. provision_repo_config gpg repo s2 = (Inr u, s') \<and> (\<forall>q. file_at s2 q = file_at s q)"
  using assms
  by (auto simp: compare_and_provision_eq Let_def io_ok_def io_context_def split: if_splits prod.splits sum.splits
      elim!: io_thenE)

lemma expected_sources_path:
  assumes "expected_repo_paths d = Ok (src, key)" "d \<noteq> ''alpine''"
  shows "sources_path_for d = Ok src \<and> key \<noteq> src \<and> key \<noteq> src @ ''.tmp''"
  using assms by (auto simp: expected_repo_paths_def sources_path_for_def split: if_splits)

text \<open>What a successful \<open>write_keyring\<close> leaves at the keyring's path, for the paths the agent expects.\<close>

definition armored :: "repo_config \<Rightarrow> bool" where
  "armored repo = str_contains (rc_gpg_public_key repo) ''-----BEGIN PGP''"

lemma keyring_written:
  assumes w: "write_keyring gpg repo s = (Inr (), s')"
    and paths: "expected_repo_paths (rc_distro_id repo) = Ok (src, rc_keyring_path repo)" "rc_distro_id repo \<noteq> ''alpine''"
  shows "map_option fst (file_at s' (rc_keyring_path repo)) =
    (if List.member apt_distros (rc_distro_id repo) \<and> armored repo
     then (case gpg (rc_gpg_public_key repo) of
             Dearmored binary \<Rightarrow> Some binary
           | _ \<Rightarrow> map_option fst (file_at s (rc_keyring_path repo)))
     else Some (rc_gpg_public_key repo))"
proof (cases "List.member apt_distros (rc_distro_id repo) \<and> armored repo")
  case False
  have "\<forall>k \<in> set [''/etc/apt/keyrings/lpa-repo.gpg'', ''/etc/pki/rpm-gpg/lpa-repo.gpg'', ''/etc/pacman.d/lpa-repo.gpg''].
      temp_path k \<noteq> k" by code_simp
  moreover have "rc_keyring_path repo
      \<in> set [''/etc/apt/keyrings/lpa-repo.gpg'', ''/etc/pki/rpm-gpg/lpa-repo.gpg'', ''/etc/pacman.d/lpa-repo.gpg'']"
    using paths by (simp add: expected_repo_paths_def split: if_splits)
  ultimately have tmp: "temp_path (rc_keyring_path repo) \<noteq> rc_keyring_path repo" by blast
  obtain u where "write_pem_file (rc_keyring_path repo) (rc_gpg_public_key repo) False s = (Inr u, s')"
    using w False by (auto simp: write_keyring_def armored_def io_context_def split: prod.splits sum.splits if_splits)
  from write_pem_outcome [OF tmp this] False show ?thesis by auto
next
  case True
  then have key: "rc_keyring_path repo = ''/etc/apt/keyrings/lpa-repo.gpg''"
    using paths by (auto simp: expected_repo_paths_def)
  show ?thesis
  proof (cases "gpg (rc_gpg_public_key repo)")
    case (Dearmored binary)
    obtain t where t: "replace_file (rc_keyring_path repo) binary s = (Inr (), t)"
      "fs_chmod (rc_keyring_path repo) mode_0644 t = (Inr (), s')"
      using w True Dearmored by (auto simp: write_keyring_def armored_def elim!: io_thenE)
    then have "map_option fst (file_at t (rc_keyring_path repo)) = Some binary"
      using replace_file_outcome [of "rc_keyring_path repo" binary s] by simp
    then have "map_option fst (file_at s' (rc_keyring_path repo)) = Some binary"
      using t(2) by (auto simp: fs_chmod_def io_call_def Let_def split: option.splits)
    with True Dearmored show ?thesis by simp
  next
    case GpgNotFound
    have other: "rc_keyring_path repo \<notin> {asc_path (rc_keyring_path repo), temp_path (asc_path (rc_keyring_path repo)),
        backup_path (asc_path (rc_keyring_path repo))}"
      unfolding key by code_simp
    obtain u where "write_pem_file (asc_path (rc_keyring_path repo)) (rc_gpg_public_key repo) False s = (Inr u, s')"
      using w True GpgNotFound by (auto simp: write_keyring_def armored_def io_context_def split: prod.splits sum.splits)
    then have "file_at s' (rc_keyring_path repo) = file_at s (rc_keyring_path repo)"
      using writes_onlyD [OF writes_only_pem [OF subset_refl] other] by (metis snd_conv)
    with True GpgNotFound show ?thesis by simp
  qed (use w True in \<open>auto simp: write_keyring_def armored_def io_err_def\<close>)
qed

text \<open>On Alpine the sources file is extended, and so is never left as the manager's text alone by a provisioning that
  changed it.\<close>

lemma alpine_sources_differ: "alpine_sources existing config \<noteq> config"
proof
  assume "alpine_sources existing config = config"
  then have "length (alpine_sources existing config) = length config" by simp
  then show False by (simp add: alpine_sources_def)
qed

lemma alpine_sources_written:
  assumes run: "provision_alpine_repo_config repo s = (Inr u, s')"
  shows "map_option fst (file_at s' APK_REPOSITORIES) = map_option fst (file_at s APK_REPOSITORIES) \<or>
    map_option fst (file_at s' APK_REPOSITORIES) \<noteq> Some (rc_sources_config repo)"
proof -
  let ?key = "case rc_apk_rsa_public_key repo of
         Some k \<Rightarrow> io_then (ensure_dir ''/etc/apk/keys'') (\<lambda>_.
                     io_then (replace_file APK_KEY k) (\<lambda>_. fs_chmod APK_KEY mode_0644))
       | None \<Rightarrow> io_ok ()"
  let ?P = "{APK_KEY, APK_KEY @ ''.tmp''}"
  have key: "writes_only ?P ?key"
    by (cases "rc_apk_rsa_public_key repo") (auto intro!: writes_only_then writes_only_keyring_dir writes_only_replace)
  have read: "snd (unwrap_or_default m t) = snd (m t)" for m t
    by (simp add: unwrap_or_default_def split: prod.split sum.split)
  let ?rest = "\<lambda>existing. if str_contains existing (rc_sources_config repo) then io_ok ()
       else replace_file APK_REPOSITORIES (alpine_sources existing (rc_sources_config repo))"
  obtain v s1 where st1: "?key s = (Inr v, s1)"
    and more: "io_then (unwrap_or_default (read_to_string APK_REPOSITORIES)) ?rest s1 = (Inr u, s')"
    using run [unfolded provision_alpine_repo_config_def] by (rule io_thenE) simp_all
  obtain existing s2 where st2: "unwrap_or_default (read_to_string APK_REPOSITORIES) s1 = (Inr existing, s2)"
    and last: "?rest existing s2 = (Inr u, s')"
    using more by (rule io_thenE) simp_all
  note st = st1 st2
  have "file_at s1 APK_REPOSITORIES = file_at s APK_REPOSITORIES"
    using writes_onlyD [OF key, of APK_REPOSITORIES s] st(1) by (simp add: APK_REPOSITORIES_def APK_KEY_def)
  moreover have "file_at s2 APK_REPOSITORIES = file_at s1 APK_REPOSITORIES"
    using writes_onlyD [OF writes_only_calls(5) [of "{}" APK_REPOSITORIES], of APK_REPOSITORIES s1]
      read [of "read_to_string APK_REPOSITORIES" s1] st(2) by simp
  ultimately have same: "file_at s2 APK_REPOSITORIES = file_at s APK_REPOSITORIES" by simp
  show ?thesis
  proof (cases "str_contains existing (rc_sources_config repo)")
    case True
    with last same show ?thesis by (simp add: io_ok_def)
  next
    case False
    with last replace_file_outcome [of APK_REPOSITORIES "alpine_sources existing (rc_sources_config repo)" s2]
      alpine_sources_differ [of existing "rc_sources_config repo"]
    show ?thesis by force
  qed
qed

text \<open>A check that finds everything as it should be has read exactly the manager's texts.\<close>

lemma configured_contents:
  assumes "fst (compare_and_provision gpg d paths repo s) = Ok AlreadyConfigured"
  shows "map_option fst (file_at s (fst paths)) = Some (rc_sources_config repo) \<and>
    map_option fst (file_at s (snd paths)) = Some (expected_key d repo)"
proof -
  let ?s1 = "s\<lparr>fs_calls := Suc (fs_calls s)\<rparr>"
  have "readable s (fst paths) = Some (rc_sources_config repo) \<and> readable ?s1 (snd paths) = Some (expected_key d repo)"
    using assms by (auto simp: compare_and_provision_eq Let_def io_ok_def io_context_def io_then_def
        split: if_splits prod.splits sum.splits)
  then show ?thesis using readable_content [of s] readable_content [of ?s1] by fastforce
qed

section \<open>Properties\<close>

text \<open>C34: whether the self-heal settles, for every distribution. After a run that provisioned the manager's
  configuration, the next check of the same configuration, when its reads succeed: on rpm and pacman distributions, and on
  APT ones whose key is not armored, it finds everything as it should be and writes nothing. On an APT distribution with
  an armored key it does not, unless \<open>gpg\<close> gave the armored text back or is missing and the armored text was at the
  keyring's path before; on Alpine it does not unless \<open>/etc/apk/repositories\<close> held nothing but the manager's text before.
  There every check provisions again.\<close>

theorem heal_convergence:
  assumes d: "detect_distro_id os = Ok d" and paths: "expected_repo_paths d = Ok (src, key)"
    and repo: "rc_distro_id repo = d" "rc_keyring_path repo = key" "rc_gpg_public_key repo \<noteq> []" "rc_sources_config repo \<noteq> []"
    and run: "check_and_provision_repo_config gpg os (Ok repo) s = (Ok Provisioned, s1)"
    and quiet: "fs_fault s1 (fs_calls s1) = None" "fs_fault s1 (Suc (fs_calls s1)) = None"
      "fs_text s1 (rc_gpg_public_key repo)" "fs_text s1 (rc_sources_config repo)"
  shows "let again = check_and_provision_repo_config gpg os (Ok repo) s1;
             before = (\<lambda>p. map_option fst (file_at s p));
             pgp = rc_gpg_public_key repo
         in if d = ''alpine''
            then before src = Some (rc_sources_config repo) \<or> fst again \<noteq> Ok AlreadyConfigured
            else if d \<in> set apt_distros \<and> str_contains pgp ''-----BEGIN PGP''
            then gpg pgp = Dearmored pgp \<or> (gpg pgp = GpgNotFound \<and> before key = Some pgp) \<or>
                 fst again \<noteq> Ok AlreadyConfigured
            else again = (Ok AlreadyConfigured, s1\<lparr>fs_calls := Suc (Suc (fs_calls s1))\<rparr>)"
proof -
  obtain s2 u where p: "provision_repo_config gpg repo s2 = (Inr u, s1)" and same: "\<And>q. file_at s2 q = file_at s q"
    using provisioned_run run unfolding heal_unfold [OF d paths] by metis
  note again = heal_unfold [OF d paths, of gpg repo s1]
  show ?thesis
  proof (cases "d = ''alpine''")
    case True
    have src: "src = APK_REPOSITORIES" using paths True
      by (simp add: expected_repo_paths_def APK_REPOSITORIES_def apt_distros_def rpm_distros_def)
    have "provision_alpine_repo_config repo s2 = (Inr u, s1)" using p True repo(1) by (simp add: provision_repo_config_def)
    then have "map_option fst (file_at s1 src) = map_option fst (file_at s src) \<or>
        map_option fst (file_at s1 src) \<noteq> Some (rc_sources_config repo)"
      using alpine_sources_written [of repo s2 u s1] same src by simp
    moreover have "fst (compare_and_provision gpg d (src, key) repo s1) = Ok AlreadyConfigured \<Longrightarrow>
        map_option fst (file_at s1 src) = Some (rc_sources_config repo)"
      using configured_contents [of gpg d "(src, key)" repo s1] by simp
    ultimately show ?thesis unfolding Let_def again using True by argo
  next
    case na: False
    obtain sp t1 t2 where 1: "sources_path_for (rc_distro_id repo) = Ok sp" "write_keyring gpg repo t1 = (Inr (), t2)"
      "\<forall>q. file_at t1 q = file_at s2 q" "map_option fst (file_at s1 sp) = Some (rc_sources_config repo)"
      "\<forall>q. q \<noteq> sp \<longrightarrow> q \<noteq> sp @ ''.tmp'' \<longrightarrow> file_at s1 q = file_at t2 q"
      using provision_ok [of gpg repo s2] p na repo(1) by auto
    have sp: "sp = src" "key \<noteq> src" "key \<noteq> src @ ''.tmp''"
      using expected_sources_path [OF paths na] 1(1) repo(1) by auto
    have "map_option fst (file_at s1 key) = map_option fst (file_at t2 key)" using 1(5) sp by simp
    then have k: "map_option fst (file_at s1 key) =
        (if d \<in> set apt_distros \<and> armored repo
         then (case gpg (rc_gpg_public_key repo) of Dearmored binary \<Rightarrow> Some binary | _ \<Rightarrow> map_option fst (file_at s key))
         else Some (rc_gpg_public_key repo))"
      using keyring_written [OF 1(2)] paths na repo(1,2) 1(3) same by (auto split: gpg_outcome.splits)
    show ?thesis
    proof (cases "d \<in> set apt_distros \<and> armored repo")
      case True
      have stage: "gpg (rc_gpg_public_key repo) = GpgNotFound \<or> (\<exists>b. gpg (rc_gpg_public_key repo) = Dearmored b)"
        using 1(2) True repo(1)
        by (cases "gpg (rc_gpg_public_key repo)") (auto simp: write_keyring_def armored_def io_err_def)
      have "map_option fst (file_at s1 key) = Some (rc_gpg_public_key repo)"
        if "fst (check_and_provision_repo_config gpg os (Ok repo) s1) = Ok AlreadyConfigured"
        using configured_contents [of gpg d "(src, key)" repo s1] that na by (simp add: again expected_key_def)
      with k True stage na show ?thesis by (auto simp: Let_def armored_def)
    next
      case False
      then obtain m where "file_at s1 key = Some (rc_gpg_public_key repo, m)" using k by auto
      then have "check_and_provision_repo_config gpg os (Ok repo) s1
          = (Ok AlreadyConfigured, s1\<lparr>fs_calls := Suc (Suc (fs_calls s1))\<rparr>)"
        using quiet 1(4) sp repo(3,4) na
        by (auto simp: again compare_and_provision_eq Let_def readable_def expected_key_def)
      with False na show ?thesis by (auto simp: Let_def armored_def)
    qed
  qed
qed

definition fedora_repo :: repo_config where
  "fedora_repo = \<lparr>rc_gpg_public_key = ''KEY'', rc_sources_config = ''[lpa]'', rc_distro_id = ''fedora'',
     rc_keyring_path = ''/etc/pki/rpm-gpg/lpa-repo.gpg'', rc_apk_rsa_public_key = None\<rparr>"

definition ubuntu_repo :: repo_config where
  "ubuntu_repo = \<lparr>rc_gpg_public_key = ''-----BEGIN PGP PUBLIC KEY BLOCK-----'', rc_sources_config = ''deb x'',
     rc_distro_id = ''ubuntu'', rc_keyring_path = ''/etc/apt/keyrings/lpa-repo.gpg'', rc_apk_rsa_public_key = None\<rparr>"

theorem heal_convergence_witness:
  "fst (check_and_provision_repo_config (\<lambda>_. GpgNotFound) (Some ''ID=fedora'') (Ok fedora_repo)
     (snd (check_and_provision_repo_config (\<lambda>_. GpgNotFound) (Some ''ID=fedora'') (Ok fedora_repo) empty_store)))
     = Ok AlreadyConfigured \<and>
   fst (check_and_provision_repo_config (\<lambda>_. Dearmored ''binary'') (Some ''ID=ubuntu'') (Ok ubuntu_repo)
     (snd (check_and_provision_repo_config (\<lambda>_. Dearmored ''binary'') (Some ''ID=ubuntu'') (Ok ubuntu_repo) empty_store)))
     \<noteq> Ok AlreadyConfigured"
proof -
  define r where "r = check_and_provision_repo_config (\<lambda>_. GpgNotFound) (Some ''ID=fedora'') (Ok fedora_repo) empty_store"
  have "fst r = Ok Provisioned" unfolding r_def by code_simp
  then have run: "check_and_provision_repo_config (\<lambda>_. GpgNotFound) (Some ''ID=fedora'') (Ok fedora_repo) empty_store
      = (Ok Provisioned, snd r)" by (simp add: r_def prod_eq_iff)
  have d: "detect_distro_id (Some ''ID=fedora'') = Ok ''fedora''" by code_simp
  have paths: "expected_repo_paths ''fedora'' = Ok (''/etc/yum.repos.d/lpa.repo'', ''/etc/pki/rpm-gpg/lpa-repo.gpg'')" by code_simp
  have quiet: "fs_fault (snd r) (fs_calls (snd r)) = None" "fs_fault (snd r) (Suc (fs_calls (snd r))) = None"
    "fs_text (snd r) ''KEY''" "fs_text (snd r) ''[lpa]''"
    unfolding r_def by code_simp+
  define r2 where "r2 = check_and_provision_repo_config (\<lambda>_. Dearmored ''binary'') (Some ''ID=ubuntu'') (Ok ubuntu_repo) empty_store"
  have "fst r2 = Ok Provisioned" unfolding r2_def by code_simp
  then have run2: "check_and_provision_repo_config (\<lambda>_. Dearmored ''binary'') (Some ''ID=ubuntu'') (Ok ubuntu_repo) empty_store
      = (Ok Provisioned, snd r2)" by (simp add: r2_def prod_eq_iff)
  have d2: "detect_distro_id (Some ''ID=ubuntu'') = Ok ''ubuntu''" by code_simp
  have paths2: "expected_repo_paths ''ubuntu'' = Ok (''/etc/apt/sources.list.d/lpa.list'', ''/etc/apt/keyrings/lpa-repo.gpg'')"
    by code_simp
  have quiet2: "fs_fault (snd r2) (fs_calls (snd r2)) = None" "fs_fault (snd r2) (Suc (fs_calls (snd r2))) = None"
    "fs_text (snd r2) (rc_gpg_public_key ubuntu_repo)" "fs_text (snd r2) (rc_sources_config ubuntu_repo)"
    unfolding r2_def by code_simp+
  have case2: "''ubuntu'' \<in> set apt_distros" "str_contains (rc_gpg_public_key ubuntu_repo) ''-----BEGIN PGP''"
    "''binary'' \<noteq> rc_gpg_public_key ubuntu_repo" by code_simp+
  have repo: "rc_distro_id fedora_repo = ''fedora''" "rc_keyring_path fedora_repo = ''/etc/pki/rpm-gpg/lpa-repo.gpg''"
    "rc_gpg_public_key fedora_repo = ''KEY''" "rc_sources_config fedora_repo = ''[lpa]''"
    by (simp_all add: fedora_repo_def)
  have repo2: "rc_distro_id ubuntu_repo = ''ubuntu''" "rc_keyring_path ubuntu_repo = ''/etc/apt/keyrings/lpa-repo.gpg''"
    "rc_gpg_public_key ubuntu_repo \<noteq> []" "rc_sources_config ubuntu_repo \<noteq> []"
    by (simp_all add: ubuntu_repo_def)
  have "fst (check_and_provision_repo_config (\<lambda>_. GpgNotFound) (Some ''ID=fedora'') (Ok fedora_repo) (snd r)) = Ok AlreadyConfigured"
    using heal_convergence [OF d paths repo(1,2) _ _ run] repo quiet by (simp add: apt_distros_def Let_def)
  moreover have "fst (check_and_provision_repo_config (\<lambda>_. Dearmored ''binary'') (Some ''ID=ubuntu'') (Ok ubuntu_repo) (snd r2))
      \<noteq> Ok AlreadyConfigured"
    using heal_convergence [OF d2 paths2 repo2 run2 quiet2] case2 by (simp add: Let_def)
  ultimately show ?thesis unfolding r_def r2_def ..
qed

end
