(* ===== verification/Identity.thy ===== *)
theory Identity imports Whitelist Sorting Repo_Health begin

text \<open>
  \<open>src/enroll/identity.rs\<close>: what the agent tells the manager about its host. What the code reads from
  files, from the commands it runs and from the interfaces of the host is the record \<open>id_env\<close>: a file is
  its content when it can be read, a command its trimmed-later standard output when it succeeded.
\<close>

section \<open>The host\<close>

record iface =
  if_name :: string
  if_ip :: ip_addr
  if_loopback :: bool      \<comment> \<open>\<open>Interface::is_loopback\<close> of the crate\<close>

datatype route_outcome = RouteSpawnError string | RouteFailed string | RouteOutput string

datatype uname_outcome = UnameSpawnError | UnameFailed | UnameOutput string

record id_env =
  ie_machine_id :: "string option"
  ie_dbus_machine_id :: "string option"
  ie_hostname_f :: "string option"
  ie_hostname :: "string option"
  ie_hostname_d :: "string option"
  ie_etc_hostname :: "string option"
  ie_ifaces :: "iface list option"
  ie_route :: "string \<Rightarrow> route_outcome"
  ie_os_release :: "string option"
  ie_uname :: uname_outcome

section \<open>Names\<close>

definition get_machine_id :: "id_env \<Rightarrow> (anyhow, string) result" where
  "get_machine_id env =
     (let fallback = (case ie_dbus_machine_id env of
            None \<Rightarrow> Err (anyhow_msg ''Failed to read machine-id from /etc/machine-id or /var/lib/dbus/machine-id'')
          | Some t \<Rightarrow> if trim t = [] then Err (anyhow_msg ''machine-id file is empty'') else Ok (trim t))
      in case ie_machine_id env of
           Some t \<Rightarrow> if trim t \<noteq> [] then Ok (trim t) else fallback
         | None \<Rightarrow> fallback)"

definition fqdn_from_f :: "id_env \<Rightarrow> string option" where
  "fqdn_from_f env =
     (case ie_hostname_f env of None \<Rightarrow> None
      | Some out \<Rightarrow> let n = trim out in
          if n \<noteq> [] \<and> CHR ''.'' \<in> set n \<and> n \<noteq> ''(none)'' then Some n else None)"

definition fqdn_from_domain :: "id_env \<Rightarrow> string option" where
  "fqdn_from_domain env =
     (case ie_hostname env of None \<Rightarrow> None
      | Some out \<Rightarrow> let short = trim out in
          if short \<noteq> [] \<and> short \<noteq> ''(none)'' then
            (case ie_hostname_d env of None \<Rightarrow> None
             | Some d \<Rightarrow> if trim d \<noteq> [] then Some (short @ ''.'' @ trim d) else None)
          else None)"

definition name_from_etc :: "id_env \<Rightarrow> string option" where
  "name_from_etc env =
     (case ie_etc_hostname env of None \<Rightarrow> None
      | Some t \<Rightarrow> if trim t \<noteq> [] \<and> trim t \<noteq> ''(none)'' then Some (trim t) else None)"

definition name_from_command :: "id_env \<Rightarrow> string option" where
  "name_from_command env =
     (case ie_hostname env of None \<Rightarrow> None | Some t \<Rightarrow> if trim t \<noteq> [] then Some (trim t) else None)"

definition get_fqdn :: "id_env \<Rightarrow> string" where
  "get_fqdn env =
     (case fqdn_from_f env of Some n \<Rightarrow> n | None \<Rightarrow>
      (case fqdn_from_domain env of Some n \<Rightarrow> n | None \<Rightarrow>
       (case name_from_etc env of Some n \<Rightarrow> n | None \<Rightarrow>
        (case name_from_command env of Some n \<Rightarrow> n | None \<Rightarrow> ''localhost''))))"

definition first_label :: "string \<Rightarrow> string" where
  "first_label n = hd (split_on CHR ''.'' n)"

definition get_hostname :: "id_env \<Rightarrow> string" where
  "get_hostname env =
     (case name_from_etc env of Some n \<Rightarrow> first_label n | None \<Rightarrow>
      (case name_from_command env of Some n \<Rightarrow> first_label n | None \<Rightarrow>
       (let fqdn = get_fqdn env in
        if fqdn \<noteq> ''localhost'' \<and> CHR ''.'' \<in> set fqdn then first_label fqdn else ''localhost'')))"

section \<open>Addresses\<close>

definition octet :: "nat \<Rightarrow> ipv4 \<Rightarrow> u8" where
  "octet i addr = of_nat (octets addr ! i)"

definition is_container_bridge :: "ipv4 \<Rightarrow> bool" where
  "is_container_bridge addr = (octet 0 addr = 172 \<and> octet 1 addr AND 0xF0 = 0x10)"

definition is_link_local :: "ipv4 \<Rightarrow> bool" where
  "is_link_local addr = (octet 0 addr = 169 \<and> octet 1 addr = 254)"

text \<open>\<open>Ipv4Addr::is_loopback\<close> of the standard library.\<close>

definition is_loopback :: "ipv4 \<Rightarrow> bool" where
  "is_loopback addr = (octet 0 addr = 127)"

definition reported_addr :: "iface \<Rightarrow> string option" where
  "reported_addr f =
     (if if_loopback f then None
      else case if_ip f of
        V4 a \<Rightarrow> if is_container_bridge a \<or> is_link_local a then None else Some (show_ipv4 a)
      | V6 _ \<Rightarrow> None)"

definition get_ip_addresses :: "id_env \<Rightarrow> (anyhow, string list) result" where
  "get_ip_addresses env =
     (case ie_ifaces env of
        None \<Rightarrow> Err (anyhow_msg ''Failed to enumerate network interfaces'')
      | Some fs \<Rightarrow> Ok (remdups_adj (sort_by str_le (List.map_filter reported_addr fs))))"

text \<open>The word after the first \<open>src\<close>, if it is an address worth reporting.\<close>

fun route_src :: "string list \<Rightarrow> string option" where
  "route_src (a # b # ws) =
     (if a = ''src'' then
        (case parse_ipv4 b of
           Some addr \<Rightarrow> if \<not> is_loopback addr \<and> \<not> is_container_bridge addr \<and> \<not> is_link_local addr
                        then Some b else None
         | None \<Rightarrow> None)
      else route_src (b # ws))"
| "route_src _ = None"

definition get_route_source_ip :: "id_env \<Rightarrow> string \<Rightarrow> (anyhow, string) result" where
  "get_route_source_ip env target_ip =
     (case ie_route env target_ip of
        RouteSpawnError e \<Rightarrow> Err (add_context ''Failed to execute ip route get -- is iproute2 installed?'' (anyhow_msg e))
      | RouteFailed err \<Rightarrow> Err (anyhow_msg (''ip route get '' @ target_ip @ '' failed: '' @ trim err))
      | RouteOutput out \<Rightarrow>
          (case route_src (split_whitespace out) of
             Some ip \<Rightarrow> Ok ip
           | None \<Rightarrow> Err (anyhow_msg (''Could not determine source IP for route to '' @ quoted target_ip
               @ '' -- ip route get output: '' @ trim out))))"

definition iface_v4 :: "string \<Rightarrow> iface \<Rightarrow> string option" where
  "iface_v4 name f =
     (if if_name f \<noteq> name then None
      else case if_ip f of V4 a \<Rightarrow> if \<not> if_loopback f then Some (show_ipv4 a) else None | V6 _ \<Rightarrow> None)"

definition get_ip_for_interface :: "id_env \<Rightarrow> string \<Rightarrow> (anyhow, string) result" where
  "get_ip_for_interface env name =
     (case ie_ifaces env of
        None \<Rightarrow> Err (anyhow_msg ''Failed to enumerate network interfaces for interface lookup'')
      | Some fs \<Rightarrow> (case List.map_filter (iface_v4 name) fs of
          ip # _ \<Rightarrow> Ok ip
        | [] \<Rightarrow> Err (anyhow_msg (''No non-loopback IPv4 address found on interface '' @ quoted name))))"

definition explicit_ip :: "string option \<Rightarrow> string option" where
  "explicit_ip report_ip =
     (case report_ip of None \<Rightarrow> None
      | Some ip \<Rightarrow> (case parse_ipv4 ip of
          Some addr \<Rightarrow> if \<not> is_loopback addr then Some ip else None
        | None \<Rightarrow> None))"

definition ok_of :: "('e, 'a) result \<Rightarrow> 'a option" where
  "ok_of r = (case r of Inl _ \<Rightarrow> None | Inr a \<Rightarrow> Some a)"

definition get_primary_ip ::
    "id_env \<Rightarrow> string option \<Rightarrow> string option \<Rightarrow> string option \<Rightarrow> (anyhow, string) result" where
  "get_primary_ip env report_interface report_ip route_target =
     (case explicit_ip report_ip of Some ip \<Rightarrow> Ok ip | None \<Rightarrow>
      (case (case report_interface of Some f \<Rightarrow> ok_of (get_ip_for_interface env f) | None \<Rightarrow> None) of
         Some ip \<Rightarrow> Ok ip | None \<Rightarrow>
       (case (case route_target of Some t \<Rightarrow> ok_of (get_route_source_ip env t) | None \<Rightarrow> None) of
          Some ip \<Rightarrow> Ok ip | None \<Rightarrow>
        bind_res (get_ip_addresses env) (\<lambda>addrs. case addrs of
           ip # _ \<Rightarrow> Ok ip
         | [] \<Rightarrow> Err (anyhow_msg ''No suitable IPv4 address found on any interface'')))))"

section \<open>The operating system\<close>

definition detail_key :: "string \<Rightarrow> string option" where
  "detail_key k =
     (if k = ''NAME'' then Some ''distro''
      else if k = ''ID'' then Some ''name''
      else if k = ''VERSION_ID'' then Some ''version''
      else if k = ''ID_LIKE'' then Some ''id_like''
      else if k = ''VERSION_CODENAME'' then Some ''codename''
      else None)"

definition os_detail_step :: "(string, string) hashmap \<Rightarrow> string \<Rightarrow> (string, string) hashmap" where
  "os_detail_step m line =
     (let l = trim line in
      if l = [] \<or> hd l = CHR ''#'' then m
      else case split_once CHR ''='' l of
        None \<Rightarrow> m
      | Some (k, v) \<Rightarrow> (case detail_key k of
          None \<Rightarrow> m
        | Some d \<Rightarrow> AList.update d (unquote v) m))"

definition get_os_details :: "id_env \<Rightarrow> (string, string) hashmap" where
  "get_os_details env =
     (let details = (case ie_os_release env of
            Some content \<Rightarrow> foldl os_detail_step [] (str_lines content)
          | None \<Rightarrow> AList.update ''version'' ''unknown'' (AList.update ''distro'' ''unknown'' []))
      in case ie_uname env of
           UnameOutput out \<Rightarrow> AList.update ''kernel'' (trim out) details
         | UnameFailed \<Rightarrow> details
         | UnameSpawnError \<Rightarrow> AList.update ''kernel'' ''unknown'' details)"

section \<open>Lemmas\<close>

lemma octet_eq: "n < 256 \<Longrightarrow> m < 256 \<Longrightarrow> (of_nat n :: u8) = of_nat m \<longleftrightarrow> n = m"
proof -
  assume "n < 256" "m < 256"
  then have "unat (of_nat n :: u8) = n" "unat (of_nat m :: u8) = m"
    by (simp_all add: unat_of_nat take_bit_eq_mod)
  then show ?thesis by metis
qed

lemma octets_small: "octets a ! 0 < 256" "octets a ! 1 < 256"
  using unat_ipv4_less [of a] by (simp_all add: octets_def)

lemma octet_iff: "m < 256 \<Longrightarrow> octet 0 a = of_nat m \<longleftrightarrow> octets a ! 0 = m"
  "m < 256 \<Longrightarrow> octet 1 a = of_nat m \<longleftrightarrow> octets a ! 1 = m"
  using octets_small octet_eq by (simp_all add: octet_def)

lemma high_nibble: "n < 256 \<Longrightarrow> (of_nat n :: u8) AND 0xF0 = 0x10 \<longleftrightarrow> n div 16 = 1"
proof -
  have "list_all (\<lambda>n. ((of_nat n :: u8) AND 0xF0 = 0x10) = (n div 16 = 1)) [0..<256]" by code_simp
  then show "n < 256 \<Longrightarrow> ?thesis" by (simp add: list_all_iff del: upt_rec_numeral)
qed

lemma subnet_unat:
  assumes "unat p \<le> 32"
  shows "ip_in_subnet ip net p \<longleftrightarrow> unat ip div 2 ^ (32 - unat p) = unat net div 2 ^ (32 - unat p)"
proof -
  have "ip_in_subnet ip net p \<longleftrightarrow> drop_bit (32 - unat p) ip = drop_bit (32 - unat p) net"
    by (rule ip_in_subnet_drop [OF assms])
  also have "\<dots> \<longleftrightarrow> unat (drop_bit (32 - unat p) ip) = unat (drop_bit (32 - unat p) net)"
    by (rule word_unat_eq_iff)
  finally show ?thesis by (simp only: unat_drop_bit_div)
qed

lemma octets_div: "octets a ! 0 = unat a div 65536 div 256" "octets a ! 1 = unat a div 65536 mod 256"
  by (simp_all add: octets_def div_mult2_eq [symmetric])

lemma split_byte:
  "(x :: nat) div 256 = 172 \<and> x mod 256 div 16 = 1 \<longleftrightarrow> x div 16 = 2753"
  "(x :: nat) div 256 = 169 \<and> x mod 256 = 254 \<longleftrightarrow> x = 43518"
proof -
  have "x div 256 = x div 16 div 16" by (simp add: div_mult2_eq [symmetric])
  moreover have "x mod 256 div 16 = x div 16 mod 16" using mod_mult2_eq [of x 16 16] by simp
  moreover have "y div 16 = 172 \<and> y mod 16 = 1 \<longleftrightarrow> y = 2753" for y :: nat
    by presburger
  ultimately show "x div 256 = 172 \<and> x mod 256 div 16 = 1 \<longleftrightarrow> x div 16 = 2753" by simp
  show "x div 256 = 169 \<and> x mod 256 = 254 \<longleftrightarrow> x = 43518"
  proof
    assume "x div 256 = 169 \<and> x mod 256 = 254"
    then show "x = 43518" using div_mult_mod_eq [of x 256] by simp
  qed simp
qed

lemma bridge_subnet: "is_container_bridge a \<longleftrightarrow> ip_in_subnet a (mk_ipv4 172 16 0 0) 12"
proof -
  have "is_container_bridge a \<longleftrightarrow> octets a ! 0 = 172 \<and> octets a ! 1 div 16 = 1"
    using octet_iff(1) [of 172 a] high_nibble [OF octets_small(2), of a]
    by (simp add: is_container_bridge_def octet_def)
  also have "\<dots> \<longleftrightarrow> unat a div 65536 div 16 = 2753" unfolding octets_div by (rule split_byte)
  also have "\<dots> \<longleftrightarrow> unat a div 2 ^ (32 - unat (12 :: u8)) = unat (mk_ipv4 172 16 0 0) div 2 ^ (32 - unat (12 :: u8))"
    by (simp add: mk_ipv4_def div_mult2_eq [symmetric])
  finally show ?thesis using subnet_unat [of 12 a "mk_ipv4 172 16 0 0"] by simp
qed

lemma link_local_subnet: "is_link_local a \<longleftrightarrow> ip_in_subnet a (mk_ipv4 169 254 0 0) 16"
proof -
  have "is_link_local a \<longleftrightarrow> octets a ! 0 = 169 \<and> octets a ! 1 = 254"
    using octet_iff(1) [of 169 a] octet_iff(2) [of 254 a] by (simp add: is_link_local_def)
  also have "\<dots> \<longleftrightarrow> unat a div 65536 = 43518" unfolding octets_div by (rule split_byte)
  also have "\<dots> \<longleftrightarrow> unat a div 2 ^ (32 - unat (16 :: u8)) = unat (mk_ipv4 169 254 0 0) div 2 ^ (32 - unat (16 :: u8))"
    by (simp add: mk_ipv4_def)
  finally show ?thesis using subnet_unat [of 16 a "mk_ipv4 169 254 0 0"] by simp
qed

lemma route_src_address:
  "route_src ws = Some ip \<Longrightarrow> \<exists>a. parse_ipv4 ip = Some a \<and> \<not> is_loopback a \<and> \<not> is_container_bridge a \<and> \<not> is_link_local a"
  by (induction ws rule: route_src.induct) (auto split: if_splits option.splits)

lemma map_filter_hd:
  assumes "List.map_filter f xs = y # ys"
  shows "\<exists>x \<in> set xs. f x = Some y"
proof -
  have "y \<in> set (List.map_filter f xs)" using assms by simp
  then show ?thesis by (auto simp: List.map_filter_def)
qed

lemma addresses_hd:
  assumes "get_ip_addresses env = Ok (ip # rest)"
  shows "\<exists>fs f. ie_ifaces env = Some fs \<and> f \<in> set fs \<and> reported_addr f = Some ip"
proof -
  obtain fs where fs: "ie_ifaces env = Some fs" "remdups_adj (sort_by str_le (List.map_filter reported_addr fs)) = ip # rest"
    using assms by (auto simp: get_ip_addresses_def split: option.splits)
  then have "ip \<in> set (List.map_filter reported_addr fs)"
    by (metis list.set_intros(1) mset_sort_by remdups_adj_set set_mset_mset)
  then show ?thesis using fs(1) by (auto simp: List.map_filter_def)
qed

section \<open>Properties\<close>

text \<open>The octet tests are the subnets they stand for: a container bridge address is one of 172.16.0.0/12
  and a link-local address one of 169.254.0.0/16, by the same subnet test the whitelist uses.\<close>

theorem octet_tests_are_subnets:
  "(is_container_bridge a \<longleftrightarrow> ip_in_subnet a (mk_ipv4 172 16 0 0) 12) \<and>
   (is_link_local a \<longleftrightarrow> ip_in_subnet a (mk_ipv4 169 254 0 0) 16)"
  using bridge_subnet link_local_subnet by blast

text \<open>The reported address is always a well-formed IPv4 address that is not loopback; unless the administrator
  named the address or the interface, it is also neither a container bridge nor link-local. The crate's
  \<open>is_loopback\<close> of an IPv4 interface is that of its address.\<close>

theorem primary_ip_reportable:
  assumes ifs: "\<forall>fs f a. ie_ifaces env = Some fs \<longrightarrow> f \<in> set fs \<longrightarrow> if_ip f = V4 a \<longrightarrow> if_loopback f = is_loopback a"
    and ip: "get_primary_ip env report_interface report_ip route_target = Ok ip"
  shows "\<exists>a. parse_ipv4 ip = Some a \<and> \<not> is_loopback a \<and>
    (report_ip = Some ip \<or> (\<exists>n. report_interface = Some n \<and> get_ip_for_interface env n = Ok ip) \<or>
     (\<not> is_container_bridge a \<and> \<not> is_link_local a))"
proof (cases "explicit_ip report_ip")
  case (Some x)
  then show ?thesis using ip by (auto simp: get_primary_ip_def explicit_ip_def split: option.splits if_splits)
next
  case no_ip: None
  show ?thesis
  proof (cases "case report_interface of Some f \<Rightarrow> ok_of (get_ip_for_interface env f) | None \<Rightarrow> None")
    case (Some x)
    then have x: "x = ip" using ip no_ip by (simp add: get_primary_ip_def)
    obtain n where n: "report_interface = Some n" "get_ip_for_interface env n = Ok ip"
      using Some x by (auto simp: ok_of_def split: option.splits sum.splits)
    then obtain fs rest where "ie_ifaces env = Some fs" "List.map_filter (iface_v4 n) fs = ip # rest"
      by (auto simp: get_ip_for_interface_def split: option.splits list.splits)
    then obtain f where "f \<in> set fs" "iface_v4 n f = Some ip" "ie_ifaces env = Some fs" using map_filter_hd by metis
    then show ?thesis using n ifs by (auto simp: iface_v4_def parse_show_ipv4 split: if_splits ip_addr.splits)
  next
    case no_if: None
    show ?thesis
    proof (cases "case route_target of Some t \<Rightarrow> ok_of (get_route_source_ip env t) | None \<Rightarrow> None")
      case (Some x)
      then have "x = ip" using ip no_ip no_if by (simp add: get_primary_ip_def)
      with Some route_src_address show ?thesis
        by (fastforce simp: ok_of_def get_route_source_ip_def split: option.splits sum.splits route_outcome.splits)
    next
      case None
      then obtain rest where "get_ip_addresses env = Ok (ip # rest)"
        using ip no_ip no_if by (auto simp: get_primary_ip_def bind_res_def split: sum.splits list.splits)
      then obtain fs f where "ie_ifaces env = Some fs" "f \<in> set fs" "reported_addr f = Some ip"
        using addresses_hd by blast
      then show ?thesis using ifs by (auto simp: reported_addr_def parse_show_ipv4 split: if_splits ip_addr.splits)
    qed
  qed
qed

definition demo_host :: id_env where
  "demo_host =
     \<lparr>ie_machine_id = Some ''abc'', ie_dbus_machine_id = None, ie_hostname_f = Some ''h.example.org'', ie_hostname = Some ''h'',
      ie_hostname_d = None, ie_etc_hostname = None,
      ie_ifaces = Some [\<lparr>if_name = ''lo'', if_ip = V4 (mk_ipv4 127 0 0 1), if_loopback = True\<rparr>,
                        \<lparr>if_name = ''docker0'', if_ip = V4 (mk_ipv4 172 17 0 1), if_loopback = False\<rparr>,
                        \<lparr>if_name = ''eth0'', if_ip = V4 (mk_ipv4 192 168 3 36), if_loopback = False\<rparr>],
      ie_route = (\<lambda>_. RouteFailed []), ie_os_release = Some ''ID=ubuntu'', ie_uname = UnameOutput ''6.8''\<rparr>"

theorem primary_ip_reportable_witness:
  "\<exists>ip a. get_primary_ip demo_host None None None = Ok ip \<and> parse_ipv4 ip = Some a \<and> \<not> is_container_bridge a"
proof -
  have lo: "is_loopback (mk_ipv4 127 0 0 1)" "\<not> is_loopback (mk_ipv4 172 17 0 1)" "\<not> is_loopback (mk_ipv4 192 168 3 36)"
    "is_container_bridge (mk_ipv4 172 17 0 1)" "\<not> is_container_bridge (mk_ipv4 192 168 3 36)" "\<not> is_link_local (mk_ipv4 192 168 3 36)"
    by (simp_all add: is_loopback_def octet_def octets_def mk_ipv4_def is_container_bridge_def is_link_local_def)
  have run: "get_primary_ip demo_host None None None = Ok (show_ipv4 (mk_ipv4 192 168 3 36))"
    using lo by (simp add: get_primary_ip_def explicit_ip_def get_ip_addresses_def demo_host_def map_filter_simps
        reported_addr_def sort_by_def)
  have "\<forall>fs f a. ie_ifaces demo_host = Some fs \<longrightarrow> f \<in> set fs \<longrightarrow> if_ip f = V4 a \<longrightarrow> if_loopback f = is_loopback a"
    using lo by (auto simp: demo_host_def)
  from primary_ip_reportable [OF this run] run show ?thesis by auto
qed

end
