(* ===== verification/Jobs.thy ===== *)
theory Jobs imports Error_Utils begin

text \<open>
  \<open>src/jobs/manager.rs\<close>: the job record, its status and operation types, the lifecycle
  transitions and the events broadcast to WebSocket clients.

  A transition reads the clock once: the argument \<open>now\<close> stands for \<open>Utc::now()\<close>. The fresh
  UUID of \<open>Job::new\<close> and the content of the kernel's \<open>boot_id\<close> file are arguments. Timestamps
  stay numbers; their RFC 3339 text belongs to the \<open>chrono\<close> crate.
\<close>

section \<open>Types\<close>

definition current_boot_id :: "string option \<Rightarrow> string option" where
  "current_boot_id boot_file =
     (case boot_file of None \<Rightarrow> None
      | Some s \<Rightarrow> let t = trim s in if t \<noteq> [] then Some t else None)"

datatype job_status = Pending | Running | Rebooting | Completed | Failed | Cancelled | TimedOut

fun as_str :: "job_status \<Rightarrow> string" where
  "as_str Pending = ''pending''"
| "as_str Running = ''running''"
| "as_str Rebooting = ''rebooting''"
| "as_str Completed = ''completed''"
| "as_str Failed = ''failed''"
| "as_str Cancelled = ''cancelled''"
| "as_str TimedOut = ''timed_out''"

fun is_active :: "job_status \<Rightarrow> bool" where
  "is_active Pending = True"
| "is_active Running = True"
| "is_active Rebooting = True"
| "is_active _ = False"

fun is_terminal :: "job_status \<Rightarrow> bool" where
  "is_terminal Completed = True"
| "is_terminal Failed = True"
| "is_terminal Cancelled = True"
| "is_terminal TimedOut = True"
| "is_terminal _ = False"

datatype job_operation = Install | Update | Remove | PatchApply | Reboot | SelfUpdate | Rollback

record job =
  j_id :: uuid
  j_status :: job_status
  j_operation :: job_operation
  j_created_at :: time
  j_updated_at :: time
  j_completed_at :: "time option"
  j_packages :: "string list"
  j_progress :: u8
  j_message :: string
  j_logs :: "string list"
  j_error :: "string option"
  j_error_code :: "string option"
  j_exit_code :: "i32 option"
  j_command_stdout :: "string option"
  j_command_stderr :: "string option"
  j_rollback_job_id :: "uuid option"
  j_exclusive_mode :: bool
  j_boot_id :: "string option"

section \<open>Lifecycle\<close>

definition new_job :: "uuid \<Rightarrow> time \<Rightarrow> string option \<Rightarrow> job_operation \<Rightarrow> string list \<Rightarrow> job" where
  "new_job new_id now boot operation packages =
     \<lparr>j_id = new_id, j_status = Pending, j_operation = operation, j_created_at = now,
      j_updated_at = now, j_completed_at = None, j_packages = packages, j_progress = 0,
      j_message = ''Job created'', j_logs = [], j_error = None, j_error_code = None,
      j_exit_code = None, j_command_stdout = None, j_command_stderr = None,
      j_rollback_job_id = None, j_exclusive_mode = False, j_boot_id = boot\<rparr>"

definition is_internal :: "job \<Rightarrow> bool" where
  "is_internal j = list_ex (\<lambda>p. starts_with p ''__'' \<and> ends_with p ''__'') (j_packages j)"

definition add_log :: "time \<Rightarrow> string \<Rightarrow> job \<Rightarrow> job" where
  "add_log now msg j = j\<lparr>j_logs := j_logs j @ [msg], j_updated_at := now\<rparr>"

definition update_progress :: "time \<Rightarrow> u8 \<Rightarrow> string \<Rightarrow> job \<Rightarrow> job" where
  "update_progress now p msg j = j\<lparr>j_progress := p, j_message := msg, j_updated_at := now\<rparr>"

definition start :: "time \<Rightarrow> job \<Rightarrow> job" where
  "start now j = add_log now ''Job started'' (j\<lparr>j_status := Running, j_updated_at := now\<rparr>)"

definition complete :: "time \<Rightarrow> job \<Rightarrow> job" where
  "complete now j =
     add_log now ''Job completed successfully''
       (j\<lparr>j_status := Completed, j_progress := 100, j_completed_at := Some now, j_updated_at := now\<rparr>)"

definition set_rebooting :: "time \<Rightarrow> string \<Rightarrow> job \<Rightarrow> job" where
  "set_rebooting now msg j =
     add_log now ''Patches applied; awaiting reboot''
       (j\<lparr>j_status := Rebooting, j_message := msg, j_updated_at := now\<rparr>)"

definition fail :: "time \<Rightarrow> string \<Rightarrow> job \<Rightarrow> job" where
  "fail now error j =
     add_log now (''Job failed: '' @ error)
       (j\<lparr>j_status := Failed, j_error := Some error, j_completed_at := Some now, j_updated_at := now\<rparr>)"

definition fail_with_diagnostics :: "(anyhow \<Rightarrow> string) \<Rightarrow> time \<Rightarrow> anyhow \<Rightarrow> job \<Rightarrow> job" where
  "fail_with_diagnostics dbg now e j =
     (let error_chain = format_error_chain dbg e;
          j1 = j\<lparr>j_error := Some error_chain, j_error_code := Some (classify_error e),
                 j_exit_code := extract_exit_code e, j_command_stdout := extract_stdout e,
                 j_command_stderr := extract_stderr e\<rparr>;
          j2 = j1\<lparr>j_status := Failed, j_completed_at := Some now, j_updated_at := now\<rparr>;
          j3 = add_log now (''Job failed: '' @ error_chain) j2
      in fold (add_log now) (diagnostic_log_lines dbg e) j3)"

record job_status_event =
  ev_event :: string
  ev_job_id :: uuid
  ev_status :: string
  ev_progress :: u8
  ev_message :: string
  ev_timestamp :: time
  ev_error :: "string option"
  ev_error_code :: "string option"

section \<open>Lemmas\<close>

lemmas lifecycle_defs [job_defs] = new_job_def add_log_def update_progress_def start_def
  complete_def set_rebooting_def fail_def

lemma active_xor_terminal: "is_active s \<noteq> is_terminal s"
  by (cases s) auto

lemma active_iff: "is_active s \<longleftrightarrow> s = Pending \<or> s = Running \<or> s = Rebooting"
  by (cases s) auto

lemma terminal_iff: "is_terminal s \<longleftrightarrow> s = Completed \<or> s = Failed \<or> s = Cancelled \<or> s = TimedOut"
  by (cases s) auto

lemma add_log_fields [simp]:
  "j_id (add_log n m j) = j_id j" "j_status (add_log n m j) = j_status j"
  "j_operation (add_log n m j) = j_operation j" "j_packages (add_log n m j) = j_packages j"
  "j_progress (add_log n m j) = j_progress j" "j_message (add_log n m j) = j_message j"
  "j_created_at (add_log n m j) = j_created_at j" "j_updated_at (add_log n m j) = n"
  "j_completed_at (add_log n m j) = j_completed_at j" "j_error (add_log n m j) = j_error j"
  "j_error_code (add_log n m j) = j_error_code j" "j_exit_code (add_log n m j) = j_exit_code j"
  "j_command_stdout (add_log n m j) = j_command_stdout j"
  "j_command_stderr (add_log n m j) = j_command_stderr j"
  "j_logs (add_log n m j) = j_logs j @ [m]"
  by (simp_all add: add_log_def)

lemma fold_add_log_fields [simp]:
  "j_id (fold (add_log n) ls j) = j_id j" "j_status (fold (add_log n) ls j) = j_status j"
  "j_packages (fold (add_log n) ls j) = j_packages j"
  "j_completed_at (fold (add_log n) ls j) = j_completed_at j"
  "j_error (fold (add_log n) ls j) = j_error j"
  "j_error_code (fold (add_log n) ls j) = j_error_code j"
  "j_exit_code (fold (add_log n) ls j) = j_exit_code j"
  "j_command_stdout (fold (add_log n) ls j) = j_command_stdout j"
  "j_command_stderr (fold (add_log n) ls j) = j_command_stderr j"
  "j_logs (fold (add_log n) ls j) = j_logs j @ ls"
  "j_operation (fold (add_log n) ls j) = j_operation j"
  by (induction ls arbitrary: j) simp_all

lemma j_status_ops [simp]:
  "j_status (new_job i n b oper p) = Pending"
  "j_status (start n j) = Running"
  "j_status (complete n j) = Completed"
  "j_status (set_rebooting n m j) = Rebooting"
  "j_status (fail n m j) = Failed"
  "j_status (fail_with_diagnostics dbg n e j) = Failed"
  "j_status (update_progress n q m j) = j_status j"
  by (simp_all add: job_defs fail_with_diagnostics_def Let_def)

lemma j_packages_ops [simp]:
  "j_packages (new_job i n b oper p) = p"
  "j_packages (start n j) = j_packages j"
  "j_packages (complete n j) = j_packages j"
  "j_packages (set_rebooting n m j) = j_packages j"
  "j_packages (fail n m j) = j_packages j"
  "j_packages (fail_with_diagnostics dbg n e j) = j_packages j"
  by (simp_all add: job_defs fail_with_diagnostics_def Let_def)

lemma j_id_ops [simp]:
  "j_id (new_job i n b oper p) = i"
  "j_id (complete n j) = j_id j"
  "j_id (set_rebooting n m j) = j_id j"
  "j_id (fail n m j) = j_id j"
  "j_id (fail_with_diagnostics dbg n e j) = j_id j"
  by (simp_all add: job_defs fail_with_diagnostics_def Let_def)

lemma is_internal_cong: "j_packages j = j_packages j' \<Longrightarrow> is_internal j = is_internal j'"
  by (simp add: is_internal_def)

text \<open>What a terminal job carries: its completion time, full progress when it completed, its
  error when it failed.\<close>

definition job_ok :: "job \<Rightarrow> bool" where
  "job_ok j \<longleftrightarrow>
     (is_terminal (j_status j) \<longrightarrow> j_completed_at j \<noteq> None) \<and>
     (j_status j = Completed \<longrightarrow> j_progress j = 100) \<and>
     (j_status j = Failed \<longrightarrow> j_error j \<noteq> None)"

lemma job_ok_new: "job_ok (new_job i n b oper p)"
  by (simp add: job_ok_def new_job_def)

lemma job_ok_complete: "job_ok (complete n j)"
  by (simp add: job_ok_def job_defs)

lemma job_ok_fail: "job_ok (fail n e j)"
  by (simp add: job_ok_def job_defs)

lemma job_ok_fail_with_diagnostics: "job_ok (fail_with_diagnostics dbg n e j)"
  by (simp add: job_ok_def fail_with_diagnostics_def Let_def)

lemma job_ok_active: "is_active (j_status j) \<Longrightarrow> job_ok j"
  using active_xor_terminal [of "j_status j"] by (auto simp: job_ok_def)

section \<open>Properties\<close>

text \<open>A failure with diagnostics records the whole report: terminal status, the full
  chain, the stable code, the exit code and streams of the underlying command, and the log
  ends with every diagnostic line. The rest of the accumulated log is kept.\<close>

theorem fail_with_diagnostics_reports:
  assumes "extract_command_output e = Some ce"
  shows "let j' = fail_with_diagnostics dbg now e j in j_status j' = Failed \<and> j_error j' = Some (dbg e) \<and>
     j_error_code j' = Some (classify_error e) \<and> j_exit_code j' = ce_exit_code ce \<and>
     j_command_stdout j' = Some (ce_stdout ce) \<and> j_command_stderr j' = Some (ce_stderr ce) \<and>
     (\<exists>added. j_logs j' = j_logs j @ added \<and> set (output_log_lines ce) \<subseteq> set added)"
  using assms
  by (auto simp: fail_with_diagnostics_def Let_def format_error_chain_def extract_exit_code_def
      extract_stdout_def extract_stderr_def diagnostic_log_lines_def)

theorem fail_with_diagnostics_reports_witness:
  "j_exit_code (fail_with_diagnostics (\<lambda>_. ''chain'') 7
      (add_context ''ctx'' (anyhow_new (from_output ''apk'' [''add''] (Some 1) [] ''err'')))
      (new_job 1 0 None Install [''foo''])) = Some 1"
proof -
  have "extract_command_output (add_context ''ctx'' (anyhow_new
          (from_output ''apk'' [''add''] (Some 1) [] ''err'')))
        = Some (from_output ''apk'' [''add''] (Some 1) [] ''err'')" by simp
  from fail_with_diagnostics_reports [OF this, of "\<lambda>_. ''chain''" 7 "new_job 1 0 None Install [''foo'']"]
  show ?thesis by (simp add: from_output_def Let_def)
qed

text \<open>Every status is either active (it blocks admission) or terminal (it is history),
  never both, and the status names sent to clients tell all of them apart.\<close>

theorem status_partition:
  "(is_active s \<longleftrightarrow> \<not> is_terminal s) \<and> (as_str s = as_str s' \<longleftrightarrow> s = s')"
  by (cases s; cases s') simp_all

end
