(* ===== verification/Scheduler.thy ===== *)
theory Scheduler imports Jobs begin

text \<open>
  \<open>src/jobs/scheduler.rs\<close>: the one state behind the scheduler's mutex and the locked section
  of every operation on it. Each definition here is what runs between \<open>lock().await\<close> and the
  release of the lock, so it is one atomic step; the calls of \<open>persist_jobs\<close> that follow the
  release are in theory \<open>Agent\<close>, the concurrent life of a mutation in theory \<open>Dispatch\<close>.

  Arguments stand for what the code takes from outside: \<open>now\<close> the clock (one reading per locked
  section), \<open>new_id\<close> the UUID of \<open>Job::new\<close>, \<open>boot\<close> the current boot id. The broadcast channel
  is the list of the events sent, oldest first, and \<open>s_notifies\<close> counts the calls of
  \<open>notify_one\<close>. The static \<open>GENERATION_COUNTER\<close> is a field of the state.
\<close>

section \<open>State\<close>

datatype admission_mode = Open | Frozen | Recovery

record upgrade_operation =
  su_job_id :: uuid
  su_from_version :: string
  su_target_version :: string
  su_generation :: u64

record scheduler_state =
  s_admission :: admission_mode
  s_jobs :: "(uuid, job) hashmap"
  s_active_mutation :: "uuid option"
  s_mutation_generation :: u64
  s_self_update :: "upgrade_operation option"
  s_reboot_pending :: "uuid option"
  s_max_concurrent :: nat
  s_max_queue_depth :: nat
  s_events :: "job_status_event list"
  s_notifies :: nat
  s_generation_counter :: u64

datatype job_admission_error = JSelfUpdateInProgress | JQueueFull | JAdmissionFrozen

datatype self_update_admission_error = AlreadyInProgress | SJobsInProgress nat | SQueueFull

datatype reboot_admission_error =
    RSelfUpdateInProgress | PackageMutationInProgress | RJobsInProgress nat | RQueueFull
  | AdmissionClosed

definition new_scheduler :: "nat \<Rightarrow> nat \<Rightarrow> scheduler_state" where
  "new_scheduler max_concurrent max_queue_depth =
     \<lparr>s_admission = Open, s_jobs = [], s_active_mutation = None, s_mutation_generation = 0,
      s_self_update = None, s_reboot_pending = None, s_max_concurrent = max max_concurrent 1,
      s_max_queue_depth = max max_queue_depth 1, s_events = [], s_notifies = 0,
      s_generation_counter = 1\<rparr>"

definition notify_one :: "scheduler_state \<Rightarrow> scheduler_state" where
  "notify_one s = s\<lparr>s_notifies := Suc (s_notifies s)\<rparr>"

definition get_job :: "uuid \<Rightarrow> scheduler_state \<Rightarrow> job option" where
  "get_job i s = map_of (s_jobs s) i"

definition insert_job :: "uuid \<Rightarrow> job \<Rightarrow> scheduler_state \<Rightarrow> scheduler_state" where
  "insert_job i j s = s\<lparr>s_jobs := AList.update i j (s_jobs s)\<rparr>"

definition remove_job :: "uuid \<Rightarrow> scheduler_state \<Rightarrow> scheduler_state" where
  "remove_job i s = s\<lparr>s_jobs := AList.delete i (s_jobs s)\<rparr>"

definition modify_job :: "uuid \<Rightarrow> (job \<Rightarrow> job) \<Rightarrow> scheduler_state \<Rightarrow> scheduler_state" where
  "modify_job i f s = s\<lparr>s_jobs := hm_modify i f (s_jobs s)\<rparr>"   \<comment> \<open>\<open>if let Some(job) = jobs.get_mut(id)\<close>\<close>

section \<open>Events\<close>

definition emit_event ::
    "time \<Rightarrow> string \<Rightarrow> uuid \<Rightarrow> job_status \<Rightarrow> u8 \<Rightarrow> string \<Rightarrow> scheduler_state \<Rightarrow> scheduler_state" where
  "emit_event now event_type i status progress message s =
     s\<lparr>s_events := s_events s @
        [\<lparr>ev_event = event_type, ev_job_id = i, ev_status = as_str status, ev_progress = progress,
          ev_message = message, ev_timestamp = now, ev_error = None, ev_error_code = None\<rparr>]\<rparr>"

definition emit_event_detailed ::
    "time \<Rightarrow> uuid \<Rightarrow> job_status \<Rightarrow> u8 \<Rightarrow> string \<Rightarrow> string option \<Rightarrow> string option
     \<Rightarrow> scheduler_state \<Rightarrow> scheduler_state" where
  "emit_event_detailed now i status progress message error code s =
     s\<lparr>s_events := s_events s @
        [\<lparr>ev_event = ''job_status'', ev_job_id = i, ev_status = as_str status,
          ev_progress = progress, ev_message = message, ev_timestamp = now,
          ev_error = error, ev_error_code = code\<rparr>]\<rparr>"

text \<open>The pattern \<open>event_data = (status, progress, message)\<close> of the updated job, then
  \<open>emit_event\<close>; nothing when the job does not exist.\<close>

definition emit_job :: "time \<Rightarrow> uuid \<Rightarrow> scheduler_state \<Rightarrow> scheduler_state" where
  "emit_job now i s =
     (case get_job i s of None \<Rightarrow> s
      | Some j \<Rightarrow> emit_event now ''job_status'' i (j_status j) (j_progress j) (j_message j) s)"

section \<open>Queries\<close>

definition is_self_update_in_progress :: "scheduler_state \<Rightarrow> bool" where
  "is_self_update_in_progress s = (s_self_update s \<noteq> None)"

definition is_mutation_in_progress :: "scheduler_state \<Rightarrow> bool" where
  "is_mutation_in_progress s = (s_active_mutation s \<noteq> None)"

definition active_count :: "scheduler_state \<Rightarrow> nat" where
  "active_count s = values_count (\<lambda>j. is_active (j_status j)) (s_jobs s)"

definition running_count :: "scheduler_state \<Rightarrow> nat" where
  "running_count s = values_count (\<lambda>j. j_status j = Running) (s_jobs s)"

text \<open>The count the admission checks use: active jobs that are not internal bookkeeping.\<close>

definition user_active :: "job \<Rightarrow> bool" where
  "user_active j = (is_active (j_status j) \<and> \<not> is_internal j)"

definition user_active_count :: "scheduler_state \<Rightarrow> nat" where
  "user_active_count s = values_count user_active (s_jobs s)"

definition get_active_jobs :: "scheduler_state \<Rightarrow> job list" where
  "get_active_jobs s =
     filter (\<lambda>j. j_status j = Running \<or> j_status j = Pending) (map snd (s_jobs s))"

definition get_all_jobs :: "scheduler_state \<Rightarrow> job list" where
  "get_all_jobs s = map snd (s_jobs s)"

definition list_jobs :: "job_status option \<Rightarrow> nat \<Rightarrow> scheduler_state \<Rightarrow> job list" where
  "list_jobs status_filter limit s =
     (let result = map snd (s_jobs s);
          kept = (case status_filter of None \<Rightarrow> result
                  | Some st \<Rightarrow> filter (\<lambda>j. j_status j = st) result)
      in take limit (sort_key (\<lambda>j. - j_created_at j) kept))"

section \<open>Admission of jobs\<close>

definition admit_job_inner ::
    "time \<Rightarrow> uuid \<Rightarrow> string option \<Rightarrow> job_operation \<Rightarrow> string list \<Rightarrow> scheduler_state
     \<Rightarrow> (job_admission_error, uuid \<times> scheduler_state) result" where
  "admit_job_inner now new_id boot operation packages s =
     (if s_admission s \<noteq> Open then Err JAdmissionFrozen
      else if s_self_update s \<noteq> None then Err JSelfUpdateInProgress
      else if s_reboot_pending s \<noteq> None then Err JAdmissionFrozen
      else if user_active_count s \<ge> s_max_queue_depth s then Err JQueueFull
      else
        let job = new_job new_id now boot operation packages;
            s1 = insert_job new_id job s
        in Ok (new_id, emit_event now ''job_status'' new_id Pending 0 ''Job created'' s1))"

definition admit_job ::
    "time \<Rightarrow> uuid \<Rightarrow> string option \<Rightarrow> job_operation \<Rightarrow> string list \<Rightarrow> scheduler_state
     \<Rightarrow> (job_admission_error, uuid \<times> scheduler_state) result" where
  "admit_job now new_id boot operation packages s =
     bind_res (admit_job_inner now new_id boot operation packages s)
       (\<lambda>(i, s1). Ok (i, notify_one s1))"

definition create_rollback_job ::
    "time \<Rightarrow> uuid \<Rightarrow> string option \<Rightarrow> uuid \<Rightarrow> scheduler_state
     \<Rightarrow> (job_admission_error, uuid option \<times> scheduler_state) result" where
  "create_rollback_job now new_id boot original_job_id s =
     (case get_job original_job_id s of
        None \<Rightarrow> Ok (None, s)
      | Some original \<Rightarrow>
          if j_status original = Failed \<or> j_status original = Completed then
            bind_res (admit_job_inner now new_id boot Rollback (j_packages original) s)
              (\<lambda>(rid, s1). Ok (Some rid, notify_one (modify_job rid
                 (\<lambda>j. j\<lparr>j_exclusive_mode := True, j_rollback_job_id := Some original_job_id\<rparr>) s1)))
          else Ok (None, s))"

section \<open>Self-update reservation\<close>

definition held_by_internal :: "uuid \<Rightarrow> scheduler_state \<Rightarrow> bool" where
  "held_by_internal mid s = (case get_job mid s of None \<Rightarrow> False | Some j \<Rightarrow> is_internal j)"

definition try_reserve_self_update ::
    "time \<Rightarrow> uuid \<Rightarrow> string option \<Rightarrow> string list \<Rightarrow> string \<Rightarrow> string \<Rightarrow> scheduler_state
     \<Rightarrow> (self_update_admission_error, uuid \<times> scheduler_state) result" where
  "try_reserve_self_update now new_id boot packages from_version target_version s =
     (if s_admission s \<noteq> Open then Err AlreadyInProgress
      else if s_self_update s \<noteq> None then Err AlreadyInProgress
      else if s_reboot_pending s \<noteq> None then Err AlreadyInProgress
      else if (case s_active_mutation s of None \<Rightarrow> False | Some mid \<Rightarrow> \<not> held_by_internal mid s)
        then Err (SJobsInProgress 1)
      else if user_active_count s > 0 then Err (SJobsInProgress (user_active_count s))
      else if s_max_queue_depth s = 0 then Err SQueueFull
      else
        let job = new_job new_id now boot SelfUpdate packages;
            generation = s_generation_counter s;
            s1 = s\<lparr>s_generation_counter := generation + 1,
                   s_self_update := Some \<lparr>su_job_id = new_id, su_from_version = from_version,
                     su_target_version = target_version, su_generation = generation\<rparr>\<rparr>;
            s2 = insert_job new_id job s1
        in Ok (new_id, notify_one (emit_event now ''job_status'' new_id Pending 0 ''Job created'' s2)))"

definition release_self_update :: "uuid \<Rightarrow> scheduler_state \<Rightarrow> bool \<times> scheduler_state" where
  "release_self_update i s =
     (case s_self_update s of
        None \<Rightarrow> (False, s)
      | Some su \<Rightarrow> if su_job_id su = i then (True, notify_one (s\<lparr>s_self_update := None\<rparr>))
                  else (False, s))"

text \<open>\<open>Drop\<close> of an uncommitted \<open>SelfUpdateReservationGuard\<close>.\<close>

definition drop_self_update_guard :: "uuid \<Rightarrow> bool \<Rightarrow> scheduler_state \<Rightarrow> scheduler_state" where
  "drop_self_update_guard i committed s =
     (if committed then s
      else
        let s1 = (case s_self_update s of None \<Rightarrow> s
                  | Some su \<Rightarrow> if su_job_id su = i then s\<lparr>s_self_update := None\<rparr> else s)
        in notify_one (remove_job i s1))"

section \<open>Reboot reservation\<close>

definition cancel_for_reboot :: "time \<Rightarrow> uuid \<Rightarrow> scheduler_state \<Rightarrow> scheduler_state" where
  "cancel_for_reboot now i s =
     emit_job now i (modify_job i (\<lambda>j. add_log now ''Job cancelled by reboot reservation''
       (j\<lparr>j_status := Failed, j_error := Some ''Cancelled: reboot reservation in progress'',
          j_completed_at := Some now, j_updated_at := now\<rparr>)) s)"

definition pending_except :: "uuid \<Rightarrow> scheduler_state \<Rightarrow> uuid list" where
  "pending_except owner s =
     map fst (filter (\<lambda>(i, j). i \<noteq> owner \<and> j_status j = Pending) (s_jobs s))"

definition reserve_reboot ::
    "time \<Rightarrow> uuid \<Rightarrow> string option \<Rightarrow> bool \<Rightarrow> bool \<Rightarrow> scheduler_state
     \<Rightarrow> (reboot_admission_error, uuid \<times> scheduler_state) result" where
  "reserve_reboot now new_id boot force ack_corruption_risk s =
     (if s_admission s \<noteq> Open then Err AdmissionClosed
      else if s_reboot_pending s \<noteq> None then Err (RJobsInProgress 1)
      else
        let self_update_active = (s_self_update s \<noteq> None);
            mutation_active = (s_active_mutation s \<noteq> None);
            active_jobs = user_active_count s
        in if \<not> force \<and> self_update_active then Err RSelfUpdateInProgress
           else if \<not> force \<and> active_jobs > 0 then Err (RJobsInProgress active_jobs)
           else if force \<and> \<not> ack_corruption_risk \<and> (self_update_active \<or> mutation_active) then
             (if self_update_active then Err RSelfUpdateInProgress else Err PackageMutationInProgress)
           else if active_jobs \<ge> s_max_queue_depth s then Err RQueueFull
           else
             let job = new_job new_id now boot Reboot [];
                 s1 = insert_job new_id job (s\<lparr>s_reboot_pending := Some new_id\<rparr>);
                 s2 = emit_event now ''job_status'' new_id Pending 0 ''Job created'' s1;
                 s3 = fold (cancel_for_reboot now) (pending_except new_id s2) s2
             in Ok (new_id, notify_one s3))"

definition rollback_reboot ::
    "time \<Rightarrow> uuid \<Rightarrow> string option \<Rightarrow> scheduler_state \<Rightarrow> bool \<times> scheduler_state" where
  "rollback_reboot now i error s =
     (if s_reboot_pending s \<noteq> Some i then (False, s)
      else
        let s1 = s\<lparr>s_reboot_pending := None\<rparr>;
            s2 = modify_job i (\<lambda>j. case error of
                    Some err \<Rightarrow> fail now err j
                  | None \<Rightarrow> j\<lparr>j_status := Cancelled, j_message := ''Reboot reservation rolled back'',
                              j_completed_at := Some now, j_updated_at := now\<rparr>) s1
        in (True, notify_one (emit_job now i s2)))"

text \<open>\<open>Drop\<close> of a \<open>RebootReservationGuard\<close>.\<close>

definition drop_reboot_guard :: "time \<Rightarrow> uuid \<Rightarrow> bool \<Rightarrow> scheduler_state \<Rightarrow> scheduler_state" where
  "drop_reboot_guard now i committed s =
     (if committed then s
      else snd (rollback_reboot now i (Some ''Reservation dropped without commit (cancelled)'') s))"

definition begin_reboot_execution :: "time \<Rightarrow> uuid \<Rightarrow> scheduler_state \<Rightarrow> bool \<times> scheduler_state" where
  "begin_reboot_execution now i s =
     (if s_reboot_pending s \<noteq> Some i then (False, s)
      else case get_job i s of
        None \<Rightarrow> (False, s)
      | Some j \<Rightarrow>
          if j_status j \<noteq> Pending then (False, s)
          else (True, notify_one (emit_job now i (modify_job i
                 (\<lambda>j. add_log now ''Reboot command starting''
                        (j\<lparr>j_status := Rebooting, j_updated_at := now\<rparr>)) s))))"

text \<open>Its two errors with the values their texts print; the only caller drops them.\<close>

datatype rebooting_error = RebootingJobNotFound uuid | RebootingNotRunning uuid job_status

definition set_job_rebooting ::
    "time \<Rightarrow> uuid \<Rightarrow> string \<Rightarrow> scheduler_state \<Rightarrow> (rebooting_error, scheduler_state) result" where
  "set_job_rebooting now i message s =
     (case get_job i s of
        None \<Rightarrow> Err (RebootingJobNotFound i)
      | Some j \<Rightarrow>
          if j_status j \<noteq> Running then Err (RebootingNotRunning i (j_status j))
          else Ok (notify_one (emit_job now i (modify_job i (set_rebooting now message) s))))"

section \<open>Shutdown\<close>

definition freeze_admission :: "scheduler_state \<Rightarrow> scheduler_state" where
  "freeze_admission s = notify_one (s\<lparr>s_admission := Frozen\<rparr>)"

section \<open>Job lifecycle\<close>

definition update_job ::
    "time \<Rightarrow> uuid \<Rightarrow> job_status \<Rightarrow> u8 option \<Rightarrow> string option \<Rightarrow> scheduler_state
     \<Rightarrow> (string, scheduler_state) result" where
  "update_job now i status progress message s =
     (let already_running = (case get_job i s of None \<Rightarrow> False | Some j \<Rightarrow> j_status j = Running) in
      if (status = Running \<or> status = Rebooting) \<and> \<not> already_running
         \<and> running_count s \<ge> s_max_concurrent s
      then Err (''max_concurrent limit ('' @ show_nat (s_max_concurrent s)
                @ '') reached -- cannot transition another job to Running'')
      else Ok (emit_job now i (modify_job i
             (\<lambda>j. j\<lparr>j_status := status, j_progress := opt_or progress (j_progress j),
                    j_message := opt_or message (j_message j), j_updated_at := now\<rparr>) s)))"

definition add_job_log :: "time \<Rightarrow> uuid \<Rightarrow> string \<Rightarrow> scheduler_state \<Rightarrow> scheduler_state" where
  "add_job_log now i message s = modify_job i (add_log now message) s"

definition complete_job :: "time \<Rightarrow> uuid \<Rightarrow> scheduler_state \<Rightarrow> scheduler_state" where
  "complete_job now i s = notify_one (emit_job now i (modify_job i (complete now) s))"

definition fail_job :: "time \<Rightarrow> uuid \<Rightarrow> string \<Rightarrow> scheduler_state \<Rightarrow> scheduler_state" where
  "fail_job now i error s = notify_one (emit_job now i (modify_job i (fail now error) s))"

definition fail_job_with_diagnostics ::
    "(anyhow \<Rightarrow> string) \<Rightarrow> time \<Rightarrow> uuid \<Rightarrow> anyhow \<Rightarrow> scheduler_state \<Rightarrow> scheduler_state" where
  "fail_job_with_diagnostics dbg now i error s =
     (let s1 = modify_job i (fail_with_diagnostics dbg now error) s;
          s2 = (case get_job i s1 of None \<Rightarrow> s1
                | Some j \<Rightarrow> emit_event_detailed now i (j_status j) (j_progress j) (j_message j)
                             (Some (format_error_for_cache dbg error)) (Some (classify_error error)) s1)
      in notify_one s2)"

definition delete_job :: "uuid \<Rightarrow> scheduler_state \<Rightarrow> bool \<times> scheduler_state" where
  "delete_job i s =
     (case get_job i s of
        None \<Rightarrow> (False, s)
      | Some j \<Rightarrow>
          if j_status j = Completed \<or> j_status j = Failed \<or> j_status j = Cancelled
             \<or> j_status j = TimedOut
          then (True, remove_job i s) else (False, s))"

section \<open>Startup: history and orphans\<close>

definition load_history :: "job list \<Rightarrow> scheduler_state \<Rightarrow> scheduler_state" where
  "load_history history s = fold (\<lambda>j. insert_job (j_id j) j) history s"

definition same_boot :: "string option \<Rightarrow> job \<Rightarrow> bool" where
  "same_boot boot j =
     (case (j_boot_id j, boot) of (Some a, Some b) \<Rightarrow> a = b | _ \<Rightarrow> False)"

definition recovered_base :: "time \<Rightarrow> job \<Rightarrow> job" where
  "recovered_base now orphaned =
     \<lparr>j_id = j_id orphaned, j_status = Failed, j_operation = j_operation orphaned,
      j_created_at = j_created_at orphaned, j_updated_at = now, j_completed_at = Some now,
      j_packages = j_packages orphaned, j_progress = 0, j_message = [], j_logs = [],
      j_error = None, j_error_code = None, j_exit_code = None, j_command_stdout = None,
      j_command_stderr = None, j_rollback_job_id = None, j_exclusive_mode = False,
      j_boot_id = j_boot_id orphaned\<rparr>"

definition recover_job :: "time \<Rightarrow> string option \<Rightarrow> job \<Rightarrow> job" where
  "recover_job now boot orphaned =
     (let base = recovered_base now orphaned in
      if j_operation orphaned = SelfUpdate then
        base\<lparr>j_status := Completed, j_progress := 100,
             j_message := ''Self-update completed -- agent restarted into new version'',
             j_logs := [''Agent restarted during self-update (expected postinst restart)'',
                        ''New binary is running -- upgrade succeeded'']\<rparr>
      else if j_status orphaned = Rebooting then
        base\<lparr>j_status := Completed, j_progress := 100,
             j_message := ''Reboot completed -- agent restarted after patching'',
             j_logs := j_logs orphaned @ [''Agent restarted after reboot -- marking completed''],
             j_rollback_job_id := j_rollback_job_id orphaned,
             j_exclusive_mode := j_exclusive_mode orphaned\<rparr>
      else if is_internal orphaned then
        base\<lparr>j_status := Cancelled,
             j_message := ''Internal tracking job dropped after agent restart'',
             j_logs := [''Internal bookkeeping job (cache refresh) -- discarded after restart'']\<rparr>
      else if same_boot boot orphaned then
        base\<lparr>j_message := ''Job failed: Job interrupted by agent process restart (not a system reboot)'',
             j_logs := [''Agent process restarted (same boot) -- in-memory job state was lost''],
             j_error := Some ''Agent process restarted during job execution (not a reboot)'',
             j_error_code := Some AGENT_RESTARTED\<rparr>
      else
        base\<lparr>j_message := ''Job failed: Job failed: agent rebooted during execution'',
             j_logs := [''Agent rebooted -- in-memory job state was lost''],
             j_error := Some ''Agent rebooted during job execution'',
             j_error_code := Some AGENT_REBOOTED\<rparr>)"

definition recover_orphaned_jobs ::
    "time \<Rightarrow> string option \<Rightarrow> job list \<Rightarrow> scheduler_state \<Rightarrow> scheduler_state" where
  "recover_orphaned_jobs now boot orphaned s =
     fold (\<lambda>j. insert_job (j_id j) (recover_job now boot j)) orphaned s"

end
