(* ===== verification/Startup.thy ===== *)
theory Startup imports Enroll Scheduler begin

text \<open>
  The decisions of \<open>src/main.rs\<close> before the server runs: the command line, loading the configuration, the two
  enrollment modes, the certificate check with automatic enrollment, and the exit code of each way out; the best-effort
  repair of the repository configuration; and what the SIGTERM handler does to the scheduler. The jobs, the whitelist and
  the CRL of a start are in theories \<open>Agent\<close>, \<open>Whitelist\<close> and \<open>Crl\<close>.
\<close>

section \<open>The command line and the ways out\<close>

record args =
  ag_config :: string
  ag_verbose :: bool
  ag_enroll :: "string option"
  ag_renew_certs :: bool

datatype exit_code = Clean | ErrorExit | EnrollmentInProgress

fun exit_number :: "exit_code \<Rightarrow> nat" where
  "exit_number Clean = 0"
| "exit_number ErrorExit = 1"
| "exit_number EnrollmentInProgress = 2"

text \<open>\<open>Serve\<close> goes on to the server with a configuration, \<open>Failed_start\<close> is \<open>main\<close> returning an error, and \<open>Panic\<close>
  aborts the process.\<close>

datatype start_decision = Exit exit_code | Serve app_config | Failed_start anyhow | Panic string

text \<open>What the start needs from outside: the certificate crates, the time, the YAML parser and the manager.\<close>

record ('der, 'key) start_env =
  se_crates :: "('der, 'key) cert_crates"
  se_now :: int
  se_yaml :: "string \<Rightarrow> (string, app_config) result"
  se_enroll :: enroll_env

section \<open>The start\<close>

text \<open>\<open>--enroll\<close> and the last step of \<open>--renew-certs\<close>: enroll, then exit.\<close>

definition enroll_and_exit ::
    "('der, 'key) start_env \<Rightarrow> args \<Rightarrow> string \<Rightarrow> app_config \<Rightarrow> fs \<Rightarrow> start_decision \<times> fs" where
  "enroll_and_exit env a manager_url config s =
     (case run_enrollment (se_enroll env) manager_url (ag_config a) (config, s) of
        (Panicked p, _, s1) \<Rightarrow> (Panic p, s1)
      | (Finished (Inr _), _, s1) \<Rightarrow> (Exit Clean, s1)
      | (Finished (Inl _), _, s1) \<Rightarrow> (Exit ErrorExit, s1))"

definition renew_certs :: "('der, 'key) start_env \<Rightarrow> args \<Rightarrow> app_config \<Rightarrow> fs \<Rightarrow> start_decision \<times> fs" where
  "renew_certs env a config s =
     (case validate_certs (se_crates env) (se_now env) config s of
        (Inl _, s1) \<Rightarrow> (Exit ErrorExit, s1)
      | (Inr None, s1) \<Rightarrow> (Panic ''resulting value is out of range'', s1)
      | (Inr (Some CertValid), s1) \<Rightarrow> (Exit Clean, s1)
      | (Inr (Some _), s1) \<Rightarrow>
          (case enrollment_manager_url config of
             None \<Rightarrow> (Exit ErrorExit, s1)
           | Some url \<Rightarrow> enroll_and_exit env a url config s1))"

definition certs_usable :: "cert_status \<Rightarrow> bool" where
  "certs_usable st = (case st of CertValid \<Rightarrow> True | CertExpiringSoon _ \<Rightarrow> True | _ \<Rightarrow> False)"

text \<open>After an automatic enrollment the configuration is read again and its error ends \<open>main\<close>.\<close>

definition auto_enroll :: "('der, 'key) start_env \<Rightarrow> args \<Rightarrow> string \<Rightarrow> app_config \<Rightarrow> fs \<Rightarrow> start_decision \<times> fs" where
  "auto_enroll env a manager_url config s =
     (case run_enrollment (se_enroll env) manager_url (ag_config a) (config, s) of
        (Panicked p, _, s1) \<Rightarrow> (Panic p, s1)
      | (Finished (Inl _), _, s1) \<Rightarrow> (Exit EnrollmentInProgress, s1)
      | (Finished (Inr _), _, s1) \<Rightarrow>
          (case load_app_config (se_yaml env) (ag_config a) s1 of
             (Inl e, s2) \<Rightarrow> (Failed_start e, s2)
           | (Inr config1, s2) \<Rightarrow> (Serve config1, s2)))"

definition check_certs :: "('der, 'key) start_env \<Rightarrow> args \<Rightarrow> app_config \<Rightarrow> fs \<Rightarrow> start_decision \<times> fs" where
  "check_certs env a config s =
     (if tls_config_of config = None then (Serve config, s)
      else case validate_certs (se_crates env) (se_now env) config s of
        (Inl _, s1) \<Rightarrow> (Exit ErrorExit, s1)
      | (Inr None, s1) \<Rightarrow> (Panic ''resulting value is out of range'', s1)
      | (Inr (Some st), s1) \<Rightarrow>
          if certs_usable st then (Serve config, s1)
          else case enrollment_manager_url config of
                 Some url \<Rightarrow> auto_enroll env a url config s1
               | None \<Rightarrow> (Exit Clean, s1))"

definition decide_start :: "('der, 'key) start_env \<Rightarrow> args \<Rightarrow> fs \<Rightarrow> start_decision \<times> fs" where
  "decide_start env a s =
     (case load_app_config (se_yaml env) (ag_config a) s of
        (Inl _, s1) \<Rightarrow> (Exit ErrorExit, s1)
      | (Inr config, s1) \<Rightarrow>
          if ag_renew_certs a then renew_certs env a config s1
          else case ag_enroll a of
                 Some url \<Rightarrow> enroll_and_exit env a url config s1
               | None \<Rightarrow> check_certs env a config s1)"

text \<open>The repair of the repository configuration at start: its outcome is logged only.\<close>

definition startup_self_heal ::
    "(string \<Rightarrow> gpg_outcome) \<Rightarrow> string option \<Rightarrow> (string \<Rightarrow> (anyhow, repo_config) result) \<Rightarrow> app_config \<Rightarrow> fs \<Rightarrow> fs" where
  "startup_self_heal gpg os_release fetch config s =
     (case enrollment_manager_url config of
        Some url \<Rightarrow> snd (check_and_provision_repo_config gpg os_release (fetch url) s)
      | None \<Rightarrow> s)"

text \<open>The datagrams to the service manager: none without \<open>NOTIFY_SOCKET\<close>, and a failed one is only logged.\<close>

definition sd_notify :: "string option \<Rightarrow> string \<Rightarrow> (string \<times> string) list" where
  "sd_notify socket_path message = (case socket_path of None \<Rightarrow> [] | Some path \<Rightarrow> [(path, message)])"

definition notify_systemd_ready :: "string option \<Rightarrow> (string \<times> string) list" where
  "notify_systemd_ready socket_path = sd_notify socket_path ''READY=1''"

definition notify_systemd_stopping :: "string option \<Rightarrow> (string \<times> string) list" where
  "notify_systemd_stopping socket_path = sd_notify socket_path ''STOPPING=1''"

text \<open>The SIGTERM handler: both branches of its last check stop the server the same way.\<close>

datatype shutdown_action = NotifyStopping | StopServer bool

definition sigterm_handler :: "scheduler_state \<Rightarrow> shutdown_action list \<times> scheduler_state" where
  "sigterm_handler s =
     (let s1 = freeze_admission s in
      if is_mutation_in_progress s1 then ([NotifyStopping, StopServer True], s1)
      else ([NotifyStopping, StopServer True], s1))"

section \<open>Lemmas\<close>

lemma enroll_and_exit_never_serves: "fst (enroll_and_exit env a u c s) \<noteq> Serve c'"
  by (auto simp: enroll_and_exit_def split: prod.splits outcome.splits sum.splits)

lemma renew_never_serves: "fst (renew_certs env a c s) \<noteq> Serve c'"
  by (simp add: renew_certs_def enroll_and_exit_never_serves split: prod.splits option.splits sum.splits cert_status.splits)

definition fresh_config :: app_config where
  "fresh_config = sample_config\<lparr>ac_enrollment := Some (default_enrollment\<lparr>ec_manager_url := Some ''https://192.168.3.1'',
     ec_polling_token := ''tok'', ec_max_poll_attempts := 3\<rparr>)\<rparr>"

definition fresh_disk :: fs where
  "fresh_disk = sample_store\<lparr>fs_files := [(''/etc/linux_patch_api/whitelist.yaml'', ''old'', 420), (''/etc/config.yaml'', ''yaml'', 420)]\<rparr>"

definition fresh_start :: "string \<Rightarrow> (string, string) start_env" where
  "fresh_start answer =
     \<lparr>se_crates = \<lparr>cc_certs = (\<lambda>t. Ok [t]), cc_key = (\<lambda>t. Ok (Some t)),
         cc_x509 = (\<lambda>d. Ok \<lparr>xv_not_after = 2000000000, xv_issuer = ''CA'', xv_subject = ''CA''\<rparr>), cc_tls13 = True, cc_single_cert = (\<lambda>ds k. True)\<rparr>,
      se_now = 1900000000, se_yaml = (\<lambda>_. Ok fresh_config), se_enroll = demo_manager (PollReply (Reply 200 (Ok answer)))\<rparr>"

definition serve_args :: args where
  "serve_args = \<lparr>ag_config = ''/etc/config.yaml'', ag_verbose = False, ag_enroll = None, ag_renew_certs = False\<rparr>"

lemma fresh_enroll: "se_enroll (fresh_start a) = demo_manager (PollReply (Reply 200 (Ok a)))"
  by (simp add: fresh_start_def)

lemmas start_unfold = decide_start_def check_certs_def auto_enroll_def run_enrollment_def fresh_enroll demo_provision_phase

section \<open>Properties\<close>

text \<open>C21: the agent serves only with certificates. A start that goes on to the server runs in no enrollment mode, and either
  TLS is off, or the certificate files it found passed the check, or they did not and the enrollment it then ran
  succeeded; and the configuration it serves with is the file's, read again after that enrollment.\<close>

theorem serve_needs_certificates:
  assumes "decide_start env a s = (Serve config', s')"
  shows "\<exists>config s1. load_app_config (se_yaml env) (ag_config a) s = (Ok config, s1) \<and>
    \<not> ag_renew_certs a \<and> ag_enroll a = None \<and>
    (tls_config_of config = None \<and> config' = config \<or>
     (\<exists>st s2. validate_certs (se_crates env) (se_now env) config s1 = (Ok (Some st), s2) \<and>
        (if certs_usable st then config' = config
         else \<exists>url c s3. enrollment_manager_url config = Some url \<and>
                run_enrollment (se_enroll env) url (ag_config a) (config, s2) = (Finished (Ok ()), c, s3) \<and>
                load_app_config (se_yaml env) (ag_config a) s3 = (Ok config', s'))))"
proof -
  from assms obtain config s1 where l: "load_app_config (se_yaml env) (ag_config a) s = (Inr config, s1)"
    and nr: "\<not> ag_renew_certs a" and ne: "ag_enroll a = None" and ck: "check_certs env a config s1 = (Serve config', s')"
    using renew_never_serves [of env a] enroll_and_exit_never_serves [of env a]
    by (auto simp: decide_start_def split: sum.splits prod.splits if_splits option.splits) (metis fst_conv)+
  show ?thesis
  proof (cases "tls_config_of config")
    case None
    then show ?thesis using l nr ne ck by (auto simp: check_certs_def)
  next
    case (Some t)
    then obtain st s2 where v: "validate_certs (se_crates env) (se_now env) config s1 = (Inr (Some st), s2)"
      using ck by (auto simp: check_certs_def split: sum.splits prod.splits option.splits)
    show ?thesis
    proof (cases "certs_usable st")
      case True
      then show ?thesis using l nr ne ck v Some by (auto simp: check_certs_def)
    next
      case False
      then obtain url where u: "enrollment_manager_url config = Some url" "auto_enroll env a url config s2 = (Serve config', s')"
        using ck v Some by (auto simp: check_certs_def split: option.splits)
      from u(2) show ?thesis using l nr ne v u(1) False
        by (auto simp: auto_enroll_def split: prod.splits outcome.splits sum.splits)
    qed
  qed
qed

theorem serve_needs_certificates_witness:
  "\<exists>s1 st s2 c s3. load_app_config (se_yaml (fresh_start ''approved'')) ''/etc/config.yaml'' fresh_disk = (Ok fresh_config, s1) \<and>
     validate_certs (se_crates (fresh_start ''approved'')) 1900000000 fresh_config s1 = (Ok (Some st), s2) \<and> \<not> certs_usable st \<and>
     run_enrollment (se_enroll (fresh_start ''approved'')) ''https://192.168.3.1'' ''/etc/config.yaml'' (fresh_config, s2)
       = (Finished (Ok ()), c, s3)"
proof -
  define r where "r = decide_start (fresh_start ''approved'') serve_args fresh_disk"
  have "fst r = Serve fresh_config" unfolding r_def start_unfold by code_simp
  then have run: "decide_start (fresh_start ''approved'') serve_args fresh_disk = (Serve fresh_config, snd r)"
    by (simp add: r_def prod_eq_iff)
  have load: "fst (load_app_config (se_yaml (fresh_start ''approved'')) ''/etc/config.yaml'' fresh_disk) = Ok fresh_config"
    by code_simp
  have tls: "tls_config_of fresh_config \<noteq> None" by (simp add: tls_config_of_def fresh_config_def sample_config_def)
  have miss: "fst (validate_certs (se_crates (fresh_start ''approved'')) 1900000000 fresh_config
      (snd (load_app_config (se_yaml (fresh_start ''approved'')) ''/etc/config.yaml'' fresh_disk)))
      = Ok (Some (CertMissing [''/c/ca.pem'', ''/c/server.pem'', ''/c/server.key.pem'']))" by code_simp
  have url: "enrollment_manager_url fresh_config = Some ''https://192.168.3.1''" by code_simp
  have ids: "ag_config serve_args = ''/etc/config.yaml''" "se_now (fresh_start ''approved'') = 1900000000"
    by (simp_all add: serve_args_def fresh_start_def)
  from serve_needs_certificates [OF run] show ?thesis
    using load miss tls url unfolding ids by (auto simp: certs_usable_def split: if_splits)
qed

text \<open>Exit code 2, on which the service manager restarts the agent, means a failed automatic enrollment and nothing
  else: the certificates were not usable, a manager is configured, and the enrollment ended with an error.\<close>

theorem restart_code_only_for_enrollment:
  assumes "decide_start env a s = (Exit code, s')"
  shows "exit_number code = 2 \<longleftrightarrow>
    (\<exists>config s1 st s2 url e c. load_app_config (se_yaml env) (ag_config a) s = (Ok config, s1) \<and>
       \<not> ag_renew_certs a \<and> ag_enroll a = None \<and> tls_config_of config \<noteq> None \<and>
       validate_certs (se_crates env) (se_now env) config s1 = (Ok (Some st), s2) \<and> \<not> certs_usable st \<and>
       enrollment_manager_url config = Some url \<and>
       run_enrollment (se_enroll env) url (ag_config a) (config, s2) = (Finished (Err e), c, s'))"
  using assms
  by (auto simp: decide_start_def renew_certs_def enroll_and_exit_def check_certs_def auto_enroll_def
      split: prod.splits sum.splits option.splits outcome.splits if_splits cert_status.splits)

theorem restart_code_only_for_enrollment_witness:
  "\<exists>config s1 st. load_app_config (se_yaml (fresh_start ''denied'')) ''/etc/config.yaml'' fresh_disk = (Ok config, s1) \<and>
     fst (validate_certs (se_crates (fresh_start ''denied'')) 1900000000 config s1) = Ok (Some st) \<and> \<not> certs_usable st"
proof -
  define r where "r = decide_start (fresh_start ''denied'') serve_args fresh_disk"
  have "fst r = Exit EnrollmentInProgress" unfolding r_def start_unfold by code_simp
  then have run: "decide_start (fresh_start ''denied'') serve_args fresh_disk = (Exit EnrollmentInProgress, snd r)"
    by (simp add: r_def prod_eq_iff)
  have ids: "ag_config serve_args = ''/etc/config.yaml''" "se_now (fresh_start ''denied'') = 1900000000"
    by (simp_all add: serve_args_def fresh_start_def)
  from restart_code_only_for_enrollment [OF run] show ?thesis unfolding ids by auto
qed

end
