(* ===== verification/Scheduler_Inv.thy ===== *)
theory Scheduler_Inv imports Scheduler begin

text \<open>
  The scheduler's invariant and the contract every locked section keeps, as the locale
  \<open>sched_op\<close>: the mutation slot and the limits are untouched, well-formedness is kept and the
  number of running jobs does not grow past the limit. Each operation of theory \<open>Scheduler\<close> is an
  interpretation; theory \<open>Dispatch\<close> uses the contract for its reachable states.
\<close>

section \<open>The invariant\<close>

definition sched_wf :: "scheduler_state \<Rightarrow> bool" where
  "sched_wf s \<longleftrightarrow> hm_wf (s_jobs s) \<and> (\<forall>i j. map_of (s_jobs s) i = Some j \<longrightarrow> j_id j = i) \<and>
     1 \<le> s_max_concurrent s \<and> 1 \<le> s_max_queue_depth s"

definition sched_inv :: "scheduler_state \<Rightarrow> bool" where
  "sched_inv s \<longleftrightarrow> sched_wf s \<and> running_count s \<le> s_max_concurrent s"

definition res_state :: "scheduler_state \<Rightarrow> ('e, 'a \<times> scheduler_state) result \<Rightarrow> scheduler_state" where
  "res_state s r = (case r of Inl _ \<Rightarrow> s | Inr (_, s') \<Rightarrow> s')"

definition res_state1 :: "scheduler_state \<Rightarrow> ('e, scheduler_state) result \<Rightarrow> scheduler_state" where
  "res_state1 s r = (case r of Inl _ \<Rightarrow> s | Inr s' \<Rightarrow> s')"

lemma res_state_simps [simp]:
  "res_state s (Inl e) = s" "res_state s (Inr (a, s')) = s'"
  "res_state1 s (Inl e) = s" "res_state1 s (Inr s') = s'"
  by (simp_all add: res_state_def res_state1_def)

locale sched_op =
  fixes f :: "scheduler_state \<Rightarrow> scheduler_state"
  assumes slot: "s_active_mutation (f s) = s_active_mutation s"
    and generation: "s_mutation_generation (f s) = s_mutation_generation s"
    and limit: "s_max_concurrent (f s) = s_max_concurrent s"
    and wf: "sched_wf s \<Longrightarrow> sched_wf (f s)"
    and running: "sched_wf s \<Longrightarrow> running_count (f s) \<le> max (running_count s) (s_max_concurrent s)"
begin

lemma inv: "sched_inv s \<Longrightarrow> sched_inv (f s)"
  using wf [of s] running [of s] limit [of s] by (auto simp: sched_inv_def)

lemmas frame = slot generation limit

end

section \<open>Basic steps\<close>

lemma sched_wf_new: "sched_wf (new_scheduler c d)"
  by (simp add: sched_wf_def new_scheduler_def)

lemma sched_inv_new: "sched_inv (new_scheduler c d)"
  by (simp add: sched_inv_def sched_wf_new) (simp add: new_scheduler_def running_count_def)

lemma notify_one_fields [simp]:
  "s_admission (notify_one s) = s_admission s" "s_jobs (notify_one s) = s_jobs s"
  "s_active_mutation (notify_one s) = s_active_mutation s"
  "s_mutation_generation (notify_one s) = s_mutation_generation s"
  "s_self_update (notify_one s) = s_self_update s"
  "s_reboot_pending (notify_one s) = s_reboot_pending s"
  "s_max_concurrent (notify_one s) = s_max_concurrent s"
  "s_max_queue_depth (notify_one s) = s_max_queue_depth s"
  "s_events (notify_one s) = s_events s" "s_notifies (notify_one s) = Suc (s_notifies s)"
  by (simp_all add: notify_one_def)

lemma emit_event_fields [simp]:
  "s_admission (emit_event n t i st p m s) = s_admission s"
  "s_jobs (emit_event n t i st p m s) = s_jobs s"
  "s_active_mutation (emit_event n t i st p m s) = s_active_mutation s"
  "s_mutation_generation (emit_event n t i st p m s) = s_mutation_generation s"
  "s_self_update (emit_event n t i st p m s) = s_self_update s"
  "s_reboot_pending (emit_event n t i st p m s) = s_reboot_pending s"
  "s_max_concurrent (emit_event n t i st p m s) = s_max_concurrent s"
  "s_max_queue_depth (emit_event n t i st p m s) = s_max_queue_depth s"
  "s_notifies (emit_event n t i st p m s) = s_notifies s"
  by (simp_all add: emit_event_def)

lemma emit_event_detailed_fields [simp]:
  "s_admission (emit_event_detailed n i st p m e c s) = s_admission s"
  "s_jobs (emit_event_detailed n i st p m e c s) = s_jobs s"
  "s_active_mutation (emit_event_detailed n i st p m e c s) = s_active_mutation s"
  "s_mutation_generation (emit_event_detailed n i st p m e c s) = s_mutation_generation s"
  "s_self_update (emit_event_detailed n i st p m e c s) = s_self_update s"
  "s_reboot_pending (emit_event_detailed n i st p m e c s) = s_reboot_pending s"
  "s_max_concurrent (emit_event_detailed n i st p m e c s) = s_max_concurrent s"
  "s_max_queue_depth (emit_event_detailed n i st p m e c s) = s_max_queue_depth s"
  by (simp_all add: emit_event_detailed_def)

lemma emit_job_fields [simp]:
  "s_admission (emit_job n i s) = s_admission s" "s_jobs (emit_job n i s) = s_jobs s"
  "s_active_mutation (emit_job n i s) = s_active_mutation s"
  "s_mutation_generation (emit_job n i s) = s_mutation_generation s"
  "s_self_update (emit_job n i s) = s_self_update s"
  "s_reboot_pending (emit_job n i s) = s_reboot_pending s"
  "s_max_concurrent (emit_job n i s) = s_max_concurrent s"
  "s_max_queue_depth (emit_job n i s) = s_max_queue_depth s"
  by (simp_all add: emit_job_def split: option.splits)

lemma modify_job_fields [simp]:
  "s_admission (modify_job i g s) = s_admission s"
  "s_jobs (modify_job i g s) = hm_modify i g (s_jobs s)"
  "s_active_mutation (modify_job i g s) = s_active_mutation s"
  "s_mutation_generation (modify_job i g s) = s_mutation_generation s"
  "s_self_update (modify_job i g s) = s_self_update s"
  "s_reboot_pending (modify_job i g s) = s_reboot_pending s"
  "s_max_concurrent (modify_job i g s) = s_max_concurrent s"
  "s_max_queue_depth (modify_job i g s) = s_max_queue_depth s"
  by (simp_all add: modify_job_def)

lemma insert_job_fields [simp]:
  "s_admission (insert_job i j s) = s_admission s"
  "s_jobs (insert_job i j s) = AList.update i j (s_jobs s)"
  "s_active_mutation (insert_job i j s) = s_active_mutation s"
  "s_mutation_generation (insert_job i j s) = s_mutation_generation s"
  "s_self_update (insert_job i j s) = s_self_update s"
  "s_reboot_pending (insert_job i j s) = s_reboot_pending s"
  "s_max_concurrent (insert_job i j s) = s_max_concurrent s"
  "s_max_queue_depth (insert_job i j s) = s_max_queue_depth s"
  by (simp_all add: insert_job_def)

lemma remove_job_fields [simp]:
  "s_admission (remove_job i s) = s_admission s"
  "s_jobs (remove_job i s) = AList.delete i (s_jobs s)"
  "s_active_mutation (remove_job i s) = s_active_mutation s"
  "s_mutation_generation (remove_job i s) = s_mutation_generation s"
  "s_self_update (remove_job i s) = s_self_update s"
  "s_reboot_pending (remove_job i s) = s_reboot_pending s"
  "s_max_concurrent (remove_job i s) = s_max_concurrent s"
  "s_max_queue_depth (remove_job i s) = s_max_queue_depth s"
  by (simp_all add: remove_job_def)

text \<open>Well-formedness and the running count depend on the jobs and the limits only.\<close>

lemma sched_wf_cong:
  "s_jobs s = s_jobs s' \<Longrightarrow> s_max_concurrent s = s_max_concurrent s' \<Longrightarrow>
   s_max_queue_depth s = s_max_queue_depth s' \<Longrightarrow> sched_wf s = sched_wf s'"
  by (simp add: sched_wf_def)

lemma running_count_cong: "s_jobs s = s_jobs s' \<Longrightarrow> running_count s = running_count s'"
  by (simp add: running_count_def)

lemma sched_wf_steps [simp]:
  "sched_wf (notify_one s) = sched_wf s"
  "sched_wf (emit_event n t i st p m s) = sched_wf s"
  "sched_wf (emit_event_detailed n i st p m e c s) = sched_wf s"
  "sched_wf (emit_job n i s) = sched_wf s"
  "sched_wf (s\<lparr>s_admission := am\<rparr>) = sched_wf s"
  "sched_wf (s\<lparr>s_self_update := su\<rparr>) = sched_wf s"
  "sched_wf (s\<lparr>s_reboot_pending := rp\<rparr>) = sched_wf s"
  "sched_wf (s\<lparr>s_generation_counter := gc\<rparr>) = sched_wf s"
  "sched_wf (s\<lparr>s_active_mutation := ac\<rparr>) = sched_wf s"
  "sched_wf (s\<lparr>s_mutation_generation := mg\<rparr>) = sched_wf s"
  by (simp_all add: sched_wf_def)

lemma running_count_steps [simp]:
  "running_count (notify_one s) = running_count s"
  "running_count (emit_event n t i st p m s) = running_count s"
  "running_count (emit_event_detailed n i st p m e c s) = running_count s"
  "running_count (emit_job n i s) = running_count s"
  "running_count (s\<lparr>s_admission := am\<rparr>) = running_count s"
  "running_count (s\<lparr>s_self_update := su\<rparr>) = running_count s"
  "running_count (s\<lparr>s_reboot_pending := rp\<rparr>) = running_count s"
  "running_count (s\<lparr>s_generation_counter := gc\<rparr>) = running_count s"
  "running_count (s\<lparr>s_active_mutation := ac\<rparr>) = running_count s"
  "running_count (s\<lparr>s_mutation_generation := mg\<rparr>) = running_count s"
  by (simp_all add: running_count_def)

lemma sched_wf_modify:
  "sched_wf s \<Longrightarrow> (\<And>j. j_id (g j) = j_id j) \<Longrightarrow> sched_wf (modify_job i g s)"
  by (auto simp: sched_wf_def map_of_modify split: if_splits option.splits)

lemma sched_wf_insert: "sched_wf s \<Longrightarrow> j_id j = i \<Longrightarrow> sched_wf (insert_job i j s)"
  by (auto simp: sched_wf_def update_conv' split: if_splits)

lemma sched_wf_remove: "sched_wf s \<Longrightarrow> sched_wf (remove_job i s)"
  by (auto simp: sched_wf_def delete_conv' split: if_splits)

lemma running_count_modify:
  assumes "sched_wf s" and "\<And>j. get_job i s = Some j \<Longrightarrow> j_status (g j) = Running \<Longrightarrow> j_status j = Running"
  shows "running_count (modify_job i g s) \<le> running_count s"
  using assms unfolding running_count_def sched_wf_def get_job_def
  by (auto intro!: values_count_modify_down)

lemma running_count_modify_Suc:
  "sched_wf s \<Longrightarrow> running_count (modify_job i g s) \<le> Suc (running_count s)"
  unfolding running_count_def sched_wf_def by (simp add: values_count_modify_up)

lemma running_count_insert:
  assumes "sched_wf s" and "j_status j \<noteq> Running"
  shows "running_count (insert_job i j s) \<le> running_count s"
  using values_count_update_le [of "s_jobs s" "\<lambda>j. j_status j = Running" i j] assms
  unfolding running_count_def sched_wf_def by simp

lemma running_count_remove: "running_count (remove_job i s) \<le> running_count s"
  unfolding running_count_def by (simp add: values_count_delete_le)

section \<open>Building blocks of the contract\<close>

lemma sched_op_id: "sched_op (\<lambda>s. s)"
  by unfold_locales auto

lemma sched_op_comp:
  assumes "sched_op f" and "sched_op g"
  shows "sched_op (\<lambda>s. g (f s))"
proof -
  note f = sched_op.slot [OF assms(1)] sched_op.generation [OF assms(1)] sched_op.limit [OF assms(1)]
    sched_op.wf [OF assms(1)]
  note g = sched_op.slot [OF assms(2)] sched_op.generation [OF assms(2)] sched_op.limit [OF assms(2)]
    sched_op.wf [OF assms(2)]
  show ?thesis
  proof unfold_locales
    fix s :: scheduler_state
    assume wf: "sched_wf s"
    have "running_count (g (f s)) \<le> max (running_count (f s)) (s_max_concurrent (f s))"
      by (rule sched_op.running [OF assms(2)]) (rule f(4) [OF wf])
    with sched_op.running [OF assms(1) wf] f(3) [of s]
    show "running_count (g (f s)) \<le> max (running_count s) (s_max_concurrent s)" by simp
  qed (simp_all add: f g)
qed

lemma sched_op_fold: "(\<And>x. sched_op (f x)) \<Longrightarrow> sched_op (fold f xs)"
proof (induction xs)
  case Nil
  show ?case using sched_op_id by (simp add: id_def)
next
  case (Cons x xs)
  then show ?case using sched_op_comp [of "f x" "fold f xs"] by (simp add: comp_def)
qed

lemma sched_op_if: "sched_op f \<Longrightarrow> sched_op g \<Longrightarrow> sched_op (\<lambda>s. if b s then f s else g s)"
  unfolding sched_op_def by auto

lemma sched_op_notify: "sched_op notify_one"
  by unfold_locales auto

lemma sched_op_emit: "sched_op (emit_event n t i st p m)"
  by unfold_locales auto

lemma sched_op_emit_detailed: "sched_op (emit_event_detailed n i st p m e c)"
  by unfold_locales auto

lemma sched_op_emit_job: "sched_op (emit_job n i)"
  by unfold_locales auto

lemma sched_op_modify:
  assumes "\<And>j. j_id (g j) = j_id j" and "\<And>j. j_status (g j) = Running \<Longrightarrow> j_status j = Running"
  shows "sched_op (modify_job i g)"
proof unfold_locales
  fix s :: scheduler_state
  assume wf: "sched_wf s"
  show "sched_wf (modify_job i g s)" by (rule sched_wf_modify [OF wf assms(1)])
  have "running_count (modify_job i g s) \<le> running_count s"
    by (rule running_count_modify [OF wf]) (rule assms(2))
  then show "running_count (modify_job i g s) \<le> max (running_count s) (s_max_concurrent s)" by simp
qed simp_all

lemma sched_op_insert:
  assumes "j_id j = i" and "j_status j \<noteq> Running"
  shows "sched_op (insert_job i j)"
proof unfold_locales
  fix s :: scheduler_state
  assume wf: "sched_wf s"
  show "sched_wf (insert_job i j s)" by (rule sched_wf_insert [OF wf assms(1)])
  show "running_count (insert_job i j s) \<le> max (running_count s) (s_max_concurrent s)"
    using running_count_insert [OF wf assms(2)] by (simp add: le_max_iff_disj)
qed simp_all

lemma sched_op_remove: "sched_op (remove_job i)"
proof unfold_locales
  fix s :: scheduler_state
  show "running_count (remove_job i s) \<le> max (running_count s) (s_max_concurrent s)"
    using running_count_remove by (simp add: le_max_iff_disj)
qed (auto simp: sched_wf_remove)

lemma sched_op_set:
  "sched_op (\<lambda>s. s\<lparr>s_admission := am\<rparr>)"
  "sched_op (\<lambda>s. s\<lparr>s_self_update := su\<rparr>)"
  "sched_op (\<lambda>s. s\<lparr>s_reboot_pending := rp\<rparr>)"
  "sched_op (\<lambda>s. s\<lparr>s_generation_counter := gc s\<rparr>)"
  by (unfold_locales; simp)+

lemmas sched_op_blocks = sched_op_id sched_op_notify sched_op_emit sched_op_emit_detailed
  sched_op_emit_job sched_op_remove sched_op_set

text \<open>A step that either changes nothing or acts as an operation of the contract keeps it.\<close>

lemma sched_opI:
  assumes "\<And>s. f s = s \<or> (\<exists>g. sched_op g \<and> f s = g s)"
  shows "sched_op f"
proof -
  have *: "\<exists>g. sched_op g \<and> f s = g s" for s
    using assms [of s] sched_op_id by auto
  show ?thesis
  proof unfold_locales
    fix s :: scheduler_state
    from * [of s] obtain g where g: "sched_op g" "f s = g s" by blast
    show "s_active_mutation (f s) = s_active_mutation s" using g by (simp add: sched_op.slot)
    show "s_mutation_generation (f s) = s_mutation_generation s"
      using g by (simp add: sched_op.generation)
    show "s_max_concurrent (f s) = s_max_concurrent s" using g by (simp add: sched_op.limit)
    show "sched_wf (f s)" if "sched_wf s" using g that by (simp add: sched_op.wf)
    show "running_count (f s) \<le> max (running_count s) (s_max_concurrent s)" if "sched_wf s"
      using sched_op.running [OF g(1) that] g(2) by simp
  qed
qed

text \<open>The shape of the job transitions: update one job, broadcast it, wake a waiter.\<close>

lemma sched_op_emit_modify:
  assumes "\<And>j. j_id (g j) = j_id j" and "\<And>j. j_status (g j) = Running \<Longrightarrow> j_status j = Running"
  shows "sched_op (\<lambda>s. emit_job now i (modify_job i g s))"
  by (rule sched_op_comp [OF sched_op_modify [OF assms] sched_op_emit_job])

lemma sched_op_transition:
  assumes "\<And>j. j_id (g j) = j_id j" and "\<And>j. j_status (g j) = Running \<Longrightarrow> j_status j = Running"
  shows "sched_op (\<lambda>s. notify_one (emit_job now i (modify_job i g s)))"
  by (rule sched_op_comp [OF sched_op_emit_modify [OF assms] sched_op_notify])

text \<open>The shape of an admission: insert a pending job, broadcast it.\<close>

lemma sched_op_admit:
  assumes "j_id j = i" and "j_status j = Pending"
  shows "sched_op (\<lambda>s. emit_event now t i st p m (insert_job i j s))"
  using assms by (intro sched_op_comp [OF sched_op_insert sched_op_emit]) auto

section \<open>Interpretations: every operation keeps the contract\<close>

interpretation freeze: sched_op freeze_admission
  unfolding freeze_admission_def by (rule sched_op_comp [OF sched_op_set(1) sched_op_notify])

interpretation add_job_log: sched_op "add_job_log now i m" for now i m
  unfolding add_job_log_def by (rule sched_op_modify) auto

interpretation complete_job: sched_op "complete_job now i" for now i
  unfolding complete_job_def by (rule sched_op_transition) simp_all

interpretation fail_job: sched_op "fail_job now i e" for now i e
  unfolding fail_job_def by (rule sched_op_transition) simp_all

interpretation fail_job_diag: sched_op "fail_job_with_diagnostics dbg now i e" for dbg now i e
proof (rule sched_opI)
  fix s :: scheduler_state
  let ?m = "modify_job i (fail_with_diagnostics dbg now e)"
  have m: "sched_op ?m" by (rule sched_op_modify) simp_all
  show "fail_job_with_diagnostics dbg now i e s = s \<or>
        (\<exists>g. sched_op g \<and> fail_job_with_diagnostics dbg now i e s = g s)"
  proof (cases "get_job i (?m s)")
    case None
    have "sched_op (\<lambda>s. notify_one (?m s))" by (rule sched_op_comp [OF m sched_op_notify])
    moreover have "fail_job_with_diagnostics dbg now i e s = notify_one (?m s)"
      by (simp add: fail_job_with_diagnostics_def None Let_def)
    ultimately show ?thesis by blast
  next
    case (Some j)
    let ?em = "emit_event_detailed now i (j_status j) (j_progress j) (j_message j)
                (Some (format_error_for_cache dbg e)) (Some (classify_error e))"
    have "sched_op (\<lambda>s. notify_one (?em (?m s)))"
      by (rule sched_op_comp [OF sched_op_comp [OF m sched_op_emit_detailed] sched_op_notify])
    moreover have "fail_job_with_diagnostics dbg now i e s = notify_one (?em (?m s))"
      by (simp add: fail_job_with_diagnostics_def Some Let_def)
    ultimately show ?thesis by blast
  qed
qed

interpretation delete_job: sched_op "\<lambda>s. snd (delete_job i s)" for i
proof (rule sched_opI)
  fix s :: scheduler_state
  show "snd (delete_job i s) = s \<or> (\<exists>g. sched_op g \<and> snd (delete_job i s) = g s)"
    using sched_op_remove by (auto simp: delete_job_def split: option.splits)
qed

lemma sched_op_admit_inner: "sched_op (\<lambda>s. res_state s (admit_job_inner now i b oper ps s))"
proof (rule sched_opI)
  fix s :: scheduler_state
  let ?g = "\<lambda>s. emit_event now ''job_status'' i Pending 0 ''Job created''
              (insert_job i (new_job i now b oper ps) s)"
  have "sched_op ?g" by (rule sched_op_admit) simp_all
  then show "res_state s (admit_job_inner now i b oper ps s) = s \<or>
        (\<exists>g. sched_op g \<and> res_state s (admit_job_inner now i b oper ps s) = g s)"
    by (auto simp: admit_job_inner_def Let_def)
qed

interpretation admit_job: sched_op "\<lambda>s. res_state s (admit_job now i b oper ps s)" for now i b oper ps
proof (rule sched_opI)
  fix s :: scheduler_state
  let ?g = "\<lambda>s. notify_one (res_state s (admit_job_inner now i b oper ps s))"
  have "sched_op ?g" by (rule sched_op_comp [OF sched_op_admit_inner sched_op_notify])
  then show "res_state s (admit_job now i b oper ps s) = s \<or>
        (\<exists>g. sched_op g \<and> res_state s (admit_job now i b oper ps s) = g s)"
    by (auto simp: admit_job_def split: sum.splits) (auto simp: admit_job_inner_def Let_def)
qed

interpretation rollback_job: sched_op "\<lambda>s. res_state s (create_rollback_job now i b orig s)"
  for now i b orig
proof (rule sched_opI)
  fix s :: scheduler_state
  let ?up = "\<lambda>j. j\<lparr>j_exclusive_mode := True, j_rollback_job_id := Some orig\<rparr>"
  let ?g = "\<lambda>ps s. notify_one (modify_job i ?up (res_state s (admit_job_inner now i b Rollback ps s)))"
  have "sched_op (modify_job i ?up)" by (rule sched_op_modify) simp_all
  then have g: "sched_op (?g ps)" for ps
    by (intro sched_op_comp [OF sched_op_comp [OF sched_op_admit_inner] sched_op_notify])
  show "res_state s (create_rollback_job now i b orig s) = s \<or>
        (\<exists>g. sched_op g \<and> res_state s (create_rollback_job now i b orig s) = g s)"
  proof (cases "get_job orig s")
    case None
    then show ?thesis by (simp add: create_rollback_job_def)
  next
    case (Some j)
    show ?thesis
      using g [of "j_packages j"] Some
      by (auto simp: create_rollback_job_def admit_job_inner_def Let_def)
  qed
qed

interpretation reserve_su: sched_op
  "\<lambda>s. res_state s (try_reserve_self_update now i b ps fv tv s)" for now i b ps fv tv
proof (rule sched_opI)
  fix s :: scheduler_state
  let ?su = "Some \<lparr>su_job_id = i, su_from_version = fv, su_target_version = tv,
                   su_generation = s_generation_counter s\<rparr>"
  let ?g = "\<lambda>s0. notify_one (emit_event now ''job_status'' i Pending 0 ''Job created''
     (insert_job i (new_job i now b SelfUpdate ps)
        (s0\<lparr>s_generation_counter := s_generation_counter s + 1\<rparr>\<lparr>s_self_update := ?su\<rparr>)))"
  have "sched_op ?g"
    by (rule sched_op_comp [OF sched_op_comp [OF sched_op_comp [OF sched_op_set(4) sched_op_set(2)]
          sched_op_admit] sched_op_notify]) simp_all
  then show "res_state s (try_reserve_self_update now i b ps fv tv s) = s \<or>
        (\<exists>g. sched_op g \<and> res_state s (try_reserve_self_update now i b ps fv tv s) = g s)"
    by (auto simp: try_reserve_self_update_def Let_def)
qed

interpretation release_su: sched_op "\<lambda>s. snd (release_self_update i s)" for i
proof (rule sched_opI)
  fix s :: scheduler_state
  have "sched_op (\<lambda>s. notify_one (s\<lparr>s_self_update := None\<rparr>))"
    by (rule sched_op_comp [OF sched_op_set(2) sched_op_notify])
  then show "snd (release_self_update i s) = s \<or>
      (\<exists>g. sched_op g \<and> snd (release_self_update i s) = g s)"
    by (auto simp: release_self_update_def split: option.splits)
qed

interpretation drop_su: sched_op "drop_self_update_guard i c" for i c
proof (rule sched_opI)
  fix s :: scheduler_state
  have r: "sched_op (\<lambda>s. notify_one (remove_job i s))"
    by (rule sched_op_comp [OF sched_op_remove sched_op_notify])
  have "sched_op (\<lambda>s. notify_one (remove_job i (s\<lparr>s_self_update := None\<rparr>)))"
    by (rule sched_op_comp [OF sched_op_set(2) r])
  with r show "drop_self_update_guard i c s = s \<or> (\<exists>g. sched_op g \<and> drop_self_update_guard i c s = g s)"
    by (auto simp: drop_self_update_guard_def Let_def split: option.splits)
qed

lemma sched_op_cancel: "sched_op (cancel_for_reboot now i)"
  unfolding cancel_for_reboot_def by (rule sched_op_emit_modify) simp_all

interpretation reserve_rb: sched_op "\<lambda>s. res_state s (reserve_reboot now i b force ack s)"
  for now i b force ack
proof (rule sched_opI)
  fix s :: scheduler_state
  let ?h = "\<lambda>s. emit_event now ''job_status'' i Pending 0 ''Job created''
     (insert_job i (new_job i now b Reboot []) (s\<lparr>s_reboot_pending := Some i\<rparr>))"
  have h: "sched_op ?h"
    by (rule sched_op_comp [OF sched_op_set(3) sched_op_admit]) simp_all
  have "sched_op (\<lambda>s. notify_one (fold (cancel_for_reboot now) ids (?h s)))" for ids
    by (rule sched_op_comp [OF sched_op_comp [OF h sched_op_fold [OF sched_op_cancel]] sched_op_notify])
  then show "res_state s (reserve_reboot now i b force ack s) = s \<or>
        (\<exists>g. sched_op g \<and> res_state s (reserve_reboot now i b force ack s) = g s)"
    by (auto simp: reserve_reboot_def Let_def)
qed

interpretation rollback_rb: sched_op "\<lambda>s. snd (rollback_reboot now i e s)" for now i e
proof (rule sched_opI)
  fix s :: scheduler_state
  let ?f = "\<lambda>j. case e of Some err \<Rightarrow> fail now err j
                  | None \<Rightarrow> j\<lparr>j_status := Cancelled, j_message := ''Reboot reservation rolled back'',
                              j_completed_at := Some now, j_updated_at := now\<rparr>"
  have "sched_op (\<lambda>s. notify_one (emit_job now i (modify_job i ?f (s\<lparr>s_reboot_pending := None\<rparr>))))"
    by (rule sched_op_comp [OF sched_op_set(3) sched_op_transition]) (simp_all split: option.splits)
  then show "snd (rollback_reboot now i e s) = s \<or> (\<exists>g. sched_op g \<and> snd (rollback_reboot now i e s) = g s)"
    by (auto simp: rollback_reboot_def Let_def)
qed

interpretation drop_rb: sched_op "drop_reboot_guard now i c" for now i c
  unfolding drop_reboot_guard_def
  by (rule sched_op_if [OF sched_op_id rollback_rb.sched_op_axioms])

interpretation begin_rb: sched_op "\<lambda>s. snd (begin_reboot_execution now i s)" for now i
proof (rule sched_opI)
  fix s :: scheduler_state
  have "sched_op (\<lambda>s. notify_one (emit_job now i (modify_job i
          (\<lambda>j. add_log now ''Reboot command starting'' (j\<lparr>j_status := Rebooting, j_updated_at := now\<rparr>)) s)))"
    by (rule sched_op_transition) simp_all
  then show "snd (begin_reboot_execution now i s) = s \<or>
      (\<exists>g. sched_op g \<and> snd (begin_reboot_execution now i s) = g s)"
    by (auto simp: begin_reboot_execution_def split: option.splits)
qed

interpretation set_rb: sched_op "\<lambda>s. res_state1 s (set_job_rebooting now i m s)" for now i m
proof (rule sched_opI)
  fix s :: scheduler_state
  have "sched_op (\<lambda>s. notify_one (emit_job now i (modify_job i (set_rebooting now m) s)))"
    by (rule sched_op_transition) simp_all
  then show "res_state1 s (set_job_rebooting now i m s) = s \<or>
      (\<exists>g. sched_op g \<and> res_state1 s (set_job_rebooting now i m s) = g s)"
    by (auto simp: set_job_rebooting_def split: option.splits)
qed

lemma j_status_recover: "is_terminal (j_status (recover_job now boot j))"
  and j_id_recover [simp]: "j_id (recover_job now boot j) = j_id j"
  by (simp_all add: recover_job_def recovered_base_def Let_def)

interpretation recover: sched_op "recover_orphaned_jobs now boot js" for now boot js
  unfolding recover_orphaned_jobs_def
proof (rule sched_op_fold)
  fix j
  show "sched_op (insert_job (j_id j) (recover_job now boot j))"
    using j_status_recover [of now boot j] by (intro sched_op_insert) (auto simp: terminal_iff)
qed

interpretation update_job: sched_op "\<lambda>s. res_state1 s (update_job now i st p m s)" for now i st p m
proof unfold_locales
  fix s :: scheduler_state
  let ?g = "\<lambda>j. j\<lparr>j_status := st, j_progress := opt_or p (j_progress j),
              j_message := opt_or m (j_message j), j_updated_at := now\<rparr>"
  let ?blocked = "(st = Running \<or> st = Rebooting)
      \<and> \<not> (case get_job i s of None \<Rightarrow> False | Some j \<Rightarrow> j_status j = Running)
      \<and> running_count s \<ge> s_max_concurrent s"
  have eq: "res_state1 s (update_job now i st p m s)
      = (if ?blocked then s else emit_job now i (modify_job i ?g s))"
    by (simp add: update_job_def Let_def)
  show "s_active_mutation (res_state1 s (update_job now i st p m s)) = s_active_mutation s"
    and "s_mutation_generation (res_state1 s (update_job now i st p m s)) = s_mutation_generation s"
    and "s_max_concurrent (res_state1 s (update_job now i st p m s)) = s_max_concurrent s"
    by (simp_all add: eq)
  assume wf: "sched_wf s"
  show "sched_wf (res_state1 s (update_job now i st p m s))"
    using wf by (simp add: eq sched_wf_modify)
  show "running_count (res_state1 s (update_job now i st p m s))
      \<le> max (running_count s) (s_max_concurrent s)"
  proof (cases "?blocked \<or> (st = Running \<and> running_count s < s_max_concurrent s)")
    case True
    then show ?thesis using running_count_modify_Suc [OF wf, of i ?g] by (auto simp: eq)
  next
    case False
    have "running_count (modify_job i ?g s) \<le> running_count s"
      by (rule running_count_modify [OF wf]) (use False in auto)
    then show ?thesis by (simp add: eq le_max_iff_disj)
  qed
qed

text \<open>\<open>load_history\<close> keeps the contract on the jobs the startup code hands it, the terminal ones.\<close>

lemma sched_op_load_history:
  assumes "\<forall>j \<in> set history. is_terminal (j_status j)"
  shows "sched_op (load_history history)"
  using assms
proof (induction history)
  case Nil
  show ?case unfolding load_history_def using sched_op_id by (simp add: id_def)
next
  case (Cons j js)
  have "sched_op (insert_job (j_id j) j)"
    using Cons.prems by (intro sched_op_insert) (auto simp: terminal_iff)
  moreover have "sched_op (load_history js)" using Cons by simp
  ultimately have "sched_op (\<lambda>s. load_history js (insert_job (j_id j) j s))" by (rule sched_op_comp)
  then show ?case by (simp add: load_history_def comp_def)
qed

end
