(* ===== verification/Dispatch.thy ===== *)
theory Dispatch imports Scheduler_Inv begin

text \<open>
  The life of a mutation: \<open>Scheduler::dispatch_mutation\<close> of \<open>src/jobs/scheduler.rs\<close>, its wait
  loop and the watchdog task it spawns, and the concurrent system they form with every other
  operation of the scheduler.

  \<open>dispatch_try\<close> is one turn of the loop, under the lock; \<open>watchdog_finish\<close> is the locked
  section at the end of the spawned task. Between them runs the closure, whose outcome is a
  value. In the system a caller waiting for \<open>notified()\<close> may try again at any time: every
  wake-up of the \<open>Notify\<close> is such a try, so the properties hold for every order of wake-ups.
\<close>

section \<open>One turn of the wait loop\<close>

definition CACHE_REFRESH_TIMEOUT :: nat where "CACHE_REFRESH_TIMEOUT = 300"
definition PACKAGE_OP_TIMEOUT :: nat where "PACKAGE_OP_TIMEOUT = 1800"
definition QUICK_OP_TIMEOUT :: nat where "QUICK_OP_TIMEOUT = 60"

text \<open>The backstop in seconds.\<close>

definition watchdog_backstop_for :: "job \<Rightarrow> nat" where
  "watchdog_backstop_for j =
     (if is_internal j then CACHE_REFRESH_TIMEOUT + 60
      else PACKAGE_OP_TIMEOUT + CACHE_REFRESH_TIMEOUT + 300)"

datatype dispatch_outcome =
    Rejected string
  | MustWait
  | Started u64 nat scheduler_state   \<comment> \<open>generation, backstop, state\<close>

definition job_already_running :: "uuid \<Rightarrow> scheduler_state \<Rightarrow> bool" where
  "job_already_running i s = (case get_job i s of None \<Rightarrow> False | Some j \<Rightarrow> j_status j = Running)"

definition start_mutation :: "time \<Rightarrow> uuid \<Rightarrow> scheduler_state \<Rightarrow> scheduler_state" where
  "start_mutation now i s =
     (let already = job_already_running i s;
          s1 = s\<lparr>s_active_mutation := Some i, s_mutation_generation := s_mutation_generation s + 1\<rparr>
      in emit_job now i (modify_job i
           (\<lambda>j. (if already then j else add_log now ''Job started'' (j\<lparr>j_status := Running\<rparr>))
                  \<lparr>j_updated_at := now\<rparr>) s1))"

definition dispatch_try :: "time \<Rightarrow> uuid \<Rightarrow> scheduler_state \<Rightarrow> dispatch_outcome" where
  "dispatch_try now i s =
     (if s_admission s = Frozen then Rejected ''Mutation admission frozen -- shutdown in progress''
      else if s_admission s = Recovery then Rejected ''Mutation rejected -- system in recovery mode''
      else if s_reboot_pending s \<noteq> None
        then Rejected ''Mutation rejected -- reboot reservation is in progress''
      else if (case s_self_update s of None \<Rightarrow> False | Some su \<Rightarrow> su_job_id su \<noteq> i)
        then Rejected ''Mutation rejected -- self-update in progress''
      else if \<not> job_already_running i s \<and> running_count s \<ge> s_max_concurrent s then MustWait
      else if s_active_mutation s \<noteq> None then MustWait
      else
        let s1 = start_mutation now i s;
            backstop = (case get_job i s1 of Some j \<Rightarrow> watchdog_backstop_for j
                        | None \<Rightarrow> PACKAGE_OP_TIMEOUT + CACHE_REFRESH_TIMEOUT + 300)
        in Started (s_mutation_generation s + 1) backstop s1)"

section \<open>The watchdog\<close>

text \<open>How the closure ends: it returns, it panics, or the backstop elapses first.\<close>

datatype closure_outcome = Returned "(anyhow, unit) result" | Panicked string | Elapsed

definition watchdog_result :: "nat \<Rightarrow> closure_outcome \<Rightarrow> (anyhow, unit) result" where
  "watchdog_result backstop outcome =
     (case outcome of
        Returned r \<Rightarrow> r
      | Panicked p \<Rightarrow> Err (anyhow_msg (''Mutation task panicked: '' @ p))
      | Elapsed \<Rightarrow> Err (anyhow_msg (''Mutation timed out after '' @ show_nat backstop
                           @ '' seconds (watchdog backstop)'')))"

definition orphan_failure :: "time \<Rightarrow> (anyhow, unit) result \<Rightarrow> job \<Rightarrow> job" where
  "orphan_failure now result j =
     (let j1 = j\<lparr>j_status := Failed\<rparr>;
          j2 = (case result of
                  Inr _ \<Rightarrow> add_log now ''Watchdog: caller dropped, operation succeeded but result undeliverable''
                     (j1\<lparr>j_error := Some ''Caller cancelled after mutation completed -- result could not be delivered''\<rparr>)
                | Inl e \<Rightarrow> add_log now ''Watchdog: caller dropped, operation failed''
                     (j1\<lparr>j_error := Some (''Caller cancelled with underlying error: '' @ error_to_string e)\<rparr>))
      in j2\<lparr>j_completed_at := Some now, j_updated_at := now\<rparr>)"

definition watchdog_finish ::
    "time \<Rightarrow> uuid \<Rightarrow> u64 \<Rightarrow> (anyhow, unit) result \<Rightarrow> bool \<Rightarrow> scheduler_state \<Rightarrow> scheduler_state" where
  "watchdog_finish now i gen result caller_alive s =
     (let still_owns = (s_active_mutation s = Some i \<and> s_mutation_generation s = gen);
          s1 = (if still_owns then s\<lparr>s_active_mutation := None\<rparr> else s);
          s2 = (if \<not> caller_alive \<and> still_owns then
                  (case get_job i s1 of
                     None \<Rightarrow> s1
                   | Some j \<Rightarrow>
                       if j_status j = Running \<or> j_status j = Pending
                       then emit_job now i (modify_job i (orphan_failure now result) s1)
                       else s1)
                else s1)
      in notify_one s2)"

section \<open>The system\<close>

record mutation_task =
  mt_job :: uuid
  mt_generation :: u64
  mt_backstop :: nat

text \<open>The callers inside the loop; those that have acquired the slot and await the write of
  \<open>persist_jobs\<close>, before \<open>tokio::spawn\<close>; the watchdog tasks not yet finished; the closures that a
  backstop detached and that still run on the blocking pool; and the starts whose future was
  dropped during that await, so that their task was never spawned.\<close>

record dispatch_sys =
  d_state :: scheduler_state
  d_callers :: "uuid list"
  d_acquired :: "mutation_task list"
  d_tasks :: "mutation_task list"
  d_detached :: "uuid list"
  d_abandoned :: "mutation_task list"

definition owners :: "dispatch_sys \<Rightarrow> mutation_task list" where
  "owners d = d_acquired d @ d_tasks d @ d_abandoned d"

text \<open>Every other operation of the scheduler, as one step on its state. A job that is created
  gets a UUID no job has.\<close>

inductive api_step :: "scheduler_state \<Rightarrow> scheduler_state \<Rightarrow> bool" where
  api_admit: "get_job i s = None \<Longrightarrow> api_step s (res_state s (admit_job now i b oper ps s))"
| api_rollback_job: "get_job i s = None \<Longrightarrow> api_step s (res_state s (create_rollback_job now i b orig s))"
| api_reserve_su: "get_job i s = None \<Longrightarrow>
     api_step s (res_state s (try_reserve_self_update now i b ps fv tv s))"
| api_release_su: "api_step s (snd (release_self_update i s))"
| api_drop_su: "api_step s (drop_self_update_guard i c s)"
| api_reserve_rb: "get_job i s = None \<Longrightarrow>
     api_step s (res_state s (reserve_reboot now i b force ack s))"
| api_rollback_rb: "api_step s (snd (rollback_reboot now i e s))"
| api_drop_rb: "api_step s (drop_reboot_guard now i c s)"
| api_begin_rb: "api_step s (snd (begin_reboot_execution now i s))"
| api_set_rb: "api_step s (res_state1 s (set_job_rebooting now i m s))"
| api_freeze: "api_step s (freeze_admission s)"
| api_update: "api_step s (res_state1 s (update_job now i st p om s))"
| api_log: "api_step s (add_job_log now i m s)"
| api_complete: "api_step s (complete_job now i s)"
| api_fail: "api_step s (fail_job now i m s)"
| api_fail_diag: "api_step s (fail_job_with_diagnostics dbg now i err s)"
| api_delete: "api_step s (snd (delete_job i s))"
| api_recover: "api_step s (recover_orphaned_jobs now b js s)"
| api_history: "\<forall>j \<in> set js. is_terminal (j_status j) \<Longrightarrow> api_step s (load_history js s)"

inductive sys_step :: "dispatch_sys \<Rightarrow> dispatch_sys \<Rightarrow> bool" where
  sys_api: "api_step (d_state d) s' \<Longrightarrow> sys_step d (d\<lparr>d_state := s'\<rparr>)"
| sys_call: "sys_step d (d\<lparr>d_callers := i # d_callers d\<rparr>)"
| sys_reject: "i \<in> set (d_callers d) \<Longrightarrow> dispatch_try now i (d_state d) = Rejected m \<Longrightarrow>
     sys_step d (d\<lparr>d_callers := remove1 i (d_callers d)\<rparr>)"
| sys_drop: "i \<in> set (d_callers d) \<Longrightarrow> sys_step d (d\<lparr>d_callers := remove1 i (d_callers d)\<rparr>)"
| sys_start: "i \<in> set (d_callers d) \<Longrightarrow> dispatch_try now i (d_state d) = Started gen backstop s' \<Longrightarrow>
     sys_step d (d\<lparr>d_state := s', d_callers := remove1 i (d_callers d),
       d_acquired := \<lparr>mt_job = i, mt_generation = gen, mt_backstop = backstop\<rparr> # d_acquired d\<rparr>)"
| sys_spawn: "t \<in> set (d_acquired d) \<Longrightarrow>
     sys_step d (d\<lparr>d_acquired := remove1 t (d_acquired d), d_tasks := t # d_tasks d\<rparr>)"
| sys_abandon: "t \<in> set (d_acquired d) \<Longrightarrow>
     sys_step d (d\<lparr>d_acquired := remove1 t (d_acquired d), d_abandoned := t # d_abandoned d\<rparr>)"
| sys_finish: "t \<in> set (d_tasks d) \<Longrightarrow>
     sys_step d (d\<lparr>d_state := watchdog_finish now (mt_job t) (mt_generation t)
                              (watchdog_result (mt_backstop t) outcome) alive (d_state d),
       d_tasks := remove1 t (d_tasks d),
       d_detached := (if outcome = Elapsed then mt_job t # d_detached d else d_detached d)\<rparr>)"
| sys_exit: "i \<in> set (d_detached d) \<Longrightarrow> sys_step d (d\<lparr>d_detached := remove1 i (d_detached d)\<rparr>)"

definition init_sys :: "nat \<Rightarrow> nat \<Rightarrow> dispatch_sys" where
  "init_sys c q = \<lparr>d_state = new_scheduler c q, d_callers = [], d_acquired = [], d_tasks = [], d_detached = [],
                   d_abandoned = []\<rparr>"

inductive reachable :: "nat \<Rightarrow> nat \<Rightarrow> dispatch_sys \<Rightarrow> bool" for c q where
  reach_init: "reachable c q (init_sys c q)"
| reach_step: "reachable c q d \<Longrightarrow> sys_step d d' \<Longrightarrow> reachable c q d'"

inductive_cases sys_stepE: "sys_step d d'"

section \<open>Invariants\<close>

text \<open>The slot: it is held exactly while it has one owner, and that owner has the current
  generation.\<close>

definition slot_inv :: "dispatch_sys \<Rightarrow> bool" where
  "slot_inv d \<longleftrightarrow>
     (owners d = [] \<and> s_active_mutation (d_state d) = None) \<or>
     (\<exists>t. owners d = [t] \<and> s_active_mutation (d_state d) = Some (mt_job t) \<and>
          s_mutation_generation (d_state d) = mt_generation t)"

lemmas sched_ops = admit_job.sched_op_axioms rollback_job.sched_op_axioms reserve_su.sched_op_axioms
  release_su.sched_op_axioms drop_su.sched_op_axioms reserve_rb.sched_op_axioms rollback_rb.sched_op_axioms
  drop_rb.sched_op_axioms begin_rb.sched_op_axioms set_rb.sched_op_axioms freeze.sched_op_axioms
  update_job.sched_op_axioms add_job_log.sched_op_axioms complete_job.sched_op_axioms fail_job.sched_op_axioms
  fail_job_diag.sched_op_axioms delete_job.sched_op_axioms recover.sched_op_axioms

lemma api_step_sched_op: "api_step s s' \<Longrightarrow> \<exists>f. sched_op f \<and> s' = f s"
proof (induction rule: api_step.induct)
  case api_history
  then show ?case using sched_op_load_history by blast
qed (rule exI, rule conjI, rule sched_ops, rule refl)+

lemma api_step_slot:
  "api_step s s' \<Longrightarrow> s_active_mutation s' = s_active_mutation s \<and>
     s_mutation_generation s' = s_mutation_generation s"
  using api_step_sched_op sched_op.slot sched_op.generation by metis

lemma api_step_inv: "api_step s s' \<Longrightarrow> sched_inv s \<Longrightarrow> sched_inv s'"
  using api_step_sched_op sched_op.inv by metis

lemma api_step_limit: "api_step s s' \<Longrightarrow> s_max_concurrent s' = s_max_concurrent s"
  using api_step_sched_op sched_op.limit by metis

lemma dispatch_StartedD:
  assumes "dispatch_try now i s = Started gen backstop s'"
  shows "s_admission s = Open" "s_reboot_pending s = None" "s_active_mutation s = None"
    "gen = s_mutation_generation s + 1" "s' = start_mutation now i s"
    "job_already_running i s \<or> running_count s < s_max_concurrent s"
    "\<forall>su. s_self_update s = Some su \<longrightarrow> su_job_id su = i"
  using assms by (auto simp: dispatch_try_def Let_def split: if_splits option.splits)
     (cases "s_admission s"; simp)+

lemma start_mutation_fields:
  "s_active_mutation (start_mutation now i s) = Some i"
  "s_mutation_generation (start_mutation now i s) = s_mutation_generation s + 1"
  "s_max_concurrent (start_mutation now i s) = s_max_concurrent s"
  by (simp_all add: start_mutation_def Let_def)

lemma sched_inv_start:
  assumes inv: "sched_inv s" and room: "job_already_running i s \<or> running_count s < s_max_concurrent s"
  shows "sched_inv (start_mutation now i s)"
proof -
  let ?s1 = "s\<lparr>s_active_mutation := Some i, s_mutation_generation := s_mutation_generation s + 1\<rparr>"
  let ?g = "\<lambda>j. (if job_already_running i s then j else add_log now ''Job started'' (j\<lparr>j_status := Running\<rparr>))
                  \<lparr>j_updated_at := now\<rparr>"
  have wf: "sched_wf ?s1" using inv by (simp add: sched_inv_def)
  have rc: "running_count ?s1 = running_count s" by (simp add: running_count_def)
  have "running_count (modify_job i ?g ?s1) \<le> s_max_concurrent s"
  proof (cases "job_already_running i s")
    case True
    then have "running_count (modify_job i ?g ?s1) \<le> running_count ?s1"
      by (intro running_count_modify [OF wf]) simp
    with inv rc show ?thesis by (simp add: sched_inv_def)
  next
    case False
    with room running_count_modify_Suc [OF wf, of i ?g] rc show ?thesis by simp
  qed
  moreover have "sched_wf (modify_job i ?g ?s1)" by (rule sched_wf_modify [OF wf]) simp
  ultimately show ?thesis by (simp add: sched_inv_def start_mutation_def Let_def)
qed

lemma j_status_orphan [simp]: "j_status (orphan_failure now r j) = Failed"
  and j_id_orphan [simp]: "j_id (orphan_failure now r j) = j_id j"
  by (simp_all add: orphan_failure_def Let_def split: sum.splits)

lemma sched_inv_finish:
  assumes "sched_inv s"
  shows "sched_inv (watchdog_finish now i gen r alive s)"
proof -
  have inv0: "sched_inv (s\<lparr>s_active_mutation := None\<rparr>)" using assms by (simp add: sched_inv_def)
  have "sched_op (\<lambda>s. emit_job now i (modify_job i (orphan_failure now r) s))"
    by (rule sched_op_emit_modify) simp_all
  from sched_op.inv [OF this inv0] inv0 assms sched_op.inv [OF sched_op_notify]
  show ?thesis by (auto simp: watchdog_finish_def Let_def split: option.splits)
qed

lemma finish_slot:
  assumes "s_active_mutation s = Some i" and "s_mutation_generation s = gen"
  shows "s_active_mutation (watchdog_finish now i gen r alive s) = None"
  using assms by (auto simp: watchdog_finish_def Let_def split: option.splits)

lemma finish_limit: "s_max_concurrent (watchdog_finish now i gen r alive s) = s_max_concurrent s"
  by (auto simp: watchdog_finish_def Let_def split: option.splits)

lemma slot_invD: "slot_inv d \<Longrightarrow> t \<in> set (owners d) \<Longrightarrow>
   owners d = [t] \<and> s_active_mutation (d_state d) = Some (mt_job t) \<and>
   s_mutation_generation (d_state d) = mt_generation t"
  by (auto simp: slot_inv_def)

lemma owners_single:
  "owners d = [t] \<Longrightarrow> t \<in> set (d_acquired d) \<Longrightarrow> d_acquired d = [t] \<and> d_tasks d = [] \<and> d_abandoned d = []"
  "owners d = [t] \<Longrightarrow> t \<in> set (d_tasks d) \<Longrightarrow> d_acquired d = [] \<and> d_tasks d = [t] \<and> d_abandoned d = []"
  "owners d = [t] \<Longrightarrow> t \<in> set (d_abandoned d) \<Longrightarrow> d_acquired d = [] \<and> d_tasks d = [] \<and> d_abandoned d = [t]"
  by (auto simp: owners_def append_eq_Cons_conv)

lemma slot_inv_step: "sys_step d d' \<Longrightarrow> slot_inv d \<Longrightarrow> slot_inv d'"
proof (induction rule: sys_step.induct)
  case (sys_api d s')
  then show ?case using api_step_slot [OF sys_api(1)] by (simp add: slot_inv_def owners_def)
next
  case (sys_start i d now gen backstop s')
  note st = dispatch_StartedD [OF sys_start(2)]
  from sys_start.prems st(3) have "owners d = []" by (auto simp: slot_inv_def)
  then show ?case by (simp add: slot_inv_def owners_def st(4,5) start_mutation_fields)
next
  case (sys_spawn t d)
  then have o: "owners d = [t] \<and> s_active_mutation (d_state d) = Some (mt_job t) \<and>
     s_mutation_generation (d_state d) = mt_generation t" by (intro slot_invD) (auto simp: owners_def)
  with owners_single(1) sys_spawn(1) have "d_acquired d = [t] \<and> d_tasks d = [] \<and> d_abandoned d = []"
    by blast
  with o show ?case by (simp add: slot_inv_def owners_def)
next
  case (sys_abandon t d)
  then have o: "owners d = [t] \<and> s_active_mutation (d_state d) = Some (mt_job t) \<and>
     s_mutation_generation (d_state d) = mt_generation t" by (intro slot_invD) (auto simp: owners_def)
  with owners_single(1) sys_abandon(1) have "d_acquired d = [t] \<and> d_tasks d = [] \<and> d_abandoned d = []"
    by blast
  with o show ?case by (simp add: slot_inv_def owners_def)
next
  case (sys_finish t d now outcome alive)
  then have o: "owners d = [t] \<and> s_active_mutation (d_state d) = Some (mt_job t) \<and>
     s_mutation_generation (d_state d) = mt_generation t" by (intro slot_invD) (auto simp: owners_def)
  with owners_single(2) sys_finish(1) have "d_acquired d = [] \<and> d_tasks d = [t] \<and> d_abandoned d = []"
    by blast
  with o show ?case by (simp add: slot_inv_def owners_def finish_slot)
qed (auto simp: slot_inv_def owners_def)

lemma reachable_slot_inv: "reachable c q d \<Longrightarrow> slot_inv d"
proof (induction rule: reachable.induct)
  case reach_init
  show ?case by (simp add: init_sys_def new_scheduler_def slot_inv_def owners_def)
next
  case (reach_step d d')
  then show ?case by (blast intro: slot_inv_step)
qed

lemma sched_inv_step: "sys_step d d' \<Longrightarrow> sched_inv (d_state d) \<Longrightarrow> sched_inv (d_state d')"
proof (induction rule: sys_step.induct)
  case (sys_api d s')
  then show ?case by (simp add: api_step_inv)
next
  case (sys_start i d now gen backstop s')
  then show ?case using dispatch_StartedD [OF sys_start(2)] by (simp add: sched_inv_start)
qed (auto simp: sched_inv_finish)

lemma reachable_sched_inv: "reachable c q d \<Longrightarrow> sched_inv (d_state d)"
  by (induction rule: reachable.induct) (auto simp: init_sys_def sched_inv_new intro: sched_inv_step)

lemma reachable_limit: "reachable c q d \<Longrightarrow> s_max_concurrent (d_state d) = max c 1"
proof (induction rule: reachable.induct)
  case reach_init
  show ?case by (simp add: init_sys_def new_scheduler_def)
next
  case (reach_step d d')
  from reach_step.hyps(2) have "s_max_concurrent (d_state d') = s_max_concurrent (d_state d)"
  proof (cases rule: sys_step.cases)
    case (sys_start i now gen backstop s')
    then show ?thesis using dispatch_StartedD(5) [OF sys_start(3)] by (simp add: start_mutation_fields)
  qed (auto simp: api_step_limit finish_limit)
  with reach_step.IH show ?case by simp
qed

text \<open>A concrete run: a job is admitted and dispatched.\<close>

definition witness_running :: dispatch_sys where
  "witness_running =
     (let s1 = res_state (new_scheduler 2 10) (admit_job 0 7 None Install [''curl''] (new_scheduler 2 10))
      in \<lparr>d_state = start_mutation 1 7 s1, d_callers = [], d_acquired = [],
          d_tasks = [\<lparr>mt_job = 7, mt_generation = 1, mt_backstop = 2400\<rparr>], d_detached = [],
          d_abandoned = []\<rparr>)"

lemma witness_admit: "res_state (new_scheduler 2 10) (admit_job 0 7 None Install [''curl''] (new_scheduler 2 10))
   = notify_one (emit_event 0 ''job_status'' 7 Pending 0 ''Job created''
       (insert_job 7 (new_job 7 0 None Install [''curl'']) (new_scheduler 2 10)))"
  by (simp add: admit_job_def admit_job_inner_def new_scheduler_def user_active_count_def Let_def)

definition witness_acquired :: dispatch_sys where
  "witness_acquired = witness_running\<lparr>d_acquired := d_tasks witness_running, d_tasks := []\<rparr>"

lemma reachable_witness_acquired: "reachable 2 10 witness_acquired"
proof -
  let ?s0 = "new_scheduler 2 10"
  let ?s1 = "res_state ?s0 (admit_job 0 7 None Install [''curl''] ?s0)"
  have "reachable 2 10 ((init_sys 2 10)\<lparr>d_state := ?s1\<rparr>)"
    by (rule reach_step [OF reach_init], rule sys_api)
       (simp add: init_sys_def, rule api_admit, simp add: get_job_def new_scheduler_def)
  from reach_step [OF this sys_call]
  have r: "reachable 2 10 \<lparr>d_state = ?s1, d_callers = [7], d_acquired = [], d_tasks = [],
      d_detached = [], d_abandoned = []\<rparr>"
    by (simp add: init_sys_def)
  have started: "dispatch_try 1 7 ?s1 = Started 1 2400 (start_mutation 1 7 ?s1)"
    unfolding witness_admit
    by (simp add: dispatch_try_def start_mutation_def job_already_running_def get_job_def
        new_scheduler_def running_count_def new_job_def add_log_def watchdog_backstop_for_def
        is_internal_def starts_with_def hm_modify_def CACHE_REFRESH_TIMEOUT_def
        PACKAGE_OP_TIMEOUT_def Let_def)
  show ?thesis
    using reach_step [OF r sys_start [of 7 _ 1 1 2400 "start_mutation 1 7 ?s1"]] started
    by (simp add: witness_acquired_def witness_running_def Let_def)
qed

lemma reachable_witness_running: "reachable 2 10 witness_running"
  using reach_step [OF reachable_witness_acquired
      sys_spawn [of "\<lparr>mt_job = 7, mt_generation = 1, mt_backstop = 2400\<rparr>"]]
  by (simp add: witness_acquired_def witness_running_def Let_def)

section \<open>Properties\<close>

text \<open>C1: at most one mutation owns the package database. In every reachable state the slot is
  held exactly when there is one owner (a start awaiting its task, an unfinished watchdog task or
  an abandoned start), and then by that owner's job under the current generation; so the ownership
  test of the watchdog never fails, for any interleaving of the scheduler's operations and any
  wrap-around of the generation counter.\<close>

theorem mutation_slot_exclusive:
  assumes "reachable c q d"
  shows "length (owners d) \<le> 1 \<and>
    (s_active_mutation (d_state d) = None \<longleftrightarrow> owners d = []) \<and>
    (\<forall>t \<in> set (owners d). s_active_mutation (d_state d) = Some (mt_job t) \<and>
       s_mutation_generation (d_state d) = mt_generation t)"
  using reachable_slot_inv [OF assms] by (auto simp: slot_inv_def)

theorem mutation_slot_exclusive_witness:
  "length (owners witness_running) \<le> 1 \<and> s_active_mutation (d_state witness_running) = Some 7"
  using mutation_slot_exclusive [OF reachable_witness_running]
  by (simp add: owners_def witness_running_def Let_def)

text \<open>\<open>max_concurrent\<close> is never exceeded: in every reachable state at most that many jobs (and
  at least one is allowed) have status \<open>Running\<close>.\<close>

theorem max_concurrent_respected:
  "reachable c q d \<Longrightarrow> running_count (d_state d) \<le> max c 1"
  using reachable_sched_inv [of c q d] reachable_limit [of c q d] by (simp add: sched_inv_def)

theorem max_concurrent_respected_witness: "running_count (d_state witness_running) \<le> max 2 1"
  by (rule max_concurrent_respected [OF reachable_witness_running])

text \<open>C17: a mutation whose watchdog task was spawned and that ends, in any way (result, panic, elapsed backstop), always frees the slot
  and wakes a waiter; and if its caller is gone, its job does not stay \<open>Running\<close> or \<open>Pending\<close>.\<close>

theorem watchdog_releases_and_resolves:
  assumes "reachable c q d" and "t \<in> set (d_tasks d)"
  shows "let s' = watchdog_finish now (mt_job t) (mt_generation t) r alive (d_state d) in
    s_active_mutation s' = None \<and> s_notifies s' > 0 \<and>
    (\<not> alive \<longrightarrow> (\<forall>j. get_job (mt_job t) s' = Some j \<longrightarrow> j_status j \<noteq> Running \<and> j_status j \<noteq> Pending))"
proof -
  let ?s = "d_state d"
  have own: "s_active_mutation ?s = Some (mt_job t)" "s_mutation_generation ?s = mt_generation t"
    using slot_invD [OF reachable_slot_inv [OF assms(1)]] assms(2) by (auto simp: owners_def)
  have "get_job (mt_job t) (watchdog_finish now (mt_job t) (mt_generation t) r False ?s) = Some j
      \<Longrightarrow> j_status j \<noteq> Running \<and> j_status j \<noteq> Pending" for j
    using own by (auto simp: watchdog_finish_def get_job_def Let_def split: option.splits if_splits)
  moreover have "s_notifies (watchdog_finish now i gen r alive ?s) > 0" for i gen
    by (simp add: watchdog_finish_def notify_one_def Let_def)
  ultimately show ?thesis
    unfolding Let_def using finish_slot [OF own] by (cases alive) simp_all
qed

theorem watchdog_releases_and_resolves_witness:
  "s_active_mutation (watchdog_finish 9 7 1 (Ok ()) False (d_state witness_running)) = None"
  using watchdog_releases_and_resolves [OF reachable_witness_running,
      of "\<lparr>mt_job = 7, mt_generation = 1, mt_backstop = 2400\<rparr>" 9 "Ok ()" False]
  by (simp add: witness_running_def Let_def)

lemma abandoned_stays:
  assumes "sys_step d d'" and "owners d = [t]" and "d_abandoned d = [t]"
    and "s_active_mutation (d_state d) \<noteq> None"
  shows "owners d' = [t] \<and> d_abandoned d' = [t] \<and> s_active_mutation (d_state d') \<noteq> None"
  using assms
proof (cases rule: sys_step.cases)
  case (sys_api s')
  then show ?thesis using api_step_slot [of "d_state d" s'] assms by (simp add: owners_def)
next
  case (sys_start i now gen backstop s')
  then show ?thesis using dispatch_StartedD(3) [OF sys_start(3)] assms by simp
qed (use assms in \<open>auto simp: owners_def\<close>)

lemma abandoned_for_ever:
  assumes "reachable c q d" and "t \<in> set (d_abandoned d)" and "sys_step\<^sup>*\<^sup>* d d'"
  shows "owners d' = [t] \<and> d_abandoned d' = [t] \<and> s_active_mutation (d_state d') \<noteq> None"
  using assms(3)
proof (induction rule: rtranclp_induct)
  case base
  have "owners d = [t] \<and> s_active_mutation (d_state d) = Some (mt_job t)"
    using slot_invD [OF reachable_slot_inv [OF assms(1)], of t] assms(2) by (simp add: owners_def)
  with owners_single(3) [of d t] assms(2) show ?case by simp
next
  case (step y z)
  then show ?case using abandoned_stays [of y z t] by simp
qed

text \<open>A caller that is dropped while it awaits the write of \<open>persist_jobs\<close>, between taking the
  slot and spawning the watchdog, leaks the mutation slot: whatever steps follow, no task exists, the
  slot is never free again and no mutation can start, for the life of the process.\<close>

theorem abandoned_start_leaks_slot:
  assumes "reachable c q d" and "t \<in> set (d_abandoned d)" and "sys_step\<^sup>*\<^sup>* d d'"
  shows "s_active_mutation (d_state d') \<noteq> None \<and> d_tasks d' = [] \<and>
    dispatch_try now i (d_state d') \<noteq> Started gen backstop s'"
proof -
  note st = abandoned_for_ever [OF assms]
  have "d_tasks d' = []" using st by (auto simp: owners_def append_eq_Cons_conv)
  with st dispatch_StartedD(3) [of now i "d_state d'" gen backstop s'] show ?thesis by auto
qed

theorem abandoned_start_leaks_slot_witness:
  "\<exists>d. reachable 2 10 d \<and> d_callers d = [] \<and> d_abandoned d \<noteq> [] \<and>
     dispatch_try 5 8 (d_state d) \<noteq> Started 2 2400 (start_mutation 5 8 (d_state d))"
proof -
  let ?t = "\<lparr>mt_job = 7, mt_generation = 1, mt_backstop = 2400\<rparr>"
  let ?d = "witness_acquired\<lparr>d_acquired := [], d_abandoned := [?t]\<rparr>"
  have r: "reachable 2 10 ?d"
    using reach_step [OF reachable_witness_acquired sys_abandon [of ?t]]
    by (simp add: witness_acquired_def witness_running_def Let_def)
  from abandoned_start_leaks_slot [OF r, of ?t ?d 5 8] show ?thesis
    by (intro exI [of _ ?d]) (simp add: r, simp add: witness_acquired_def witness_running_def Let_def)
qed

text \<open>The slot is not held until the blocking closure exits, as step 8 of the documentation of
  \<open>dispatch_mutation\<close> says: once the backstop has elapsed the watchdog frees it while the closure runs
  on. There is a run in which the detached closure of one job and the closure of another, which
  holds the slot, execute at the same time.\<close>

theorem backstop_overlap:
  "\<exists>d t. reachable 2 10 d \<and> d_detached d = [7] \<and> d_tasks d = [t] \<and> mt_job t = 8 \<and>
     s_active_mutation (d_state d) = Some 8"
proof -
  let ?t = "\<lparr>mt_job = 7, mt_generation = 1, mt_backstop = 2400\<rparr>"
  let ?s1 = "watchdog_finish 2401 7 1 (watchdog_result 2400 Elapsed) True (d_state witness_running)"
  let ?s2 = "res_state ?s1 (admit_job 2402 8 None Install [''vim''] ?s1)"
  define d1 where "d1 = witness_running\<lparr>d_state := ?s1, d_tasks := [], d_detached := [7]\<rparr>"
  have r1: "reachable 2 10 d1"
    using reach_step [OF reachable_witness_running sys_finish [of ?t _ Elapsed 2401 True]]
    by (simp add: d1_def witness_running_def Let_def)
  have "get_job 8 ?s1 = None" by code_simp
  from reach_step [OF r1 sys_api, of ?s2] api_admit [OF this, of 2402 None Install "[''vim'']"]
  have r2: "reachable 2 10 (d1\<lparr>d_state := ?s2\<rparr>)" by (simp add: d1_def)
  from reach_step [OF this sys_call [of _ 8]]
  have r3: "reachable 2 10 (d1\<lparr>d_state := ?s2, d_callers := [8]\<rparr>)" by (simp add: d1_def witness_running_def Let_def)
  have "(case dispatch_try 2403 8 ?s2 of Started gen b s' \<Rightarrow> s_active_mutation s' = Some 8 | _ \<Rightarrow> False)"
    by code_simp
  then obtain gen b s' where st: "dispatch_try 2403 8 ?s2 = Started gen b s'" "s_active_mutation s' = Some 8"
    by (auto split: dispatch_outcome.splits)
  let ?t8 = "\<lparr>mt_job = 8, mt_generation = gen, mt_backstop = b\<rparr>"
  have r4: "reachable 2 10 (d1\<lparr>d_state := s', d_callers := [], d_acquired := [?t8]\<rparr>)"
    using reach_step [OF r3 sys_start [of 8 _ 2403 gen b s']] st(1)
    by (simp add: d1_def witness_running_def Let_def)
  have "reachable 2 10 (d1\<lparr>d_state := s', d_callers := [], d_acquired := [], d_tasks := [?t8]\<rparr>)"
    using reach_step [OF r4 sys_spawn [of ?t8]] by (simp add: d1_def witness_running_def Let_def)
  then show ?thesis using st(2)
    by (intro exI [of _ "d1\<lparr>d_state := s', d_callers := [], d_acquired := [], d_tasks := [?t8]\<rparr>"] exI [of _ ?t8])
       (simp add: d1_def)
qed

end
