(* ===== verification/Coordination.thy ===== *)
theory Coordination imports Dispatch begin

text \<open>
  How the reservations of \<open>src/jobs/scheduler.rs\<close> exclude each other: the reboot barrier, the
  self-update reservation, the frozen admission of a shutdown, and the admission limits. The
  operations that never touch a gate are interpretations of the locale \<open>gate_op\<close>, which extends
  the contract of theory \<open>Scheduler_Inv\<close>.
\<close>

section \<open>Operations that leave the gates alone\<close>

locale gate_op = sched_op +
  assumes admission: "s_admission (f s) = s_admission s"
    and reboot: "s_reboot_pending (f s) = s_reboot_pending s"
    and self_update: "s_self_update (f s) = s_self_update s"
begin

lemmas gates = admission reboot self_update

end

interpretation add_job_log: gate_op "add_job_log now i m" for now i m
  by unfold_locales (simp_all add: add_job_log_def)

interpretation complete_job: gate_op "complete_job now i" for now i
  by unfold_locales (simp_all add: complete_job_def)

interpretation fail_job: gate_op "fail_job now i e" for now i e
  by unfold_locales (simp_all add: fail_job_def)

interpretation fail_job_diag: gate_op "fail_job_with_diagnostics dbg now i e" for dbg now i e
  by unfold_locales (auto simp: fail_job_with_diagnostics_def Let_def split: option.splits)

interpretation delete_job: gate_op "\<lambda>s. snd (delete_job i s)" for i
  by unfold_locales (auto simp: delete_job_def split: option.splits)

interpretation admit_job: gate_op "\<lambda>s. res_state s (admit_job now i b oper ps s)" for now i b oper ps
  by unfold_locales (auto simp: admit_job_def admit_job_inner_def Let_def split: sum.splits)

interpretation rollback_job: gate_op "\<lambda>s. res_state s (create_rollback_job now i b orig s)"
  for now i b orig
  by unfold_locales
     (auto simp: create_rollback_job_def admit_job_inner_def Let_def split: option.splits sum.splits)

interpretation begin_rb: gate_op "\<lambda>s. snd (begin_reboot_execution now i s)" for now i
  by unfold_locales (auto simp: begin_reboot_execution_def split: option.splits)

interpretation set_rb: gate_op "\<lambda>s. res_state1 s (set_job_rebooting now i m s)" for now i m
  by unfold_locales (auto simp: set_job_rebooting_def split: option.splits)

interpretation update_job: gate_op "\<lambda>s. res_state1 s (update_job now i st p m s)" for now i st p m
  by unfold_locales (auto simp: update_job_def Let_def split: option.splits)

lemma fold_insert_gates:
  "s_admission (fold (\<lambda>j. insert_job (k j) (g j)) js s) = s_admission s"
  "s_reboot_pending (fold (\<lambda>j. insert_job (k j) (g j)) js s) = s_reboot_pending s"
  "s_self_update (fold (\<lambda>j. insert_job (k j) (g j)) js s) = s_self_update s"
  by (induction js arbitrary: s) simp_all

interpretation recover: gate_op "recover_orphaned_jobs now boot js" for now boot js
  by unfold_locales (simp_all add: recover_orphaned_jobs_def fold_insert_gates)

lemmas load_history_gates = fold_insert_gates [where g = "\<lambda>j. j" and k = j_id, folded load_history_def]

lemma fold_cancel_gates:
  "s_admission (fold (cancel_for_reboot now) ids s) = s_admission s"
  "s_reboot_pending (fold (cancel_for_reboot now) ids s) = s_reboot_pending s"
  "s_self_update (fold (cancel_for_reboot now) ids s) = s_self_update s"
  by (induction ids arbitrary: s) (simp_all add: cancel_for_reboot_def)

section \<open>What each gate refuses\<close>

lemma rollback_reboot_other: "s_reboot_pending s \<noteq> Some i \<Longrightarrow> rollback_reboot now i e s = (False, s)"
  by (simp add: rollback_reboot_def)

lemma api_step_reboot_pending:
  assumes "api_step s s'" and r: "s_reboot_pending s = Some r"
  shows "s_reboot_pending s' = Some r \<or> (\<exists>now e. s' = snd (rollback_reboot now r e s))"
  using assms
proof (cases rule: api_step.cases)
  case (api_rollback_rb now i e)
  then show ?thesis using r by (cases "i = r") (auto simp: rollback_reboot_other)
next
  case (api_drop_rb now i c)
  then show ?thesis using r
    by (cases "i = r") (auto simp: drop_reboot_guard_def rollback_reboot_other)
next
  case (api_reserve_su i now b ps fv tv)
  then show ?thesis using r by (auto simp: try_reserve_self_update_def Let_def)
next
  case (api_reserve_rb i now b force ack)
  then show ?thesis using r by (auto simp: reserve_reboot_def)
qed (auto simp: r release_self_update_def drop_self_update_guard_def freeze_admission_def Let_def
        add_job_log.reboot complete_job.reboot fail_job.reboot fail_job_diag.reboot delete_job.reboot
        admit_job.reboot rollback_job.reboot begin_rb.reboot set_rb.reboot update_job.reboot
        recover.reboot load_history_gates split: option.splits)

lemma api_step_frozen:
  assumes "api_step s s'" and r: "s_admission s = Frozen"
  shows "s_admission s' = Frozen"
  using assms
proof (cases rule: api_step.cases)
  case (api_reserve_su i now b ps fv tv)
  then show ?thesis using r by (simp add: try_reserve_self_update_def)
next
  case (api_reserve_rb i now b force ack)
  then show ?thesis using r by (simp add: reserve_reboot_def)
qed (auto simp: r release_self_update_def drop_self_update_guard_def freeze_admission_def Let_def
        rollback_reboot_def drop_reboot_guard_def
        add_job_log.admission complete_job.admission fail_job.admission fail_job_diag.admission
        delete_job.admission admit_job.admission rollback_job.admission begin_rb.admission
        set_rb.admission update_job.admission recover.admission load_history_gates
        split: option.splits)

lemma finish_gates:
  "s_reboot_pending (watchdog_finish now i gen r alive s) = s_reboot_pending s"
  "s_admission (watchdog_finish now i gen r alive s) = s_admission s"
  "s_self_update (watchdog_finish now i gen r alive s) = s_self_update s"
  by (auto simp: watchdog_finish_def Let_def split: option.splits)

lemma api_step_self_update:
  assumes "api_step s s'" and r: "s_self_update s = Some su"
  shows "s_self_update s' \<in> {Some su, None}"
  using assms
proof (cases rule: api_step.cases)
  case (api_reserve_su i now b ps fv tv)
  then show ?thesis using r by (simp add: try_reserve_self_update_def)
next
  case (api_reserve_rb i now b force ack)
  then show ?thesis using r by (auto simp: reserve_reboot_def Let_def fold_cancel_gates)
qed (auto simp: r release_self_update_def drop_self_update_guard_def freeze_admission_def Let_def
        rollback_reboot_def drop_reboot_guard_def
        add_job_log.self_update complete_job.self_update fail_job.self_update
        fail_job_diag.self_update delete_job.self_update admit_job.self_update
        rollback_job.self_update begin_rb.self_update set_rb.self_update update_job.self_update
        recover.self_update load_history_gates split: option.splits)

lemma is_ok_gates:
  "s_admission s \<noteq> Open \<or> s_self_update s \<noteq> None \<or> s_reboot_pending s \<noteq> None \<Longrightarrow>
     \<not> is_ok (admit_job now i b oper ps s)"
  "s_admission s \<noteq> Open \<or> s_self_update s \<noteq> None \<or> s_reboot_pending s \<noteq> None \<Longrightarrow>
     \<not> is_ok (try_reserve_self_update now i b ps fv tv s)"
  "s_admission s \<noteq> Open \<or> s_reboot_pending s \<noteq> None \<Longrightarrow>
     \<not> is_ok (reserve_reboot now i b force ack s)"
  by (auto simp: admit_job_def admit_job_inner_def try_reserve_self_update_def reserve_reboot_def
      is_ok_def)

lemma sys_step_owners:
  "sys_step d d' \<Longrightarrow> set (owners d') \<subseteq> set (owners d) \<or>
     (\<exists>i now gen backstop s'. dispatch_try now i (d_state d) = Started gen backstop s' \<and> d_state d' = s' \<and>
        owners d' = \<lparr>mt_job = i, mt_generation = gen, mt_backstop = backstop\<rparr> # owners d)"
  by (cases rule: sys_step.cases) (auto simp: owners_def dest: set_remove1_subset [THEN subsetD])

lemma start_gates:
  "s_reboot_pending (start_mutation now i s) = s_reboot_pending s"
  "s_admission (start_mutation now i s) = s_admission s"
  "s_self_update (start_mutation now i s) = s_self_update s"
  by (simp_all add: start_mutation_def Let_def)

lemma sys_step_frozen:
  assumes "sys_step d d'" and frozen: "s_admission (d_state d) = Frozen"
  shows "s_admission (d_state d') = Frozen \<and> set (owners d') \<subseteq> set (owners d)"
  using assms
proof (cases rule: sys_step.cases)
  case (sys_api s')
  then show ?thesis using api_step_frozen [of "d_state d" s'] frozen by (simp add: owners_def)
next
  case (sys_start i now gen backstop s')
  then show ?thesis using dispatch_StartedD(1) [OF sys_start(3)] frozen by simp
qed (auto simp: frozen owners_def finish_gates dest: set_remove1_subset [THEN subsetD])

section \<open>Properties\<close>

text \<open>C3: the reboot barrier. While a reboot is reserved, no step of any component gives the slot
  to a mutation, no job, self-update or second reboot can be admitted, and the reservation ends only by
  the rollback of its own job.\<close>

theorem reboot_barrier:
  assumes "s_reboot_pending (d_state d) = Some r" and "sys_step d d'"
  shows "set (owners d') \<subseteq> set (owners d) \<and>
    (s_reboot_pending (d_state d') = Some r \<or>
       (\<exists>now e. d_state d' = snd (rollback_reboot now r e (d_state d)))) \<and>
    \<not> is_ok (admit_job now i b oper ps (d_state d)) \<and>
    \<not> is_ok (try_reserve_self_update now i b ps fv tv (d_state d)) \<and>
    \<not> is_ok (reserve_reboot now i b force ack (d_state d))"
proof -
  have "set (owners d') \<subseteq> set (owners d)"
    using sys_step_owners [OF assms(2)] dispatch_StartedD(2) assms(1) by fastforce
  moreover have "s_reboot_pending (d_state d') = Some r \<or>
      (\<exists>now e. d_state d' = snd (rollback_reboot now r e (d_state d)))"
    using assms(2)
  proof (cases rule: sys_step.cases)
    case (sys_api s')
    then show ?thesis using api_step_reboot_pending [of "d_state d" s' r] assms(1) by simp
  next
    case (sys_start i now gen backstop s')
    then show ?thesis using dispatch_StartedD(2) [OF sys_start(3)] assms(1) by simp
  qed (auto simp: assms(1) finish_gates)
  ultimately show ?thesis using assms(1) is_ok_gates by simp
qed

theorem reboot_barrier_witness:
  "\<not> is_ok (admit_job 0 1 None Install [] ((new_scheduler 2 10)\<lparr>s_reboot_pending := Some 9\<rparr>))"
  using reboot_barrier [of "(init_sys 2 10)\<lparr>d_state := (new_scheduler 2 10)\<lparr>s_reboot_pending := Some 9\<rparr>\<rparr>" 9,
      OF _ sys_call [of _ 5]] by simp

text \<open>Shutdown drains. After \<open>freeze_admission\<close> the admission stays frozen for ever and no
  mutation gets the slot again, whatever steps follow: its owners can only become fewer.\<close>

theorem freeze_drains:
  assumes "sys_step\<^sup>*\<^sup>* (d\<lparr>d_state := freeze_admission (d_state d)\<rparr>) d'"
  shows "s_admission (d_state d') = Frozen \<and> set (owners d') \<subseteq> set (owners d)"
  using assms
proof (induction rule: rtranclp_induct)
  case base
  show ?case by (simp add: freeze_admission_def owners_def)
next
  case (step y z)
  then show ?case using sys_step_frozen [of y z] by blast
qed

theorem freeze_drains_witness:
  "s_admission (freeze_admission (d_state witness_running)) = Frozen"
  using freeze_drains [OF rtranclp.rtrancl_refl, of witness_running] by simp

text \<open>C18: what a reservation for a self-update keeps out. While it lives, the only mutation that can start is the update's
  own job; no job, rollback job or second self-update is admitted; no step replaces the reservation by another
  one, it is kept or cleared. A reboot is the exception: it is admitted exactly when it is forced, the risk of a corrupted package
  database is acknowledged, and the scheduler would admit it without the reservation: it is open, no reboot
  is reserved and the queue has room.\<close>

theorem self_update_exclusive:
  assumes "s_self_update (d_state d) = Some su" and "sys_step d d'"
  shows "(\<forall>t \<in> set (owners d') - set (owners d). mt_job t = su_job_id su) \<and>
    s_self_update (d_state d') \<in> {Some su, None} \<and>
    \<not> is_ok (admit_job now i b oper ps (d_state d)) \<and>
    \<not> is_ok (try_reserve_self_update now i b ps fv tv (d_state d)) \<and>
    create_rollback_job now i b orig (d_state d) \<noteq> Inr (Some k, s') \<and>
    (is_ok (reserve_reboot now i b force ack (d_state d)) \<longleftrightarrow>
       force \<and> ack \<and> s_admission (d_state d) = Open \<and> s_reboot_pending (d_state d) = None \<and>
       user_active_count (d_state d) < s_max_queue_depth (d_state d))"
proof -
  have "\<forall>t \<in> set (owners d') - set (owners d). mt_job t = su_job_id su"
    using sys_step_owners [OF assms(2)] dispatch_StartedD(7) assms(1) by fastforce
  moreover have "s_self_update (d_state d') \<in> {Some su, None}"
    using assms(2)
  proof (cases rule: sys_step.cases)
    case (sys_api s')
    then show ?thesis using api_step_self_update [of "d_state d" s' su] assms(1) by simp
  next
    case (sys_start i now gen backstop s')
    then show ?thesis using dispatch_StartedD(5) [OF sys_start(3)] assms(1) by (simp add: start_gates)
  qed (auto simp: assms(1) finish_gates)
  moreover have "create_rollback_job now i b orig (d_state d) \<noteq> Inr (Some k, s')"
    using assms(1) by (auto simp: create_rollback_job_def admit_job_inner_def bind_res_def split: option.splits)
  moreover have "is_ok (reserve_reboot now i b force ack (d_state d)) \<longleftrightarrow>
       force \<and> ack \<and> s_admission (d_state d) = Open \<and> s_reboot_pending (d_state d) = None \<and>
       user_active_count (d_state d) < s_max_queue_depth (d_state d)"
    using assms(1) by (auto simp: reserve_reboot_def is_ok_def Let_def)
  ultimately show ?thesis using assms(1) is_ok_gates by simp
qed

theorem self_update_exclusive_witness:
  "\<not> is_ok (admit_job 0 1 None Install [] ((new_scheduler 2 10)\<lparr>s_self_update :=
      Some \<lparr>su_job_id = 4, su_from_version = ''1.0'', su_target_version = ''1.1'', su_generation = 1\<rparr>\<rparr>)) \<and>
    is_ok (reserve_reboot 0 1 None True True ((new_scheduler 2 10)\<lparr>s_self_update :=
      Some \<lparr>su_job_id = 4, su_from_version = ''1.0'', su_target_version = ''1.1'', su_generation = 1\<rparr>\<rparr>))"
  using self_update_exclusive [of "(init_sys 2 10)\<lparr>d_state := (new_scheduler 2 10)\<lparr>s_self_update :=
      Some \<lparr>su_job_id = 4, su_from_version = ''1.0'', su_target_version = ''1.1'', su_generation = 1\<rparr>\<rparr>\<rparr>",
      OF _ sys_call [of _ 5], where now = 0 and i = 1 and b = None and force = True and ack = True]
  by (simp add: new_scheduler_def user_active_count_def)

end
