(* ===== verification/Admission.thy ===== *)
theory Admission imports Coordination begin

text \<open>
  The functional behaviour of the operations of \<open>src/jobs/scheduler.rs\<close> that create jobs
  (\<open>admit_job\<close>, \<open>try_reserve_self_update\<close>, \<open>reserve_reboot\<close>), what a start of a mutation does to
  its job, and what the recovery after a restart leaves behind.
\<close>

section \<open>The errors as texts\<close>

fun job_admission_error_text :: "job_admission_error \<Rightarrow> string" where
  "job_admission_error_text JSelfUpdateInProgress = ''A self-update is in progress''"
| "job_admission_error_text JQueueFull = ''Job queue is at capacity''"
| "job_admission_error_text JAdmissionFrozen = ''Admission frozen -- shutdown in progress''"

fun self_update_admission_error_text :: "self_update_admission_error \<Rightarrow> string" where
  "self_update_admission_error_text AlreadyInProgress = ''A self-update is already in progress''"
| "self_update_admission_error_text (SJobsInProgress n) = ''Cannot self-update while '' @ show_nat n @ '' jobs are in progress''"
| "self_update_admission_error_text SQueueFull = ''Job queue is at capacity''"

section \<open>Helper lemmas\<close>

lemma get_job_steps [simp]:
  "get_job x (notify_one s) = get_job x s"
  "get_job x (emit_event n t i st p m s) = get_job x s"
  "get_job x (emit_job n i s) = get_job x s"
  "get_job x (insert_job i j s) = (if x = i then Some j else get_job x s)"
  "get_job x (modify_job i f s) = (if x = i then map_option f (get_job i s) else get_job x s)"
  "get_job x (s\<lparr>s_reboot_pending := rp\<rparr>) = get_job x s"
  "get_job x (s\<lparr>s_self_update := su\<rparr>) = get_job x s"
  "get_job x (s\<lparr>s_generation_counter := gc\<rparr>) = get_job x s"
  "get_job x (s\<lparr>s_active_mutation := ac\<rparr>) = get_job x s"
  "get_job x (s\<lparr>s_mutation_generation := mg\<rparr>) = get_job x s"
  by (simp_all add: get_job_def update_conv' map_of_modify)

lemma user_active_count_insert_new:
  "get_job i s = None \<Longrightarrow>
     user_active_count (insert_job i j s) = user_active_count s + (if user_active j then 1 else 0)"
  by (simp add: user_active_count_def get_job_def values_count_update_new)

lemma user_active_count_steps [simp]:
  "user_active_count (notify_one s) = user_active_count s"
  "user_active_count (emit_event n t i st p m s) = user_active_count s"
  "user_active_count (s\<lparr>s_reboot_pending := rp\<rparr>) = user_active_count s"
  "user_active_count (s\<lparr>s_self_update := su\<rparr>) = user_active_count s"
  "user_active_count (s\<lparr>s_generation_counter := gc\<rparr>) = user_active_count s"
  by (simp_all add: user_active_count_def)

lemma hm_wf_modify_job: "hm_wf (s_jobs s) \<Longrightarrow> hm_wf (s_jobs (modify_job i f s))"
  by simp

definition cancelled :: "time \<Rightarrow> job \<Rightarrow> job" where
  "cancelled now j = add_log now ''Job cancelled by reboot reservation''
     (j\<lparr>j_status := Failed, j_error := Some ''Cancelled: reboot reservation in progress'',
        j_completed_at := Some now, j_updated_at := now\<rparr>)"

lemma get_job_cancel:
  "get_job x (cancel_for_reboot now i s) =
     (if x = i then map_option (cancelled now) (get_job i s) else get_job x s)"
  unfolding cancel_for_reboot_def cancelled_def [symmetric] by simp

lemma get_job_fold_cancel:
  "distinct ids \<Longrightarrow> get_job x (fold (cancel_for_reboot now) ids s) =
     (if x \<in> set ids then map_option (cancelled now) (get_job x s) else get_job x s)"
proof (induction ids arbitrary: s)
  case (Cons i ids)
  then show ?case by (auto simp: get_job_cancel)
qed simp

lemma distinct_pending_except: "hm_wf (s_jobs s) \<Longrightarrow> distinct (pending_except i s)"
  by (auto simp: pending_except_def hm_wf_def distinct_map inj_on_def)

lemma set_pending_except:
  "hm_wf (s_jobs s) \<Longrightarrow>
     x \<in> set (pending_except i s) \<longleftrightarrow> x \<noteq> i \<and> (\<exists>j. get_job x s = Some j \<and> j_status j = Pending)"
  by (force simp: pending_except_def hm_wf_def get_job_def map_of_eq_Some_iff)

lemma active_user_mutation_count:
  "get_job i s = Some j \<Longrightarrow> user_active j \<Longrightarrow> 0 < user_active_count s"
  by (simp add: user_active_count_def get_job_def values_count_pos)

lemma reserve_reboot_admits:
  assumes "s_admission s = Open" and "s_reboot_pending s = None"
    and "user_active_count s < s_max_queue_depth s"
  shows "\<exists>s'. reserve_reboot now i boot True True s = Ok (i, s')"
  using assms by (simp add: reserve_reboot_def Let_def)

lemma reserve_reboot_clears_queue_aux:
  assumes wf: "sched_wf s" and fresh: "get_job i s = None"
    and ok: "reserve_reboot now i boot force ack s = Ok (k, s')"
  shows "k = i" "s_reboot_pending s' = Some i"
    "get_job x s' = (if x = i then Some (new_job i now boot Reboot [])
       else if \<exists>j. get_job x s = Some j \<and> j_status j = Pending
       then map_option (cancelled now) (get_job x s) else get_job x s)"
proof -
  let ?s1 = "emit_event now ''job_status'' i Pending 0 ''Job created''
    (insert_job i (new_job i now boot Reboot []) (s\<lparr>s_reboot_pending := Some i\<rparr>))"
  from ok have s': "s' = notify_one (fold (cancel_for_reboot now) (pending_except i ?s1) ?s1)"
    by (auto simp: reserve_reboot_def Let_def split: if_splits)
  have w1: "hm_wf (s_jobs ?s1)" using wf by (simp add: sched_wf_def)
  show "k = i" using ok by (auto simp: reserve_reboot_def Let_def split: if_splits)
  show "s_reboot_pending s' = Some i" by (simp add: s' fold_cancel_gates)
  show "get_job x s' = (if x = i then Some (new_job i now boot Reboot [])
       else if \<exists>j. get_job x s = Some j \<and> j_status j = Pending
       then map_option (cancelled now) (get_job x s) else get_job x s)"
    using get_job_fold_cancel [OF distinct_pending_except [OF w1], of x now i ?s1] w1
    by (auto simp: s' set_pending_except)
qed

lemma running_count_0:
  "sched_wf s \<Longrightarrow> (\<And>x j. get_job x s = Some j \<Longrightarrow> j_status j \<noteq> Running) \<Longrightarrow> running_count s = 0"
  by (auto simp: running_count_def get_job_def sched_wf_def values_count_0)

lemma restartable:
  assumes s2: "reserve_reboot n1 9 b True True s1 = Ok (9, s2)"
    and s3: "s3 = snd (rollback_reboot n2 9 None s2)"
    and f1: "s_admission s1 = Open" "s_reboot_pending s1 = None" "s_self_update s1 = None"
      "s_active_mutation s1 = None" "s_max_queue_depth s1 = q"
    and g1: "\<And>x. get_job x s1 = (if x = 7 then Some (new_job 7 n0 b' oper ps) else None)"
    and wf1: "sched_wf s1"
  shows "\<exists>gen backstop. dispatch_try n3 7 s3 = Started gen backstop (start_mutation n3 7 s3)"
proof -
  note clear = reserve_reboot_clears_queue_aux [OF wf1 _ s2]
  have g2: "get_job x s2 = (if x = 7 then Some (cancelled n1 (new_job 7 n0 b' oper ps))
      else if x = 9 then Some (new_job 9 n1 b Reboot []) else None)" for x
    using clear(3) g1 by simp
  have g3: "get_job x s3 = Some j \<Longrightarrow> j_status j \<noteq> Running" for x j
    using clear(1,2) g1 g2 by (auto simp: s3 rollback_reboot_def Let_def cancelled_def split: if_splits)
  have e: "s2 = res_state s1 (reserve_reboot n1 9 b True True s1)" by (simp add: s2)
  have w2: "sched_wf s2" unfolding e by (rule reserve_rb.wf [OF wf1])
  have w3: "sched_wf s3" unfolding s3 by (rule rollback_rb.wf [OF w2])
  have "s_max_concurrent s3 = s_max_concurrent s1"
    unfolding s3 rollback_rb.limit unfolding e reserve_rb.limit ..
  moreover have "s_active_mutation s3 = None"
    unfolding s3 rollback_rb.slot unfolding e reserve_rb.slot by (rule f1(4))
  moreover have "s_admission s3 = Open \<and> s_self_update s3 = None \<and> s_reboot_pending s3 = None"
    using s2 clear(1,2) g1 f1
    by (auto simp: s3 rollback_reboot_def reserve_reboot_def Let_def fold_cancel_gates split: if_splits)
  moreover have "1 \<le> s_max_concurrent s1" using wf1 by (simp add: sched_wf_def)
  ultimately show ?thesis
    using running_count_0 [OF w3 g3] by (auto simp: dispatch_try_def Let_def)
qed

section \<open>Properties\<close>

text \<open>C38: admission. A job is admitted only while no gate is closed and fewer than
  \<open>max_queue_depth\<close> user jobs are active; then exactly the new \<open>Pending\<close> job is added, the limit
  still holds, one event is sent and one waiter woken; a refusal changes nothing.\<close>

theorem admit_job_correct:
  assumes fresh: "get_job i s = None"
  shows "case admit_job now i boot operation packages s of
      Inl e \<Rightarrow> s_admission s \<noteq> Open \<or> s_self_update s \<noteq> None \<or> s_reboot_pending s \<noteq> None \<or>
               (e = JQueueFull \<and> s_max_queue_depth s \<le> user_active_count s)
    | Inr (k, s') \<Rightarrow>
        k = i \<and> s_admission s = Open \<and> s_self_update s = None \<and> s_reboot_pending s = None \<and>
        get_job i s' = Some (new_job i now boot operation packages) \<and>
        (\<forall>x. x \<noteq> i \<longrightarrow> get_job x s' = get_job x s) \<and>
        user_active_count s' \<le> s_max_queue_depth s \<and>
        length (s_events s') = Suc (length (s_events s)) \<and> s_notifies s' = Suc (s_notifies s)"
proof -
  have "length (s_events (emit_event n t k st p m (insert_job k j s))) = Suc (length (s_events s))"
    for n t k st p m j by (simp add: emit_event_def insert_job_def)
  moreover have "s_notifies (insert_job k j s) = s_notifies s" for k j by (simp add: insert_job_def)
  ultimately show ?thesis
    using user_active_count_insert_new [OF fresh, of "new_job i now boot operation packages"]
    by (auto simp: admit_job_def admit_job_inner_def Let_def)
qed

theorem admit_job_correct_witness:
  "user_active_count (res_state (new_scheduler 2 1) (admit_job 0 5 None Update [''vim''] (new_scheduler 2 1))) \<le> 1"
  using admit_job_correct [of 5 "new_scheduler 2 1" 0 None Update "[''vim'']"]
  by (simp add: get_job_def new_scheduler_def user_active_count_def split: sum.splits prod.splits)

text \<open>A reboot reservation clears the queue. When \<open>reserve_reboot\<close> succeeds, the barrier is up
  for the new job, every other job that was waiting is \<open>Failed\<close> with the cancellation message,
  every job that was not waiting is untouched, and the new job is the only \<open>Pending\<close> one.\<close>

theorem reserve_reboot_clears_queue:
  assumes wf: "sched_wf s" and fresh: "get_job i s = None"
    and ok: "reserve_reboot now i boot force ack s = Ok (k, s')"
  shows "k = i \<and> s_reboot_pending s' = Some i \<and>
    get_job i s' = Some (new_job i now boot Reboot []) \<and>
    (\<forall>x j. x \<noteq> i \<longrightarrow> get_job x s = Some j \<longrightarrow>
       get_job x s' = Some (if j_status j = Pending then cancelled now j else j)) \<and>
    (\<forall>x j. get_job x s' = Some j \<longrightarrow> j_status j = Pending \<longrightarrow> x = i)"
  using reserve_reboot_clears_queue_aux [OF assms]
  by (auto simp: cancelled_def split: if_splits)

theorem reserve_reboot_clears_queue_witness:
  "\<exists>s'. reserve_reboot 5 2 None True True
      (insert_job 1 (new_job 1 0 None Install [''a'']) (new_scheduler 2 10)) = Ok (2, s') \<and>
     s_reboot_pending s' = Some 2 \<and> (\<forall>x j. get_job x s' = Some j \<longrightarrow> j_status j = Pending \<longrightarrow> x = 2)"
proof -
  let ?s = "insert_job 1 (new_job 1 0 None Install [''a'']) (new_scheduler 2 10)"
  have wf: "sched_wf ?s" by (rule sched_wf_insert [OF sched_wf_new]) simp
  have "user_active_count ?s \<le> 1"
    by (simp add: user_active_count_def new_scheduler_def)
  then obtain s' where "reserve_reboot 5 2 None True True ?s = Ok (2, s')"
    using reserve_reboot_admits [of ?s 5 2 None] by (auto simp: new_scheduler_def)
  moreover have "get_job 2 ?s = None" by (simp add: get_job_def new_scheduler_def)
  ultimately show ?thesis
    using reserve_reboot_clears_queue [OF wf, of 2 5 None True True 2 s'] by blast
qed

text \<open>A self-update is reserved only on an idle agent. When \<open>try_reserve_self_update\<close> succeeds
  no user job was active and the slot was free or held by an internal refresh; the reservation
  names the new job, which is the only active user job.\<close>

theorem reserve_self_update_idle:
  assumes wf: "sched_wf s" and fresh: "get_job i s = None"
    and ok: "try_reserve_self_update now i boot packages fv tv s = Ok (k, s')"
  shows "k = i \<and> (\<forall>x j. get_job x s = Some j \<longrightarrow> is_active (j_status j) \<longrightarrow> is_internal j) \<and>
    (\<forall>m. s_active_mutation s = Some m \<longrightarrow> held_by_internal m s) \<and>
    s_self_update s' = Some \<lparr>su_job_id = i, su_from_version = fv, su_target_version = tv,
                            su_generation = s_generation_counter s\<rparr> \<and>
    get_job i s' = Some (new_job i now boot SelfUpdate packages) \<and> user_active_count s' \<le> 1"
proof -
  from ok have zero: "user_active_count s = 0"
    and rest: "k = i" "\<forall>m. s_active_mutation s = Some m \<longrightarrow> held_by_internal m s"
    by (auto simp: try_reserve_self_update_def Let_def split: if_splits option.splits)
  have idle: "\<forall>x j. get_job x s = Some j \<longrightarrow> is_active (j_status j) \<longrightarrow> is_internal j"
    using zero values_count_0 [of "s_jobs s" user_active] wf
    by (auto simp: user_active_count_def get_job_def user_active_def sched_wf_def)
  have "get_job i (s\<lparr>s_generation_counter := g, s_self_update := u\<rparr>) = None" for g u
    using fresh by (simp add: get_job_def)
  note cnt = user_active_count_insert_new [OF this]
  have eq: "s' = notify_one (emit_event now ''job_status'' i Pending 0 ''Job created''
      (insert_job i (new_job i now boot SelfUpdate packages)
        (s\<lparr>s_generation_counter := s_generation_counter s + 1,
           s_self_update := Some \<lparr>su_job_id = i, su_from_version = fv, su_target_version = tv,
                            su_generation = s_generation_counter s\<rparr>\<rparr>)))"
    using ok by (auto simp: try_reserve_self_update_def Let_def split: if_splits)
  have "user_active_count s' \<le> 1" using zero by (simp add: eq cnt)
  moreover have "s_self_update s' = Some \<lparr>su_job_id = i, su_from_version = fv, su_target_version = tv,
      su_generation = s_generation_counter s\<rparr>" "get_job i s' = Some (new_job i now boot SelfUpdate packages)"
    by (simp_all add: eq)
  ultimately show ?thesis using idle rest by simp
qed

theorem reserve_self_update_idle_witness:
  "\<exists>s'. try_reserve_self_update 5 2 None [''agent''] ''1.0'' ''1.1'' (new_scheduler 2 10) = Ok (2, s') \<and>
     user_active_count s' \<le> 1"
proof -
  obtain s' where "try_reserve_self_update 5 2 None [''agent''] ''1.0'' ''1.1'' (new_scheduler 2 10) = Ok (2, s')"
    by (simp add: try_reserve_self_update_def new_scheduler_def user_active_count_def Let_def)
  with reserve_self_update_idle [OF sched_wf_new _ this] show ?thesis
    by (simp add: get_job_def new_scheduler_def)
qed

text \<open>Step 4 of \<open>dispatch_mutation\<close> is documented as "Job must exist and be Pending", but no
  status is checked. There is a run in which a job that a forced reboot reservation has cancelled
  (status \<open>Failed\<close>, completion time and error set) is started after the reservation was rolled
  back: it becomes \<open>Running\<close> and holds the mutation slot.\<close>

theorem cancelled_job_starts_again:
  "\<exists>d d' j j'. reachable 2 10 d \<and> sys_step d d' \<and>
     get_job 7 (d_state d) = Some j \<and> j_status j = Failed \<and> j_completed_at j \<noteq> None \<and>
     j_error j = Some ''Cancelled: reboot reservation in progress'' \<and>
     get_job 7 (d_state d') = Some j' \<and> j_status j' = Running \<and>
     s_active_mutation (d_state d') = Some 7"
proof -
  let ?s0 = "new_scheduler 2 10"
  let ?n = "new_job 7 0 None Install [''curl'']"
  define s1 where "s1 = res_state ?s0 (admit_job 0 7 None Install [''curl''] ?s0)"
  have s1: "s1 = notify_one (emit_event 0 ''job_status'' 7 Pending 0 ''Job created'' (insert_job 7 ?n ?s0))"
    unfolding s1_def by (rule witness_admit)
  have g1: "get_job x s1 = (if x = 7 then Some ?n else None)" for x
    unfolding s1 by (simp add: get_job_def new_scheduler_def)
  have f1: "s_admission s1 = Open" "s_reboot_pending s1 = None" "s_self_update s1 = None"
      "s_active_mutation s1 = None" "s_max_queue_depth s1 = 10"
    unfolding s1 by (simp_all add: new_scheduler_def)
  have wf1: "sched_wf s1" unfolding s1 by (simp add: sched_wf_insert sched_wf_new)
  have "user_active_count s1 \<le> 1"
    unfolding s1 by (simp add: user_active_count_def new_scheduler_def)
  then obtain s2 where s2: "reserve_reboot 1 9 None True True s1 = Ok (9, s2)"
    using reserve_reboot_admits [of s1 1 9 None] f1 by auto
  define s3 where "s3 = snd (rollback_reboot 2 9 None s2)"
  note clear = reserve_reboot_clears_queue_aux [OF wf1 _ s2]
  have c: "s_reboot_pending s2 = Some 9" "get_job 7 s2 = Some (cancelled 1 ?n)"
    using clear(2) clear(3) [of 7] g1 by simp_all
  have r1: "reachable 2 10 ((init_sys 2 10)\<lparr>d_state := s1\<rparr>)" unfolding s1_def
    by (rule reach_step [OF reach_init], rule sys_api)
       (simp add: init_sys_def, rule api_admit, simp add: get_job_def new_scheduler_def)
  have "api_step s1 (res_state s1 (reserve_reboot 1 9 None True True s1))"
    by (rule api_reserve_rb) (simp add: g1)
  then have a2: "api_step s1 s2" by (simp add: s2)
  have a3: "api_step s2 s3" unfolding s3_def by (rule api_rollback_rb)
  have g3: "get_job 7 s3 = Some (cancelled 1 ?n)" and p3: "s_reboot_pending s3 = None"
    using c by (simp_all add: s3_def rollback_reboot_def Let_def)
  define d where "d = (init_sys 2 10)\<lparr>d_state := s3, d_callers := [7]\<rparr>"
  have "reachable 2 10 ((init_sys 2 10)\<lparr>d_state := s3\<rparr>)"
    using reach_step [OF reach_step [OF r1 sys_api [of _ s2]] sys_api [of _ s3]] a2 a3 by simp
  from reach_step [OF this sys_call [of _ 7]] have rd: "reachable 2 10 d"
    by (simp add: d_def init_sys_def)
  obtain gen b where st: "dispatch_try 3 7 s3 = Started gen b (start_mutation 3 7 s3)"
    using restartable [OF s2 s3_def f1 g1 wf1] by blast
  have "sys_step d (d\<lparr>d_state := start_mutation 3 7 s3, d_callers := [],
       d_acquired := [\<lparr>mt_job = 7, mt_generation = gen, mt_backstop = b\<rparr>]\<rparr>)"
    using sys_start [of 7 d 3 gen b "start_mutation 3 7 s3"] st by (simp add: d_def init_sys_def)
  moreover have "get_job 7 (start_mutation 3 7 s3) = map_option
      (\<lambda>j. (add_log 3 ''Job started'' (j\<lparr>j_status := Running\<rparr>))\<lparr>j_updated_at := 3\<rparr>) (get_job 7 s3)"
    using g3 by (simp add: start_mutation_def job_already_running_def cancelled_def Let_def)
  ultimately show ?thesis
    using rd g3 by (intro exI [of _ d] exI) (auto simp: d_def cancelled_def start_mutation_fields)
qed

end
