(* ===== verification/Agent.thy ===== *)
theory Agent imports Admission begin

text \<open>
  Durable job history: \<open>src/jobs/persistence.rs\<close>, the calls of \<open>persist_jobs\<close> in
  \<open>src/jobs/scheduler.rs\<close>, and the recovery at startup in \<open>src/main.rs\<close>.

  The JSON text of a job list is produced and read by the \<open>serde_json\<close> crate: \<open>ser\<close> and \<open>de\<close> are
  arguments, over any type \<open>'t\<close> of texts, and the facts that need it assume that what was
  written is read back (\<open>codec_ok\<close>). A file is absent, unreadable, or holds a text. The outcome
  of the two system calls of an atomic write is an argument of type \<open>write_outcome\<close>.
\<close>

section \<open>Files\<close>

datatype 't file_content = Absent | Unreadable | Contents 't

datatype write_outcome = WriteFails | RenameFails | Written

record 't disk =
  history_file :: "'t file_content"
  legacy_file :: "'t file_content"

type_synonym 't ser = "job list \<Rightarrow> 't option"
type_synonym 't de = "'t \<Rightarrow> job list option"

definition codec_ok :: "'t ser \<Rightarrow> 't de \<Rightarrow> bool" where
  "codec_ok ser de \<longleftrightarrow> (\<forall>js. \<exists>t. ser js = Some t \<and> de t = Some js)"

section \<open>persistence.rs\<close>

definition HISTORY_RETENTION_COUNT :: nat where "HISTORY_RETENTION_COUNT = 500"

definition persistable :: "job \<Rightarrow> bool" where
  "persistable j = (\<not> is_internal j \<or> is_terminal (j_status j))"

definition kept_jobs :: "job list \<Rightarrow> job list" where
  "kept_jobs jobs =
     (let kept = filter persistable jobs
      in if length kept > HISTORY_RETENTION_COUNT
         then take HISTORY_RETENTION_COUNT (sort_key (\<lambda>j. - j_created_at j) kept)
         else kept)"

definition persist_all_jobs :: "'t ser \<Rightarrow> write_outcome \<Rightarrow> job list \<Rightarrow> 't disk \<Rightarrow> 't disk" where
  "persist_all_jobs ser io jobs disk =
     (case ser (kept_jobs jobs) of
        None \<Rightarrow> disk
      | Some json \<Rightarrow>
          (case io of
             WriteFails \<Rightarrow> disk
           | RenameFails \<Rightarrow> disk
           | Written \<Rightarrow> disk\<lparr>history_file := Contents json\<rparr>))"

text \<open>The name of the temporary file: \<open>n\<close> is the process-local counter, \<open>tid\<close> the debug text of
  the thread id; the hash wraps at 64 bits.\<close>

definition tid_hash :: "string \<Rightarrow> u64" where
  "tid_hash tid = fold (\<lambda>b acc. acc * 31 + of_nat (of_char b)) tid 0"

definition unique_temp_path :: "string \<Rightarrow> u64 \<Rightarrow> string \<Rightarrow> string \<Rightarrow> string" where
  "unique_temp_path tid n stem ext =
     stem @ ''.'' @ show_nat (unat (tid_hash tid)) @ ''.'' @ show_nat (unat n) @ ''.'' @ ext @ ''.tmp''"

definition read_history :: "'t de \<Rightarrow> 't file_content \<Rightarrow> job list" where
  "read_history de f =
     (case f of
        Absent \<Rightarrow> []
      | Unreadable \<Rightarrow> []
      | Contents json \<Rightarrow> (case de json of Some jobs \<Rightarrow> jobs | None \<Rightarrow> []))"

definition load_all_jobs :: "'t ser \<Rightarrow> 't de \<Rightarrow> write_outcome \<Rightarrow> 't disk \<Rightarrow> job list \<times> 't disk" where
  "load_all_jobs ser de io disk =
     (case (history_file disk, legacy_file disk) of
        (Absent, Contents json) \<Rightarrow>
          (case de json of
             Some jobs \<Rightarrow> (jobs, (persist_all_jobs ser io jobs disk)\<lparr>legacy_file := Absent\<rparr>)
           | None \<Rightarrow> (read_history de (history_file disk), disk))
      | _ \<Rightarrow> (read_history de (history_file disk), disk))"

definition clear_persisted_jobs :: "'t disk \<Rightarrow> 't disk" where
  "clear_persisted_jobs disk = disk\<lparr>history_file := Absent\<rparr>"

section \<open>The agent: the scheduler and its disk\<close>

record 't agent =
  a_sched :: scheduler_state
  a_disk :: "'t disk"

text \<open>\<open>persist_jobs\<close>: the snapshot is taken under the lock, the write happens after its release.\<close>

definition persist_jobs :: "'t ser \<Rightarrow> write_outcome \<Rightarrow> 't agent \<Rightarrow> 't agent" where
  "persist_jobs ser io a =
     (let all_jobs = get_all_jobs (a_sched a)
      in a\<lparr>a_disk := persist_all_jobs ser io all_jobs (a_disk a)\<rparr>)"

definition complete_job_async where
  "complete_job_async ser io now i a =
     persist_jobs ser io (a\<lparr>a_sched := complete_job now i (a_sched a)\<rparr>)"

definition fail_job_async where
  "fail_job_async ser io now i error a =
     persist_jobs ser io (a\<lparr>a_sched := fail_job now i error (a_sched a)\<rparr>)"

definition fail_job_with_diagnostics_async where
  "fail_job_with_diagnostics_async ser io dbg now i error a =
     persist_jobs ser io (a\<lparr>a_sched := fail_job_with_diagnostics dbg now i error (a_sched a)\<rparr>)"

definition delete_job_async where
  "delete_job_async ser io i a =
     (let (removed, s) = delete_job i (a_sched a); a' = a\<lparr>a_sched := s\<rparr>
      in (removed, if removed then persist_jobs ser io a' else a'))"

definition rollback_reboot_async where
  "rollback_reboot_async ser io now i error a =
     (let (rolled_back, s) = rollback_reboot now i error (a_sched a); a' = a\<lparr>a_sched := s\<rparr>
      in (rolled_back, if rolled_back then persist_jobs ser io a' else a'))"

definition begin_reboot_execution_async where
  "begin_reboot_execution_async ser io now i a =
     (let (began, s) = begin_reboot_execution now i (a_sched a); a' = a\<lparr>a_sched := s\<rparr>
      in (began, if began then persist_jobs ser io a' else a'))"

definition set_job_rebooting_async where
  "set_job_rebooting_async ser io now i message a =
     (case set_job_rebooting now i message (a_sched a) of
        Inl e \<Rightarrow> (Err e, a)
      | Inr s \<Rightarrow> (Ok (), persist_jobs ser io (a\<lparr>a_sched := s\<rparr>)))"

definition reserve_reboot_async where
  "reserve_reboot_async ser io now i boot force ack a =
     (case reserve_reboot now i boot force ack (a_sched a) of
        Inl e \<Rightarrow> (Err e, a)
      | Inr (k, s) \<Rightarrow> (Ok k, persist_jobs ser io (a\<lparr>a_sched := s\<rparr>)))"

section \<open>Startup\<close>

definition startup ::
    "'t ser \<Rightarrow> 't de \<Rightarrow> write_outcome \<Rightarrow> write_outcome \<Rightarrow> time \<Rightarrow> string option \<Rightarrow> nat \<Rightarrow> nat
     \<Rightarrow> 't disk \<Rightarrow> 't agent" where
  "startup ser de io1 io2 now boot max_concurrent max_queue_depth disk =
     (let s0 = new_scheduler max_concurrent max_queue_depth;
          (loaded_jobs, disk1) = load_all_jobs ser de io1 disk;
          (terminal, non_terminal) = partition (\<lambda>j. is_terminal (j_status j)) loaded_jobs;
          s1 = load_history terminal s0;
          s2 = recover_orphaned_jobs now boot non_terminal s1;
          a = \<lparr>a_sched = s2, a_disk = disk1\<rparr>
      in if non_terminal \<noteq> [] then persist_jobs ser io2 a else a)"

section \<open>Helper lemmas\<close>

lemma find_rev_Cons:
  "find P (rev (x # xs)) = (case find P (rev xs) of Some y \<Rightarrow> Some y | None \<Rightarrow> if P x then Some x else None)"
proof -
  have "find P (ys @ [x]) = (case find P ys of Some y \<Rightarrow> Some y | None \<Rightarrow> if P x then Some x else None)"
    for ys by (induction ys) auto
  then show ?thesis by simp
qed

lemma get_job_fold_insert:
  "get_job x (fold (\<lambda>j. insert_job (j_id j) (g j)) js s) =
     (case find (\<lambda>j. j_id j = x) (rev js) of Some j \<Rightarrow> Some (g j) | None \<Rightarrow> get_job x s)"
proof (induction js arbitrary: s)
  case (Cons j js)
  show ?case unfolding fold.simps comp_def find_rev_Cons Cons.IH by (auto split: option.splits)
qed simp

lemma get_job_recover:
  "get_job x (recover_orphaned_jobs now boot js s) =
     (case find (\<lambda>j. j_id j = x) (rev js) of Some j \<Rightarrow> Some (recover_job now boot j) | None \<Rightarrow> get_job x s)"
  unfolding recover_orphaned_jobs_def by (rule get_job_fold_insert)

lemma get_job_history:
  "get_job x (load_history js s) =
     (case find (\<lambda>j. j_id j = x) (rev js) of Some j \<Rightarrow> Some j | None \<Rightarrow> get_job x s)"
  unfolding load_history_def by (rule get_job_fold_insert)

lemma get_job_new [simp]: "get_job x (new_scheduler c q) = None"
  by (simp add: get_job_def new_scheduler_def)

definition booted :: "time \<Rightarrow> string option \<Rightarrow> nat \<Rightarrow> nat \<Rightarrow> job list \<Rightarrow> scheduler_state" where
  "booted now boot c q js =
     recover_orphaned_jobs now boot (filter (\<lambda>j. \<not> is_terminal (j_status j)) js)
       (load_history (filter (\<lambda>j. is_terminal (j_status j)) js) (new_scheduler c q))"

lemma startup_sched:
  "a_sched (startup ser de io1 io2 now boot c q disk) = booted now boot c q (fst (load_all_jobs ser de io1 disk))"
  by (simp add: startup_def booted_def persist_jobs_def Let_def comp_def split: prod.splits)

lemma get_job_booted:
  "get_job x (booted now boot c q js) =
     (case find (\<lambda>j. j_id j = x) (rev (filter (\<lambda>j. \<not> is_terminal (j_status j)) js)) of
        Some j \<Rightarrow> Some (recover_job now boot j)
      | None \<Rightarrow> find (\<lambda>j. j_id j = x) (rev (filter (\<lambda>j. is_terminal (j_status j)) js)))"
  by (simp add: booted_def get_job_recover get_job_history split: option.splits)

lemma find_SomeD: "find P xs = Some x \<Longrightarrow> P x \<and> x \<in> set xs"
  by (induction xs) (auto split: if_splits)

lemma booted_terminal: "get_job x (booted now boot c q js) = Some j \<Longrightarrow> is_terminal (j_status j)"
  using j_status_recover by (auto simp: get_job_booted split: option.splits dest!: find_SomeD)

lemma booted_inv: "sched_inv (booted now boot c q js)"
proof -
  have "sched_op (load_history (filter (\<lambda>j. is_terminal (j_status j)) js))"
    by (rule sched_op_load_history) simp
  from sched_op.inv [OF this sched_inv_new [of c q]] show ?thesis
    unfolding booted_def by (rule recover.inv)
qed

lemma booted_gates:
  "s_active_mutation (booted now boot c q js) = None"
  "s_admission (booted now boot c q js) = Open"
  "s_reboot_pending (booted now boot c q js) = None"
  "s_self_update (booted now boot c q js) = None"
proof -
  have "sched_op (load_history (filter (\<lambda>j. is_terminal (j_status j)) js))"
    by (rule sched_op_load_history) simp
  then show "s_active_mutation (booted now boot c q js) = None"
    unfolding booted_def recover.slot by (simp add: sched_op.slot) (simp add: new_scheduler_def)
qed (simp_all add: booted_def recover.gates load_history_gates, simp_all add: new_scheduler_def)

text \<open>With distinct ids the lookup is the one in the loaded list.\<close>

lemma find_distinct:
  assumes "distinct (map j_id js)" and "j \<in> set js"
  shows "find (\<lambda>k. j_id k = j_id j) js = Some j"
  using assms by (induction js) (auto simp: image_iff)

lemma find_id_None: "find (\<lambda>j. j_id j = x) js = None \<longleftrightarrow> x \<notin> j_id ` set js"
  by (auto simp: find_None_iff)

lemma get_job_booted_distinct:
  assumes "distinct (map j_id js)" and "j \<in> set js"
  shows "get_job (j_id j) (booted now boot c q js) =
     Some (if is_terminal (j_status j) then j else recover_job now boot j)"
proof -
  have inj: "k = j" if "k \<in> set js" "j_id k = j_id j" for k
    using assms that by (auto simp: distinct_map dest: inj_onD)
  have d: "distinct (map j_id (rev (filter P js)))" for P
    using assms(1) by (auto simp: distinct_map rev_map [symmetric] inj_on_def)
  show ?thesis
  proof (cases "is_terminal (j_status j)")
    case True
    then have "find (\<lambda>k. j_id k = j_id j) (rev (filter (\<lambda>j. \<not> is_terminal (j_status j)) js)) = None"
      using inj by (auto simp: find_None_iff)
    moreover have "find (\<lambda>k. j_id k = j_id j) (rev (filter (\<lambda>j. is_terminal (j_status j)) js)) = Some j"
      by (rule find_distinct [OF d]) (use True assms(2) in simp)
    ultimately show ?thesis using True by (simp add: get_job_booted)
  next
    case False
    have "find (\<lambda>k. j_id k = j_id j) (rev (filter (\<lambda>j. \<not> is_terminal (j_status j)) js)) = Some j"
      by (rule find_distinct [OF d]) (use False assms(2) in simp)
    then show ?thesis using False by (simp add: get_job_booted)
  qed
qed

lemma get_job_booted_None:
  assumes "x \<notin> j_id ` set js"
  shows "get_job x (booted now boot c q js) = None"
proof -
  have "find (\<lambda>j. j_id j = x) (rev (filter P js)) = None" for P
    using assms by (auto simp: find_None_iff)
  then show ?thesis by (simp add: get_job_booted)
qed

text \<open>The jobs of a well-formed state have distinct ids.\<close>

lemma get_all_jobs_ids:
  assumes "sched_wf s"
  shows "distinct (map j_id (get_all_jobs s))"
    and "j \<in> set (get_all_jobs s) \<longleftrightarrow> get_job (j_id j) s = Some j"
proof -
  have ids: "j_id v = k" if "(k, v) \<in> set (s_jobs s)" for k v
    using assms that by (auto simp: sched_wf_def hm_wf_def)
  have "map j_id (get_all_jobs s) = map fst (s_jobs s)"
    using ids by (auto simp: get_all_jobs_def)
  then show "distinct (map j_id (get_all_jobs s))"
    using assms by (simp add: sched_wf_def hm_wf_def)
  have "get_job (j_id j) s = Some j \<longleftrightarrow> (j_id j, j) \<in> set (s_jobs s)"
    using assms by (simp add: get_job_def sched_wf_def hm_wf_def)
  moreover have "j \<in> set (get_all_jobs s) \<longleftrightarrow> (\<exists>k. (k, j) \<in> set (s_jobs s))"
    unfolding get_all_jobs_def set_map by (auto intro: rev_image_eqI)
  ultimately show "j \<in> set (get_all_jobs s) \<longleftrightarrow> get_job (j_id j) s = Some j"
    using ids by blast
qed

lemma kept_jobs_small:
  assumes "length jobs \<le> HISTORY_RETENTION_COUNT"
  shows "kept_jobs jobs = filter persistable jobs"
proof -
  have "\<not> HISTORY_RETENTION_COUNT < length (filter persistable jobs)"
    using length_filter_le [of persistable jobs] assms by linarith
  then show ?thesis by (simp add: kept_jobs_def Let_def)
qed

text \<open>What a restart makes of a job of the last written state.\<close>

definition after_restart :: "time \<Rightarrow> string option \<Rightarrow> job \<Rightarrow> job option" where
  "after_restart now boot j =
     (if is_terminal (j_status j) then Some j
      else if is_internal j then None
      else Some (recover_job now boot j))"

lemma restart_from_snapshot:
  assumes codec: "codec_ok ser de" and wf: "sched_wf s"
    and small: "length (get_all_jobs s) \<le> HISTORY_RETENTION_COUNT"
  shows "get_job x (a_sched (startup ser de io1 io2 now boot c q
           (persist_all_jobs ser Written (get_all_jobs s) disk))) =
         Option.bind (get_job x s) (after_restart now boot)"
proof -
  let ?js = "filter persistable (get_all_jobs s)"
  obtain t where t: "ser ?js = Some t" "de t = Some ?js" using codec by (auto simp: codec_ok_def)
  have d: "distinct (map j_id ?js)" using get_all_jobs_ids(1) [OF wf] by (auto simp: distinct_map inj_on_def)
  have "fst (load_all_jobs ser de io1 (persist_all_jobs ser Written (get_all_jobs s) disk)) = ?js"
    by (simp add: persist_all_jobs_def kept_jobs_small [OF small] t load_all_jobs_def read_history_def)
  then have eq: "a_sched (startup ser de io1 io2 now boot c q
      (persist_all_jobs ser Written (get_all_jobs s) disk)) = booted now boot c q ?js"
    by (simp add: startup_sched)
  show ?thesis
  proof (cases "\<exists>j \<in> set ?js. j_id j = x")
    case True
    then obtain j where j: "j \<in> set ?js" "j_id j = x" by blast
    then have "get_job x s = Some j" using get_all_jobs_ids(2) [OF wf, of j] by auto
    with get_job_booted_distinct [OF d j(1)] j show ?thesis by (auto simp: eq after_restart_def persistable_def)
  next
    case False
    then have "get_job x (booted now boot c q ?js) = None" by (intro get_job_booted_None) auto
    moreover have "Option.bind (get_job x s) (after_restart now boot) = None"
    proof (cases "get_job x s")
      case (Some j)
      then have "j_id j = x" using wf by (auto simp: sched_wf_def get_job_def)
      with Some False get_all_jobs_ids(2) [OF wf, of j] show ?thesis by (auto simp: after_restart_def persistable_def split: if_splits)
    qed simp
    ultimately show ?thesis by (simp add: eq)
  qed
qed

lemma after_restart_terminal: "is_terminal (j_status j) \<Longrightarrow> after_restart now boot j = Some j"
  by (simp add: after_restart_def)

lemma partition_Nil_iff: "filter (\<lambda>j. \<not> P j) js = [] \<longleftrightarrow> (\<forall>j \<in> set js. P j)"
  by (auto simp: filter_empty_conv)

lemma startup_disk:
  assumes "load_all_jobs ser de io1 disk = (js, disk1)"
  shows "a_disk (startup ser de io1 io2 now boot c q disk) =
    (if \<forall>j \<in> set js. is_terminal (j_status j) then disk1
     else persist_all_jobs ser io2 (get_all_jobs (booted now boot c q js)) disk1)"
proof -
  have "startup ser de io1 io2 now boot c q disk =
      (let a = \<lparr>a_sched = booted now boot c q js, a_disk = disk1\<rparr>
       in if filter (\<lambda>j. \<not> is_terminal (j_status j)) js \<noteq> [] then persist_jobs ser io2 a else a)"
    by (simp add: startup_def assms booted_def Let_def comp_def)
  then show ?thesis by (simp add: partition_Nil_iff persist_jobs_def Let_def)
qed

lemma sorted_key_take_drop:
  assumes "sorted (map f xs)" and "x \<in> set (take n xs)" and "y \<in> set (drop n xs)"
  shows "f x \<le> f y"
proof -
  have "sorted (map f (take n xs @ drop n xs))" using assms(1) by simp
  then have "\<forall>a \<in> set (map f (take n xs)). \<forall>b \<in> set (map f (drop n xs)). a \<le> b"
    unfolding map_append sorted_append by blast
  with assms(2,3) show ?thesis by simp
qed

section \<open>Properties\<close>

text \<open>A start of the agent settles everything. Whatever the disk holds (no file, an unreadable
  one, garbage, or any job list, even with repeated ids), the scheduler starts with its invariant,
  all gates open and the slot free, and every job it knows has a terminal status.\<close>

theorem startup_settles:
  "let s = a_sched (startup ser de io1 io2 now boot c q disk) in
     sched_inv s \<and> s_admission s = Open \<and> s_active_mutation s = None \<and> s_reboot_pending s = None \<and>
     s_self_update s = None \<and> (\<forall>x j. get_job x s = Some j \<longrightarrow> is_terminal (j_status j))"
  unfolding startup_sched Let_def by (auto intro: booted_inv booted_terminal simp: booted_gates)

theorem startup_settles_witness:
  "sched_inv (a_sched (startup Some Some Written Written 5 None 2 10
      \<lparr>history_file = Contents [new_job 3 0 None Install []], legacy_file = Absent\<rparr>))"
  using startup_settles [of Some Some Written Written 5 None 2 10
      "\<lparr>history_file = Contents [new_job 3 0 None Install []], legacy_file = Absent\<rparr>"]
  by (simp add: Let_def)

text \<open>C8: a restart after a completed write. If the last history write came from state \<open>s\<close>, then
  after a crash and a new start every job of \<open>s\<close> that was terminal is back unchanged, an unfinished
  internal job is gone, every other unfinished job is there with the status the recovery gives it,
  and no other job appears.\<close>

theorem jobs_survive_restart:
  assumes "codec_ok ser de" and "sched_wf s"
    and "length (get_all_jobs s) \<le> HISTORY_RETENTION_COUNT"
  shows "get_job x (a_sched (startup ser de io1 io2 now boot c q
           (a_disk (persist_jobs ser Written \<lparr>a_sched = s, a_disk = disk\<rparr>)))) =
         (case get_job x s of
            None \<Rightarrow> None
          | Some j \<Rightarrow> if is_terminal (j_status j) then Some j
                      else if is_internal j then None
                      else Some (recover_job now boot j))"
  using restart_from_snapshot [OF assms, of x io1 io2 now boot c q disk]
  by (auto simp: persist_jobs_def after_restart_def Let_def split: option.splits)

theorem jobs_survive_restart_witness:
  "\<exists>j. get_job 3 (a_sched (startup Some Some Written Written 5 None 2 10
      (a_disk (persist_jobs Some Written \<lparr>a_sched = insert_job 3 (complete 4 (new_job 3 0 None Install [''a'']))
         (new_scheduler 2 10), a_disk = \<lparr>history_file = Absent, legacy_file = Absent\<rparr>\<rparr>)))) = Some j \<and>
     j_status j = Completed"
proof -
  let ?s = "insert_job 3 (complete 4 (new_job 3 0 None Install [''a''])) (new_scheduler 2 10)"
  have "sched_wf ?s" by (rule sched_wf_insert [OF sched_wf_new]) (simp add: complete_def add_log_def new_job_def)
  moreover have "codec_ok Some Some" by (simp add: codec_ok_def)
  moreover have "length (get_all_jobs ?s) \<le> HISTORY_RETENTION_COUNT"
    by (simp add: get_all_jobs_def new_scheduler_def HISTORY_RETENTION_COUNT_def)
  ultimately show ?thesis
    using jobs_survive_restart [of Some Some ?s 3 Written Written 5 None 2 10] by simp
qed

text \<open>The outcome of a recovery is durable. The start writes the statuses it gave to orphans,
  so a second restart, with any clock and boot id, finds exactly the same jobs.\<close>

theorem recovery_is_durable:
  assumes codec: "codec_ok ser de" and hist: "history_file disk = Contents t" "de t = Some js"
    and a: "a = startup ser de io1 Written now boot c q disk"
    and small: "length (get_all_jobs (a_sched a)) \<le> HISTORY_RETENTION_COUNT"
  shows "get_job x (a_sched (startup ser de io1' io2' now' boot' c' q' (a_disk a))) = get_job x (a_sched a)"
proof -
  have l: "load_all_jobs ser de io disk = (js, disk)" for io
    using hist by (simp add: load_all_jobs_def read_history_def)
  have s: "a_sched a = booted now boot c q js" by (simp add: a startup_sched l)
  show ?thesis
  proof (cases "\<forall>j \<in> set js. is_terminal (j_status j)")
    case True
    then have "filter (\<lambda>j. \<not> is_terminal (j_status j)) js = []" by (simp add: partition_Nil_iff)
    then have "get_job x (booted n b c1 q1 js) =
        find (\<lambda>j. j_id j = x) (rev (filter (\<lambda>j. is_terminal (j_status j)) js))" for n b c1 q1
      by (simp add: get_job_booted)
    with True show ?thesis
      by (simp add: a startup_disk [OF l] startup_sched l)
  next
    case False
    let ?s = "booted now boot c q js"
    have "sched_wf ?s" using booted_inv by (simp add: sched_inv_def)
    moreover have "length (get_all_jobs ?s) \<le> HISTORY_RETENTION_COUNT" using small s by simp
    ultimately have "get_job x (a_sched (startup ser de io1' io2' now' boot' c' q'
        (persist_all_jobs ser Written (get_all_jobs ?s) disk)))
        = Option.bind (get_job x ?s) (after_restart now' boot')"
      by (rule restart_from_snapshot [OF codec])
    moreover have "Option.bind (get_job x ?s) (after_restart now' boot') = get_job x ?s"
      using booted_terminal after_restart_terminal by (cases "get_job x ?s") auto
    moreover have "a_disk a = persist_all_jobs ser Written (get_all_jobs ?s) disk"
      unfolding a startup_disk [OF l] using False by (simp only: if_False)
    ultimately show ?thesis by (simp add: s)
  qed
qed

theorem recovery_is_durable_witness:
  "let a = startup Some Some Written Written 5 (Some ''b1'') 2 10
        \<lparr>history_file = Contents [new_job 3 0 (Some ''b0'') Install []], legacy_file = Absent\<rparr>
   in get_job 3 (a_sched (startup Some Some Written Written 9 (Some ''b0'') 2 10 (a_disk a))) = get_job 3 (a_sched a)"
proof -
  let ?a = "startup Some Some Written Written 5 (Some ''b1'') 2 10
        \<lparr>history_file = Contents [new_job 3 0 (Some ''b0'') Install []], legacy_file = Absent\<rparr>"
  have "length (get_all_jobs (a_sched ?a)) \<le> HISTORY_RETENTION_COUNT"
    by (simp add: startup_sched load_all_jobs_def read_history_def booted_def load_history_def
        recover_orphaned_jobs_def get_all_jobs_def new_scheduler_def HISTORY_RETENTION_COUNT_def)
  then show ?thesis unfolding Let_def
    by (intro recovery_is_durable [OF _ _ _ refl]) (simp_all add: codec_ok_def)
qed

text \<open>The retention limit. At most 500 jobs are written, all of them jobs of the scheduler; an
  unfinished internal job never is; and a job that could be written but is not was created no
  later than every job that is.\<close>

theorem history_retention:
  "length (kept_jobs jobs) \<le> HISTORY_RETENTION_COUNT \<and> set (kept_jobs jobs) \<subseteq> set jobs \<and>
   (\<forall>j \<in> set (kept_jobs jobs). is_internal j \<longrightarrow> is_terminal (j_status j)) \<and>
   (\<forall>j \<in> set jobs. \<forall>k \<in> set (kept_jobs jobs). persistable j \<longrightarrow> j \<notin> set (kept_jobs jobs) \<longrightarrow>
      j_created_at j \<le> j_created_at k)"
proof (cases "length (filter persistable jobs) > HISTORY_RETENTION_COUNT")
  case True
  let ?s = "sort_key (\<lambda>j. - j_created_at j) (filter persistable jobs)"
  have kept: "kept_jobs jobs = take HISTORY_RETENTION_COUNT ?s" using True by (simp add: kept_jobs_def Let_def)
  have sub: "set (kept_jobs jobs) \<subseteq> set (filter persistable jobs)"
    unfolding kept using set_take_subset [of HISTORY_RETENTION_COUNT ?s] by simp
  have "j_created_at j \<le> j_created_at k"
    if "j \<in> set jobs" "persistable j" "j \<notin> set (kept_jobs jobs)" "k \<in> set (kept_jobs jobs)" for j k
  proof -
    have "j \<in> set ?s" using that by simp
    then have "j \<in> set (drop HISTORY_RETENTION_COUNT ?s)"
      using that(3) append_take_drop_id [of HISTORY_RETENTION_COUNT ?s] unfolding kept
      by (metis Un_iff set_append)
    with sorted_key_take_drop [OF sorted_sort_key, of k HISTORY_RETENTION_COUNT] that(4) kept
    show ?thesis by fastforce
  qed
  moreover have "length (kept_jobs jobs) \<le> HISTORY_RETENTION_COUNT" by (simp add: kept)
  ultimately show ?thesis using sub by (auto simp: persistable_def)
next
  case False
  then have "kept_jobs jobs = filter persistable jobs" by (simp add: kept_jobs_def Let_def)
  with False show ?thesis by (auto simp: persistable_def)
qed

theorem history_retention_witness:
  "length (kept_jobs (map (\<lambda>k. new_job 1 k None Install []) [1..600])) \<le> HISTORY_RETENTION_COUNT"
  using history_retention [of "map (\<lambda>k. new_job 1 k None Install []) [1..600]"] by blast

text \<open>Overlapping writes are not ordered. \<open>persist_jobs\<close> takes its snapshot under the lock and
  writes after releasing it. If a snapshot taken while job \<open>x\<close> was running is written after the
  completion of \<open>x\<close> was itself written, the disk goes back: after a restart the completed job is
  reported \<open>Failed\<close>.\<close>

theorem stale_snapshot_loses_completion:
  assumes codec: "codec_ok ser de" and wf: "sched_wf s"
    and small: "length (get_all_jobs s) \<le> HISTORY_RETENTION_COUNT"
    and j: "get_job x s = Some j" "j_status j = Running" "j_operation j \<noteq> SelfUpdate" "\<not> is_internal j"
    and snapshot: "snapshot = get_all_jobs s"
    and a: "a = complete_job_async ser Written now x \<lparr>a_sched = s, a_disk = disk\<rparr>"
  shows "map_option j_status (get_job x (a_sched a)) = Some Completed \<and>
    map_option j_status (get_job x (a_sched (startup ser de io1 io2 now' boot c q
       (persist_all_jobs ser Written snapshot (a_disk a))))) = Some Failed"
proof -
  have "map_option j_status (get_job x (a_sched a)) = Some Completed"
    using j(1) by (simp add: a complete_job_async_def persist_jobs_def complete_job_def complete_def
        add_log_def Let_def)
  moreover have "get_job x (a_sched (startup ser de io1 io2 now' boot c q
       (persist_all_jobs ser Written snapshot (a_disk a)))) = Some (recover_job now' boot j)"
    using restart_from_snapshot [OF codec wf small] j by (simp add: snapshot after_restart_def)
  moreover have "j_status (recover_job now' boot j) = Failed"
    using j by (simp add: recover_job_def recovered_base_def Let_def)
  ultimately show ?thesis by simp
qed

theorem stale_snapshot_loses_completion_witness:
  "\<exists>s. map_option j_status (get_job 3 (a_sched (complete_job_async Some Written 8 3
       \<lparr>a_sched = s, a_disk = \<lparr>history_file = Absent, legacy_file = Absent\<rparr>\<rparr>))) = Some Completed"
proof -
  let ?j = "start 4 (new_job 3 0 None Install [''a''])"
  let ?s = "insert_job 3 ?j (new_scheduler 2 10)"
  have wf: "sched_wf ?s"
    by (rule sched_wf_insert [OF sched_wf_new]) (simp add: start_def add_log_def new_job_def)
  have c: "codec_ok Some Some" by (simp add: codec_ok_def)
  have l: "length (get_all_jobs ?s) \<le> HISTORY_RETENTION_COUNT"
    by (simp add: get_all_jobs_def new_scheduler_def HISTORY_RETENTION_COUNT_def)
  have "get_job 3 ?s = Some ?j" "j_status ?j = Running" "j_operation ?j \<noteq> SelfUpdate" "\<not> is_internal ?j"
    by (simp_all add: start_def add_log_def new_job_def is_internal_def starts_with_def)
  from stale_snapshot_loses_completion [OF c wf l this refl refl] show ?thesis by blast
qed

text \<open>The migration of the legacy file. It returns the jobs and removes the old file; when the
  write of the new file fails, the old one is removed all the same, so neither file is left and
  the next start finds no job.\<close>

theorem legacy_migration:
  assumes "history_file disk = Absent" and "legacy_file disk = Contents t" and "de t = Some js"
  shows "fst (load_all_jobs ser de io disk) = js \<and>
    legacy_file (snd (load_all_jobs ser de io disk)) = Absent \<and>
    (io \<noteq> Written \<longrightarrow> history_file (snd (load_all_jobs ser de io disk)) = Absent \<and>
       fst (load_all_jobs ser de io' (snd (load_all_jobs ser de io disk))) = [])"
  using assms
  by (cases io) (simp_all add: load_all_jobs_def persist_all_jobs_def read_history_def split: option.splits)

theorem legacy_migration_witness:
  "snd (load_all_jobs Some Some RenameFails
      \<lparr>history_file = Absent, legacy_file = Contents [new_job 3 0 None Install []]\<rparr>)
    = \<lparr>history_file = Absent, legacy_file = Absent\<rparr>"
proof -
  let ?d = "\<lparr>history_file = Absent, legacy_file = Contents [new_job 3 0 None Install []]\<rparr>"
  have "history_file (snd (load_all_jobs Some Some RenameFails ?d)) = Absent"
    "legacy_file (snd (load_all_jobs Some Some RenameFails ?d)) = Absent"
    using legacy_migration [of ?d _ Some _ Some RenameFails] by simp_all
  then show ?thesis by (metis disk.surjective unit.exhaust)
qed

end
