(* ===== verification/Crl.thy ===== *)
theory Crl imports Net begin

text \<open>
  Certificate revocation: \<open>src/auth/crl.rs\<close>, the client certificate verifier of
  \<open>src/auth/mtls.rs\<close>, and the CRL part of the startup in \<open>src/main.rs\<close>.

  X.509 parsing, signature checks and base64 belong to crates: the record \<open>x509\<close> bundles the functions
  the code calls, as an argument. A serial number is the natural number of the \<open>BigUint\<close>. The HTTP
  fetch and the file operations have their outcome as an argument; times are seconds.
\<close>

section \<open>State\<close>

datatype crl_status = CrlValid | CrlExpired | CrlMissing | CrlInvalid | CrlDegraded

fun crl_status_text :: "crl_status \<Rightarrow> string" where
  "crl_status_text CrlValid = ''valid''"
| "crl_status_text CrlExpired = ''expired''"
| "crl_status_text CrlMissing = ''missing''"
| "crl_status_text CrlInvalid = ''invalid''"
| "crl_status_text CrlDegraded = ''degraded''"

record crl_state =
  revoked_serials :: "string list"
  cs_status :: crl_status
  crl_mtime :: "int option"
  loaded_at :: int
  next_update :: "int option"

definition empty_crl_state :: "crl_status \<Rightarrow> int option \<Rightarrow> int \<Rightarrow> crl_state" where
  "empty_crl_state st mtime now =
     \<lparr>revoked_serials = [], cs_status = st, crl_mtime = mtime, loaded_at = now, next_update = None\<rparr>"

definition new_shared_state :: "int \<Rightarrow> crl_state" where
  "new_shared_state now = empty_crl_state CrlMissing None now"

definition is_revoked :: "crl_state \<Rightarrow> string \<Rightarrow> bool" where
  "is_revoked s serial_hex = List.member (revoked_serials s) serial_hex"

definition crl_age_seconds :: "int \<Rightarrow> crl_state \<Rightarrow> int option" where
  "crl_age_seconds now s =
     (case crl_mtime s of None \<Rightarrow> None | Some t \<Rightarrow> if t \<le> now then Some (now - t) else None)"

definition reevaluate_expiry :: "int \<Rightarrow> crl_state \<Rightarrow> crl_status" where
  "reevaluate_expiry now s =
     (case cs_status s of
        CrlValid \<Rightarrow> (case next_update s of
                      Some nu \<Rightarrow> if now > nu then CrlExpired else CrlValid
                    | None \<Rightarrow> CrlValid)
      | other \<Rightarrow> other)"

section \<open>Serial numbers\<close>

fun to_bytes_be :: "nat \<Rightarrow> nat list" where
  "to_bytes_be n = (if n < 256 then [n] else to_bytes_be (n div 256) @ [n mod 256])"

declare to_bytes_be.simps [simp del]

definition hex_digit :: "nat \<Rightarrow> char" where
  "hex_digit d = (if d < 10 then char_of (48 + d) else char_of (87 + d))"

definition hex_byte :: "nat \<Rightarrow> string" where
  "hex_byte b = [hex_digit (b div 16), hex_digit (b mod 16)]"

definition format_serial_hex :: "nat \<Rightarrow> string" where
  "format_serial_hex serial = concat (map hex_byte (to_bytes_be serial))"

section \<open>Loading\<close>

text \<open>What the crates provide: a parsed CRL has the serials it revokes, its \<open>nextUpdate\<close> and the data
  its signature is checked with; a certificate has its serial and its public key.\<close>

record ('sig, 'key) x509 =
  x_parse_crl :: "string \<Rightarrow> (nat list \<times> int option \<times> 'sig) option"
  x_parse_cert :: "string \<Rightarrow> (nat \<times> 'key) option"
  x_verify :: "'sig \<Rightarrow> 'key \<Rightarrow> bool"
  x_base64 :: "string \<Rightarrow> string option"

definition cert_serial_hex :: "('sig, 'key) x509 \<Rightarrow> string \<Rightarrow> string option" where
  "cert_serial_hex x cert_der = map_option (\<lambda>(serial, _). format_serial_hex serial) (x_parse_cert x cert_der)"

definition extract_pem :: "string \<Rightarrow> string \<Rightarrow> ('sig, 'key) x509 \<Rightarrow> string \<Rightarrow> string option" where
  "extract_pem begin_marker end_marker x pem =
     (case str_find begin_marker pem of
        None \<Rightarrow> None
      | Some begin_idx \<Rightarrow>
          let body = drop (begin_idx + length begin_marker) pem in
          (case str_find end_marker body of
             None \<Rightarrow> None
           | Some end_idx \<Rightarrow> x_base64 x (concat (split_whitespace (take end_idx body)))))"

definition extract_pem_cert_der :: "('sig, 'key) x509 \<Rightarrow> string \<Rightarrow> string option" where
  "extract_pem_cert_der = extract_pem ''-----BEGIN CERTIFICATE-----'' ''-----END CERTIFICATE-----''"

definition extract_pem_crl_der :: "('sig, 'key) x509 \<Rightarrow> string \<Rightarrow> string option" where
  "extract_pem_crl_der = extract_pem ''-----BEGIN X509 CRL-----'' ''-----END X509 CRL-----''"

definition load_crl_from_bytes ::
    "('sig, 'key) x509 \<Rightarrow> int \<Rightarrow> string \<Rightarrow> int option \<Rightarrow> string \<Rightarrow> crl_state" where
  "load_crl_from_bytes x now crl_bytes mtime ca_cert =
     (let crl_der = opt_or (extract_pem_crl_der x crl_bytes) crl_bytes in
      case x_parse_crl x crl_der of
        None \<Rightarrow> empty_crl_state CrlInvalid mtime now
      | Some (serials, nu, sig) \<Rightarrow>
          (let ca_der = opt_or (extract_pem_cert_der x ca_cert) ca_cert in
           case x_parse_cert x ca_der of
             None \<Rightarrow> empty_crl_state CrlInvalid mtime now
           | Some (_, key) \<Rightarrow>
               if \<not> x_verify x sig key then empty_crl_state CrlInvalid mtime now
               else \<lparr>revoked_serials = map format_serial_hex serials,
                     cs_status = (if (case nu of Some t \<Rightarrow> t < now | None \<Rightarrow> False) then CrlExpired else CrlValid),
                     crl_mtime = mtime, loaded_at = now, next_update = nu\<rparr>))"

datatype read_outcome = NotFound | ReadError | ReadBytes string "int option"

definition load_crl :: "('sig, 'key) x509 \<Rightarrow> int \<Rightarrow> read_outcome \<Rightarrow> string \<Rightarrow> crl_state" where
  "load_crl x now f ca_cert =
     (case f of
        NotFound \<Rightarrow> empty_crl_state CrlMissing None now
      | ReadError \<Rightarrow> empty_crl_state CrlDegraded None now
      | ReadBytes b mtime \<Rightarrow> load_crl_from_bytes x now b mtime ca_cert)"

section \<open>Refreshing\<close>

datatype fetch_outcome =
    ClientError string
  | SendError string
  | HttpStatus nat
  | BodyError string
  | Body string

datatype crl_write = MkdirFails | CreateTempFails | WriteTempFails | RenameTempFails | CrlWritten "int option"

record crl_env =
  ce_disk :: read_outcome
  ce_shared :: crl_state

definition refresh_crl ::
    "('sig, 'key) x509 \<Rightarrow> int \<Rightarrow> fetch_outcome \<Rightarrow> crl_write \<Rightarrow> string \<Rightarrow> crl_env
     \<Rightarrow> (string, unit) result \<times> crl_env" where
  "refresh_crl x now fetch wr ca_cert env =
     (case fetch of
        ClientError e \<Rightarrow> (Err e, env)
      | SendError e \<Rightarrow> (Err (''CRL fetch request failed: '' @ e), env)
      | HttpStatus code \<Rightarrow> (Err (''CRL fetch returned HTTP '' @ show_nat code), env)
      | BodyError e \<Rightarrow> (Err (''Failed to read CRL response body: '' @ e), env)
      | Body crl_pem \<Rightarrow>
          (let new_state = load_crl_from_bytes x now crl_pem None ca_cert in
           if cs_status new_state = CrlInvalid
           then (Err ''CRL signature verification failed after fetch'', env)
           else case wr of
             MkdirFails \<Rightarrow> (Err ''Failed to create CRL directory'', env)
           | CreateTempFails \<Rightarrow> (Err ''Failed to create temp CRL file'', env)
           | WriteTempFails \<Rightarrow> (Err ''Failed to write temp CRL file'', env)
           | RenameTempFails \<Rightarrow> (Err ''Failed to rename temp CRL file'', env)
           | CrlWritten mtime \<Rightarrow>
               (Ok (), \<lparr>ce_disk = ReadBytes crl_pem mtime, ce_shared = new_state\<lparr>crl_mtime := mtime\<rparr>\<rparr>)))"

definition crl_health_step :: "('sig, 'key) x509 \<Rightarrow> int \<Rightarrow> string \<Rightarrow> crl_env \<Rightarrow> crl_env" where
  "crl_health_step x now ca_cert env =
     (let new_state = load_crl x now (ce_disk env) ca_cert in
      if cs_status (ce_shared env) \<noteq> cs_status new_state then env\<lparr>ce_shared := new_state\<rparr> else env)"

text \<open>The loop of \<open>spawn_crl_refresh_task\<close> with the outcomes of its fetches: the list of the times,
  in seconds since the spawn, at which the loop fetches (the fetch itself takes no time).\<close>

definition crl_interval :: nat where "crl_interval = 12 * 60 * 60"

definition backoff_schedule :: "nat list" where
  "backoff_schedule = [60, 300, 900, 3600]"

fun refresh_loop :: "nat \<Rightarrow> nat \<Rightarrow> bool list \<Rightarrow> nat list" where
  "refresh_loop t retry_idx [] = []"
| "refresh_loop t retry_idx (ok # oks) =
     (let t1 = t + crl_interval in
      t1 # (if ok then refresh_loop t1 0 oks
            else refresh_loop (t1 + backoff_schedule ! min retry_idx (length backoff_schedule - 1))
                   (if retry_idx < length backoff_schedule then retry_idx + 1 else retry_idx) oks))"

section \<open>The verifier of mtls.rs\<close>

datatype rustls_error = OtherTlsError string | Revoked

definition verify_client_cert ::
    "('sig, 'key) x509 \<Rightarrow> (string \<Rightarrow> (rustls_error, unit) result) \<Rightarrow> crl_state \<Rightarrow> string
     \<Rightarrow> (rustls_error, unit) result" where
  "verify_client_cert x webpki crl end_entity =
     bind_res (webpki end_entity) (\<lambda>_.
       case cs_status crl of
         CrlValid \<Rightarrow> (case cert_serial_hex x end_entity of
                       Some serial_hex \<Rightarrow> if is_revoked crl serial_hex then Err Revoked else Ok ()
                     | None \<Rightarrow> Ok ())
       | CrlExpired \<Rightarrow> (case cert_serial_hex x end_entity of
                       Some serial_hex \<Rightarrow> if is_revoked crl serial_hex then Err Revoked else Ok ()
                     | None \<Rightarrow> Ok ())
       | CrlMissing \<Rightarrow> Ok ()
       | CrlDegraded \<Rightarrow> Ok ()
       | CrlInvalid \<Rightarrow> Err Revoked)"

section \<open>The startup in main.rs\<close>

text \<open>\<open>None\<close>: the process exits.\<close>

definition startup_crl ::
    "('sig, 'key) x509 \<Rightarrow> int \<Rightarrow> bool \<Rightarrow> fetch_outcome \<Rightarrow> crl_write \<Rightarrow> string \<Rightarrow> crl_env \<Rightarrow> crl_env option" where
  "startup_crl x now has_manager fetch wr ca_cert env =
     (let initial_crl = load_crl x now (ce_disk env) ca_cert in
      case cs_status initial_crl of
        CrlInvalid \<Rightarrow> None
      | CrlValid \<Rightarrow> Some (env\<lparr>ce_shared := initial_crl\<rparr>)
      | CrlExpired \<Rightarrow>
          (let env1 = env\<lparr>ce_shared := initial_crl\<rparr>
           in Some (if has_manager then snd (refresh_crl x now fetch wr ca_cert env1) else env1))
      | CrlMissing \<Rightarrow> Some (if has_manager then snd (refresh_crl x now fetch wr ca_cert env) else env)
      | CrlDegraded \<Rightarrow> Some env)"

section \<open>Helper lemmas\<close>

lemma hex_digit_inj: "a < 16 \<Longrightarrow> b < 16 \<Longrightarrow> hex_digit a = hex_digit b \<Longrightarrow> a = b"
proof -
  assume a: "a < 16" and b: "b < 16" and eq: "hex_digit a = hex_digit b"
  have "byte (hex_digit d) = (if d < 10 then 48 + d else 87 + d)" if "d < 16" for d
  proof -
    have "byte (char_of (48 + d) :: char) = 48 + d" by (rule byte_char_of) (use that in linarith)
    moreover have "byte (char_of (87 + d) :: char) = 87 + d" by (rule byte_char_of) (use that in linarith)
    ultimately show ?thesis by (cases "d < 10") (simp_all only: hex_digit_def if_True if_False)
  qed
  from this [OF a] this [OF b] have "(if a < 10 then 48 + a else 87 + a) = (if b < 10 then 48 + b else 87 + b)"
    unfolding eq by (rule trans [OF sym])
  with a b show "a = b" by (simp split: if_splits)
qed

lemma hex_byte_inj:
  assumes "a < 256" and "b < 256" and "hex_byte a = hex_byte b"
  shows "a = b"
proof -
  have "hex_digit (a div 16) = hex_digit (b div 16)" "hex_digit (a mod 16) = hex_digit (b mod 16)"
    using assms(3) by (simp_all add: hex_byte_def)
  moreover have "a div 16 < 16" "b div 16 < 16" using assms by simp_all
  ultimately have "a div 16 = b div 16" "a mod 16 = b mod 16"
    using hex_digit_inj [of "a div 16" "b div 16"] hex_digit_inj [of "a mod 16" "b mod 16"] by simp_all
  then show ?thesis by (metis div_mult_mod_eq)
qed

lemma to_bytes_be_less: "b \<in> set (to_bytes_be n) \<Longrightarrow> b < 256"
proof (induction n rule: to_bytes_be.induct)
  case (1 n)
  then show ?case by (subst (asm) (2) to_bytes_be.simps) (auto split: if_splits)
qed

definition from_bytes_be :: "nat list \<Rightarrow> nat" where
  "from_bytes_be bs = foldl (\<lambda>n b. 256 * n + b) 0 bs"

lemma from_to_bytes_be: "from_bytes_be (to_bytes_be n) = n"
proof (induction n rule: to_bytes_be.induct)
  case (1 n)
  then show ?case by (subst to_bytes_be.simps) (auto simp: from_bytes_be_def)
qed

lemma length_hex_byte: "length (hex_byte b) = 2"
  by (simp add: hex_byte_def)

lemma concat_hex_inj:
  "\<forall>b \<in> set as \<union> set bs. b < 256 \<Longrightarrow> concat (map hex_byte as) = concat (map hex_byte bs) \<Longrightarrow> as = bs"
proof (induction as arbitrary: bs)
  case Nil
  then show ?case by (cases bs) (auto simp: hex_byte_def)
next
  case (Cons a as)
  then obtain b bs' where bs: "bs = b # bs'" by (cases bs) (auto simp: hex_byte_def)
  from Cons.prems(2) bs have "hex_byte a = hex_byte b \<and> concat (map hex_byte as) = concat (map hex_byte bs')"
    by (simp add: append_eq_append_conv length_hex_byte)
  with Cons.prems(1) Cons.IH [of bs'] bs hex_byte_inj [of a b] show ?case by simp
qed

lemma to_bytes_be_all_less: "\<forall>b \<in> set (to_bytes_be m) \<union> set (to_bytes_be n). b < 256"
  using to_bytes_be_less by blast

lemma format_serial_hex_inj: "format_serial_hex m = format_serial_hex n \<longleftrightarrow> m = n"
proof
  assume "format_serial_hex m = format_serial_hex n"
  then have "to_bytes_be m = to_bytes_be n"
    unfolding format_serial_hex_def by (rule concat_hex_inj [OF to_bytes_be_all_less])
  then have "from_bytes_be (to_bytes_be m) = from_bytes_be (to_bytes_be n)" by (rule arg_cong)
  then show "m = n" unfolding from_to_bytes_be .
qed simp

text \<open>A state the agent uses for decisions comes from a CRL that the CA signed.\<close>

definition signed_by_ca :: "('sig, 'key) x509 \<Rightarrow> string \<Rightarrow> string \<Rightarrow> nat list \<Rightarrow> int option \<Rightarrow> bool" where
  "signed_by_ca x ca_cert crl_bytes serials nu \<longleftrightarrow>
     (\<exists>sig ca_serial key.
        x_parse_crl x (opt_or (extract_pem_crl_der x crl_bytes) crl_bytes) = Some (serials, nu, sig) \<and>
        x_parse_cert x (opt_or (extract_pem_cert_der x ca_cert) ca_cert) = Some (ca_serial, key) \<and>
        x_verify x sig key)"

lemma load_crl_from_bytes_cases:
  "(cs_status (load_crl_from_bytes x now b mtime ca) = CrlInvalid \<and>
    revoked_serials (load_crl_from_bytes x now b mtime ca) = [] \<and> (\<nexists>serials nu. signed_by_ca x ca b serials nu)) \<or>
   (\<exists>serials nu. signed_by_ca x ca b serials nu \<and>
      revoked_serials (load_crl_from_bytes x now b mtime ca) = map format_serial_hex serials \<and>
      next_update (load_crl_from_bytes x now b mtime ca) = nu \<and>
      cs_status (load_crl_from_bytes x now b mtime ca) =
        (if (case nu of Some t \<Rightarrow> t < now | None \<Rightarrow> False) then CrlExpired else CrlValid))"
  unfolding load_crl_from_bytes_def signed_by_ca_def
  by (auto simp: empty_crl_state_def Let_def split: option.splits)

lemma load_crl_from_bytes_status:
  "cs_status (load_crl_from_bytes x now b mtime ca) \<in> {CrlInvalid, CrlExpired, CrlValid}"
  unfolding load_crl_from_bytes_def by (auto simp: empty_crl_state_def Let_def split: option.splits)

lemma refresh_crl_cases:
  "(\<exists>e. refresh_crl x now fetch wr ca env = (Inl e, env)) \<or>
   (\<exists>pem mtime. fetch = Body pem \<and> wr = CrlWritten mtime \<and>
      cs_status (load_crl_from_bytes x now pem None ca) \<noteq> CrlInvalid \<and>
      refresh_crl x now fetch wr ca env =
        (Inr (), \<lparr>ce_disk = ReadBytes pem mtime,
                 ce_shared = (load_crl_from_bytes x now pem None ca)\<lparr>crl_mtime := mtime\<rparr>\<rparr>))"
  unfolding refresh_crl_def by (auto simp: Let_def split: fetch_outcome.splits crl_write.splits)

lemma refresh_crl_not_invalid:
  "cs_status (ce_shared env) \<noteq> CrlInvalid \<Longrightarrow> cs_status (ce_shared (snd (refresh_crl x now fetch wr ca env))) \<noteq> CrlInvalid"
  using refresh_crl_cases [of x now fetch wr ca env] by auto

lemma startup_crl_not_invalid:
  assumes "cs_status (ce_shared env) \<noteq> CrlInvalid" and "startup_crl x now has_manager fetch wr ca env = Some env'"
  shows "cs_status (ce_shared env') \<noteq> CrlInvalid"
  by (cases "cs_status (load_crl x now (ce_disk env) ca)"; cases has_manager)
    (use assms in \<open>auto simp: startup_crl_def Let_def refresh_crl_not_invalid\<close>)

lemma startup_crl_refuses:
  assumes "startup_crl x now has_manager fetch wr ca env = None"
  shows "\<exists>b mtime. ce_disk env = ReadBytes b mtime \<and> (\<nexists>serials nu. signed_by_ca x ca b serials nu)"
proof -
  have inv: "cs_status (load_crl x now (ce_disk env) ca) = CrlInvalid"
    using assms by (auto simp: startup_crl_def Let_def split: crl_status.splits)
  then obtain b mtime where d: "ce_disk env = ReadBytes b mtime"
    by (cases "ce_disk env") (auto simp: load_crl_def empty_crl_state_def)
  with inv have "cs_status (load_crl_from_bytes x now b mtime ca) = CrlInvalid" by (simp add: load_crl_def)
  then have "\<nexists>serials nu. signed_by_ca x ca b serials nu"
    using load_crl_from_bytes_cases [of x now b mtime ca] by (auto split: if_splits)
  with d show ?thesis by blast
qed

lemma startup_crl_exits:
  assumes "ce_disk env = ReadBytes b mtime" "\<nexists>serials nu. signed_by_ca x ca b serials nu"
  shows "startup_crl x now has_manager fetch wr ca env = None"
proof -
  have "cs_status (load_crl_from_bytes x now b mtime ca) = CrlInvalid"
    using load_crl_from_bytes_cases [of x now b mtime ca] assms(2) by blast
  then show ?thesis by (simp add: startup_crl_def load_crl_def assms(1) Let_def)
qed

text \<open>What is in force is the signed file on disk, or nothing.\<close>

definition crl_in_force :: "('sig, 'key) x509 \<Rightarrow> string \<Rightarrow> crl_env \<Rightarrow> bool" where
  "crl_in_force x ca env \<longleftrightarrow>
     (cs_status (ce_shared env) \<in> {CrlValid, CrlExpired} \<and>
      (\<exists>b mtime serials nu. ce_disk env = ReadBytes b mtime \<and> signed_by_ca x ca b serials nu \<and>
         revoked_serials (ce_shared env) = map format_serial_hex serials)) \<or>
     (cs_status (ce_shared env) = CrlMissing \<and> revoked_serials (ce_shared env) = [])"

lemma loaded_in_force:
  assumes "cs_status (load_crl_from_bytes x now b mtime ca) \<noteq> CrlInvalid"
  shows "crl_in_force x ca \<lparr>ce_disk = ReadBytes b mtime', ce_shared = (load_crl_from_bytes x now b mtime ca)\<lparr>crl_mtime := m\<rparr>\<rparr>"
    "crl_in_force x ca (env\<lparr>ce_disk := ReadBytes b mtime', ce_shared := load_crl_from_bytes x now b mtime ca\<rparr>)"
  using load_crl_from_bytes_cases [of x now b mtime ca] assms by (auto simp: crl_in_force_def)

lemma refresh_in_force: "crl_in_force x ca env \<Longrightarrow> crl_in_force x ca (snd (refresh_crl x now fetch wr ca env))"
  using refresh_crl_cases [of x now fetch wr ca env] loaded_in_force(1) by fastforce

lemma startup_crl_in_force:
  assumes fresh: "ce_disk env \<in> {NotFound, ReadError} \<Longrightarrow> crl_in_force x ca env"
    and run: "startup_crl x now has_manager fetch wr ca env = Some env'"
  shows "crl_in_force x ca env'"
proof (cases "ce_disk env")
  case (ReadBytes b mtime)
  let ?crl = "load_crl_from_bytes x now b mtime ca"
  have st: "cs_status ?crl \<in> {CrlValid, CrlExpired}"
    using run load_crl_from_bytes_status [of x now b mtime ca] by (auto simp: startup_crl_def ReadBytes load_crl_def Let_def)
  then have "crl_in_force x ca (env\<lparr>ce_shared := ?crl\<rparr>)"
    using loaded_in_force(2) [where x = x and now = now and ca = ca and b = b and mtime = mtime and mtime' = mtime and env = env] ReadBytes by (cases env) auto
  then show ?thesis
    using run st refresh_in_force by (auto simp: startup_crl_def ReadBytes load_crl_def Let_def split: if_splits)
qed (use run fresh refresh_in_force in \<open>auto simp: startup_crl_def load_crl_def empty_crl_state_def split: if_splits\<close>)

lemma startup_crl_missing:
  assumes "cs_status (ce_shared env') = CrlMissing" and "startup_crl x now has_manager fetch wr ca env = Some env'"
  shows "ce_disk env \<in> {NotFound, ReadError} \<and> ce_disk env' = ce_disk env"
proof (cases "ce_disk env")
  case (ReadBytes b mtime)
  let ?crl = "load_crl_from_bytes x now b mtime ca"
  have "cs_status (ce_shared (snd (refresh_crl x now fetch wr ca (env\<lparr>ce_shared := ?crl\<rparr>)))) \<noteq> CrlMissing"
    if "cs_status ?crl = CrlExpired"
    using refresh_crl_cases [of x now fetch wr ca "env\<lparr>ce_shared := ?crl\<rparr>"] that load_crl_from_bytes_status
    by (fastforce dest: arg_cong [where f = snd])
  then show ?thesis
    using assms load_crl_from_bytes_status [of x now b mtime ca]
    by (auto simp: startup_crl_def ReadBytes load_crl_def Let_def split: if_splits)
next
  case NotFound
  then show ?thesis
    using assms refresh_crl_cases [of x now fetch wr ca env] load_crl_from_bytes_status
    by (fastforce simp: startup_crl_def load_crl_def empty_crl_state_def Let_def split: if_splits)
next
  case ReadError
  then show ?thesis using assms by (auto simp: startup_crl_def load_crl_def empty_crl_state_def)
qed

section \<open>Properties\<close>


definition demo_x509 :: "(unit, unit) x509" where
  "demo_x509 = \<lparr>x_parse_crl = (\<lambda>s. if s = ''crl'' then Some ([255, 4096], Some 100, ()) else None),
     x_parse_cert = (\<lambda>s. if s = ''ca'' then Some (1, ()) else if s = ''good'' then Some (7, ())
                        else if s = ''bad'' then Some (4096, ()) else None),
     x_verify = (\<lambda>_ _. True), x_base64 = (\<lambda>_. None)\<rparr>"

lemma demo_extract: "extract_pem_crl_der demo_x509 s = None" "extract_pem_cert_der demo_x509 s = None"
  by (simp_all add: extract_pem_crl_der_def extract_pem_cert_der_def extract_pem_def demo_x509_def Let_def
      split: option.splits)

text \<open>C27: a refresh never destroys a good CRL. Whatever the network delivers and whichever file
  operation fails, a refresh that reports an error leaves the CRL in memory and the file on disk as
  they were; one that succeeds leaves both equal to a CRL the CA signed, so the next start loads from
  disk exactly the revocations in memory.\<close>

theorem refresh_crl_atomic:
  "case refresh_crl x now fetch wr ca env of
     (Inl e, env') \<Rightarrow> env' = env
   | (Inr u, env') \<Rightarrow> \<exists>pem mtime serials nu. fetch = Body pem \<and> ce_disk env' = ReadBytes pem mtime \<and>
       signed_by_ca x ca pem serials nu \<and>
       revoked_serials (ce_shared env') = map format_serial_hex serials \<and>
       revoked_serials (load_crl x now' (ce_disk env') ca) = revoked_serials (ce_shared env') \<and>
       cs_status (ce_shared env') \<noteq> CrlInvalid"
proof -
  from refresh_crl_cases [of x now fetch wr ca env] show ?thesis
  proof
    assume "\<exists>pem mtime. fetch = Body pem \<and> wr = CrlWritten mtime \<and>
      cs_status (load_crl_from_bytes x now pem None ca) \<noteq> CrlInvalid \<and>
      refresh_crl x now fetch wr ca env =
        (Inr (), \<lparr>ce_disk = ReadBytes pem mtime,
                 ce_shared = (load_crl_from_bytes x now pem None ca)\<lparr>crl_mtime := mtime\<rparr>\<rparr>)"
    then obtain pem mtime where p: "fetch = Body pem"
      "cs_status (load_crl_from_bytes x now pem None ca) \<noteq> CrlInvalid"
      "refresh_crl x now fetch wr ca env =
        (Inr (), \<lparr>ce_disk = ReadBytes pem mtime,
                 ce_shared = (load_crl_from_bytes x now pem None ca)\<lparr>crl_mtime := mtime\<rparr>\<rparr>)" by blast
    obtain serials nu where s: "signed_by_ca x ca pem serials nu"
      "revoked_serials (load_crl_from_bytes x now pem None ca) = map format_serial_hex serials"
      using load_crl_from_bytes_cases [of x now pem None ca] p(2) by blast
    have "revoked_serials (load_crl_from_bytes x now' pem mtime ca) = map format_serial_hex serials"
      using load_crl_from_bytes_cases [of x now' pem mtime ca] s(1) by (auto simp: signed_by_ca_def)
    with p s show ?thesis by (auto simp: load_crl_def)
  qed auto
qed

theorem refresh_crl_atomic_witness:
  "snd (refresh_crl demo_x509 50 (Body ''junk'') (CrlWritten None) ''ca''
      \<lparr>ce_disk = ReadBytes ''crl'' None, ce_shared = new_shared_state 0\<rparr>)
   = \<lparr>ce_disk = ReadBytes ''crl'' None, ce_shared = new_shared_state 0\<rparr>"
proof -
  let ?r = "refresh_crl demo_x509 50 (Body ''junk'') (CrlWritten None) ''ca''
      \<lparr>ce_disk = ReadBytes ''crl'' None, ce_shared = new_shared_state 0\<rparr>"
  have "\<not> Ex (signed_by_ca demo_x509 ''ca'' ''junk'' serials)" for serials
    unfolding signed_by_ca_def demo_extract by (simp add: demo_x509_def opt_or_def)
  then show ?thesis
    using refresh_crl_atomic [where now' = 0 and x = demo_x509 and now = 50 and fetch = "Body ''junk''"
      and wr = "CrlWritten None" and ca = "''ca''"
      and env = "\<lparr>ce_disk = ReadBytes ''crl'' None, ce_shared = new_shared_state 0\<rparr>"]
    by (cases "fst ?r"; cases ?r) auto
qed

text \<open>The retry schedule. The documentation promises retries with backoff before the 12-hour
  interval resumes; in the loop every backoff delay is followed by a full interval. So after any
  failed fetch the next one comes 12 hours and the delay later, and one failure, at hour 12, already
  moves the next fetch past the 24 hours for which a CRL is valid.\<close>

theorem refresh_retry_gap:
  "refresh_loop t retry_idx (False # ok # oks) ! 1 =
     refresh_loop t retry_idx (False # ok # oks) ! 0 +
       backoff_schedule ! min retry_idx (length backoff_schedule - 1) + crl_interval \<and>
   refresh_loop 0 0 [False, True] = [12 * 60 * 60, 24 * 60 * 60 + 60]"
  by (simp add: crl_interval_def backoff_schedule_def Let_def)

text \<open>C28: the agent starts with no CRL that failed verification. The process exits exactly when there is a file that can be read
  and the CA did not sign it. Otherwise what is in force is one of two things: the revocations, all of them, of a file
  that the CA signed and that is on disk, under the status \<open>valid\<close> or \<open>expired\<close>; or nothing, under the status \<open>missing\<close>, and that
  only when the file was missing or unreadable and stayed as it was.\<close>

theorem startup_crl_fail_closed:
  assumes init: "ce_shared env = new_shared_state t0"
  shows "case startup_crl x now has_manager fetch wr ca env of
      None \<Rightarrow> (\<exists>b mtime. ce_disk env = ReadBytes b mtime \<and> (\<nexists>serials nu. signed_by_ca x ca b serials nu))
    | Some env' \<Rightarrow>
        (\<nexists>b mtime. ce_disk env = ReadBytes b mtime \<and> (\<nexists>serials nu. signed_by_ca x ca b serials nu)) \<and>
        ((cs_status (ce_shared env') \<in> {CrlValid, CrlExpired} \<and>
          (\<exists>b mtime serials nu. ce_disk env' = ReadBytes b mtime \<and> signed_by_ca x ca b serials nu \<and>
             revoked_serials (ce_shared env') = map format_serial_hex serials)) \<or>
         (cs_status (ce_shared env') = CrlMissing \<and> revoked_serials (ce_shared env') = [] \<and>
          ce_disk env \<in> {NotFound, ReadError} \<and> ce_disk env' = ce_disk env))"
proof (cases "startup_crl x now has_manager fetch wr ca env")
  case None
  then show ?thesis using startup_crl_refuses [OF None] by simp
next
  case (Some env')
  have unsigned: False if "ce_disk env = ReadBytes b mtime" "\<nexists>serials nu. signed_by_ca x ca b serials nu" for b mtime
    using startup_crl_exits [OF that] Some by simp
  have fresh: "crl_in_force x ca env" if "ce_disk env \<in> {NotFound, ReadError}"
    using that by (auto simp: crl_in_force_def init new_shared_state_def empty_crl_state_def)
  show ?thesis
    using startup_crl_in_force [OF fresh Some] startup_crl_missing [OF _ Some] unsigned
    unfolding Some option.case crl_in_force_def by (cases "ce_disk env") blast+
qed

theorem startup_crl_fail_closed_witness:
  "case startup_crl demo_x509 50 False (SendError ''x'') MkdirFails ''ca''
      \<lparr>ce_disk = ReadBytes ''crl'' None, ce_shared = new_shared_state 0\<rparr> of
     None \<Rightarrow> False | Some env' \<Rightarrow> cs_status (ce_shared env') \<in> {CrlValid, CrlExpired}"
proof -
  have sig: "signed_by_ca demo_x509 ''ca'' ''crl'' [255, 4096] (Some 100)"
    unfolding signed_by_ca_def demo_extract by (simp add: demo_x509_def opt_or_def)
  show ?thesis
    using startup_crl_fail_closed [where env = "\<lparr>ce_disk = ReadBytes ''crl'' None, ce_shared = new_shared_state 0\<rparr>"
        and x = demo_x509 and now = 50 and has_manager = False and fetch = "SendError ''x''"
        and wr = MkdirFails and ca = "''ca''", of 0] sig
    by (auto split: option.splits)
qed

end
