(* ===== verification/Mtls.thy ===== *)
theory Mtls imports Crl Config begin

text \<open>
  \<open>src/auth/mtls.rs\<close>: the verifier that puts the revocation check around the one of rustls, reading the
  certificate files, and building the TLS configuration of the server.

  A \<open>dyn ClientCertVerifier\<close> is a record with one field per method of the trait. What the crates rustls and
  rustls_pemfile do is in the record \<open>rustls_crates\<close>, which extends the one the certificate check uses.
  The shared CRL state is read again at every handshake, so the verifier of a server is a function of it.
\<close>

section \<open>Verifiers\<close>

record client_verifier =
  cv_offer_client_auth :: bool
  cv_client_auth_mandatory :: bool
  cv_root_hint_subjects :: "string list"
  cv_verify_client_cert :: "string \<Rightarrow> string list \<Rightarrow> int \<Rightarrow> (rustls_error, unit) result"
  cv_verify_tls12_signature :: "string \<Rightarrow> string \<Rightarrow> string \<Rightarrow> (rustls_error, unit) result"
  cv_verify_tls13_signature :: "string \<Rightarrow> string \<Rightarrow> string \<Rightarrow> (rustls_error, unit) result"
  cv_supported_verify_schemes :: "string list"

definition crl_aware_verifier :: "('sig, 'key) x509 \<Rightarrow> client_verifier \<Rightarrow> crl_state \<Rightarrow> client_verifier" where
  "crl_aware_verifier x inner crl =
     \<lparr>cv_offer_client_auth = cv_offer_client_auth inner,
      cv_client_auth_mandatory = cv_client_auth_mandatory inner,
      cv_root_hint_subjects = cv_root_hint_subjects inner,
      cv_verify_client_cert = (\<lambda>end_entity intermediates now.
        verify_client_cert x (\<lambda>c. cv_verify_client_cert inner c intermediates now) crl end_entity),
      cv_verify_tls12_signature = cv_verify_tls12_signature inner,
      cv_verify_tls13_signature = cv_verify_tls13_signature inner,
      cv_supported_verify_schemes = cv_supported_verify_schemes inner\<rparr>"

section \<open>Errors and crates\<close>

datatype mtls_error =
    IoError string
  | ParseError string
  | StoreError string
  | ClientVerifierError string
  | ServerConfigError string
  | ValidationError string

fun mtls_error_text :: "mtls_error \<Rightarrow> string" where
  "mtls_error_text (IoError e) = ''IO error: '' @ e"
| "mtls_error_text (ParseError e) = ''Parse error: '' @ e"
| "mtls_error_text (StoreError e) = ''Certificate store error: '' @ e"
| "mtls_error_text (ClientVerifierError e) = ''Client verifier error: '' @ e"
| "mtls_error_text (ServerConfigError e) = ''Server config error: '' @ e"
| "mtls_error_text (ValidationError e) = ''Certificate validation error: '' @ e"

text \<open>\<open>RootCertStore::add\<close>, \<open>WebPkiClientVerifier::builder(..).build()\<close>, \<open>with_protocol_versions\<close> of TLS 1.3
  and the error of \<open>with_single_cert\<close>, for certificates it does not accept.\<close>

record 'key rustls_crates = "(string, 'key) cert_crates" +
  rx_add_root :: "string \<Rightarrow> (string, unit) result"
  rx_build_verifier :: "string list \<Rightarrow> (string, client_verifier) result"
  rx_tls13 :: "(string, unit) result"
  rx_single_cert_error :: "string list \<Rightarrow> 'key \<Rightarrow> string"

section \<open>Reading the files\<close>

type_synonym 'a mtls_io = "fs \<Rightarrow> (mtls_error, 'a) result \<times> fs"

definition mtls_then :: "'a mtls_io \<Rightarrow> ('a \<Rightarrow> 'b mtls_io) \<Rightarrow> 'b mtls_io" where
  "mtls_then m f s = (case m s of (Inl e, s1) \<Rightarrow> (Inl e, s1) | (Inr a, s1) \<Rightarrow> f a s1)"

text \<open>\<open>File::open\<close> and the parse of what it gives.\<close>

definition read_pem :: "string \<Rightarrow> string \<Rightarrow> (string \<Rightarrow> (string, 'a) result) \<Rightarrow> string \<Rightarrow> 'a mtls_io" where
  "read_pem what parse_msg parse path s =
     (case io_call (\<lambda>s. case file_at s path of None \<Rightarrow> Err ''No such file or directory''
                                             | Some (c, _) \<Rightarrow> Ok (c, s)) s of
        (Inl e, s1) \<Rightarrow> (Err (IoError (''Failed to open '' @ what @ '' '' @ path @ '': '' @ error_to_string e)), s1)
      | (Inr c, s1) \<Rightarrow> (case parse c of
            Inl e \<Rightarrow> (Err (ParseError (parse_msg @ '': '' @ e)), s1)
          | Inr a \<Rightarrow> (Ok a, s1)))"

fun add_roots :: "(string \<Rightarrow> (string, unit) result) \<Rightarrow> string list \<Rightarrow> string list \<Rightarrow> (mtls_error, string list) result" where
  "add_roots add store [] = Ok store"
| "add_roots add store (cert # certs) =
     (case add cert of
        Inl e \<Rightarrow> Err (StoreError (''Failed to add CA cert to store: '' @ e))
      | Inr _ \<Rightarrow> add_roots add (store @ [cert]) certs)"

definition load_ca_certs :: "'key rustls_crates \<Rightarrow> string \<Rightarrow> string list mtls_io" where
  "load_ca_certs rx path =
     mtls_then (read_pem ''CA cert'' ''Failed to parse CA certs'' (cc_certs rx) path)
       (\<lambda>certs s. (add_roots (rx_add_root rx) [] certs, s))"

definition load_certs :: "'key rustls_crates \<Rightarrow> string \<Rightarrow> string list mtls_io" where
  "load_certs rx path = read_pem ''cert'' ''Failed to parse server certs'' (cc_certs rx) path"

definition load_private_key :: "'key rustls_crates \<Rightarrow> string \<Rightarrow> 'key mtls_io" where
  "load_private_key rx path =
     mtls_then (read_pem ''key'' ''Failed to parse private key'' (cc_key rx) path)
       (\<lambda>key s. (case key of None \<Rightarrow> Err (ParseError ''No private key found in file'') | Some k \<Rightarrow> Ok k, s))"

section \<open>The server's configuration\<close>

record mtls_config =
  mc_ca_cert_path :: string
  mc_server_cert_path :: string
  mc_server_key_path :: string

definition mtls_config_of :: "tls_config \<Rightarrow> mtls_config" where
  "mtls_config_of t =
     \<lparr>mc_ca_cert_path = tc_ca_cert t, mc_server_cert_path = tc_server_cert t, mc_server_key_path = tc_server_key t\<rparr>"

datatype protocol_version = TLS12 | TLS13

record 'key rustls_config =
  rc_versions :: "protocol_version list"
  rc_client_verifier :: "crl_state \<Rightarrow> client_verifier"
  rc_cert_chain :: "string list"
  rc_key :: 'key

definition server_config ::
    "'key rustls_crates \<Rightarrow> (crl_state \<Rightarrow> client_verifier) \<Rightarrow> string list \<Rightarrow> 'key
     \<Rightarrow> (mtls_error, 'key rustls_config) result" where
  "server_config rx client_verifier server_cert server_key =
     (case rx_tls13 rx of
        Inl e \<Rightarrow> Err (ServerConfigError (''Failed to set TLS 1.3 only: '' @ e))
      | Inr _ \<Rightarrow>
          if cc_single_cert rx server_cert server_key
          then Ok \<lparr>rc_versions = [TLS13], rc_client_verifier = client_verifier,
                   rc_cert_chain = server_cert, rc_key = server_key\<rparr>
          else Err (ServerConfigError (rx_single_cert_error rx server_cert server_key)))"

text \<open>\<open>with_crl\<close>: a shared CRL state was given.\<close>

definition build_rustls_config ::
    "('sig, 'pub) x509 \<Rightarrow> 'key rustls_crates \<Rightarrow> mtls_config \<Rightarrow> bool \<Rightarrow> 'key rustls_config mtls_io" where
  "build_rustls_config x rx config with_crl =
     mtls_then (load_ca_certs rx (mc_ca_cert_path config)) (\<lambda>cert_store.
       case rx_build_verifier rx cert_store of
         Inl e \<Rightarrow> (\<lambda>s. (Err (ClientVerifierError e), s))
       | Inr webpki_verifier \<Rightarrow>
           (let client_verifier = (if with_crl then crl_aware_verifier x webpki_verifier else (\<lambda>_. webpki_verifier)) in
            mtls_then (load_certs rx (mc_server_cert_path config)) (\<lambda>server_cert.
            mtls_then (load_private_key rx (mc_server_key_path config)) (\<lambda>server_key s.
              (server_config rx client_verifier server_cert server_key, s)))))"

section \<open>Handshakes\<close>

text \<open>What a client sends in a handshake of TLS 1.3, and what rustls documents of a server that accepts it: with a
  verifier that offers and requires client authentication, a certificate was presented, the verifier accepted it
  together with its intermediates, and it accepted the signature over the handshake made with the certificate's key.\<close>

record client_hello =
  ch_certificate :: "(string \<times> string list) option"
  ch_message :: string
  ch_signature :: string

definition rustls_contract :: "(client_verifier \<Rightarrow> int \<Rightarrow> client_hello \<Rightarrow> bool) \<Rightarrow> bool" where
  "rustls_contract handshake \<longleftrightarrow>
     (\<forall>v now h. handshake v now h \<longrightarrow> cv_offer_client_auth v \<and> cv_client_auth_mandatory v \<longrightarrow>
        (\<exists>ee ints. ch_certificate h = Some (ee, ints) \<and> is_ok (cv_verify_client_cert v ee ints now) \<and>
           is_ok (cv_verify_tls13_signature v (ch_message h) ee (ch_signature h))))"

text \<open>\<open>WebPkiClientVerifier\<close> requires client authentication unless its builder is told otherwise.\<close>

definition webpki_contract :: "'key rustls_crates \<Rightarrow> bool" where
  "webpki_contract rx \<longleftrightarrow>
     (\<forall>roots v. rx_build_verifier rx roots = Ok v \<longrightarrow> cv_offer_client_auth v \<and> cv_client_auth_mandatory v)"

section \<open>Lemmas\<close>

lemma mtls_then_OkE:
  assumes "mtls_then m f s = (Inr b, s')"
  obtains a s1 where "m s = (Inr a, s1)" "f a s1 = (Inr b, s')"
  using assms by (auto simp: mtls_then_def split: prod.splits sum.splits)

lemma mtls_then_Ok: "m s = (Inr a, s1) \<Longrightarrow> mtls_then m f s = f a s1"
  by (simp add: mtls_then_def)

lemma read_pem_Ok:
  assumes "read_pem what msg parse path s = (Inr a, s')"
  shows "\<exists>c m. file_at s path = Some (c, m) \<and> parse c = Inr a" and "fs_files s' = fs_files s"
  using assms by (auto simp: read_pem_def io_call_def Let_def split: sum.splits option.splits prod.splits)

lemma read_pem_ready:
  assumes "\<And>n. fs_fault s n = None" and "file_at s path = Some (c, m)" and "parse c = Inr a"
  shows "read_pem what msg parse path s = (Inr a, s\<lparr>fs_calls := Suc (fs_calls s)\<rparr>)"
  using assms by (simp add: read_pem_def io_call_def Let_def)

lemma add_roots_Ok:
  "add_roots add store certs = Inr r \<longleftrightarrow> (\<forall>c \<in> set certs. is_ok (add c)) \<and> r = store @ certs"
proof (induction certs arbitrary: store)
  case (Cons c cs)
  then show ?case by (cases "add c") (auto simp: is_ok_def)
qed auto

lemma load_ca_certs_Ok:
  assumes "load_ca_certs rx path s = (Inr roots, s')"
  shows "\<exists>c m. file_at s path = Some (c, m) \<and> cc_certs rx c = Inr roots" "\<forall>c \<in> set roots. is_ok (rx_add_root rx c)"
    "fs_files s' = fs_files s"
proof -
  from assms obtain certs s1
    where r: "read_pem ''CA cert'' ''Failed to parse CA certs'' (cc_certs rx) path s = (Inr certs, s1)"
      and f: "(add_roots (rx_add_root rx) [] certs, s1) = (Inr roots, s')"
    unfolding load_ca_certs_def by (rule mtls_then_OkE)
  from f have "roots = certs" "s1 = s'" "\<forall>c \<in> set roots. is_ok (rx_add_root rx c)" by (simp_all add: add_roots_Ok)
  with read_pem_Ok [OF r]
  show "\<exists>c m. file_at s path = Some (c, m) \<and> cc_certs rx c = Inr roots" "\<forall>c \<in> set roots. is_ok (rx_add_root rx c)"
    "fs_files s' = fs_files s" by blast+
qed

lemma load_private_key_Ok:
  assumes "load_private_key rx path s = (Inr k, s')"
  shows "\<exists>c m. file_at s path = Some (c, m) \<and> cc_key rx c = Inr (Some k)" "fs_files s' = fs_files s"
proof -
  from assms obtain key s1
    where r: "read_pem ''key'' ''Failed to parse private key'' (cc_key rx) path s = (Inr key, s1)"
      and f: "(case key of None \<Rightarrow> Err (ParseError ''No private key found in file'') | Some k \<Rightarrow> Ok k, s1) = (Inr k, s')"
    unfolding load_private_key_def by (rule mtls_then_OkE)
  from f have "key = Some k" "s1 = s'" by (auto split: option.splits)
  with read_pem_Ok [OF r]
  show "\<exists>c m. file_at s path = Some (c, m) \<and> cc_key rx c = Inr (Some k)" "fs_files s' = fs_files s" by blast+
qed

lemma build_rustls_config_Ok:
  assumes "build_rustls_config x rx config with_crl s = (Inr tls, s')"
  shows "\<exists>ca m roots webpki. file_at s (mc_ca_cert_path config) = Some (ca, m) \<and> cc_certs rx ca = Inr roots \<and>
      (\<forall>c \<in> set roots. is_ok (rx_add_root rx c)) \<and> rx_build_verifier rx roots = Inr webpki \<and>
      rc_client_verifier tls = (if with_crl then crl_aware_verifier x webpki else (\<lambda>_. webpki))"
    and "\<exists>c m. file_at s (mc_server_cert_path config) = Some (c, m) \<and> cc_certs rx c = Inr (rc_cert_chain tls)"
    and "\<exists>c m. file_at s (mc_server_key_path config) = Some (c, m) \<and> cc_key rx c = Inr (Some (rc_key tls))"
    and "cc_single_cert rx (rc_cert_chain tls) (rc_key tls)" and "rc_versions tls = [TLS13]"
    and "fs_files s' = fs_files s"
proof -
  from assms [unfolded build_rustls_config_def] obtain roots s1 webpki
    where l: "load_ca_certs rx (mc_ca_cert_path config) s = (Inr roots, s1)"
      and b: "rx_build_verifier rx roots = Inr webpki"
      and r: "mtls_then (load_certs rx (mc_server_cert_path config)) (\<lambda>server_cert.
         mtls_then (load_private_key rx (mc_server_key_path config)) (\<lambda>server_key s.
           (server_config rx (if with_crl then crl_aware_verifier x webpki else (\<lambda>_. webpki)) server_cert server_key, s)))
         s1 = (Inr tls, s')"
    by (rule mtls_then_OkE) (auto simp: Let_def split: sum.splits)
  from r obtain chain s2 where c: "load_certs rx (mc_server_cert_path config) s1 = (Inr chain, s2)"
    and c0: "mtls_then (load_private_key rx (mc_server_key_path config)) (\<lambda>server_key s.
       (server_config rx (if with_crl then crl_aware_verifier x webpki else (\<lambda>_. webpki)) chain server_key, s)) s2 = (Inr tls, s')"
    by (rule mtls_then_OkE)
  from c0 obtain key where k: "load_private_key rx (mc_server_key_path config) s2 = (Inr key, s')"
    and t: "tls = \<lparr>rc_versions = [TLS13], rc_client_verifier = (if with_crl then crl_aware_verifier x webpki else (\<lambda>_. webpki)),
                   rc_cert_chain = chain, rc_key = key\<rparr>"
    and sc: "cc_single_cert rx chain key"
    by (rule mtls_then_OkE) (auto simp: server_config_def split: sum.splits if_splits)
  note files = load_ca_certs_Ok [OF l] read_pem_Ok [OF c [unfolded load_certs_def]] load_private_key_Ok [OF k]
  have same: "file_at s1 p = file_at s p" "file_at s2 p = file_at s p" for p
    using files(3) files(5) by (simp_all add: file_at_def)
  show "\<exists>ca m roots webpki. file_at s (mc_ca_cert_path config) = Some (ca, m) \<and> cc_certs rx ca = Inr roots \<and>
      (\<forall>c \<in> set roots. is_ok (rx_add_root rx c)) \<and> rx_build_verifier rx roots = Inr webpki \<and>
      rc_client_verifier tls = (if with_crl then crl_aware_verifier x webpki else (\<lambda>_. webpki))"
    using files(1,2) b by (auto simp: t)
  show "\<exists>c m. file_at s (mc_server_cert_path config) = Some (c, m) \<and> cc_certs rx c = Inr (rc_cert_chain tls)"
    using files(4) by (simp add: t same)
  show "\<exists>c m. file_at s (mc_server_key_path config) = Some (c, m) \<and> cc_key rx c = Inr (Some (rc_key tls))"
    using files(6) by (simp add: t same)
  show "cc_single_cert rx (rc_cert_chain tls) (rc_key tls)" "rc_versions tls = [TLS13]" "fs_files s' = fs_files s"
    using sc files(3,5,7) by (simp_all add: t)
qed

text \<open>The revocation part of the verifier, for any CRL state.\<close>

lemma crl_aware_accepts:
  "is_ok (cv_verify_client_cert (crl_aware_verifier x inner crl) ee ints now) \<longleftrightarrow>
     is_ok (cv_verify_client_cert inner ee ints now) \<and> cs_status crl \<noteq> CrlInvalid \<and>
     (cs_status crl = CrlValid \<or> cs_status crl = CrlExpired \<longrightarrow>
        (case cert_serial_hex x ee of Some h \<Rightarrow> \<not> is_revoked crl h | None \<Rightarrow> True))"
  by (cases "cv_verify_client_cert inner ee ints now"; cases "cs_status crl")
    (auto simp: crl_aware_verifier_def verify_client_cert_def is_ok_def split: option.splits)

lemma crl_aware_keeps [simp]:
  "cv_offer_client_auth (crl_aware_verifier x inner crl) = cv_offer_client_auth inner"
  "cv_client_auth_mandatory (crl_aware_verifier x inner crl) = cv_client_auth_mandatory inner"
  "cv_verify_tls13_signature (crl_aware_verifier x inner crl) = cv_verify_tls13_signature inner"
  by (simp_all add: crl_aware_verifier_def)

text \<open>The converse, for a store whose calls succeed.\<close>

lemma build_rustls_config_ready:
  assumes ok: "\<And>n. fs_fault s n = None"
    and ca: "file_at s (mc_ca_cert_path config) = Some (ca, m1)" "cc_certs rx ca = Inr roots"
      "\<forall>c \<in> set roots. is_ok (rx_add_root rx c)" "rx_build_verifier rx roots = Inr webpki"
    and chain: "file_at s (mc_server_cert_path config) = Some (c, m2)" "cc_certs rx c = Inr servers"
    and key: "file_at s (mc_server_key_path config) = Some (k, m3)" "cc_key rx k = Inr (Some key)"
    and accepts: "is_ok (rx_tls13 rx)" "cc_single_cert rx servers key"
  shows "\<exists>tls s'. build_rustls_config x rx config with_crl s = (Inr tls, s')"
proof -
  let ?s1 = "s\<lparr>fs_calls := Suc (fs_calls s)\<rparr>" and ?s2 = "s\<lparr>fs_calls := Suc (Suc (fs_calls s))\<rparr>"
  have l: "load_ca_certs rx (mc_ca_cert_path config) s = (Inr roots, ?s1)"
    using read_pem_ready [OF ok ca(1), of "cc_certs rx"] ca(2) ca(3) by (simp add: load_ca_certs_def mtls_then_Ok add_roots_Ok)
  have c: "load_certs rx (mc_server_cert_path config) ?s1 = (Inr servers, ?s2)"
    using read_pem_ready [of ?s1 _ c m2 "cc_certs rx" servers] ok chain by (simp add: load_certs_def)
  have k: "\<exists>s3. load_private_key rx (mc_server_key_path config) ?s2 = (Inr key, s3)"
    using read_pem_ready [of ?s2 _ k m3 "cc_key rx" "Some key"] ok key by (simp add: load_private_key_def mtls_then_Ok)
  from k accepts show ?thesis
    by (auto simp: build_rustls_config_def mtls_then_def l c ca(4) Let_def
        server_config_def is_ok_def split: sum.splits)
qed

lemma handshake_facts:
  assumes built: "build_rustls_config x rx config True s = (Ok tls, s1)"
    and crates: "rustls_contract handshake" "webpki_contract rx"
    and accepted: "handshake (rc_client_verifier tls crl) now hello"
  shows "rc_versions tls = [TLS13] \<and>
    (\<exists>ca m roots webpki ee ints.
       file_at s (mc_ca_cert_path config) = Some (ca, m) \<and> cc_certs rx ca = Ok roots \<and>
       rx_build_verifier rx roots = Ok webpki \<and> ch_certificate hello = Some (ee, ints) \<and>
       is_ok (cv_verify_client_cert webpki ee ints now) \<and>
       is_ok (cv_verify_tls13_signature webpki (ch_message hello) ee (ch_signature hello)) \<and>
       cs_status crl \<noteq> CrlInvalid \<and>
       (\<forall>serial key. cs_status crl \<in> {CrlValid, CrlExpired} \<and> x_parse_cert x ee = Some (serial, key) \<longrightarrow>
          format_serial_hex serial \<notin> set (revoked_serials crl)))"
proof -
  obtain ca m roots webpki where b: "file_at s (mc_ca_cert_path config) = Some (ca, m)" "cc_certs rx ca = Inr roots"
    "rx_build_verifier rx roots = Inr webpki" "rc_client_verifier tls = crl_aware_verifier x webpki"
    using build_rustls_config_Ok(1) [OF built] by auto
  have req: "cv_offer_client_auth webpki \<and> cv_client_auth_mandatory webpki"
    using crates(2) b(3) unfolding webpki_contract_def by blast
  obtain ee ints where h: "ch_certificate hello = Some (ee, ints)"
    "is_ok (cv_verify_client_cert (crl_aware_verifier x webpki crl) ee ints now)"
    "is_ok (cv_verify_tls13_signature webpki (ch_message hello) ee (ch_signature hello))"
    using crates(1) accepted req unfolding rustls_contract_def b(4) by fastforce
  then show ?thesis
    using b(1-3) build_rustls_config_Ok(5) [OF built]
    by (auto simp: crl_aware_accepts cert_serial_hex_def is_revoked_def)
qed

section \<open>Properties\<close>

definition demo_webpki :: client_verifier where
  "demo_webpki =
     \<lparr>cv_offer_client_auth = True, cv_client_auth_mandatory = True, cv_root_hint_subjects = [''CA''],
      cv_verify_client_cert = (\<lambda>ee ints now. if ee = ''good'' \<or> ee = ''bad'' then Ok () else Err (OtherTlsError ''UnknownIssuer'')),
      cv_verify_tls12_signature = (\<lambda>m c sig. Err (OtherTlsError ''BadSignature'')),
      cv_verify_tls13_signature = (\<lambda>m c sig. if sig = c @ m then Ok () else Err (OtherTlsError ''BadSignature'')),
      cv_supported_verify_schemes = [''ED25519'']\<rparr>"

definition demo_rustls :: "string rustls_crates" where
  "demo_rustls =
     \<lparr>cc_certs = (\<lambda>t. Ok [t]), cc_key = (\<lambda>t. Ok (Some t)),
      cc_x509 = (\<lambda>d. Ok \<lparr>xv_not_after = 2000000000, xv_issuer = ''CA'', xv_subject = ''CA''\<rparr>),
      cc_tls13 = True, cc_single_cert = (\<lambda>ds k. ds = [''B''] \<and> k = ''K''),
      rx_add_root = (\<lambda>_. Ok ()), rx_build_verifier = (\<lambda>_. Ok demo_webpki), rx_tls13 = Ok (),
      rx_single_cert_error = (\<lambda>_ _. ''KeyMismatch'')\<rparr>"

definition demo_handshake :: "client_verifier \<Rightarrow> int \<Rightarrow> client_hello \<Rightarrow> bool" where
  "demo_handshake v now h =
     (case ch_certificate h of
        None \<Rightarrow> \<not> cv_client_auth_mandatory v
      | Some (ee, ints) \<Rightarrow> is_ok (cv_verify_client_cert v ee ints now) \<and>
          is_ok (cv_verify_tls13_signature v (ch_message h) ee (ch_signature h)))"

lemma demo_contracts: "rustls_contract demo_handshake" "webpki_contract demo_rustls"
  by (auto simp: rustls_contract_def demo_handshake_def webpki_contract_def demo_rustls_def demo_webpki_def
      split: option.splits)

text \<open>C10: who gets through the handshake. A server whose TLS configuration was built with the shared CRL state speaks
  TLS 1.3 only. Every client it accepts has shown a certificate that the verifier for exactly the certificates of
  the configured CA file accepts, and has signed with its key; the CRL in force at the handshake had not
  failed verification; and when there is one, the serial number of the certificate is not on it.\<close>

theorem tls_clients_authenticated:
  assumes built: "build_rustls_config x rx config True s = (Ok tls, s1)"
    and crates: "rustls_contract handshake" "webpki_contract rx"
    and accepted: "handshake (rc_client_verifier tls crl) now hello"
  shows "rc_versions tls = [TLS13] \<and>
    (\<exists>ca m roots webpki ee ints.
       file_at s (mc_ca_cert_path config) = Some (ca, m) \<and> cc_certs rx ca = Ok roots \<and>
       rx_build_verifier rx roots = Ok webpki \<and> ch_certificate hello = Some (ee, ints) \<and>
       is_ok (cv_verify_client_cert webpki ee ints now) \<and>
       is_ok (cv_verify_tls13_signature webpki (ch_message hello) ee (ch_signature hello)) \<and>
       cs_status crl \<noteq> CrlInvalid \<and>
       (\<forall>serial key. cs_status crl \<in> {CrlValid, CrlExpired} \<and> x_parse_cert x ee = Some (serial, key) \<longrightarrow>
          format_serial_hex serial \<notin> set (revoked_serials crl)))"
  by (rule handshake_facts [OF assms])

theorem tls_clients_authenticated_witness:
  "\<exists>tls s1. build_rustls_config demo_x509 demo_rustls (mtls_config_of (the (ac_tls sample_config))) True sample_store = (Ok tls, s1) \<and>
     rc_versions tls = [TLS13] \<and>
     demo_handshake (rc_client_verifier tls (load_crl_from_bytes demo_x509 50 ''crl'' None ''ca'')) 60
       \<lparr>ch_certificate = Some (''good'', []), ch_message = ''m'', ch_signature = ''goodm''\<rparr> \<and>
     \<not> demo_handshake (rc_client_verifier tls (load_crl_from_bytes demo_x509 50 ''crl'' None ''ca'')) 60
       \<lparr>ch_certificate = Some (''bad'', []), ch_message = ''m'', ch_signature = ''badm''\<rparr>"
proof -
  let ?b = "build_rustls_config demo_x509 demo_rustls (mtls_config_of (the (ac_tls sample_config))) True sample_store"
  let ?crl = "load_crl_from_bytes demo_x509 50 ''crl'' None ''ca''"
  have crl: "?crl = \<lparr>revoked_serials = [''ff'', ''1000''], cs_status = CrlValid, crl_mtime = None, loaded_at = 50, next_update = Some 100\<rparr>"
    by code_simp
  define tls where "tls = \<lparr>rc_versions = [TLS13], rc_client_verifier = crl_aware_verifier demo_x509 demo_webpki,
      rc_cert_chain = [''B''], rc_key = ''K''\<rparr>"
  have "?b = (Inr tls, sample_store\<lparr>fs_calls := 3\<rparr>)"
    by (simp add: tls_def build_rustls_config_def load_ca_certs_def load_certs_def load_private_key_def mtls_then_def read_pem_def
        io_call_def file_at_def server_config_def demo_rustls_def sample_store_def sample_config_def mtls_config_of_def Let_def)
  then obtain s1 where b: "?b = (Inr tls, s1)" "rc_client_verifier tls = crl_aware_verifier demo_x509 demo_webpki"
    by (simp add: tls_def)
  have good: "demo_handshake (rc_client_verifier tls ?crl) 60
       \<lparr>ch_certificate = Some (''good'', []), ch_message = ''m'', ch_signature = ''goodm''\<rparr>"
    unfolding b(2) crl by code_simp
  have bad: "\<not> demo_handshake (rc_client_verifier tls ?crl) 60
       \<lparr>ch_certificate = Some (''bad'', []), ch_message = ''m'', ch_signature = ''badm''\<rparr>"
    unfolding b(2) crl by code_simp
  from tls_clients_authenticated [OF b(1) demo_contracts good] b good bad show ?thesis by blast
qed

text \<open>C14: the certificate check at the start is as strict as the server. When it finds the certificates usable, and the
  files are still there when the server reads them, building the TLS configuration can fail only for the CA
  certificates (rustls refuses one as a trust anchor, or cannot build a verifier from them) or for
  a provider without TLS 1.3.\<close>

theorem checked_certs_build:
  assumes tls: "tls_config_of config = Some t"
    and check: "validate_certs (cert_crates.truncate rx) now config s = (Ok (Some st), s1)"
    and usable: "st = CertValid \<or> (\<exists>u. st = CertExpiringSoon u)"
    and ok: "\<And>n. fs_fault s1 n = None"
  shows "\<exists>ca m roots. file_at s (tc_ca_cert t) = Some (ca, m) \<and> cc_certs rx ca = Ok roots \<and>
    ((\<exists>c \<in> set roots. \<not> is_ok (rx_add_root rx c)) \<or> \<not> is_ok (rx_build_verifier rx roots) \<or> \<not> is_ok (rx_tls13 rx) \<or>
     is_ok (fst (build_rustls_config x rx (mtls_config_of t) True s1)))"
proof -
  let ?cr = "cert_crates.truncate rx"
  have cr: "cc_certs ?cr = cc_certs rx" "cc_key ?cr = cc_key rx" "cc_single_cert ?cr = cc_single_cert rx"
    by (simp_all add: cert_crates.truncate_def)
  from validate_certs_accepts [OF tls check usable] obtain ca m cas c m2 servers k m3 key
    where ca: "file_at s (tc_ca_cert t) = Some (ca, m)" "cc_certs rx ca = Inr cas"
      and servers: "file_at s (tc_server_cert t) = Some (c, m2)" "cc_certs rx c = Inr servers"
      and key: "file_at s (tc_server_key t) = Some (k, m3)" "cc_key rx k = Inr (Some key)"
      and single: "cc_single_cert rx servers key" and same: "fs_files s1 = fs_files s"
    unfolding cr by auto
  note at = file_at_cong [OF same]
  show ?thesis
  proof (intro exI conjI)
    show "file_at s (tc_ca_cert t) = Some (ca, m)" "cc_certs rx ca = Inr cas" by (fact ca)+
    show "(\<exists>c \<in> set cas. \<not> is_ok (rx_add_root rx c)) \<or> \<not> is_ok (rx_build_verifier rx cas) \<or> \<not> is_ok (rx_tls13 rx) \<or>
      is_ok (fst (build_rustls_config x rx (mtls_config_of t) True s1))"
    proof (cases "rx_build_verifier rx cas")
      case (Inr webpki)
      have "(\<forall>c \<in> set cas. is_ok (rx_add_root rx c)) \<Longrightarrow> is_ok (rx_tls13 rx) \<Longrightarrow>
          \<exists>tls s'. build_rustls_config x rx (mtls_config_of t) True s1 = (Inr tls, s')"
        by (rule build_rustls_config_ready [OF ok, where webpki = webpki and roots = cas])
          (use ca servers key single Inr in \<open>auto simp: mtls_config_of_def at\<close>)
      then show ?thesis by fastforce
    qed (simp add: is_ok_def)
  qed
qed

theorem checked_certs_build_witness:
  "is_ok (fst (build_rustls_config demo_x509 demo_rustls (mtls_config_of (the (ac_tls sample_config))) True
     (snd (validate_certs (cert_crates.truncate demo_rustls) 1999999999 sample_config sample_store))))"
proof -
  define v where "v = validate_certs (cert_crates.truncate demo_rustls) 1999999999 sample_config sample_store"
  have "fst v = Ok (Some (CertExpiringSoon 2000000000))" unfolding v_def by code_simp
  then have v: "validate_certs (cert_crates.truncate demo_rustls) 1999999999 sample_config sample_store
      = (Ok (Some (CertExpiringSoon 2000000000)), snd v)"
    unfolding v_def by (metis prod.collapse)
  have t: "tls_config_of sample_config = Some (the (ac_tls sample_config))" by (simp add: tls_config_of_def sample_config_def)
  have ok: "fs_fault (snd v) n = None" for n
    by (simp add: v_def validate_certs_def open_parse_def io_then_def io_context_def io_call_def io_ok_def Let_def file_at_def
        path_exists_def tls_config_of_def sample_config_def sample_store_def demo_rustls_def cert_crates.truncate_def)
  have r: "is_ok (rx_add_root demo_rustls c)" "is_ok (rx_build_verifier demo_rustls cs)" "is_ok (rx_tls13 demo_rustls)" for c cs
    by (simp_all add: demo_rustls_def is_ok_def)
  from checked_certs_build [OF t v _ ok, of demo_x509] r show ?thesis by (auto simp: v_def)
qed

end
