(* ===== verification/Apt.thy ===== *)
theory Apt imports System begin

text \<open>
  The APT backend of \<open>src/packages/mod.rs\<close>: stale locks, the dpkg clean-up around every apt-get call,
  the operations of the \<open>PackageManagerBackend\<close> trait, and the parsers of apt's and dpkg's output.

  A \<open>machine\<close> bundles the runner with what the lock clean-up reads and removes. The process-wide
  mutex is held by one call at a time, so a call is a function on the state of the machine.
\<close>

section \<open>Data\<close>

datatype package_status = Installed | Available | Upgradable | NotInstalled

record package =
  p_name :: string
  p_version :: string
  p_status :: package_status
  p_upgradable :: bool
  p_latest_version :: "string option"
  p_description :: string
  p_dependencies :: "string list"
  p_reverse_dependencies :: "string list"
  p_install_date :: "string option"
  p_size_installed :: "string option"

record package_spec =
  sp_name :: string
  sp_version :: "string option"

record install_options =
  io_force :: bool
  io_no_recommends :: bool

record patch =
  pa_name :: string
  pa_current_version :: string
  pa_available_version :: string
  pa_severity :: string
  pa_description :: string
  pa_cve_ids :: "string list"
  pa_requires_reboot :: bool

section \<open>The machine\<close>

text \<open>What the clean-up sees of an existing lock file: its content if it can be read, the command line of
  a live process (\<open>None\<close>: no \<open>/proc/pid\<close>; \<open>Some None\<close>: not readable), and the answer of \<open>pgrep\<close>.\<close>

record lock_view =
  lv_content :: "string option"
  lv_process :: "nat \<Rightarrow> string option option"
  lv_apt_running :: bool

record 'w machine =
  m_run :: "'w runner"
  m_lock :: "string \<Rightarrow> 'w \<Rightarrow> lock_view option"
  m_remove :: "string \<Rightarrow> 'w \<Rightarrow> 'w"
  m_poisoned :: "string option"   \<comment> \<open>a panic under the process-wide mutex of APT: the text of the \<open>PoisonError\<close>\<close>

definition apt_lock_files :: "string list" where
  "apt_lock_files = [''/var/lib/dpkg/lock-frontend'', ''/var/lib/dpkg/lock'',
     ''/var/cache/apt/archives/lock'', ''/var/lib/apt/lists/lock'']"

definition lock_is_stale :: "lock_view \<Rightarrow> bool" where
  "lock_is_stale v =
     (case lv_content v of
        None \<Rightarrow> False
      | Some content \<Rightarrow>
          (case parse_unsigned 4294967295 (trim content) of
             Some pid \<Rightarrow>
               (case lv_process v pid of
                  None \<Rightarrow> True
                | Some None \<Rightarrow> False
                | Some (Some cmdline) \<Rightarrow>
                    (let c = map (\<lambda>x. if x = CHR 0x00 then CHR '' '' else x) cmdline
                     in \<not> str_contains c ''apt'' \<and> \<not> str_contains c ''dpkg'' \<and> \<not> str_contains c ''apt-get''))
           | None \<Rightarrow> \<not> lv_apt_running v))"

definition cleanup_stale_apt_locks :: "'w machine \<Rightarrow> 'w \<Rightarrow> 'w" where
  "cleanup_stale_apt_locks m w =
     foldl (\<lambda>w path. case m_lock m path w of
              None \<Rightarrow> w
            | Some v \<Rightarrow> if lock_is_stale v then m_remove m path w else w) w apt_lock_files"

section \<open>Commands\<close>

definition run_dpkg :: "'w machine \<Rightarrow> string list \<Rightarrow> 'w \<Rightarrow> (anyhow, string) result \<times> 'w" where
  "run_dpkg m args w = run_command_timed (m_run m) ''dpkg'' args 60 w"

definition run_apt_cli :: "'w machine \<Rightarrow> string list \<Rightarrow> 'w \<Rightarrow> (anyhow, string) result \<times> 'w" where
  "run_apt_cli m args w = run_command_timed (m_run m) ''apt'' args 60 w"

definition run_apt_cache :: "'w machine \<Rightarrow> string list \<Rightarrow> 'w \<Rightarrow> (anyhow, string) result \<times> 'w" where
  "run_apt_cache m args w = run_command_timed (m_run m) ''apt-cache'' args 60 w"

definition ensure_dpkg_clean :: "'w machine \<Rightarrow> 'w \<Rightarrow> (anyhow, unit) result \<times> 'w" where
  "ensure_dpkg_clean m w =
     (case run_dpkg m [''--configure'', ''-a''] (cleanup_stale_apt_locks m w) of
        (Inr _, w1) \<Rightarrow> (Ok (), w1)
      | (Inl e, w1) \<Rightarrow>
          (Err (add_context ''dpkg --configure -a failed: package manager is in a broken state that requires manual intervention'' e), w1))"

definition verify_dpkg_clean :: "'w machine \<Rightarrow> 'w \<Rightarrow> (anyhow, unit) result \<times> 'w" where
  "verify_dpkg_clean m w =
     (case run_dpkg m [''--audit''] w of
        (Inl e, w1) \<Rightarrow> (Err e, w1)
      | (Inr audit, w1) \<Rightarrow>
          if trim audit = [] then (Ok (), w1)
          else (case ensure_dpkg_clean m w1 of
             (Inl e, w2) \<Rightarrow> (Err e, w2)
           | (Inr _, w2) \<Rightarrow>
               (case run_dpkg m [''--audit''] w2 of
                  (Inl e, w3) \<Rightarrow> (Err e, w3)
                | (Inr recheck, w3) \<Rightarrow>
                    if trim recheck = [] then (Ok (), w3)
                    else (Err (anyhow_msg (''dpkg --audit shows half-configured packages after operation and cleanup: ''
                                 @ trim recheck)), w3))))"

definition apt_timeout :: "string list \<Rightarrow> nat" where
  "apt_timeout args = (if args \<noteq> [] \<and> hd args = ''update'' then 300 else 1800)"

definition run_apt_safe :: "'w machine \<Rightarrow> string list \<Rightarrow> 'w \<Rightarrow> (anyhow, string) result \<times> 'w" where
  "run_apt_safe m args w =
     (case m_poisoned m of Some e \<Rightarrow> (Err (anyhow_msg (''apt mutex poisoned: '' @ e)), w) | None \<Rightarrow>
      case ensure_dpkg_clean m w of
        (Inl e, w1) \<Rightarrow> (Err e, w1)
      | (Inr _, w1) \<Rightarrow>
          (case m_run m ''apt-get'' args (Some (apt_timeout args)) w1 of
             (Inl e, w2) \<Rightarrow>
               (Err (add_context ''Failed to execute apt command'' e), snd (ensure_dpkg_clean m w2))
           | (Inr output, w2) \<Rightarrow>
               if \<not> co_success output then
                 (Err (anyhow_new \<lparr>ce_program = ''apt-get'', ce_args = args,
                         ce_exit_code = co_status_code output, ce_stdout = co_stdout output,
                         ce_stderr = co_stderr output, ce_spawn_error = None,
                         ce_timed_out = co_timed_out output\<rparr>),
                  snd (ensure_dpkg_clean m w2))
               else (case verify_dpkg_clean m w2 of
                  (Inl e, w3) \<Rightarrow> (Err e, w3)
                | (Inr _, w3) \<Rightarrow> (Ok (co_stdout output), w3))))"

definition fallback_to_hold_respecting_upgrade :: "'w machine \<Rightarrow> 'w \<Rightarrow> (anyhow, string) result \<times> 'w" where
  "fallback_to_hold_respecting_upgrade m w =
     (let (r, w1) = run_command_timed (m_run m) ''apt-mark'' [''showhold''] 60 w;
          held = trim (case r of Inr out \<Rightarrow> out | Inl _ \<Rightarrow> [])
      in case run_apt_safe m [''upgrade'', ''-y''] w1 of
           (Inl e, w2) \<Rightarrow> (Err e, w2)
         | (Inr _, w2) \<Rightarrow> (Ok held, w2))"

definition held_package_partial_failure :: "string \<Rightarrow> anyhow" where
  "held_package_partial_failure held =
     anyhow_msg (''dist-upgrade blocked by held packages ['' @ held @ ''];''
       @ '' the safe subset was upgraded but the held packages and their entangled dependencies remain unpatched --''
       @ '' manual review required (the post-apply patch scan lists what stayed unpatched)'')"

section \<open>Package operations\<close>

definition spec_arg :: "package_spec \<Rightarrow> string" where
  "spec_arg p = (case sp_version p of Some v \<Rightarrow> sp_name p @ ''='' @ v | None \<Rightarrow> sp_name p)"

definition install_args :: "package_spec list \<Rightarrow> install_options \<Rightarrow> string list" where
  "install_args packages opts =
     [''install'', ''-y''] @ (if io_no_recommends opts then [''--no-install-recommends''] else [])
     @ (if io_force opts then [''--allow-unauthenticated''] else []) @ [''--''] @ map spec_arg packages"

definition unit_result :: "('e, 'a) result \<times> 'w \<Rightarrow> ('e, unit) result \<times> 'w" where
  "unit_result rw = (map_sum id (\<lambda>_. ()) (fst rw), snd rw)"

definition install_packages where
  "install_packages m packages opts w = unit_result (run_apt_safe m (install_args packages opts) w)"

definition update_package where
  "update_package m name w = unit_result (run_apt_safe m [''install'', ''-y'', ''--only-upgrade'', ''--'', name] w)"

definition remove_package where
  "remove_package m name purge w =
     unit_result (run_apt_safe m [if purge then ''purge'' else ''remove'', ''-y'', ''--'', name] w)"

definition held_block :: "string \<Rightarrow> bool" where
  "held_block stderr =
     (str_contains stderr ''held packages were changed'' \<and> str_contains stderr ''--allow-change-held-packages'')"

definition lower_stderr :: "anyhow \<Rightarrow> string" where
  "lower_stderr e = to_lowercase (opt_or (extract_stderr e) [])"

definition patch_args :: "string list option \<Rightarrow> string list" where
  "patch_args packages =
     (case packages of Some pkgs \<Rightarrow> [''install'', ''-y'', ''--''] @ pkgs | None \<Rightarrow> [''dist-upgrade'', ''-y''])"

definition FIX_BROKEN :: "string list" where "FIX_BROKEN = [''-f'', ''install'', ''-y'']"

definition held_fallback where
  "held_fallback m ctx w =
     (case fallback_to_hold_respecting_upgrade m w of
        (Inr held, w1) \<Rightarrow> (Err (held_package_partial_failure held), w1)
      | (Inl e, w1) \<Rightarrow> (Err (add_context ctx e), w1))"

definition retry_upgrade :: "'w machine \<Rightarrow> string list option \<Rightarrow> 'w \<Rightarrow> (anyhow, unit) result \<times> 'w" where
  "retry_upgrade m packages w =
     (case run_apt_safe m FIX_BROKEN w of
        (Inl fix_err, w1) \<Rightarrow>
          (Err (add_context ''fix-broken failed on retry -- dependency issues remain unresolved'' fix_err), w1)
      | (Inr _, w1) \<Rightarrow>
          (case run_apt_safe m (patch_args packages) w1 of
             (Inr _, w2) \<Rightarrow> (Ok (), w2)
           | (Inl retry_err, w2) \<Rightarrow>
               if packages = None \<and> held_block (lower_stderr retry_err)
               then held_fallback m ''held-package fallback (apt-get upgrade) failed on dist-upgrade retry -- blocked by held packages and the fallback upgrade also failed'' w2
               else (Err retry_err, w2)))"

definition upgrade_with_recovery :: "'w machine \<Rightarrow> string list option \<Rightarrow> 'w \<Rightarrow> (anyhow, unit) result \<times> 'w" where
  "upgrade_with_recovery m packages w =
     (case run_apt_safe m (patch_args packages) w of
        (Inr _, w1) \<Rightarrow> (Ok (), w1)
      | (Inl e, w1) \<Rightarrow>
          (let stderr = lower_stderr e in
           if packages = None \<and> held_block stderr
           then held_fallback m ''held-package fallback (apt-get upgrade) failed -- dist-upgrade was blocked by held packages and the fallback upgrade also failed'' w1
           else if contains_any stderr [''unmet dependencies'', ''broken'', ''dependency'']
             then retry_upgrade m packages w1
           else (Err e, w1)))"

definition apply_patches :: "'w machine \<Rightarrow> string list option \<Rightarrow> 'w \<Rightarrow> (anyhow, unit) result \<times> 'w" where
  "apply_patches m packages w =
     (case packages of
        Some _ \<Rightarrow> upgrade_with_recovery m packages w
      | None \<Rightarrow>
          (case run_apt_safe m FIX_BROKEN w of
             (Inl e, w1) \<Rightarrow>
               (Err (add_context ''Pre-upgrade fix-broken failed -- resolve dependency issues before retrying'' e), w1)
           | (Inr _, w1) \<Rightarrow> upgrade_with_recovery m packages w1))"

definition refresh_package_cache ::
    "(anyhow \<Rightarrow> string) \<Rightarrow> int \<Rightarrow> 'w machine \<Rightarrow> package_cache_state \<Rightarrow> 'w
     \<Rightarrow> ((anyhow, unit) result \<times> package_cache_state) \<times> 'w" where
  "refresh_package_cache dbg now m cache w =
     (case run_apt_safe m [''update''] w of
        (Inr _, w1) \<Rightarrow> ((Ok (), update_success now cache), w1)
      | (Inl e, w1) \<Rightarrow>
          ((Err e, update_failure now (''APT cache refresh failed: '' @ format_error_for_cache dbg e) cache), w1))"

definition repair_package_database :: "'w machine \<Rightarrow> 'w \<Rightarrow> (anyhow, unit) result \<times> 'w" where
  "repair_package_database m w =
     (case ensure_dpkg_clean m w of
        (Inl e, w1) \<Rightarrow> (Err e, w1)
      | (Inr _, w1) \<Rightarrow> verify_dpkg_clean m w1)"

definition package_database_clean :: "'w machine \<Rightarrow> 'w \<Rightarrow> (anyhow, bool) result \<times> 'w" where
  "package_database_clean m w =
     (let (r, w1) = run_dpkg m [''--audit''] w in (map_sum id (\<lambda>out. trim out = []) r, w1))"

section \<open>Parsers and queries\<close>

definition before_slash :: "string \<Rightarrow> string" where
  "before_slash s = hd (split_on CHR ''/'' s)"

definition basic_package :: "string \<Rightarrow> string \<Rightarrow> package_status \<Rightarrow> bool \<Rightarrow> package" where
  "basic_package name version status upgradable =
     \<lparr>p_name = name, p_version = version, p_status = status, p_upgradable = upgradable,
      p_latest_version = Some version, p_description = [], p_dependencies = [],
      p_reverse_dependencies = [], p_install_date = None, p_size_installed = None\<rparr>"

definition parse_list_line :: "string \<Rightarrow> package option" where
  "parse_list_line line =
     (if starts_with line ''Listing...'' \<or> line = [] then None
      else case split_whitespace line of
        first # version # arch # rest \<Rightarrow>
          (let status_str = (case rest of s # _ \<Rightarrow> s | [] \<Rightarrow> []);
               status = (if str_contains status_str ''installed'' then Installed
                         else if str_contains status_str ''upgradable'' then Upgradable
                         else Available)
           in Some (basic_package (before_slash first) version status (status = Upgradable)))
      | _ \<Rightarrow> None)"

definition parse_package_list :: "string \<Rightarrow> package list" where
  "parse_package_list out = List.map_filter parse_list_line (str_lines out)"

definition list_packages where
  "list_packages m flt w =
     (let (r, w1) = run_apt_cli m (case flt of Some f \<Rightarrow> [''list'', f] | None \<Rightarrow> [''list'', ''--installed'']) w
      in (map_sum id parse_package_list r, w1))"

definition severity_of :: "string \<Rightarrow> string" where
  "severity_of name =
     (if str_contains name ''kernel'' \<or> str_contains name ''ssl'' \<or> str_contains name ''security'' then ''critical''
      else if str_contains name ''lib'' then ''high''
      else ''medium'')"

definition parse_patch_line :: "string \<Rightarrow> patch option" where
  "parse_patch_line line =
     (if starts_with line ''Listing...'' then None
      else case split_whitespace line of
        first # second # third # _ \<Rightarrow>
          (let name = before_slash first in
           Some \<lparr>pa_name = name, pa_current_version = second, pa_available_version = third,
                 pa_severity = severity_of name, pa_description = ''Package update available'',
                 pa_cve_ids = [], pa_requires_reboot = package_requires_reboot name\<rparr>)
      | _ \<Rightarrow> None)"

definition list_patches where
  "list_patches m w =
     (let (r, w1) = run_apt_cli m [''list'', ''--upgradable''] w
      in (map_sum id (\<lambda>out. List.map_filter parse_patch_line (str_lines out)) r, w1))"

definition first_word :: "string \<Rightarrow> string" where
  "first_word s = (case split_whitespace s of x # _ \<Rightarrow> x | [] \<Rightarrow> [])"

definition second_word :: "string \<Rightarrow> string option" where
  "second_word s = (case split_whitespace s of _ # y # _ \<Rightarrow> Some y | _ \<Rightarrow> None)"

definition field_value :: "string \<Rightarrow> string \<Rightarrow> string" where
  "field_value key line = trim (trim_start_matches key line)"

definition dpkg_step :: "package \<Rightarrow> string \<Rightarrow> package" where
  "dpkg_step p line =
     (if starts_with line ''Version:'' then p\<lparr>p_version := field_value ''Version:'' line\<rparr>
      else if starts_with line ''Status:'' then
        (if str_contains line ''install ok installed'' then p\<lparr>p_status := Installed\<rparr> else p)
      else if starts_with line ''Description:'' then p\<lparr>p_description := field_value ''Description:'' line\<rparr>
      else if starts_with line ''Depends:'' then
        p\<lparr>p_dependencies := map first_word (split_on CHR '','' (field_value ''Depends:'' line))\<rparr>
      else if starts_with line ''Installed-Size:'' then
        p\<lparr>p_size_installed := Some (field_value ''Installed-Size:'' line @ '' KB'')\<rparr>
      else p)"

definition get_package :: "'w machine \<Rightarrow> string \<Rightarrow> 'w \<Rightarrow> (anyhow, package option) result \<times> 'w" where
  "get_package m name w =
     (case run_dpkg m [''-s'', name] w of
        (Inl _, w1) \<Rightarrow>
          (case run_apt_cli m [''list'', name] w1 of
             (Inl e, w2) \<Rightarrow> (Err e, w2)
           | (Inr list_output, w2) \<Rightarrow>
               (Ok (if str_contains list_output name then
                      (case split_whitespace (case find (\<lambda>l. str_contains l name) (str_lines list_output) of
                           Some l \<Rightarrow> l | None \<Rightarrow> []) of
                         _ # version # _ # _ \<Rightarrow> Some (basic_package name version Available False)
                       | _ \<Rightarrow> None)
                    else None), w2))
      | (Inr dpkg_info, w1) \<Rightarrow>
          (let base = foldl dpkg_step (basic_package name [] Installed False) (str_lines dpkg_info);
               (up, w2) = run_apt_cli m [''list'', ''--upgradable'', name] w1;
               upgradable = (case up of Inr o1 \<Rightarrow> str_contains o1 name | Inl _ \<Rightarrow> False)
           in if upgradable then
                (let (pol, w3) = run_apt_cache m [''policy'', name] w2;
                     latest = (case pol of
                         Inl _ \<Rightarrow> None
                       | Inr o1 \<Rightarrow> (case find (\<lambda>l. str_contains l ''Candidate'') (str_lines o1) of
                                     Some l \<Rightarrow> second_word l | None \<Rightarrow> None))
                 in (Ok (Some (base\<lparr>p_upgradable := True, p_latest_version := latest\<rparr>)), w3))
              else (Ok (Some (base\<lparr>p_upgradable := False, p_latest_version := Some (p_version base)\<rparr>)), w2)))"

definition get_installed_version :: "'w machine \<Rightarrow> string \<Rightarrow> 'w \<Rightarrow> (anyhow, string option) result \<times> 'w" where
  "get_installed_version m name w =
     (case run_dpkg m [''-s'', name] w of
        (Inl _, w1) \<Rightarrow> (Ok None, w1)
      | (Inr out, w1) \<Rightarrow>
          (Ok (case filter (\<lambda>v. v \<noteq> []) (map (field_value ''Version:'')
                   (filter (\<lambda>l. starts_with l ''Version:'') (str_lines out))) of
                 v # _ \<Rightarrow> Some v | [] \<Rightarrow> None), w1))"

definition get_candidate_version :: "'w machine \<Rightarrow> string \<Rightarrow> 'w \<Rightarrow> (anyhow, string option) result \<times> 'w" where
  "get_candidate_version m name w =
     (case run_apt_cache m [''policy'', name] w of
        (Inl _, w1) \<Rightarrow> (Ok None, w1)
      | (Inr out, w1) \<Rightarrow>
          (Ok (case find (\<lambda>l. str_contains l ''Candidate:'') (str_lines out) of
                 Some l \<Rightarrow> second_word l | None \<Rightarrow> None), w1))"

definition get_service_status ::
    "'w machine \<Rightarrow> bool \<Rightarrow> bool \<Rightarrow> string \<Rightarrow> 'w \<Rightarrow> (anyhow, service_status option) result \<times> 'w" where
  "get_service_status m is_systemd is_openrc name w =
     (case validate_service_name name of
        Inl e \<Rightarrow> (Err (anyhow_msg e), w)
      | Inr _ \<Rightarrow>
          if is_systemd then get_systemd_service_status (m_run m) name w
          else if is_openrc then get_openrc_service_status (m_run m) name w
          else (Err (anyhow_msg ''No supported init system detected (systemd or OpenRC required)''), w))"

section \<open>A machine that logs\<close>

text \<open>The commands run so far are the state; \<open>fate\<close> decides each from what came before it.\<close>

type_synonym cmd = "string \<times> string list"

definition logging :: "(cmd list \<Rightarrow> cmd \<Rightarrow> child_fate) \<Rightarrow> cmd list machine" where
  "logging fate =
     \<lparr>m_run = sys_run (\<lambda>p as log. (fate log (p, as), log @ [(p, as)])),
      m_lock = (\<lambda>_ _. None), m_remove = (\<lambda>_ log. log), m_poisoned = None\<rparr>"

definition CONFIGURE :: cmd where "CONFIGURE = (''dpkg'', [''--configure'', ''-a''])"
definition AUDIT :: cmd where "AUDIT = (''dpkg'', [''--audit''])"

lemma cleanup_logging [simp]: "cleanup_stale_apt_locks (logging fate) log = log"
  by (simp add: cleanup_stale_apt_locks_def apt_lock_files_def logging_def)

lemma poisoned_logging [simp]: "m_poisoned (logging fate) = None"
  by (simp add: logging_def)

lemma run_logging [simp]:
  "m_run (logging fate) p as t log = (run_async p as t (fate log (p, as)), log @ [(p, as)])"
  by (simp add: logging_def sys_run_def)

lemma run_dpkg_logging:
  "run_dpkg (logging fate) as log =
     (map_sum id co_stdout (run_async ''dpkg'' as (Some 60) (fate log (''dpkg'', as))), log @ [(''dpkg'', as)])"
  by (simp add: run_dpkg_def run_command_timed_def)

lemma run_async_ok: "run_async p as t f = Inr o1 \<Longrightarrow> co_success o1"
  by (auto simp: run_async_def exited_result_def co_success_def Let_def
      split: child_fate.splits option.splits if_splits)

lemma ensure_logging:
  "snd (ensure_dpkg_clean (logging fate) log) = log @ [CONFIGURE]"
  by (simp add: ensure_dpkg_clean_def run_dpkg_logging CONFIGURE_def split: sum.splits)

lemma verify_logging:
  "verify_dpkg_clean (logging fate) log = (r, log') \<Longrightarrow>
     log' \<in> {log @ [AUDIT], log @ [AUDIT, CONFIGURE], log @ [AUDIT, CONFIGURE, AUDIT]} \<and>
     (is_ok r \<longrightarrow> last log' = AUDIT)"
  unfolding verify_dpkg_clean_def ensure_dpkg_clean_def run_dpkg_logging
  by (auto simp: AUDIT_def CONFIGURE_def is_ok_def run_dpkg_logging split: sum.splits if_splits)

text \<open>A stretch of the log: which commands it may contain and how many of them are \<open>apt-get\<close>.\<close>

definition ran :: "cmd set \<Rightarrow> nat \<Rightarrow> cmd list \<Rightarrow> cmd list \<Rightarrow> bool" where
  "ran S k log log' \<longleftrightarrow>
     (\<exists>new. log' = log @ new \<and> set new \<subseteq> S \<and> length (filter (\<lambda>c. fst c = ''apt-get'') new) \<le> k)"

lemma ran_trans: "ran S k a b \<Longrightarrow> ran S l b c \<Longrightarrow> ran S (k + l) a c"
  unfolding ran_def by fastforce

lemma ran_mono: "ran S k a b \<Longrightarrow> S \<subseteq> T \<Longrightarrow> k \<le> l \<Longrightarrow> ran T l a b"
  unfolding ran_def by fastforce

lemma ran_refl: "ran S k a a"
  unfolding ran_def by simp

lemma ran_single: "c \<in> S \<Longrightarrow> fst c \<noteq> ''apt-get'' \<Longrightarrow> ran S 0 a (a @ [c])"
  unfolding ran_def by simp

text \<open>One apt-get call with its clean-ups.\<close>

lemma apt_safe_ok:
  assumes "run_apt_safe (logging fate) args log = (Inr out, log')"
  shows "\<exists>tail. log' = log @ [CONFIGURE, (''apt-get'', args)] @ tail \<and>
    tail \<in> {[AUDIT], [AUDIT, CONFIGURE, AUDIT]}"
proof -
  obtain u w1 where c: "ensure_dpkg_clean (logging fate) log = (Inr u, w1)"
    using assms by (auto simp: run_apt_safe_def split: prod.splits sum.splits)
  have w1: "w1 = log @ [CONFIGURE]" using ensure_logging [of fate log] c by simp
  obtain o1 where o1: "run_async ''apt-get'' args (Some (apt_timeout args)) (fate w1 (''apt-get'', args)) = Inr o1"
    using assms c by (auto simp: run_apt_safe_def split: sum.splits)
  have "co_success o1" by (rule run_async_ok [OF o1])
  then obtain v w3 where v: "verify_dpkg_clean (logging fate) (w1 @ [(''apt-get'', args)]) = (Inr v, w3)"
    and "w3 = log'"
    using assms c o1 by (auto simp: run_apt_safe_def split: prod.splits sum.splits)
  with verify_logging [OF v] w1 show ?thesis by (auto simp: is_ok_def AUDIT_def CONFIGURE_def)
qed

lemma apt_safe_err:
  assumes "run_apt_safe (logging fate) args log = (Inl e, log')"
  shows "log' \<in> {log @ [CONFIGURE], log @ [CONFIGURE, (''apt-get'', args), CONFIGURE]} \<or>
    (\<exists>tail. log' = log @ [CONFIGURE, (''apt-get'', args)] @ tail \<and>
       tail \<in> {[AUDIT], [AUDIT, CONFIGURE], [AUDIT, CONFIGURE, AUDIT]})"
proof (cases "ensure_dpkg_clean (logging fate) log")
  case (Pair r w1)
  have w1: "w1 = log @ [CONFIGURE]" using ensure_logging [of fate log] Pair by simp
  show ?thesis
  proof (cases r)
    case (Inl e')
    with assms Pair w1 show ?thesis by (simp add: run_apt_safe_def)
  next
    case (Inr u)
    show ?thesis
    proof (cases "run_async ''apt-get'' args (Some (apt_timeout args)) (fate w1 (''apt-get'', args))")
      case (Inl e')
      with assms Pair Inr w1 ensure_logging [of fate "w1 @ [(''apt-get'', args)]"] show ?thesis
        by (simp add: run_apt_safe_def)
    next
      case o1: (Inr o1)
      have "co_success o1" by (rule run_async_ok [OF o1])
      then obtain v where v: "verify_dpkg_clean (logging fate) (w1 @ [(''apt-get'', args)]) = (Inl v, log')"
        using assms Pair Inr o1 by (auto simp: run_apt_safe_def split: prod.splits sum.splits)
      with verify_logging [OF v] w1 show ?thesis by auto
    qed
  qed
qed

lemma apt_safe_ran:
  assumes "run_apt_safe (logging fate) args log = (r, log')"
  shows "ran {CONFIGURE, AUDIT, (''apt-get'', args)} 1 log log'"
proof (cases r)
  case (Inl e)
  with apt_safe_err assms have "log' \<in> {log @ [CONFIGURE], log @ [CONFIGURE, (''apt-get'', args), CONFIGURE]} \<or>
    (\<exists>tail. log' = log @ [CONFIGURE, (''apt-get'', args)] @ tail \<and>
       tail \<in> {[AUDIT], [AUDIT, CONFIGURE], [AUDIT, CONFIGURE, AUDIT]})" by blast
  then show ?thesis unfolding ran_def by (auto simp: CONFIGURE_def AUDIT_def)
next
  case (Inr out)
  with apt_safe_ok assms obtain tail where "log' = log @ [CONFIGURE, (''apt-get'', args)] @ tail"
    "tail \<in> {[AUDIT], [AUDIT, CONFIGURE, AUDIT]}" by blast
  then show ?thesis unfolding ran_def by (auto simp: CONFIGURE_def AUDIT_def)
qed

text \<open>The commands a run over all packages may use.\<close>

definition patch_all_commands :: "cmd set" where
  "patch_all_commands =
     {CONFIGURE, AUDIT, (''apt-get'', FIX_BROKEN), (''apt-get'', [''dist-upgrade'', ''-y'']),
      (''apt-mark'', [''showhold'']), (''apt-get'', [''upgrade'', ''-y''])}"

lemma apt_safe_ran_all:
  assumes "run_apt_safe (logging fate) args log = (r, log')"
    and "args \<in> {FIX_BROKEN, [''dist-upgrade'', ''-y''], [''upgrade'', ''-y'']}"
  shows "ran patch_all_commands 1 log log'"
proof -
  have "{CONFIGURE, AUDIT, (''apt-get'', args)} \<subseteq> patch_all_commands"
    using assms(2) unfolding patch_all_commands_def by blast
  then show ?thesis by (rule ran_mono [OF apt_safe_ran [OF assms(1)]]) simp
qed

lemma held_fallback_ran:
  assumes "held_fallback (logging fate) ctx log = (r, log')"
  shows "ran patch_all_commands 1 log log' \<and> \<not> is_ok r"
proof -
  let ?l1 = "log @ [(''apt-mark'', [''showhold''])]"
  obtain r2 where up: "run_apt_safe (logging fate) [''upgrade'', ''-y''] ?l1 = (r2, log')"
    using assms by (auto simp: held_fallback_def fallback_to_hold_respecting_upgrade_def run_command_timed_def
        Let_def split: prod.splits sum.splits)
  have "ran patch_all_commands 0 log ?l1"
    by (rule ran_single) (simp_all add: patch_all_commands_def)
  from ran_trans [OF this apt_safe_ran_all [OF up]] have "ran patch_all_commands 1 log log'" by simp
  moreover have "\<not> is_ok r"
    using assms by (auto simp: held_fallback_def is_ok_def split: prod.splits sum.splits)
  ultimately show ?thesis by blast
qed

lemma retry_upgrade_ran:
  assumes "retry_upgrade (logging fate) None log = (r, log')"
  shows "ran patch_all_commands 3 log log'"
proof -
  obtain r1 l1 where f: "run_apt_safe (logging fate) FIX_BROKEN log = (r1, l1)" by (cases "run_apt_safe (logging fate) FIX_BROKEN log")
  have ran1: "ran patch_all_commands 1 log l1" by (rule apt_safe_ran_all [OF f]) simp
  obtain r2 l2 where d: "run_apt_safe (logging fate) [''dist-upgrade'', ''-y''] l1 = (r2, l2)"
    by (cases "run_apt_safe (logging fate) [''dist-upgrade'', ''-y''] l1")
  have ran2: "ran patch_all_commands 1 l1 l2" by (rule apt_safe_ran_all [OF d]) simp
  have ran12: "ran patch_all_commands 2 log l2" using ran_trans [OF ran1 ran2] by (simp add: numeral_2_eq_2)
  consider "log' = l1" | "log' = l2" | ctx where "held_fallback (logging fate) ctx l2 = (r, log')"
    using assms f d by (auto simp: retry_upgrade_def patch_args_def split: sum.splits if_splits)
  then show ?thesis
  proof cases
    case 3
    then have "ran patch_all_commands 1 l2 log'" using held_fallback_ran by blast
    from ran_trans [OF ran12 this] show ?thesis by simp
  qed (use ran1 ran12 in \<open>auto intro: ran_mono\<close>)
qed

text \<open>What a command says: its standard output, if it ended in time with exit code zero.\<close>

definition zero_exit :: "child_fate \<Rightarrow> string option" where
  "zero_exit f = (case f of Exited code out err \<Rightarrow> if code = Some 0 then Some out else None | _ \<Rightarrow> None)"

lemma run_async_zero:
  "map_sum id co_stdout (run_async p as (Some t) f) = Inr out \<longleftrightarrow> zero_exit f = Some out"
  by (auto simp: zero_exit_def run_async_def exited_result_def Let_def split: child_fate.splits)

lemma run_dpkg_zero:
  "fst (run_dpkg (logging fate) as log) = Inr out \<longleftrightarrow> zero_exit (fate log (''dpkg'', as)) = Some out"
  "snd (run_dpkg (logging fate) as log) = log @ [(''dpkg'', as)]"
  by (simp_all add: run_dpkg_def run_command_timed_def run_async_zero)

lemma ensure_zero:
  "ensure_dpkg_clean (logging fate) log =
     ((case zero_exit (fate log CONFIGURE) of
         Some _ \<Rightarrow> Ok ()
       | None \<Rightarrow> Err (add_context ''dpkg --configure -a failed: package manager is in a broken state that requires manual intervention''
                    (projl (fst (run_dpkg (logging fate) [''--configure'', ''-a''] log))))),
      log @ [CONFIGURE])"
  using run_dpkg_zero [of fate "[''--configure'', ''-a'']" log]
  by (cases "run_dpkg (logging fate) [''--configure'', ''-a''] log")
    (auto simp: ensure_dpkg_clean_def CONFIGURE_def split: sum.splits option.splits)

lemma verify_zero:
  "snd (verify_dpkg_clean (logging fate) log) =
     (case zero_exit (fate log AUDIT) of
        None \<Rightarrow> log @ [AUDIT]
      | Some report \<Rightarrow>
          if trim report = [] then log @ [AUDIT]
          else if zero_exit (fate (log @ [AUDIT]) CONFIGURE) = None then log @ [AUDIT, CONFIGURE]
          else log @ [AUDIT, CONFIGURE, AUDIT])"
  "is_ok (fst (verify_dpkg_clean (logging fate) log)) \<longleftrightarrow>
     (\<exists>report. zero_exit (fate log AUDIT) = Some report \<and>
        (trim report = [] \<or> zero_exit (fate (log @ [AUDIT]) CONFIGURE) \<noteq> None \<and>
         (\<exists>recheck. zero_exit (fate (log @ [AUDIT, CONFIGURE]) AUDIT) = Some recheck \<and> trim recheck = [])))"
  using run_dpkg_zero [of fate "[''--audit'']" log] run_dpkg_zero [of fate "[''--audit'']" "log @ [AUDIT, CONFIGURE]"]
  by (cases "run_dpkg (logging fate) [''--audit''] log"; cases "run_dpkg (logging fate) [''--audit''] (log @ [AUDIT, CONFIGURE])";
      auto simp: verify_dpkg_clean_def ensure_zero AUDIT_def is_ok_def split: sum.splits option.splits)+

lemma apt_safe_steps:
  "run_apt_safe (logging fate) args log =
     (let apt = run_async ''apt-get'' args (Some (apt_timeout args)) (fate (log @ [CONFIGURE]) (''apt-get'', args))
      in case ensure_dpkg_clean (logging fate) log of
        (Inl e, l1) \<Rightarrow> (Err e, l1)
      | (Inr _, l1) \<Rightarrow>
          (case apt of
             Inl e \<Rightarrow> (Err (add_context ''Failed to execute apt command'' e), l1 @ [(''apt-get'', args), CONFIGURE])
           | Inr output \<Rightarrow>
               (case verify_dpkg_clean (logging fate) (l1 @ [(''apt-get'', args)]) of
                  (Inl e, l3) \<Rightarrow> (Err e, l3)
                | (Inr _, l3) \<Rightarrow> (Ok (co_stdout output), l3))))"
proof -
  have "co_success o1" if "run_async ''apt-get'' args (Some (apt_timeout args)) f = Inr o1" for o1 f by (rule run_async_ok [OF that])
  then show ?thesis by (auto simp: run_apt_safe_def ensure_logging ensure_zero Let_def split: sum.splits option.splits)
qed

lemma apt_protocol_table:
  fixes fate log args
  defines "says \<equiv> \<lambda>cmds c. zero_exit (fate cmds c)"
    and "l1 \<equiv> log @ [CONFIGURE]"
    and "l2 \<equiv> log @ [CONFIGURE, (''apt-get'', args)]"
    and "l3 \<equiv> log @ [CONFIGURE, (''apt-get'', args), AUDIT]"
    and "l4 \<equiv> log @ [CONFIGURE, (''apt-get'', args), AUDIT, CONFIGURE]"
    and "l5 \<equiv> log @ [CONFIGURE, (''apt-get'', args), AUDIT, CONFIGURE, AUDIT]"
  shows "snd (run_apt_safe (logging fate) args log) =
      (if says log CONFIGURE = None then l1
       else if says l1 (''apt-get'', args) = None then l2 @ [CONFIGURE]
       else case says l2 AUDIT of
          None \<Rightarrow> l3
        | Some report \<Rightarrow> if trim report = [] then l3 else if says l3 CONFIGURE = None then l4 else l5) \<and>
    (fst (run_apt_safe (logging fate) args log) = Inr out \<longleftrightarrow>
       says log CONFIGURE \<noteq> None \<and> says l1 (''apt-get'', args) = Some out \<and>
       (\<exists>report. says l2 AUDIT = Some report \<and>
          (trim report = [] \<or>
           says l3 CONFIGURE \<noteq> None \<and> (\<exists>recheck. says l4 AUDIT = Some recheck \<and> trim recheck = []))))"
proof -
  define apt where "apt = run_async ''apt-get'' args (Some (apt_timeout args)) (fate l1 (''apt-get'', args))"
  have apt: "(case apt of Inl _ \<Rightarrow> None | Inr o1 \<Rightarrow> Some (co_stdout o1)) = says l1 (''apt-get'', args)"
    using run_async_zero [of "''apt-get''" args "apt_timeout args" "fate l1 (''apt-get'', args)"]
    by (cases apt; cases "says l1 (''apt-get'', args)") (auto simp: apt_def assms(1))
  obtain v lv where v: "verify_dpkg_clean (logging fate) l2 = (v, lv)" by (cases "verify_dpkg_clean (logging fate) l2")
  have run: "run_apt_safe (logging fate) args log =
      (case says log CONFIGURE of
         None \<Rightarrow> (Err (projl (fst (ensure_dpkg_clean (logging fate) log))), l1)
       | Some _ \<Rightarrow>
           (case apt of
              Inl e \<Rightarrow> (Err (add_context ''Failed to execute apt command'' e), l2 @ [CONFIGURE])
            | Inr output \<Rightarrow> (case v of Inl e \<Rightarrow> (Err e, lv) | Inr _ \<Rightarrow> (Ok (co_stdout output), lv))))"
    using v unfolding apt_safe_steps
    by (simp add: assms apt_def ensure_zero split: option.split sum.split)
  show ?thesis
    using apt [symmetric] verify_zero [of fate l2] v unfolding run
    by (cases "says log CONFIGURE"; cases apt; cases v; auto simp: assms is_ok_def split: option.splits if_splits)
qed

section \<open>Properties\<close>

text \<open>C19: the protocol of an APT operation, for every answer of every command. The operation begins with the dpkg clean-up, and
  apt-get runs only if that succeeded. An apt-get that did not exit with zero is followed by the clean-up and nothing else.
  One that did is followed by the audit; an audit that reports something is followed by the clean-up and, if that
  succeeded, by a second audit. The operation succeeds exactly when the clean-up, apt-get and the audit exited with zero
  and the audit, or the second one after a clean-up that exited with zero, reported nothing; its output is then that of apt-get.\<close>

theorem apt_operation_protocol:
  "let says = (\<lambda>cmds c. zero_exit (fate cmds c));
       l1 = log @ [CONFIGURE];
       l2 = log @ [CONFIGURE, (''apt-get'', args)];
       l3 = log @ [CONFIGURE, (''apt-get'', args), AUDIT];
       l4 = log @ [CONFIGURE, (''apt-get'', args), AUDIT, CONFIGURE];
       l5 = log @ [CONFIGURE, (''apt-get'', args), AUDIT, CONFIGURE, AUDIT]
   in snd (run_apt_safe (logging fate) args log) =
      (if says log CONFIGURE = None then l1
       else if says l1 (''apt-get'', args) = None then l2 @ [CONFIGURE]
       else case says l2 AUDIT of
          None \<Rightarrow> l3
        | Some report \<Rightarrow> if trim report = [] then l3 else if says l3 CONFIGURE = None then l4 else l5) \<and>
    (fst (run_apt_safe (logging fate) args log) = Inr out \<longleftrightarrow>
       says log CONFIGURE \<noteq> None \<and> says l1 (''apt-get'', args) = Some out \<and>
       (\<exists>report. says l2 AUDIT = Some report \<and>
          (trim report = [] \<or>
           says l3 CONFIGURE \<noteq> None \<and> (\<exists>recheck. says l4 AUDIT = Some recheck \<and> trim recheck = []))))"
  unfolding Let_def by (rule apt_protocol_table)

text \<open>C23: patching everything is bounded and respects holds. Whatever the commands answer, a run of
  \<open>apply_patches\<close> for all packages issues at most five apt-get calls, all from a fixed list in which no
  command overrides a held package.\<close>

theorem apply_all_patches_safe:
  assumes "apply_patches (logging fate) None log = (r, log')"
  shows "\<exists>new. log' = log @ new \<and> set new \<subseteq> patch_all_commands \<and>
    length (filter (\<lambda>c. fst c = ''apt-get'') new) \<le> 5 \<and>
    (\<forall>c \<in> set new. ''--allow-change-held-packages'' \<notin> set (snd c))"
proof -
  obtain r1 l1 where f: "run_apt_safe (logging fate) FIX_BROKEN log = (r1, l1)"
    by (cases "run_apt_safe (logging fate) FIX_BROKEN log")
  have ran1: "ran patch_all_commands 1 log l1" by (rule apt_safe_ran_all [OF f]) simp
  obtain r2 l2 where d: "run_apt_safe (logging fate) [''dist-upgrade'', ''-y''] l1 = (r2, l2)"
    by (cases "run_apt_safe (logging fate) [''dist-upgrade'', ''-y''] l1")
  have ran2: "ran patch_all_commands 1 l1 l2" by (rule apt_safe_ran_all [OF d]) simp
  have ran12: "ran patch_all_commands 2 log l2" using ran_trans [OF ran1 ran2] by (simp add: numeral_2_eq_2)
  consider "log' = l1" | "log' = l2" | ctx where "held_fallback (logging fate) ctx l2 = (r, log')"
    | "retry_upgrade (logging fate) None l2 = (r, log')"
    using assms f d by (auto simp: apply_patches_def upgrade_with_recovery_def patch_args_def Let_def
        split: sum.splits if_splits)
  then have "ran patch_all_commands 5 log log'"
  proof cases
    case (3 ctx)
    then have "ran patch_all_commands 1 l2 log'" using held_fallback_ran by blast
    from ran_trans [OF ran12 this] show ?thesis by (auto intro: ran_mono)
  next
    case 4
    from ran_trans [OF ran12 retry_upgrade_ran [OF 4]] show ?thesis by simp
  qed (use ran1 ran12 in \<open>auto intro: ran_mono\<close>)
  moreover have "''--allow-change-held-packages'' \<notin> set (snd c)" if "c \<in> patch_all_commands" for c
    using that by (auto simp: patch_all_commands_def CONFIGURE_def AUDIT_def FIX_BROKEN_def)
  ultimately show ?thesis unfolding ran_def by blast
qed

theorem apply_all_patches_safe_witness:
  "\<exists>new. snd (apply_patches (logging (\<lambda>_ _. Exited (Some 0) [] [])) None []) = new \<and> set new \<subseteq> patch_all_commands"
  using apply_all_patches_safe [of "\<lambda>_ _. Exited (Some 0) [] []" "[]"]
  by (cases "apply_patches (logging (\<lambda>_ _. Exited (Some 0) [] [])) None []") auto

text \<open>What \<open>list_patches\<close> makes of a line of \<open>apt list --upgradable\<close>, which reads
  \<open>name/suite new-version arch [upgradable from: old-version]\<close>: the reported current version is the
  new version of the line and the reported available version is the architecture.\<close>

theorem apt_list_patches_fields:
  assumes "\<forall>c\<in>set (name @ suite @ new_version @ arch). \<not> is_whitespace c"
    and "CHR ''/'' \<notin> set name" and "new_version \<noteq> []" and "arch \<noteq> []"
    and "\<not> starts_with name ''Listing...''"
  shows "\<exists>p. parse_patch_line (name @ ''/'' @ suite @ '' '' @ new_version @ '' '' @ arch @ '' '' @ rest) = Some p \<and>
    pa_name p = name \<and> pa_current_version p = new_version \<and> pa_available_version p = arch \<and>
    pa_severity p = severity_of name \<and> pa_requires_reboot p = package_requires_reboot name"
proof -
  let ?first = "name @ ''/'' @ suite"
  have ns: "\<forall>c\<in>set ?first. \<not> is_whitespace c" "?first \<noteq> []"
    using assms(1) by (auto simp: is_whitespace_def)
  have words: "split_whitespace (name @ ''/'' @ suite @ '' '' @ new_version @ '' '' @ arch @ '' '' @ rest) =
      ?first # new_version # arch # split_whitespace rest"
    using split_whitespace_word [OF ns, of "new_version @ '' '' @ arch @ '' '' @ rest"] assms(1)
    by (simp add: split_whitespace_word assms)
  have "\<not> starts_with (name @ ''/'' @ x) ''Listing...''" for x
  proof
    assume "starts_with (name @ ''/'' @ x) ''Listing...''"
    then have "prefix ''Listing...'' ((name @ ''/'') @ x)" by (simp add: starts_with_def)
    then have "prefix ''Listing...'' (name @ ''/'') \<or> prefix (name @ ''/'') ''Listing...''"
      using prefix_same_cases [of "''Listing...''" "(name @ ''/'') @ x" "name @ ''/''"] by auto
    moreover have "CHR ''/'' \<notin> set ''Listing...''" by simp
    ultimately show False
      using assms(5) set_mono_prefix [of "name @ ''/''" "''Listing...''"] unfolding starts_with_def prefix_snoc by auto
  qed
  then show ?thesis
    using split_on_word [OF assms(2)] words by (simp add: parse_patch_line_def before_slash_def Let_def)
qed

theorem apt_list_patches_fields_witness:
  "\<exists>p. parse_patch_line ''curl/noble-updates 8.5.0-2 amd64 [upgradable from: 8.5.0-1]'' = Some p \<and>
     pa_current_version p = ''8.5.0-2'' \<and> pa_available_version p = ''amd64''"
  using apt_list_patches_fields [of "''curl''" "''noble-updates''" "''8.5.0-2''" "''amd64''"
    "''[upgradable from: 8.5.0-1]''"]
  by (auto simp: is_whitespace_def starts_with_def)

end
