(* ===== verification/Patch_Handler.thy ===== *)
theory Patch_Handler imports Apt Admission begin

text \<open>
  \<open>src/api/handlers/patches.rs\<close>: the patch transaction that runs as one closure of
  \<open>dispatch_mutation\<close>, here over the APT backend, and what the spawned task does with its result:
  whether to reboot, the reboot reservation and the final status of the job. The task's calls of
  the scheduler are its locked sections in their order.
\<close>

record patch_apply_request =
  pr_packages :: "string list option"
  pr_allow_reboot :: bool
  pr_reboot_delay_seconds :: nat

section \<open>The transaction\<close>

definition patch_transaction ::
    "(anyhow \<Rightarrow> string) \<Rightarrow> int \<Rightarrow> 'w machine \<Rightarrow> patch_apply_request \<Rightarrow> package_cache_state \<Rightarrow> 'w
     \<Rightarrow> ((anyhow, unit) result \<times> package_cache_state) \<times> 'w" where
  "patch_transaction dbg now m req cache w =
     (case refresh_package_cache dbg now m cache w of
        ((Inl e, c1), w1) \<Rightarrow> ((Err (add_context ''initial cache refresh failed'' e), c1), w1)
      | ((Inr _, c1), w1) \<Rightarrow>
          (case apply_patches m (pr_packages req) w1 of
             (Inr _, w2) \<Rightarrow> ((Ok (), c1), w2)
           | (Inl e, w2) \<Rightarrow>
               if is_fetch_error e then
                 (case refresh_package_cache dbg now m c1 w2 of
                    ((Inl e', c2), w3) \<Rightarrow> ((Err (add_context ''retry cache refresh failed'' e'), c2), w3)
                  | ((Inr _, c2), w3) \<Rightarrow>
                      (case apply_patches m (pr_packages req) w3 of
                         (Inr _, w4) \<Rightarrow> ((Ok (), c2), w4)
                       | (Inl e', w4) \<Rightarrow> ((Err (add_context ''retry patch apply failed'' e'), c2), w4)))
               else ((Err e, c1), w2)))"

section \<open>After the transaction\<close>

definition should_reboot :: "patch_apply_request \<Rightarrow> bool \<Rightarrow> bool" where
  "should_reboot req system_needs_reboot =
     (if pr_allow_reboot req then
        (let requested_needs_reboot = (case pr_packages req of
               None \<Rightarrow> False | Some pkgs \<Rightarrow> list_ex package_requires_reboot pkgs);
             no_specific_packages = (case pr_packages req of None \<Rightarrow> True | Some pkgs \<Rightarrow> pkgs = [])
         in if no_specific_packages then system_needs_reboot
            else system_needs_reboot \<or> requested_needs_reboot)
      else False)"

fun reboot_error_text :: "reboot_admission_error \<Rightarrow> string" where
  "reboot_error_text RSelfUpdateInProgress = ''A self-update is in progress''"
| "reboot_error_text PackageMutationInProgress = ''A package-database mutation is in progress''"
| "reboot_error_text (RJobsInProgress n) = ''Cannot reboot while '' @ show_nat n @ '' jobs are in progress''"
| "reboot_error_text RQueueFull = ''Job queue is at capacity''"
| "reboot_error_text AdmissionClosed = ''Admission is closed (shutdown or recovery in progress)''"

text \<open>The branch in which the reservation for the reboot job \<open>k\<close> was granted.\<close>

definition reboot_after_patch ::
    "time \<Rightarrow> uuid \<Rightarrow> uuid \<Rightarrow> (anyhow, unit) result \<Rightarrow> scheduler_state \<Rightarrow> scheduler_state" where
  "reboot_after_patch now i k reboot_result s =
     (let s1 = res_state1 s (set_job_rebooting now i ''Patches applied; awaiting reboot'' s);
          s2 = add_job_log now i ''Reboot reservation acquired by scheduler'' s1
      in case begin_reboot_execution now k s2 of
           (False, s3) \<Rightarrow> drop_reboot_guard now k False (complete_job now i (add_job_log now i
               ''Reboot reservation lost before command; patches applied without reboot'' s3))
         | (True, s3) \<Rightarrow>
             (case reboot_result of
                Inr _ \<Rightarrow> drop_reboot_guard now k True (add_job_log now i ''Reboot command executed'' s3)
              | Inl e \<Rightarrow>
                  (let s4 = snd (rollback_reboot now k (Some (''Reboot failed: '' @ error_to_string e)) s3)
                   in drop_reboot_guard now k False (complete_job now i (add_job_log now i
                        (''Reboot failed: '' @ error_to_string e @ '' -- patches remain applied'') s4)))))"

definition finish_patch_job ::
    "(anyhow \<Rightarrow> string) \<Rightarrow> time \<Rightarrow> string option \<Rightarrow> uuid \<Rightarrow> uuid \<Rightarrow> patch_apply_request \<Rightarrow> bool
     \<Rightarrow> (anyhow, unit) result \<Rightarrow> (anyhow, unit) result \<Rightarrow> scheduler_state \<Rightarrow> scheduler_state" where
  "finish_patch_job dbg now boot i reboot_id req system_needs_reboot patch_result reboot_result s =
     (case patch_result of
        Inl e \<Rightarrow> fail_job_with_diagnostics dbg now i e s
      | Inr _ \<Rightarrow>
          if should_reboot req system_needs_reboot then
            (let s1 = add_job_log now i (''Reboot scheduled in '' @ show_nat (pr_reboot_delay_seconds req)
                        @ '' seconds (reboot required after patching)'') s in
             case reserve_reboot now reboot_id boot True False s1 of
               Inl err \<Rightarrow> complete_job now i (add_job_log now i
                            (''Reboot reservation rejected: '' @ reboot_error_text err) s1)
             | Inr (k, s2) \<Rightarrow> reboot_after_patch now i k reboot_result s2)
          else complete_job now i
            (if pr_allow_reboot req
             then add_job_log now i ''No reboot required after patching (allow_reboot=true but no reboot-triggering packages applied)'' s
             else s))"

section \<open>Helper lemmas\<close>

lemma status_add_log [simp]: "j_status (add_log now m j) = j_status j"
  by (simp add: add_log_def)

lemma get_job_add_log:
  "get_job x (add_job_log now i m s) = (if x = i then map_option (add_log now m) (get_job i s) else get_job x s)"
  by (simp add: add_job_log_def)

lemma get_job_complete:
  "get_job x (complete_job now i s) = (if x = i then map_option (complete now) (get_job i s) else get_job x s)"
  by (simp add: complete_job_def)

lemma status_complete [simp]: "j_status (complete now j) = Completed"
  by (simp add: complete_def)

lemma status_new_job [simp]: "j_status (new_job i now b oper ps) = Pending"
  by (simp add: new_job_def)

lemma get_job_rollback_other: "x \<noteq> k \<Longrightarrow> get_job x (snd (rollback_reboot now k e s)) = get_job x s"
  by (simp add: rollback_reboot_def Let_def)

lemma get_job_drop_other: "x \<noteq> k \<Longrightarrow> get_job x (drop_reboot_guard now k c s) = get_job x s"
  by (simp add: drop_reboot_guard_def get_job_rollback_other)

lemma reboot_pending_rollback:
  "s_reboot_pending s = Some k \<Longrightarrow> s_reboot_pending (snd (rollback_reboot now k e s)) = None"
  by (simp add: rollback_reboot_def Let_def)

lemma reboot_pending_drop_None:
  "s_reboot_pending s = None \<Longrightarrow> s_reboot_pending (drop_reboot_guard now k c s) = None"
  by (simp add: drop_reboot_guard_def rollback_reboot_def)

lemma get_job_fail_diag:
  "get_job x (fail_job_with_diagnostics dbg now i e s) =
     (if x = i then map_option (fail_with_diagnostics dbg now e) (get_job i s) else get_job x s)"
  by (auto simp: fail_job_with_diagnostics_def Let_def emit_event_detailed_def get_job_def map_of_modify
      modify_job_def notify_one_def split: option.splits)

lemma values_count_log:
  "hm_wf m \<Longrightarrow> values_count user_active (hm_modify i (add_log n x) m) = values_count user_active m"
  by (rule values_count_modify_same) (simp_all add: user_active_def add_log_def is_internal_def)

lemma reboot_after_patch_settles:
  assumes ik: "i \<noteq> k" and r: "s_reboot_pending s = Some k"
    and ji: "get_job i s = Some j" "j_status j = Running"
    and jk: "get_job k s = Some jk" "j_status jk = Pending"
  shows "\<exists>j'. get_job i (reboot_after_patch now i k rr s) = Some j' \<and>
    j_status j' = (if is_ok rr then Rebooting else Completed) \<and>
    s_reboot_pending (reboot_after_patch now i k rr s) = (if is_ok rr then Some k else None)"
proof -
  obtain s1 where s1: "set_job_rebooting now i ''Patches applied; awaiting reboot'' s = Ok s1"
    and g1: "get_job x s1 = (if x = i then Some (set_rebooting now ''Patches applied; awaiting reboot'' j) else get_job x s)"
    and p1: "s_reboot_pending s1 = Some k" for x
    using ji r by (auto simp: set_job_rebooting_def)
  define s2 where "s2 = add_job_log now i ''Reboot reservation acquired by scheduler'' s1"
  have g2: "get_job k s2 = Some jk" "\<exists>j2. get_job i s2 = Some j2 \<and> j_status j2 = Rebooting"
      "s_reboot_pending s2 = Some k"
    using g1 p1 ik jk by (auto simp: s2_def get_job_add_log add_job_log.reboot set_rebooting_def add_log_def)
  obtain s3 where s3: "begin_reboot_execution now k s2 = (True, s3)"
    and p3: "s_reboot_pending s3 = Some k" and g3: "\<exists>j3. get_job i s3 = Some j3 \<and> j_status j3 = Rebooting"
    using g2 jk ik by (auto simp: begin_reboot_execution_def)
  have run: "reboot_after_patch now i k rr s = (case rr of
      Inr _ \<Rightarrow> add_job_log now i ''Reboot command executed'' s3
    | Inl e \<Rightarrow> drop_reboot_guard now k False (complete_job now i (add_job_log now i
          (''Reboot failed: '' @ error_to_string e @ '' -- patches remain applied'')
          (snd (rollback_reboot now k (Some (''Reboot failed: '' @ error_to_string e)) s3)))))"
    using s1 s3 by (simp add: reboot_after_patch_def Let_def s2_def drop_reboot_guard_def split: sum.splits)
  show ?thesis
    unfolding run using g3 p3 ik by (cases rr) (auto simp: get_job_add_log get_job_complete get_job_drop_other
        get_job_rollback_other add_job_log.reboot complete_job.reboot reboot_pending_rollback
        reboot_pending_drop_None)
qed

lemma reserve_reboot_log:
  assumes "sched_wf s"
  shows "is_ok (reserve_reboot now k boot force ack (add_job_log n i m s)) \<longleftrightarrow>
     is_ok (reserve_reboot now k boot force ack s)"
proof -
  have "user_active_count (add_job_log n i m s) = user_active_count s"
    using assms by (simp add: user_active_count_def add_job_log_def values_count_log sched_wf_def modify_job_def)
  then show ?thesis
    by (auto simp: reserve_reboot_def Let_def add_job_log_def)
qed

text \<open>The task when a reboot is wanted.\<close>

lemma finish_patch_reboots:
  fixes dbg now boot u rr
  assumes wf: "sched_wf s" and job: "get_job i s = Some j" "j_status j = Running" and fresh: "get_job k s = None"
    and want: "should_reboot req need"
  defines "s' \<equiv> finish_patch_job dbg now boot i k req need (Inr u) rr s"
    and "granted \<equiv> is_ok rr \<and> is_ok (reserve_reboot now k boot True False s)"
  shows "\<exists>j'. get_job i s' = Some j' \<and> j_status j' = (if granted then Rebooting else Completed) \<and>
    s_reboot_pending s' = (if granted then Some k else s_reboot_pending s)"
proof -
  define m where "m = ''Reboot scheduled in '' @ show_nat (pr_reboot_delay_seconds req) @ '' seconds (reboot required after patching)''"
  define s1 where "s1 = add_job_log now i m s"
  have ik: "i \<noteq> k" using job fresh by auto
  have s1: "get_job i s1 = Some (add_log now m j)" "get_job k s1 = None" "sched_wf s1" "s_reboot_pending s1 = s_reboot_pending s"
    using job fresh ik wf by (auto simp: s1_def get_job_add_log add_job_log.reboot add_job_log.wf)
  have same: "is_ok (reserve_reboot now k boot True False s1) \<longleftrightarrow> is_ok (reserve_reboot now k boot True False s)"
    unfolding s1_def by (rule reserve_reboot_log [OF wf])
  show ?thesis
  proof (cases "reserve_reboot now k boot True False s1")
    case (Inl err)
    have "s' = complete_job now i (add_job_log now i (''Reboot reservation rejected: '' @ reboot_error_text err) s1)"
      using want Inl by (simp add: s'_def finish_patch_job_def s1_def m_def)
    then show ?thesis using s1 Inl same
      by (auto simp: granted_def get_job_add_log get_job_complete complete_job.reboot add_job_log.reboot)
  next
    case (Inr ks)
    then obtain s2 where s2: "reserve_reboot now k boot True False s1 = Ok (k, s2)"
      using reserve_reboot_clears_queue_aux(1) [OF s1(3,2)] by (cases ks) auto
    note clear = reserve_reboot_clears_queue_aux [OF s1(3,2) s2]
    have g: "get_job i s2 = get_job i s1" "get_job k s2 = Some (new_job k now boot Reboot [])"
      using clear(3) [of i] clear(3) [of k] ik s1(1) job by (simp_all add: add_log_def)
    have "s' = reboot_after_patch now i k rr s2"
      using want s2 by (simp add: s'_def finish_patch_job_def s1_def m_def)
    moreover have "s_reboot_pending s = None" using s2 s1(4) by (auto simp: reserve_reboot_def split: if_splits)
    ultimately show ?thesis
      using reboot_after_patch_settles [OF ik clear(2) _ _ g(2), of "add_log now m j" now rr] g(1) s1(1) job same s2
      by (auto simp: granted_def split: if_splits)
  qed
qed

text \<open>The job of the request after the transaction has returned.\<close>

lemma finish_patch_cases:
  assumes wf: "sched_wf s" and job: "get_job i s = Some j" "j_status j = Running"
    and fresh: "get_job k s = None"
    and s': "s' = finish_patch_job dbg now boot i k req need patch_result reboot_result s"
  shows "\<exists>j'. get_job i s' = Some j' \<and> j_status j' \<in> {Failed, Completed, Rebooting} \<and>
    (\<forall>e. patch_result = Inl e \<longrightarrow> j_status j' = Failed \<and> j_error_code j' = Some (classify_error e)) \<and>
    (is_ok patch_result \<longrightarrow> j_status j' \<noteq> Failed) \<and>
    (j_status j' = Rebooting \<longleftrightarrow>
       is_ok patch_result \<and> should_reboot req need \<and> is_ok reboot_result \<and>
       is_ok (reserve_reboot now k boot True False s)) \<and>
    s_reboot_pending s' = (if j_status j' = Rebooting then Some k else s_reboot_pending s)"
proof (cases patch_result)
  case (Inl e)
  then show ?thesis
    using job by (simp add: s' finish_patch_job_def get_job_fail_diag fail_job_diag.reboot fail_with_diagnostics_def Let_def)
next
  case ok: (Inr u)
  show ?thesis
  proof (cases "should_reboot req need")
    case False
    then show ?thesis using job ok
      by (auto simp: s' finish_patch_job_def get_job_add_log get_job_complete complete_job.reboot add_job_log.reboot)
  next
    case True
    then show ?thesis
      using finish_patch_reboots [OF wf job fresh True, of dbg now boot u reboot_result] ok by (auto simp: s' split: if_splits)
  qed
qed

section \<open>Properties\<close>

text \<open>C24: no patch job is left running. Once the transaction has returned, the job of the request is
  \<open>Failed\<close> with the classified error when the transaction failed, and otherwise \<open>Completed\<close> or
  \<open>Rebooting\<close>; it is \<open>Rebooting\<close> exactly when a reboot was wanted, the scheduler granted the
  reservation and the reboot command was accepted, and exactly then the barrier is held by the new
  reboot job. In every other case the barrier is what it was.\<close>

theorem finish_patch_settles:
  assumes wf: "sched_wf s" and job: "get_job i s = Some j" "j_status j = Running"
    and fresh: "get_job k s = None"
    and s': "s' = finish_patch_job dbg now boot i k req need patch_result reboot_result s"
  shows "\<exists>j'. get_job i s' = Some j' \<and> j_status j' \<in> {Failed, Completed, Rebooting} \<and>
    (\<forall>e. patch_result = Inl e \<longrightarrow> j_status j' = Failed \<and> j_error_code j' = Some (classify_error e)) \<and>
    (is_ok patch_result \<longrightarrow> j_status j' \<noteq> Failed) \<and>
    (j_status j' = Rebooting \<longleftrightarrow>
       is_ok patch_result \<and> should_reboot req need \<and> is_ok reboot_result \<and>
       is_ok (reserve_reboot now k boot True False s)) \<and>
    s_reboot_pending s' = (if j_status j' = Rebooting then Some k else s_reboot_pending s)"
  by (rule finish_patch_cases [OF assms])

theorem finish_patch_settles_witness:
  "\<exists>j'. get_job 1 (finish_patch_job (\<lambda>_. []) 9 None 1 2
       \<lparr>pr_packages = None, pr_allow_reboot = True, pr_reboot_delay_seconds = 60\<rparr> True (Ok ()) (Ok ())
       (insert_job 1 ((new_job 1 0 None PatchApply [])\<lparr>j_status := Running\<rparr>) (new_scheduler 2 10))) = Some j' \<and>
     j_status j' \<in> {Failed, Completed, Rebooting}"
proof -
  let ?s = "insert_job 1 ((new_job 1 0 None PatchApply [])\<lparr>j_status := Running\<rparr>) (new_scheduler 2 10)"
  have "sched_wf ?s" by (rule sched_wf_insert [OF sched_wf_new]) simp
  moreover have "get_job 1 ?s = Some ((new_job 1 0 None PatchApply [])\<lparr>j_status := Running\<rparr>)"
    "get_job 2 ?s = None" by (simp_all add: get_job_def new_scheduler_def)
  ultimately show ?thesis
    using finish_patch_settles [OF _ _ _ _ refl, of ?s 1 "(new_job 1 0 None PatchApply [])\<lparr>j_status := Running\<rparr>" 2
      "\<lambda>_. []" 9 None "\<lparr>pr_packages = None, pr_allow_reboot = True, pr_reboot_delay_seconds = 60\<rparr>" True "Ok ()" "Ok ()"]
    by auto
qed

text \<open>Stage 3 of the transaction (refresh and retry after a fetch error) is not reached for an
  apt-get failure. When the refresh and the clean-up succeed and \<open>apt-get install\<close> fails with an error
  that does not speak of dependencies, the transaction returns that error after the one attempt,
  whatever the error says: \<open>is_fetch_error\<close> reads only the outermost message, which is the context
  \<open>run_apt_safe\<close> added.\<close>

theorem fetch_errors_never_retried:
  assumes "refresh_package_cache dbg now m c w = ((Ok (), c1), w1)" and healthy: "m_poisoned m = None"
    and "ensure_dpkg_clean m w1 = (Ok (), w2)"
    and "m_run m ''apt-get'' (patch_args (Some pkgs)) (Some 1800) w2 = (Inl e, w3)"
    and "\<not> contains_any (lower_stderr e) [''unmet dependencies'', ''broken'', ''dependency'']"
    and "pr_packages req = Some pkgs"
  shows "patch_transaction dbg now m req c w =
    ((Err (add_context ''Failed to execute apt command'' e), c1), snd (ensure_dpkg_clean m w3))"
proof -
  have t: "apt_timeout (patch_args (Some pkgs)) = 1800" by (simp add: apt_timeout_def patch_args_def)
  have run: "run_apt_safe m (patch_args (Some pkgs)) w1 =
      (Err (add_context ''Failed to execute apt command'' e), snd (ensure_dpkg_clean m w3))"
    using assms(2,3,4) by (simp add: run_apt_safe_def t)
  have "lower_stderr (add_context ''Failed to execute apt command'' e) = lower_stderr e"
    by (simp add: lower_stderr_def extract_stderr_def)
  then have "apply_patches m (Some pkgs) w1 =
      (Err (add_context ''Failed to execute apt command'' e), snd (ensure_dpkg_clean m w3))"
    using assms(5) by (simp add: apply_patches_def upgrade_with_recovery_def run Let_def)
  moreover have "\<not> is_fetch_error (add_context ''Failed to execute apt command'' e)"
    unfolding is_fetch_error_context by code_simp
  ultimately show ?thesis
    using assms(1,6) by (simp add: patch_transaction_def)
qed

text \<open>The answers of the witness: every command succeeds except \<open>apt-get install\<close>, which reports a
  404 of the mirror.\<close>

definition mirror_404 :: "cmd list \<Rightarrow> cmd \<Rightarrow> child_fate" where
  "mirror_404 log c =
     (if fst c = ''apt-get'' \<and> hd (snd c) = ''install''
      then Exited (Some 100) [] ''E: Failed to fetch http://mirror/curl.deb  404  Not Found''
      else Exited (Some 0) [] [])"

definition mirror_404_error :: anyhow where
  "mirror_404_error = anyhow_new (from_output ''apt-get'' (patch_args (Some [''curl''])) (Some 100) []
     ''E: Failed to fetch http://mirror/curl.deb  404  Not Found'')"

theorem fetch_errors_never_retried_witness:
  "is_fetch_error mirror_404_error \<and> classify_error mirror_404_error = NETWORK_ERROR \<and>
   fst (fst (patch_transaction (\<lambda>_. []) 9 (logging mirror_404)
      \<lparr>pr_packages = Some [''curl''], pr_allow_reboot = False, pr_reboot_delay_seconds = 0\<rparr>
      (with_threshold_and_jitter None 3600 0) [])) =
     Err (add_context ''Failed to execute apt command'' mirror_404_error)"
proof -
  let ?m = "logging mirror_404" and ?c = "with_threshold_and_jitter None 3600 0"
  obtain c1 w1 where 1: "refresh_package_cache (\<lambda>_. []) 9 ?m ?c [] = ((Ok (), c1), w1)"
  proof -
    have "is_ok (fst (fst (refresh_package_cache (\<lambda>_. []) 9 ?m ?c [])))" by code_simp
    then show thesis using that
      by (cases "refresh_package_cache (\<lambda>_. []) 9 ?m ?c []") (auto simp: is_ok_def split: sum.splits)
  qed
  have 2: "ensure_dpkg_clean ?m w1 = (Ok (), w1 @ [CONFIGURE])"
    by (simp add: ensure_dpkg_clean_def run_dpkg_logging mirror_404_def run_async_def exited_result_def CONFIGURE_def)
  have 3: "m_run ?m ''apt-get'' (patch_args (Some [''curl''])) (Some 1800) (w1 @ [CONFIGURE]) =
      (Inl mirror_404_error, w1 @ [CONFIGURE, (''apt-get'', patch_args (Some [''curl'']))])"
    by (simp add: mirror_404_def run_async_def exited_result_def mirror_404_error_def patch_args_def
        exit_error_def from_output_def)
  have 4: "\<not> contains_any (lower_stderr mirror_404_error) [''unmet dependencies'', ''broken'', ''dependency'']"
    by code_simp
  have "is_fetch_error mirror_404_error \<and> classify_error mirror_404_error = NETWORK_ERROR" by code_simp
  then show ?thesis using fetch_errors_never_retried [OF 1 _ 2 3 4] by simp
qed

end
