(* ===== verification/Backend.thy ===== *)
theory Backend imports Patch_Handler begin

text \<open>
  The \<open>PackageManagerBackend\<close> trait of \<open>src/packages/mod.rs\<close> as a record of its methods, with the
  trait's default methods, the APT backend as such a record, and the JSON envelope of
  \<open>src/api/handlers/packages.rs\<close> every handler answers with. A method reads and changes the state
  \<open>'w\<close> of the machine. The request id and the timestamp of an answer are fresh and not modelled.
\<close>

section \<open>The trait\<close>

record 'w backend =
  be_list_packages :: "string option \<Rightarrow> 'w \<Rightarrow> (anyhow, package list) result \<times> 'w"
  be_get_package :: "string \<Rightarrow> 'w \<Rightarrow> (anyhow, package option) result \<times> 'w"
  be_install_packages :: "package_spec list \<Rightarrow> install_options \<Rightarrow> 'w \<Rightarrow> (anyhow, unit) result \<times> 'w"
  be_update_package :: "string \<Rightarrow> 'w \<Rightarrow> (anyhow, unit) result \<times> 'w"
  be_remove_package :: "string \<Rightarrow> bool \<Rightarrow> 'w \<Rightarrow> (anyhow, unit) result \<times> 'w"
  be_list_patches :: "'w \<Rightarrow> (anyhow, patch list) result \<times> 'w"
  be_apply_patches :: "string list option \<Rightarrow> 'w \<Rightarrow> (anyhow, unit) result \<times> 'w"
  be_get_system_info :: "'w \<Rightarrow> (anyhow, system_info) result \<times> 'w"
  be_reboot_system :: "nat \<Rightarrow> 'w \<Rightarrow> (anyhow, unit) result \<times> 'w"
  be_get_service_status :: "string \<Rightarrow> 'w \<Rightarrow> (anyhow, service_status option) result \<times> 'w"
  be_refresh_package_cache ::
    "package_cache_state \<Rightarrow> 'w \<Rightarrow> ((anyhow, unit) result \<times> package_cache_state) \<times> 'w"
  be_get_installed_version :: "string \<Rightarrow> 'w \<Rightarrow> (anyhow, string option) result \<times> 'w"
  be_get_candidate_version :: "string \<Rightarrow> 'w \<Rightarrow> (anyhow, string option) result \<times> 'w"
  be_repair_package_database :: "'w \<Rightarrow> (anyhow, unit) result \<times> 'w"
  be_package_database_clean :: "'w \<Rightarrow> (anyhow, bool) result \<times> 'w"

text \<open>The default methods of the trait.\<close>

definition default_get_installed_version :: "string \<Rightarrow> 'w \<Rightarrow> (anyhow, string option) result \<times> 'w" where
  "default_get_installed_version name w = (Ok None, w)"

definition default_get_candidate_version :: "string \<Rightarrow> 'w \<Rightarrow> (anyhow, string option) result \<times> 'w" where
  "default_get_candidate_version name w = (Ok None, w)"

definition default_repair_package_database :: "'w \<Rightarrow> (anyhow, unit) result \<times> 'w" where
  "default_repair_package_database w = (Ok (), w)"

definition default_package_database_clean :: "'w \<Rightarrow> (anyhow, bool) result \<times> 'w" where
  "default_package_database_clean w = (Ok True, w)"

definition apt_backend ::
    "(anyhow \<Rightarrow> string) \<Rightarrow> int \<Rightarrow> host_env \<Rightarrow> bool \<Rightarrow> bool \<Rightarrow> 'w machine \<Rightarrow> 'w backend" where
  "apt_backend dbg now env is_systemd is_openrc m =
     \<lparr>be_list_packages = Apt.list_packages m, be_get_package = Apt.get_package m,
      be_install_packages = Apt.install_packages m, be_update_package = Apt.update_package m,
      be_remove_package = Apt.remove_package m, be_list_patches = Apt.list_patches m,
      be_apply_patches = Apt.apply_patches m,
      be_get_system_info = (\<lambda>w. let (i, w1) = get_system_info (m_run m) env w in (Ok i, w1)),
      be_reboot_system = reboot_system (m_run m),
      be_get_service_status = Apt.get_service_status m is_systemd is_openrc,
      be_refresh_package_cache = Apt.refresh_package_cache dbg now m,
      be_get_installed_version = Apt.get_installed_version m,
      be_get_candidate_version = Apt.get_candidate_version m,
      be_repair_package_database = Apt.repair_package_database m,
      be_package_database_clean = Apt.package_database_clean m\<rparr>"

section \<open>The envelope\<close>

datatype json = JStr string | JNum nat | JBool bool | JObj "(string \<times> json) list"

record api_error =
  ae_code :: string
  ae_message :: string
  ae_details :: "json option"
  ae_retryable :: bool

record 'd api_response =
  ar_success :: bool
  ar_data :: "'d option"
  ar_error :: "api_error option"

definition api_success :: "'d \<Rightarrow> 'd api_response" where
  "api_success d = \<lparr>ar_success = True, ar_data = Some d, ar_error = None\<rparr>"

definition api_failure :: "string \<Rightarrow> string \<Rightarrow> json option \<Rightarrow> bool \<Rightarrow> 'd api_response" where
  "api_failure code message details retryable =
     \<lparr>ar_success = False, ar_data = None,
      ar_error = Some \<lparr>ae_code = code, ae_message = message, ae_details = details,
                       ae_retryable = retryable\<rparr>\<rparr>"

record 'd http_response =
  hr_status :: nat
  hr_retry_after :: "string option"   \<comment> \<open>the \<open>Retry-After\<close> header\<close>
  hr_body :: "'d api_response"

definition http :: "nat \<Rightarrow> 'd api_response \<Rightarrow> 'd http_response" where
  "http st b = \<lparr>hr_status = st, hr_retry_after = None, hr_body = b\<rparr>"

definition http_retry :: "nat \<Rightarrow> 'd api_response \<Rightarrow> 'd http_response" where
  "http_retry st b = \<lparr>hr_status = st, hr_retry_after = Some ''60'', hr_body = b\<rparr>"

fun admission_error_response :: "job_admission_error \<Rightarrow> 'd http_response" where
  "admission_error_response JSelfUpdateInProgress =
     http_retry 409 (api_failure ''SELF_UPDATE_IN_PROGRESS''
       ''Cannot accept new jobs while a self-update is in progress. Retry after it completes.'' None True)"
| "admission_error_response JQueueFull =
     http_retry 429 (api_failure ''QUEUE_FULL'' ''Job queue is at capacity. Please retry later.'' None True)"
| "admission_error_response JAdmissionFrozen =
     http_retry 409 (api_failure ''ADMISSION_FROZEN'' ''Admission frozen -- shutdown in progress.'' None True)"

definition validation_failure :: "string \<Rightarrow> 'd http_response" where
  "validation_failure e = http 400 (api_failure ''VALIDATION_ERROR'' e None False)"

definition internal_failure :: "string \<Rightarrow> string \<Rightarrow> anyhow \<Rightarrow> 'd http_response" where
  "internal_failure code what e =
     http 500 (api_failure code (what @ '': '' @ error_to_string e) None True)"

section \<open>Mutations spawned by a handler\<close>

text \<open>The task a handler spawns: the job it dispatches, what it does first, the closure that runs in
  the mutation slot (with the shared cache state), and what the task does with the result of
  \<open>dispatch_mutation\<close>, to the scheduler and, when it runs commands of its own, to the machine.\<close>

record 'w mutation =
  mu_job :: uuid
  mu_before :: "time \<Rightarrow> scheduler_state \<Rightarrow> scheduler_state"
  mu_closure :: "package_cache_state \<Rightarrow> 'w \<Rightarrow> ((anyhow, unit) result \<times> package_cache_state) \<times> 'w"
  mu_settle :: "time \<Rightarrow> (anyhow, unit) result \<Rightarrow> scheduler_state \<times> 'w \<Rightarrow> scheduler_state \<times> 'w"

definition keeping_cache ::
    "('w \<Rightarrow> (anyhow, unit) result \<times> 'w) \<Rightarrow> package_cache_state \<Rightarrow> 'w
     \<Rightarrow> ((anyhow, unit) result \<times> package_cache_state) \<times> 'w" where
  "keeping_cache f c w = (let (r, w1) = f w in ((r, c), w1))"

text \<open>How the closure of a started mutation ends. One that panics, or that the backstop detaches, leaves cache and machine
  in whatever state it had brought them to.\<close>

datatype 'w closure_end =
    Returns
  | Panics string package_cache_state 'w
  | Overruns package_cache_state 'w

fun closure_run ::
    "'w closure_end \<Rightarrow> 'w mutation \<Rightarrow> package_cache_state \<Rightarrow> 'w
     \<Rightarrow> closure_outcome \<times> package_cache_state \<times> 'w" where
  "closure_run Returns mu c w = (let ((r, c1), w1) = mu_closure mu c w in (Returned r, c1, w1))"
| "closure_run (Panics p c1 w1) mu c w = (Panicked p, c1, w1)"
| "closure_run (Overruns c1 w1) mu c w = (Elapsed, c1, w1)"

text \<open>The task from its start to its end, its call of \<open>dispatch_mutation\<close> in between. \<open>meanwhile\<close> is what every other
  operation makes of the scheduler while the closure runs. \<open>None\<close>: the caller waits for a wake-up, and tries again on
  the state it finds then.\<close>

definition run_mutation ::
    "time \<Rightarrow> time \<Rightarrow> (scheduler_state \<Rightarrow> scheduler_state) \<Rightarrow> 'w closure_end \<Rightarrow> 'w mutation \<Rightarrow> scheduler_state
     \<Rightarrow> package_cache_state \<Rightarrow> 'w \<Rightarrow> (scheduler_state \<times> package_cache_state \<times> 'w) option" where
  "run_mutation start_time end_time meanwhile fin mu s c w =
     (let s0 = mu_before mu start_time s in
      case dispatch_try start_time (mu_job mu) s0 of
        MustWait \<Rightarrow> None
      | Rejected msg \<Rightarrow>
          (let (s1, w1) = mu_settle mu end_time (Err (anyhow_msg msg)) (s0, w) in Some (s1, c, w1))
      | Started gen backstop s1 \<Rightarrow>
          (let (out, c1, w1) = closure_run fin mu c w;
               r = watchdog_result backstop out;
               s2 = watchdog_finish end_time (mu_job mu) gen r True (meanwhile s1);
               (s3, w2) = mu_settle mu end_time r (s2, w1)
           in Some (s3, c1, w2)))"

definition settle_job ::
    "(anyhow \<Rightarrow> string) \<Rightarrow> time \<Rightarrow> uuid \<Rightarrow> (anyhow, unit) result \<Rightarrow> scheduler_state \<Rightarrow> scheduler_state" where
  "settle_job dbg now i r s =
     (case r of Inr _ \<Rightarrow> complete_job now i s | Inl e \<Rightarrow> fail_job_with_diagnostics dbg now i e s)"

text \<open>The cache refresh that a health check or a patch list starts when the cache is stale: a
  tracking job, the refresh, and the job's removal.\<close>

definition settle_refresh ::
    "time \<Rightarrow> uuid \<Rightarrow> (anyhow, unit) result \<Rightarrow> scheduler_state \<Rightarrow> scheduler_state" where
  "settle_refresh now i r s =
     snd (delete_job i (case r of Inr _ \<Rightarrow> complete_job now i s
                                | Inl e \<Rightarrow> fail_job now i (error_to_string e) s))"

definition background_refresh ::
    "string \<Rightarrow> time \<Rightarrow> uuid \<Rightarrow> string option \<Rightarrow> 'w backend \<Rightarrow> scheduler_state
     \<Rightarrow> 'w mutation option \<times> scheduler_state" where
  "background_refresh marker now new_id boot be s =
     (case admit_job now new_id boot Install [marker] s of
        Inl _ \<Rightarrow> (None, s)
      | Inr (i, s1) \<Rightarrow>
          (Some \<lparr>mu_job = i, mu_before = (\<lambda>_ s. s), mu_closure = be_refresh_package_cache be,
                 mu_settle = (\<lambda>t r. apfst (settle_refresh t i r))\<rparr>, s1))"

section \<open>Lemmas\<close>

lemma get_job_remove [simp]: "get_job x (remove_job i s) = (if x = i then None else get_job x s)"
  by (simp add: get_job_def remove_job_def delete_conv')

lemma get_job_fail:
  "get_job x (fail_job now i e s) = (if x = i then map_option (fail now e) (get_job i s) else get_job x s)"
  by (simp add: fail_job_def)

lemma get_job_settle:
  "get_job x (settle_job dbg now i r s) =
     (if x = i then map_option (case r of Inr _ \<Rightarrow> complete now | Inl e \<Rightarrow> fail_with_diagnostics dbg now e)
                      (get_job i s)
      else get_job x s)"
  by (cases r) (simp_all add: settle_job_def get_job_complete get_job_fail_diag)

lemma settle_job_gates [simp]:
  "s_admission (settle_job dbg now i r s) = s_admission s"
  "s_reboot_pending (settle_job dbg now i r s) = s_reboot_pending s"
  "s_self_update (settle_job dbg now i r s) = s_self_update s"
  "s_active_mutation (settle_job dbg now i r s) = s_active_mutation s"
  by (cases r; simp add: settle_job_def complete_job.gates fail_job_diag.gates complete_job.slot
      fail_job_diag.slot)+

lemma settle_refresh_removes:
  "get_job x (settle_refresh now i r s) = (if x = i then None else get_job x s)"
proof -
  define s1 where "s1 = (case r of Inr _ \<Rightarrow> complete_job now i s | Inl e \<Rightarrow> fail_job now i (error_to_string e) s)"
  have "get_job i s1 = None \<or> (\<exists>j. get_job i s1 = Some j \<and> (j_status j = Completed \<or> j_status j = Failed))"
    and "x \<noteq> i \<Longrightarrow> get_job x s1 = get_job x s"
    by (cases "get_job i s"; cases r; simp add: s1_def get_job_complete get_job_fail)+
  then show ?thesis
    by (auto simp: settle_refresh_def s1_def [symmetric] delete_job_def)
qed

lemma admit_job_Inr:
  assumes "admit_job now new_id boot oper ps s = Inr (i, s1)"
  shows "i = new_id" "get_job x s1 = (if x = new_id then Some (new_job new_id now boot oper ps) else get_job x s)"
    "s_admission s1 = s_admission s" "s_reboot_pending s1 = s_reboot_pending s" "s_self_update s1 = s_self_update s"
  using assms by (auto simp: admit_job_def admit_job_inner_def Let_def split: if_splits)

lemma watchdog_keeps_job:
  "get_job x (watchdog_finish now i gen r True s) = get_job x s"
  by (simp add: watchdog_finish_def Let_def)

end
