(* ===== verification/Handlers.thy ===== *)
theory Handlers imports Backend Sorting begin

text \<open>
  The package, patch-list and job handlers of \<open>src/api/handlers\<close> (\<open>packages.rs\<close>, \<open>patches.rs\<close>,
  \<open>jobs.rs\<close>). A handler answers, leaves the scheduler in a new state and may spawn a task: its
  result is \<open>(response, scheduler, task)\<close>. Parsing the request into its record is actix's and
  serde's work, and \<open>parse_uuid\<close> stands for \<open>Uuid::parse_str\<close>, \<open>id_text\<close> for its rendering.
\<close>

section \<open>Packages: reading\<close>

definition validate_package_names :: "package_spec list \<Rightarrow> (string, unit) result" where
  "validate_package_names packages =
     foldl (\<lambda>r p. bind_res r (\<lambda>_. bind_res (validate_package_name (sp_name p)) (\<lambda>_.
        case sp_version p of None \<Rightarrow> Ok () | Some v \<Rightarrow> validate_version_string v)))
       (Ok ()) packages"

record package_list_query =
  plq_name :: "string option"
  plq_status :: "string option"
  plq_upgradable :: "bool option"
  plq_sort :: "string option"
  plq_order :: "string option"

record 'p list_data =
  ld_items :: "'p list"
  ld_total :: nat

definition keep_status :: "string option \<Rightarrow> package \<Rightarrow> bool" where
  "keep_status st p =
     (case st of None \<Rightarrow> True
      | Some t \<Rightarrow> if t = ''installed'' then p_status p = Installed
                  else if t = ''upgradable'' then p_upgradable p
                  else if t = ''available'' then p_status p = Available
                  else True)"

fun debug_package_status :: "package_status \<Rightarrow> string" where
  "debug_package_status Installed = ''Installed''"
| "debug_package_status Available = ''Available''"
| "debug_package_status Upgradable = ''Upgradable''"
| "debug_package_status NotInstalled = ''NotInstalled''"

definition sort_text :: "string \<Rightarrow> package \<Rightarrow> string" where
  "sort_text field p =
     (if field = ''name'' then p_name p
      else if field = ''version'' then p_version p
      else if field = ''status'' then debug_package_status (p_status p)
      else p_name p)"

definition package_le :: "string \<Rightarrow> bool \<Rightarrow> package \<Rightarrow> package \<Rightarrow> bool" where
  "package_le field ascending a b =
     (if ascending then \<not> str_less (sort_text field b) (sort_text field a)
      else \<not> str_less (sort_text field a) (sort_text field b))"

definition select_packages :: "package_list_query \<Rightarrow> package list \<Rightarrow> package list" where
  "select_packages q ps =
     (let ps1 = filter (keep_status (plq_status q)) ps;
          ps2 = (case plq_upgradable q of Some True \<Rightarrow> filter p_upgradable ps1 | _ \<Rightarrow> ps1);
          field = opt_or (plq_sort q) ''name'';
          ascending = (opt_or (plq_order q) ''asc'' = ''asc'')
      in sort_by (package_le field ascending) ps2)"

definition h_list_packages ::
    "'w backend \<Rightarrow> package_list_query \<Rightarrow> 'w \<Rightarrow> package list_data http_response \<times> 'w" where
  "h_list_packages be q w =
     (case be_list_packages be (plq_name q) w of
        (Inr ps, w1) \<Rightarrow>
          (let sel = select_packages q ps
           in (http 200 (api_success \<lparr>ld_items = sel, ld_total = length sel\<rparr>), w1))
      | (Inl e, w1) \<Rightarrow> (internal_failure ''PKG_MANAGER_ERROR'' ''Failed to list packages'' e, w1))"

definition h_get_package :: "'w backend \<Rightarrow> string \<Rightarrow> 'w \<Rightarrow> package http_response \<times> 'w" where
  "h_get_package be name w =
     (case validate_package_name name of
        Inl e \<Rightarrow> (validation_failure e, w)
      | Inr _ \<Rightarrow>
          (case be_get_package be name w of
             (Inr (Some p), w1) \<Rightarrow> (http 200 (api_success p), w1)
           | (Inr None, w1) \<Rightarrow>
               (http 404 (api_failure ''PKG_NOT_FOUND'' (''Package '' @ quoted name @ '' not found'') None False), w1)
           | (Inl e, w1) \<Rightarrow> (internal_failure ''PKG_MANAGER_ERROR'' ''Failed to get package'' e, w1)))"

section \<open>Packages: mutations\<close>

record install_request =
  ir_packages :: "package_spec list"
  ir_options :: install_options

record job_response_data =
  jr_job_id :: uuid
  jr_status :: string
  jr_operation :: string
  jr_packages :: "string list option"
  jr_package :: "string option"

type_synonym 'w handled = "job_response_data http_response \<times> scheduler_state \<times> 'w mutation option"

definition accepted :: "uuid \<Rightarrow> string \<Rightarrow> string list option \<Rightarrow> string option \<Rightarrow> job_response_data http_response" where
  "accepted i operation ps p =
     http 202 (api_success \<lparr>jr_job_id = i, jr_status = ''pending'', jr_operation = operation,
                            jr_packages = ps, jr_package = p\<rparr>)"

text \<open>The part the mutating handlers share: admit the job, spawn its task, answer.\<close>

definition admit_and_spawn ::
    "(anyhow \<Rightarrow> string) \<Rightarrow> time \<Rightarrow> uuid \<Rightarrow> string option \<Rightarrow> job_operation \<Rightarrow> string list
     \<Rightarrow> (package_cache_state \<Rightarrow> 'w \<Rightarrow> ((anyhow, unit) result \<times> package_cache_state) \<times> 'w)
     \<Rightarrow> string \<Rightarrow> string list option \<Rightarrow> string option \<Rightarrow> scheduler_state \<Rightarrow> 'w handled" where
  "admit_and_spawn dbg now new_id boot oper packages closure operation ps p s =
     (case admit_job now new_id boot oper packages s of
        Inl e \<Rightarrow> (admission_error_response e, s, None)
      | Inr (i, s1) \<Rightarrow>
          (accepted i operation ps p, s1,
           Some \<lparr>mu_job = i, mu_before = (\<lambda>_ s. s), mu_closure = closure,
                mu_settle = (\<lambda>t r. apfst (settle_job dbg t i r))\<rparr>))"

definition h_install_packages ::
    "(anyhow \<Rightarrow> string) \<Rightarrow> time \<Rightarrow> uuid \<Rightarrow> string option \<Rightarrow> 'w backend \<Rightarrow> install_request
     \<Rightarrow> scheduler_state \<Rightarrow> 'w handled" where
  "h_install_packages dbg now new_id boot be req s =
     (let names = map sp_name (ir_packages req) in
      case validate_package_names (ir_packages req) of
        Inl e \<Rightarrow> (validation_failure e, s, None)
      | Inr _ \<Rightarrow>
          admit_and_spawn dbg now new_id boot Install names
            (keeping_cache (be_install_packages be (ir_packages req) (ir_options req)))
            ''install'' (Some names) None s)"

text \<open>The self-update: the cache refresh may fail, the upgrade runs regardless.\<close>

definition self_update_closure ::
    "'w backend \<Rightarrow> string \<Rightarrow> package_cache_state \<Rightarrow> 'w
     \<Rightarrow> ((anyhow, unit) result \<times> package_cache_state) \<times> 'w" where
  "self_update_closure be name c w =
     (let ((_, c1), w1) = be_refresh_package_cache be c w
      in keeping_cache (be_update_package be name) c1 w1)"

definition settle_self_update ::
    "(anyhow \<Rightarrow> string) \<Rightarrow> time \<Rightarrow> uuid \<Rightarrow> (anyhow, unit) result \<Rightarrow> scheduler_state \<Rightarrow> scheduler_state" where
  "settle_self_update dbg now i r s = snd (release_self_update i (settle_job dbg now i r s))"

fun self_update_error_response :: "self_update_admission_error \<Rightarrow> 'd http_response" where
  "self_update_error_response AlreadyInProgress =
     http_retry 409 (api_failure ''SELF_UPDATE_IN_PROGRESS''
       ''A self-update is already in progress. Retry after it completes.'' None True)"
| "self_update_error_response (SJobsInProgress n) =
     http_retry 409 (api_failure ''SELF_UPDATE_BLOCKED''
       (''Cannot self-update while '' @ show_nat n @ '' jobs are in progress. Retry after jobs complete.'')
       (Some (JObj [(''running_jobs'', JNum n)])) True)"
| "self_update_error_response SQueueFull =
     http_retry 409 (api_failure ''QUEUE_FULL'' ''Job queue is at capacity. Please retry later.'' None True)"

definition h_update_package ::
    "(anyhow \<Rightarrow> string) \<Rightarrow> time \<Rightarrow> uuid \<Rightarrow> string option \<Rightarrow> 'w backend \<Rightarrow> string
     \<Rightarrow> scheduler_state \<Rightarrow> 'w handled" where
  "h_update_package dbg now new_id boot be name s =
     (case validate_package_name name of
        Inl e \<Rightarrow> (validation_failure e, s, None)
      | Inr _ \<Rightarrow>
          if name = SELF_PACKAGE_NAME then
            (case try_reserve_self_update now new_id boot [name] [] [] s of
               Inl e \<Rightarrow> (self_update_error_response e, s, None)
             | Inr (i, s1) \<Rightarrow>
                 (accepted i ''update'' None (Some name), drop_self_update_guard i True s1,
                  Some \<lparr>mu_job = i, mu_before = (\<lambda>_ s. s), mu_closure = self_update_closure be name,
                        mu_settle = (\<lambda>t r. apfst (settle_self_update dbg t i r))\<rparr>))
          else
            admit_and_spawn dbg now new_id boot Update [name]
              (keeping_cache (be_update_package be name)) ''update'' None (Some name) s)"

definition h_remove_package ::
    "(anyhow \<Rightarrow> string) \<Rightarrow> time \<Rightarrow> uuid \<Rightarrow> string option \<Rightarrow> 'w backend \<Rightarrow> string
     \<Rightarrow> scheduler_state \<Rightarrow> 'w handled" where
  "h_remove_package dbg now new_id boot be name s =
     (case validate_package_name name of
        Inl e \<Rightarrow> (validation_failure e, s, None)
      | Inr _ \<Rightarrow>
          admit_and_spawn dbg now new_id boot Remove [name]
            (keeping_cache (be_remove_package be name False)) ''remove'' None (Some name) s)"

section \<open>Patches\<close>

record patch_list_data =
  pl_patches :: "patch list"
  pl_total :: nat
  pl_security_updates :: nat
  pl_requires_reboot :: bool

definition patch_list_data_of :: "patch list \<Rightarrow> patch_list_data" where
  "patch_list_data_of ps =
     \<lparr>pl_patches = ps, pl_total = length ps,
      pl_security_updates =
        length (filter (\<lambda>p. pa_severity p = ''critical'' \<or> pa_severity p = ''high'') ps),
      pl_requires_reboot = list_ex pa_requires_reboot ps\<rparr>"

definition h_list_patches ::
    "time \<Rightarrow> int \<Rightarrow> uuid \<Rightarrow> string option \<Rightarrow> 'w backend \<Rightarrow> package_cache_state \<Rightarrow> scheduler_state
     \<Rightarrow> 'w \<Rightarrow> (patch_list_data http_response \<times> scheduler_state \<times> 'w mutation option) \<times> 'w" where
  "h_list_patches now now_secs new_id boot be cache s w =
     (let (task, s1) = (if is_stale now_secs cache
                        then background_refresh ''__patch_list_refresh__'' now new_id boot be s
                        else (None, s));
          (r, w1) = be_list_patches be w
      in ((case r of
             Inr ps \<Rightarrow> http 200 (api_success (patch_list_data_of ps))
           | Inl e \<Rightarrow> internal_failure ''PKG_MANAGER_ERROR'' ''Failed to list patches'' e, s1, task), w1))"

text \<open>The transaction over any backend; \<open>Patch_Handler.patch_transaction\<close> is the one over APT.\<close>

definition transaction ::
    "'w backend \<Rightarrow> patch_apply_request \<Rightarrow> package_cache_state \<Rightarrow> 'w
     \<Rightarrow> ((anyhow, unit) result \<times> package_cache_state) \<times> 'w" where
  "transaction be req cache w =
     (case be_refresh_package_cache be cache w of
        ((Inl e, c1), w1) \<Rightarrow> ((Err (add_context ''initial cache refresh failed'' e), c1), w1)
      | ((Inr _, c1), w1) \<Rightarrow>
          (case be_apply_patches be (pr_packages req) w1 of
             (Inr _, w2) \<Rightarrow> ((Ok (), c1), w2)
           | (Inl e, w2) \<Rightarrow>
               if is_fetch_error e then
                 (case be_refresh_package_cache be c1 w2 of
                    ((Inl e', c2), w3) \<Rightarrow> ((Err (add_context ''retry cache refresh failed'' e'), c2), w3)
                  | ((Inr _, c2), w3) \<Rightarrow>
                      (case be_apply_patches be (pr_packages req) w3 of
                         (Inr _, w4) \<Rightarrow> ((Ok (), c2), w4)
                       | (Inl e', w4) \<Rightarrow> ((Err (add_context ''retry patch apply failed'' e'), c2), w4)))
               else ((Err e, c1), w2)))"

text \<open>After the transaction the task asks the backend, when the request allows a reboot, whether one is pending, and
  \<open>finish_patch_job\<close> decides with the answer. It runs the reboot command at one place: with the reservation granted and
  not lost again before the command.\<close>

definition asks_pending_reboot ::
    "'w backend \<Rightarrow> patch_apply_request \<Rightarrow> 'w \<Rightarrow> bool \<times> 'w" where
  "asks_pending_reboot be req w =
     (if pr_allow_reboot req then
        (case be_get_system_info be w of
           (Inr si, w1) \<Rightarrow> (si_pending_reboot si, w1)
         | (Inl _, w1) \<Rightarrow> (False, w1))
      else (False, w))"

definition reboot_commanded ::
    "time \<Rightarrow> uuid \<Rightarrow> uuid \<Rightarrow> string option \<Rightarrow> patch_apply_request \<Rightarrow> bool \<Rightarrow> scheduler_state \<Rightarrow> bool" where
  "reboot_commanded now i reboot_id boot req need s =
     (should_reboot req need \<and>
      (let s1 = add_job_log now i (''Reboot scheduled in '' @ show_nat (pr_reboot_delay_seconds req)
                  @ '' seconds (reboot required after patching)'') s in
       case reserve_reboot now reboot_id boot True False s1 of
         Inl _ \<Rightarrow> False
       | Inr (k, s2) \<Rightarrow>
           fst (begin_reboot_execution now k (add_job_log now i ''Reboot reservation acquired by scheduler''
             (res_state1 s2 (set_job_rebooting now i ''Patches applied; awaiting reboot'' s2))))))"

definition settle_patch ::
    "(anyhow \<Rightarrow> string) \<Rightarrow> time \<Rightarrow> string option \<Rightarrow> uuid \<Rightarrow> uuid \<Rightarrow> 'w backend \<Rightarrow> patch_apply_request
     \<Rightarrow> (anyhow, unit) result \<Rightarrow> scheduler_state \<times> 'w \<Rightarrow> scheduler_state \<times> 'w" where
  "settle_patch dbg now boot i reboot_id be req r sw =
     (let (s, w) = sw in
      case r of
        Inl _ \<Rightarrow> (finish_patch_job dbg now boot i reboot_id req False r (Ok ()) s, w)
      | Inr _ \<Rightarrow>
          (let (need, w1) = asks_pending_reboot be req w;
               (reboot_result, w2) =
                 (if reboot_commanded now i reboot_id boot req need s
                  then be_reboot_system be (pr_reboot_delay_seconds req) w1 else (Ok (), w1))
           in (finish_patch_job dbg now boot i reboot_id req need r reboot_result s, w2)))"

text \<open>\<open>reboot_id\<close> is the UUID of the reboot job.\<close>

definition h_apply_patches ::
    "(anyhow \<Rightarrow> string) \<Rightarrow> time \<Rightarrow> uuid \<Rightarrow> uuid \<Rightarrow> string option
     \<Rightarrow> 'w backend \<Rightarrow> patch_apply_request \<Rightarrow> scheduler_state \<Rightarrow> 'w handled" where
  "h_apply_patches dbg now new_id reboot_id boot be req s =
     (case foldl (\<lambda>r p. bind_res r (\<lambda>_. validate_package_name p)) (Ok ()) (opt_or (pr_packages req) []) of
        Inl e \<Rightarrow> (validation_failure e, s, None)
      | Inr _ \<Rightarrow>
          (case admit_job now new_id boot PatchApply (opt_or (pr_packages req) []) s of
             Inl e \<Rightarrow> (admission_error_response e, s, None)
           | Inr (i, s1) \<Rightarrow>
               (accepted i ''patch_apply''
                  (Some [show_nat (length (opt_or (pr_packages req) [])) @ '' packages'']) None,
                s1,
                Some \<lparr>mu_job = i, mu_before = (\<lambda>t. add_job_log t i ''Refreshing package cache...''),
                      mu_closure = transaction be req,
                      mu_settle = (\<lambda>t. settle_patch dbg t boot i reboot_id be req)\<rparr>)))"

section \<open>Jobs\<close>

record job_summary =
  js_job_id :: uuid
  js_operation :: string
  js_status :: string
  js_created_at :: time
  js_completed_at :: "time option"
  js_packages :: "string list"
  js_error_code :: "string option"

record job_detail = job_summary +
  jd_progress :: u8
  jd_message :: string
  jd_logs :: "string list"
  jd_error :: "string option"
  jd_exit_code :: "i32 option"
  jd_command_stdout :: "string option"
  jd_command_stderr :: "string option"
  jd_rollback_job_id :: "uuid option"
  jd_exclusive_mode :: bool

fun debug_status :: "job_status \<Rightarrow> string" where
  "debug_status Pending = ''Pending''"
| "debug_status Running = ''Running''"
| "debug_status Rebooting = ''Rebooting''"
| "debug_status Completed = ''Completed''"
| "debug_status Failed = ''Failed''"
| "debug_status Cancelled = ''Cancelled''"
| "debug_status TimedOut = ''TimedOut''"

fun debug_operation :: "job_operation \<Rightarrow> string" where
  "debug_operation Install = ''Install''"
| "debug_operation Update = ''Update''"
| "debug_operation Remove = ''Remove''"
| "debug_operation PatchApply = ''PatchApply''"
| "debug_operation Reboot = ''Reboot''"
| "debug_operation SelfUpdate = ''SelfUpdate''"
| "debug_operation Rollback = ''Rollback''"

definition summary_from_job :: "job \<Rightarrow> job_summary" where
  "summary_from_job j =
     \<lparr>js_job_id = j_id j, js_operation = to_lowercase (debug_operation (j_operation j)),
      js_status = to_lowercase (debug_status (j_status j)), js_created_at = j_created_at j,
      js_completed_at = j_completed_at j, js_packages = j_packages j, js_error_code = j_error_code j\<rparr>"

definition detail_from_job :: "job \<Rightarrow> job_detail" where
  "detail_from_job j =
     \<lparr>js_job_id = j_id j, js_operation = to_lowercase (debug_operation (j_operation j)),
      js_status = to_lowercase (debug_status (j_status j)), js_created_at = j_created_at j,
      js_completed_at = j_completed_at j, js_packages = j_packages j, js_error_code = j_error_code j,
      jd_progress = j_progress j, jd_message = j_message j, jd_logs = j_logs j, jd_error = j_error j,
      jd_exit_code = j_exit_code j, jd_command_stdout = j_command_stdout j,
      jd_command_stderr = j_command_stderr j, jd_rollback_job_id = j_rollback_job_id j,
      jd_exclusive_mode = j_exclusive_mode j\<rparr>"

definition parse_job_status :: "string \<Rightarrow> job_status option" where
  "parse_job_status str =
     (let t = to_lowercase str in
      if t = ''pending'' then Some Pending
      else if t = ''running'' then Some Running
      else if t = ''rebooting'' then Some Rebooting
      else if t = ''completed'' then Some Completed
      else if t = ''failed'' then Some Failed
      else if t = ''cancelled'' then Some Cancelled
      else if t = ''timedout'' then Some TimedOut
      else None)"

definition h_list_jobs ::
    "string option \<Rightarrow> nat option \<Rightarrow> scheduler_state \<Rightarrow> job_summary list_data http_response" where
  "h_list_jobs status limit s =
     (let status_filter = (case status of None \<Rightarrow> None | Some t \<Rightarrow> parse_job_status t);
          jobs = list_jobs status_filter (opt_or limit 50) s
      in http 200 (api_success \<lparr>ld_items = map summary_from_job jobs, ld_total = length jobs\<rparr>))"

definition invalid_job_id :: "'d http_response" where
  "invalid_job_id = http 400 (api_failure ''INVALID_JOB_ID'' ''Invalid job ID format. Expected UUID.'' None False)"

definition job_not_found :: "string \<Rightarrow> 'd http_response" where
  "job_not_found t = http 404 (api_failure ''JOB_NOT_FOUND'' (''Job '' @ quoted t @ '' not found'') None False)"

definition h_get_job :: "(string \<Rightarrow> uuid option) \<Rightarrow> string \<Rightarrow> scheduler_state \<Rightarrow> job_detail http_response" where
  "h_get_job parse_uuid t s =
     (case parse_uuid t of
        None \<Rightarrow> invalid_job_id
      | Some i \<Rightarrow> (case get_job i s of
          Some j \<Rightarrow> http 200 (api_success (detail_from_job j))
        | None \<Rightarrow> job_not_found t))"

definition h_rollback_job ::
    "(string \<Rightarrow> uuid option) \<Rightarrow> (uuid \<Rightarrow> string) \<Rightarrow> time \<Rightarrow> uuid \<Rightarrow> string option \<Rightarrow> string
     \<Rightarrow> scheduler_state \<Rightarrow> json http_response \<times> scheduler_state \<times> 'w mutation option" where
  "h_rollback_job parse_uuid id_text now new_id boot t s =
     (case parse_uuid t of
        None \<Rightarrow> (invalid_job_id, s, None)
      | Some i \<Rightarrow>
          (case create_rollback_job now new_id boot i s of
             Inr (Some k, s1) \<Rightarrow>
               (http 202 (api_success (JObj [(''job_id'', JStr (id_text k)), (''status'', JStr ''pending''),
                  (''operation'', JStr ''rollback''), (''original_job_id'', JStr t),
                  (''exclusive_mode'', JBool True)])), s1, None)
           | Inr (None, s1) \<Rightarrow>
               (http 400 (api_failure ''ROLLBACK_NOT_ALLOWED''
                  ''Job is not eligible for rollback. Only failed or completed jobs can be rolled back.''
                  (Some (JObj [(''job_id'', JStr t)])) False), s1, None)
           | Inl e \<Rightarrow> (admission_error_response e, s, None)))"

text \<open>\<open>Scheduler::delete_job\<close> always returns \<open>Ok\<close>; the handler's branch for its error is dead.\<close>

definition h_delete_job ::
    "(string \<Rightarrow> uuid option) \<Rightarrow> string \<Rightarrow> scheduler_state \<Rightarrow> json http_response \<times> scheduler_state" where
  "h_delete_job parse_uuid t s =
     (case parse_uuid t of
        None \<Rightarrow> (invalid_job_id, s)
      | Some i \<Rightarrow>
          (case delete_job i s of
             (True, s1) \<Rightarrow> (http 200 (api_success (JObj [(''deleted'', JBool True), (''job_id'', JStr t)])), s1)
           | (False, s1) \<Rightarrow>
               (case get_job i s1 of
                  Some j \<Rightarrow> (http 409 (api_failure ''DELETE_NOT_ALLOWED''
                     ''Cannot delete job that is not in a terminal state (completed/failed/cancelled).''
                     (Some (JObj [(''job_id'', JStr t), (''status'', JStr (to_lowercase (debug_status (j_status j))))]))
                     False), s1)
                | None \<Rightarrow> (job_not_found t, s1))))"

section \<open>Lemmas: validation\<close>

lemma foldl_bind_Inl: "foldl (\<lambda>r p. bind_res r (\<lambda>_. f p)) (Inl e) ps = Inl e"
  by (induction ps) simp_all

lemma foldl_bind_ok:
  "foldl (\<lambda>r p. bind_res r (\<lambda>_. f p)) (Inr u) ps = Inr v \<Longrightarrow> p \<in> set ps \<Longrightarrow> is_ok (f p)"
proof (induction ps arbitrary: u)
  case (Cons q qs)
  then show ?case by (cases "f q") (auto simp: foldl_bind_Inl)
qed simp

lemma validate_package_names_ok:
  assumes "validate_package_names ps = Inr u" "p \<in> set ps"
  shows "is_ok (validate_package_name (sp_name p))"
proof -
  have "is_ok (bind_res (validate_package_name (sp_name p)) (\<lambda>_.
        case sp_version p of None \<Rightarrow> Ok () | Some v \<Rightarrow> validate_version_string v))"
    using foldl_bind_ok [OF assms(1) [unfolded validate_package_names_def] assms(2)] .
  then show ?thesis by (cases "validate_package_name (sp_name p)") auto
qed

lemma valid_name_not_internal:
  assumes "is_ok (validate_package_name n)"
  shows "\<not> starts_with n ''__''"
proof
  assume "starts_with n ''__''"
  then have "hd n = CHR ''_''" by (auto simp: starts_with_def prefix_def)
  moreover have "is_ascii_alphanumeric (hd n)"
    using assms by (auto simp: validate_package_name_def split: if_splits)
  ultimately show False
    by (simp add: is_ascii_alphanumeric_def is_upper_c_def is_lower_c_def is_digit_c_def)
qed

text \<open>A handler's outcome is sound when a refusal changes nothing and an acceptance adds exactly one
  pending job of the given operation, which the admission limits count, and spawns its task.\<close>

definition sound_outcome :: "job_operation \<Rightarrow> uuid \<Rightarrow> scheduler_state \<Rightarrow> 'w handled \<Rightarrow> bool" where
  "sound_outcome oper new_id s out =
     (case out of
        (resp, s', None) \<Rightarrow> s' = s \<and> \<not> ar_success (hr_body resp) \<and> hr_status resp \<in> {400, 409, 429}
      | (resp, s', Some mu) \<Rightarrow>
          ar_success (hr_body resp) \<and> hr_status resp = 202 \<and> mu_job mu = new_id \<and>
          s_admission s = Open \<and> s_reboot_pending s = None \<and> s_self_update s = None \<and>
          (\<exists>j. get_job new_id s' = Some j \<and> j_status j = Pending \<and> j_operation j = oper \<and>
               \<not> is_internal j \<and> list_all (\<lambda>p. is_ok (validate_package_name p)) (j_packages j)) \<and>
          (\<forall>x. x \<noteq> new_id \<longrightarrow> get_job x s' = get_job x s))"

lemma admission_error_sound:
  "\<not> ar_success (hr_body (admission_error_response e)) \<and> hr_status (admission_error_response e) \<in> {400, 409, 429}"
  by (cases e) (simp_all add: http_retry_def api_failure_def)

lemma self_update_error_sound:
  "\<not> ar_success (hr_body (self_update_error_response e)) \<and> hr_status (self_update_error_response e) \<in> {400, 409, 429}"
  by (cases e) (simp_all add: http_retry_def api_failure_def)

lemma new_job_user:
  assumes "\<And>p. p \<in> set ps \<Longrightarrow> is_ok (validate_package_name p)"
  shows "\<not> is_internal (new_job i now b oper ps)"
  using assms valid_name_not_internal by (auto simp: is_internal_def list_ex_iff)

lemma j_operation_new [simp]: "j_operation (new_job i now b oper ps) = oper"
  by (simp add: new_job_def)

lemma admit_job_open:
  assumes "admit_job now i b oper ps s = Inr (k, s')"
  shows "s_admission s = Open \<and> s_reboot_pending s = None \<and> s_self_update s = None"
  using assms by (auto simp: admit_job_def admit_job_inner_def split: if_splits)

lemma admitted_sound:
  assumes "\<And>p. p \<in> set ps \<Longrightarrow> is_ok (validate_package_name p)"
    and "admit_job now new_id boot oper ps s = Inr (i, s1)" and "mu_job mu = i"
    and "ar_success (hr_body resp)" "hr_status resp = 202"
  shows "sound_outcome oper new_id s (resp, s1, Some mu)"
  using assms admit_job_Inr [OF assms(2)] admit_job_open [OF assms(2)] new_job_user [of ps new_id now boot oper]
  by (simp add: sound_outcome_def list_all_iff)

lemma accepted_simps [simp]: "ar_success (hr_body (accepted i t ps p))" "hr_status (accepted i t ps p) = 202"
  by (simp_all add: accepted_def http_def api_success_def)

lemma validation_failure_sound: "sound_outcome oper new_id s (validation_failure e, s, None)"
  by (simp add: sound_outcome_def validation_failure_def http_def api_failure_def)

lemma admit_and_spawn_sound:
  assumes "\<And>p. p \<in> set names \<Longrightarrow> is_ok (validate_package_name p)"
  shows "sound_outcome oper new_id s (admit_and_spawn dbg now new_id boot oper names cl t ps p s)"
proof (cases "admit_job now new_id boot oper names s")
  case (Inl e)
  then show ?thesis
    using admission_error_sound by (simp add: admit_and_spawn_def sound_outcome_def)
next
  case (Inr is1)
  obtain i s1 where "is1 = (i, s1)" by (cases is1)
  with Inr assms show ?thesis
    by (auto simp: admit_and_spawn_def intro!: admitted_sound)
qed

lemma self_update_open:
  assumes "try_reserve_self_update now i b ps f t s = Inr (k, s')"
  shows "k = i" "s_admission s = Open \<and> s_reboot_pending s = None \<and> s_self_update s = None"
    "get_job x s' = (if x = i then Some (new_job i now b SelfUpdate ps) else get_job x s)"
    "s_self_update s' \<noteq> None \<and> su_job_id (the (s_self_update s')) = i"
    "s_admission s' = Open" "s_reboot_pending s' = None"
  using assms by (auto simp: try_reserve_self_update_def Let_def get_job_def update_conv' split: if_splits option.splits)

section \<open>Lemmas: sorting\<close>

lemma package_le_total: "package_le f up a b \<or> package_le f up b a"
  using str_less_total by (auto simp: package_le_def)

lemma package_le_trans: "package_le f up a b \<Longrightarrow> package_le f up b c \<Longrightarrow> package_le f up a c"
  using str_less_neg_trans by (auto simp: package_le_def split: if_splits)

lemma package_le_same: "sort_text f a = sort_text f b \<Longrightarrow> package_le f up a b"
  by (simp add: package_le_def)

text \<open>The order a query asks for, said apart from the handler's code: names and versions in the dictionary order of their
  bytes, states in the alphabetical order of their names, downwards when \<open>order\<close> is given and is not \<open>asc\<close>.\<close>

definition dictionary_le :: "string \<Rightarrow> string \<Rightarrow> bool" where
  "dictionary_le a b \<longleftrightarrow>
     prefix a b \<or> (\<exists>u c d v w. a = u @ c # v \<and> b = u @ d # w \<and> byte c < byte d)"

fun status_rank :: "package_status \<Rightarrow> nat" where
  "status_rank Available = 0"
| "status_rank Installed = 1"
| "status_rank NotInstalled = 2"
| "status_rank Upgradable = 3"

definition requested_le :: "package_list_query \<Rightarrow> package \<Rightarrow> package \<Rightarrow> bool" where
  "requested_le q a b =
     (let (x, y) = (if plq_order q = None \<or> plq_order q = Some ''asc'' then (a, b) else (b, a)) in
      if plq_sort q = Some ''version'' then dictionary_le (p_version x) (p_version y)
      else if plq_sort q = Some ''status'' then status_rank (p_status x) \<le> status_rank (p_status y)
      else dictionary_le (p_name x) (p_name y))"

lemma dictionary_le_simps [simp]:
  "dictionary_le [] b" "\<not> dictionary_le (c # s) []"
  by (simp_all add: dictionary_le_def)

lemma dictionary_le_Cons [simp]:
  "dictionary_le (c # s) (d # t) \<longleftrightarrow> byte c < byte d \<or> (c = d \<and> dictionary_le s t)"
proof
  assume "dictionary_le (c # s) (d # t)"
  then consider "prefix (c # s) (d # t)"
    | u x y v w where "c # s = u @ x # v" "d # t = u @ y # w" "byte x < byte y"
    unfolding dictionary_le_def by blast
  then show "byte c < byte d \<or> (c = d \<and> dictionary_le s t)"
    by cases (auto simp: dictionary_le_def Cons_eq_append_conv)
next
  assume "byte c < byte d \<or> (c = d \<and> dictionary_le s t)"
  then show "dictionary_le (c # s) (d # t)"
  proof
    assume "byte c < byte d"
    then show ?thesis unfolding dictionary_le_def by (intro disjI2 exI [of _ "[]"]) auto
  next
    assume "c = d \<and> dictionary_le s t"
    then consider "c = d" "prefix s t" | u x y v w where "c = d" "s = u @ x # v" "t = u @ y # w" "byte x < byte y"
      unfolding dictionary_le_def by blast
    then show ?thesis
    proof cases
      case 2
      then show ?thesis unfolding dictionary_le_def by (intro disjI2 exI [of _ "c # u"]) auto
    qed (simp add: dictionary_le_def)
  qed
qed

lemma not_str_less: "\<not> str_less b a \<longleftrightarrow> dictionary_le a b"
  by (induction b a rule: str_less.induct) (auto simp: linorder_neq_iff)

lemma status_text_order: "dictionary_le (debug_package_status s) (debug_package_status t) \<longleftrightarrow> status_rank s \<le> status_rank t"
  by (cases s; cases t) simp_all

lemma package_le_requested:
  "package_le (opt_or (plq_sort q) ''name'') (opt_or (plq_order q) ''asc'' = ''asc'') = requested_le q"
  by (intro ext) (cases "plq_sort q"; cases "plq_order q";
    simp add: package_le_def sort_text_def requested_le_def not_str_less status_text_order opt_or_def)

section \<open>Properties\<close>

definition selected :: "package_list_query \<Rightarrow> package \<Rightarrow> bool" where
  "selected q p \<longleftrightarrow>
     (plq_status q = Some ''installed'' \<longrightarrow> p_status p = Installed) \<and>
     (plq_status q = Some ''available'' \<longrightarrow> p_status p = Available) \<and>
     (plq_status q = Some ''upgradable'' \<or> plq_upgradable q = Some True \<longrightarrow> p_upgradable p)"

lemma keep_status_selected: "keep_status (plq_status q) p \<and> (plq_upgradable q = Some True \<longrightarrow> p_upgradable p) \<longleftrightarrow> selected q p"
  by (auto simp: keep_status_def selected_def split: option.splits)

lemma select_packages_requested: "select_packages q ps = sort_by (requested_le q) (filter (selected q) ps)"
proof -
  have kept: "(case plq_upgradable q of Some True \<Rightarrow> filter p_upgradable (filter (keep_status (plq_status q)) ps)
      | _ \<Rightarrow> filter (keep_status (plq_status q)) ps) = filter (selected q) ps"
    by (auto simp: keep_status_selected [symmetric] conj_commute split: option.splits bool.splits intro!: filter_cong)
  show ?thesis unfolding select_packages_def Let_def package_le_requested kept ..
qed

text \<open>C35: listing packages. The answer holds exactly the packages the backend reported that pass the status and
  upgradable filters, each as often as reported and none cut off by a page, in the requested order: by version or by
  state when the query says so, by name for every other sort field, upwards unless an order other than \<open>asc\<close> is given.
  Packages the order does not tell apart keep the backend's order; the total is the number listed. A backend error is a
  500.\<close>

theorem list_packages_selects:
  "let (r, w') = be_list_packages be (plq_name q) w;
       (resp, w'') = h_list_packages be q w
   in w'' = w' \<and>
     (case r of
        Inl e \<Rightarrow> hr_status resp = 500 \<and> ar_data (hr_body resp) = None
      | Inr ps \<Rightarrow> (\<exists>items. hr_status resp = 200 \<and> ar_data (hr_body resp) = Some \<lparr>ld_items = items, ld_total = length items\<rparr> \<and>
          mset items = filter_mset (selected q) (mset ps) \<and> sorted_wrt (requested_le q) items \<and>
          (\<forall>x. filter (\<lambda>p. requested_le q p x \<and> requested_le q x p) items
               = filter (\<lambda>p. requested_le q p x \<and> requested_le q x p) (filter (selected q) ps))))"
proof -
  obtain r w' where b: "be_list_packages be (plq_name q) w = (r, w')" by (cases "be_list_packages be (plq_name q) w")
  show ?thesis
  proof (cases r)
    case (Inl e)
    with b show ?thesis by (simp add: h_list_packages_def internal_failure_def http_def api_failure_def)
  next
    case (Inr ps)
    let ?le = "requested_le q"
    let ?kept = "filter (selected q) ps"
    have sel: "select_packages q ps = sort_by ?le ?kept" by (rule select_packages_requested)
    have trans: "?le a b \<Longrightarrow> ?le b c \<Longrightarrow> ?le a c" for a b c
      unfolding package_le_requested [symmetric] by (rule package_le_trans)
    have total: "?le a b \<or> ?le b a" for a b
      unfolding package_le_requested [symmetric] by (rule package_le_total)
    have stable: "filter (\<lambda>p. ?le p x \<and> ?le x p) (sort_by ?le ?kept) = filter (\<lambda>p. ?le p x \<and> ?le x p) ?kept" for x
      by (rule filter_sort_by) (blast intro: trans)
    have sorted: "sorted_wrt ?le (sort_by ?le ?kept)"
      by (rule sorted_sort_by [OF total]) (rule trans)
    have out: "h_list_packages be q w
        = (http 200 (api_success \<lparr>ld_items = sort_by ?le ?kept, ld_total = length (sort_by ?le ?kept)\<rparr>), w')"
      using b Inr by (simp add: h_list_packages_def sel Let_def)
    show ?thesis
      unfolding out using b Inr sorted stable by (simp add: http_def api_success_def mset_sort_by del: filter_filter)
  qed
qed

lemma h_install_sound: "sound_outcome Install new_id s (h_install_packages dbg now new_id boot be req s)"
  by (cases "validate_package_names (ir_packages req)")
    (auto simp: h_install_packages_def Let_def validation_failure_sound dest: validate_package_names_ok
      intro!: admit_and_spawn_sound)

lemma h_remove_sound: "sound_outcome Remove new_id s (h_remove_package dbg now new_id boot be name s)"
  by (cases "validate_package_name name")
    (auto simp: h_remove_package_def validation_failure_sound intro!: admit_and_spawn_sound)

lemma h_update_sound:
  "sound_outcome (if name = SELF_PACKAGE_NAME then SelfUpdate else Update) new_id s
     (h_update_package dbg now new_id boot be name s)"
proof (cases "validate_package_name name")
  case (Inl e)
  then show ?thesis by (simp add: h_update_package_def validation_failure_sound)
next
  case ok: (Inr u)
  show ?thesis
  proof (cases "name = SELF_PACKAGE_NAME")
    case False
    then show ?thesis using ok by (auto simp: h_update_package_def intro!: admit_and_spawn_sound)
  next
    case True
    show ?thesis
    proof (cases "try_reserve_self_update now new_id boot [name] [] [] s")
      case (Inl e)
      then show ?thesis using ok True self_update_error_sound
        by (simp add: h_update_package_def sound_outcome_def)
    next
      case (Inr ks)
      then obtain k s1 where "try_reserve_self_update now new_id boot [name] [] [] s = Inr (k, s1)"
        by (cases ks) auto
      note r = this self_update_open [OF this]
      show ?thesis using ok True r new_job_user [of "[name]" new_id now boot SelfUpdate]
        by (simp add: h_update_package_def sound_outcome_def drop_self_update_guard_def)
    qed
  qed
qed

lemma h_apply_sound: "sound_outcome PatchApply new_id s (h_apply_patches dbg now new_id rid boot be preq s)"
proof (cases "foldl (\<lambda>r p. bind_res r (\<lambda>_. validate_package_name p)) (Ok ()) (opt_or (pr_packages preq) [])")
  case (Inl e)
  then show ?thesis by (simp add: h_apply_patches_def validation_failure_sound)
next
  case ok: (Inr u)
  show ?thesis
  proof (cases "admit_job now new_id boot PatchApply (opt_or (pr_packages preq) []) s")
    case (Inl e)
    then show ?thesis using ok admission_error_sound by (simp add: h_apply_patches_def sound_outcome_def)
  next
    case (Inr is1)
    then show ?thesis using ok foldl_bind_ok [OF ok]
      by (cases is1) (auto simp: h_apply_patches_def intro!: admitted_sound)
  qed
qed

text \<open>No unchecked input reaches the package manager. A mutating package or patch request that is
  refused leaves the scheduler as it was; one that is accepted found every gate open and adds exactly one
  pending job, all of whose package names passed validation and which no choice of names can hide
  from the admission limits.\<close>

theorem handlers_sound:
  "sound_outcome Install new_id s (h_install_packages dbg now new_id boot be req s) \<and>
   sound_outcome (if name = SELF_PACKAGE_NAME then SelfUpdate else Update) new_id s
     (h_update_package dbg now new_id boot be name s) \<and>
   sound_outcome Remove new_id s (h_remove_package dbg now new_id boot be name s) \<and>
   sound_outcome PatchApply new_id s (h_apply_patches dbg now new_id rid boot be preq s)"
  by (intro conjI h_install_sound h_update_sound h_remove_sound h_apply_sound)

text \<open>The path of a self-update through its task.\<close>

lemma start_mutation_keeps:
  "get_job x (start_mutation now i s) = None \<longleftrightarrow> get_job x s = None"
  "s_self_update (start_mutation now i s) = s_self_update s"
  by (simp_all add: start_mutation_def Let_def start_gates)

lemma dispatch_Started_state: "dispatch_try n i s = Started g b s1 \<Longrightarrow> s1 = start_mutation n i s"
  by (auto simp: dispatch_try_def Let_def split: if_splits)

lemma h_update_self:
  assumes "h_update_package dbg now i boot be SELF_PACKAGE_NAME s = (resp, s0, Some mu)"
  shows "try_reserve_self_update now i boot [SELF_PACKAGE_NAME] [] [] s = Inr (i, s0) \<and>
    mu = \<lparr>mu_job = i, mu_before = (\<lambda>_ s. s), mu_closure = self_update_closure be SELF_PACKAGE_NAME,
          mu_settle = (\<lambda>t r. apfst (settle_self_update dbg t i r))\<rparr>"
proof -
  have valid: "validate_package_name SELF_PACKAGE_NAME = Ok ()" by code_simp
  show ?thesis
  proof (cases "try_reserve_self_update now i boot [SELF_PACKAGE_NAME] [] [] s")
    case (Inl e)
    with assms valid show ?thesis by (simp add: h_update_package_def)
  next
    case (Inr ks)
    then obtain k s1 where r: "try_reserve_self_update now i boot [SELF_PACKAGE_NAME] [] [] s = Inr (k, s1)"
      by (cases ks) auto
    with assms valid self_update_open(1) [OF r] show ?thesis
      by (auto simp: h_update_package_def drop_self_update_guard_def)
  qed
qed

text \<open>A self-update ends its reservation. At whatever turn of its dispatch loop the task of an accepted self-update
  is decided, in any state that still holds its job and its reservation, one of three things happens. It waits, and then
  another mutation holds the slot or the limit of running jobs is reached. Or the dispatch refuses it, and its job is
  \<open>Failed\<close>. Or it runs, and its job is \<open>Completed\<close> exactly when the closure returned and the upgrade succeeded, \<open>Failed\<close>
  when the upgrade failed, the closure panicked or the backstop elapsed. In the last two cases the reservation is gone,
  whatever the cache refresh before the upgrade answered and whatever other operations did meanwhile, as long as they left
  the job and the reservation in place.\<close>

definition upgraded :: "'w backend \<Rightarrow> 'w closure_end \<Rightarrow> package_cache_state \<Rightarrow> 'w \<Rightarrow> bool" where
  "upgraded be fin c w =
     (fin = Returns \<and> is_ok (fst (be_update_package be SELF_PACKAGE_NAME (snd (be_refresh_package_cache be c w)))))"

theorem self_update_released:
  assumes acc: "h_update_package dbg now i boot be SELF_PACKAGE_NAME s = (resp, s0, Some mu)"
    and later: "get_job i s1 \<noteq> None" "s_self_update s1 = s_self_update s0"
    and keep_job: "\<And>t. get_job i t \<noteq> None \<Longrightarrow> get_job i (meanwhile t) \<noteq> None"
    and keep_su: "\<And>t. s_self_update (meanwhile t) = s_self_update t"
  shows "case run_mutation n1 n2 meanwhile fin mu s1 cache w of
      None \<Rightarrow> s_active_mutation s1 \<noteq> None \<or> s_max_concurrent s1 \<le> running_count s1
    | Some (s2, cache2, w2) \<Rightarrow> s_self_update s2 = None \<and>
        (\<exists>j. get_job i s2 = Some j \<and>
           j_status j = (case dispatch_try n1 i s1 of
                           Started g b s' \<Rightarrow> if upgraded be fin cache w then Completed else Failed
                         | _ \<Rightarrow> Failed))"
proof -
  note h = h_update_self [OF acc]
  note su = self_update_open [OF conjunct1 [OF h]]
  have mu: "mu_job mu = i" "mu_before mu = (\<lambda>_ s. s)" "mu_closure mu = self_update_closure be SELF_PACKAGE_NAME"
    "mu_settle mu = (\<lambda>t r. apfst (settle_self_update dbg t i r))" using h by simp_all
  have settle: "s_self_update (settle_self_update dbg n2 i r t) = None \<and>
      (\<exists>j. get_job i (settle_self_update dbg n2 i r t) = Some j \<and> j_status j = (if is_ok r then Completed else Failed))"
    if "get_job i t \<noteq> None" "s_self_update t = s_self_update s0" for t and r :: "(anyhow, unit) result"
    using that su(4) unfolding settle_self_update_def
    by (auto simp: release_self_update_def get_job_settle get_job_def [symmetric] split: sum.splits)
  show ?thesis
  proof (cases "dispatch_try n1 i s1")
    case MustWait
    then have "s_active_mutation s1 \<noteq> None \<or> s_max_concurrent s1 \<le> running_count s1"
      by (auto simp: dispatch_try_def Let_def split: if_splits)
    with MustWait show ?thesis by (simp add: run_mutation_def mu)
  next
    case (Rejected m)
    then show ?thesis using settle [OF later, of "Err (anyhow_msg m)"] by (simp add: run_mutation_def mu)
  next
    case (Started g b s')
    obtain out c2 w2 where run: "closure_run fin mu cache w = (out, c2, w2)" by (cases "closure_run fin mu cache w") auto
    let ?r = "watchdog_result b out"
    define s3 where "s3 = watchdog_finish n2 i g ?r True (meanwhile s')"
    have s': "s' = start_mutation n1 i s1" by (rule dispatch_Started_state [OF Started])
    have kept: "get_job i s3 \<noteq> None" "s_self_update s3 = s_self_update s0"
      using keep_job [of s'] later by (simp_all add: s3_def watchdog_keeps_job s' start_mutation_keeps finish_gates keep_su)
    have "is_ok ?r = upgraded be fin cache w"
      using run by (cases fin) (auto simp: upgraded_def watchdog_result_def mu self_update_closure_def keeping_cache_def Let_def
          split: prod.splits)
    with settle [OF kept, of ?r] Started run show ?thesis by (simp add: run_mutation_def mu s3_def Let_def)
  qed
qed

definition quiet_backend :: "cmd list backend" where
  "quiet_backend = apt_backend (\<lambda>_. []) 0 demo_env True False (logging (\<lambda>_ _. Exited (Some 0) [] []))"

theorem self_update_released_witness:
  "\<exists>resp s0 mu s2 c2 w2.
     h_update_package (\<lambda>_. []) 5 2 None quiet_backend SELF_PACKAGE_NAME (new_scheduler 2 10) = (resp, s0, Some mu) \<and>
     run_mutation 9 20 (\<lambda>t. t) (Overruns (with_threshold_and_jitter None 3600 0) []) mu s0 (with_threshold_and_jitter None 3600 0) [] = Some (s2, c2, w2) \<and>
     s_self_update s2 = None \<and> (\<exists>j. get_job 2 s2 = Some j \<and> j_status j = Failed)"
proof -
  have valid: "validate_package_name SELF_PACKAGE_NAME = Ok ()" by code_simp
  obtain s0 where r: "try_reserve_self_update 5 2 None [SELF_PACKAGE_NAME] [] [] (new_scheduler 2 10) = Inr (2, s0)"
    by (simp add: try_reserve_self_update_def new_scheduler_def user_active_count_def Let_def)
  then obtain resp mu where h: "h_update_package (\<lambda>_. []) 5 2 None quiet_backend SELF_PACKAGE_NAME (new_scheduler 2 10)
      = (resp, s0, Some mu)"
    by (simp add: h_update_package_def valid drop_self_update_guard_def)
  from r have s0: "s_active_mutation s0 = None" "running_count s0 = 0" "s_max_concurrent s0 = 2"
    by (auto simp: try_reserve_self_update_def new_scheduler_def user_active_count_def Let_def running_count_def
        insert_job_def emit_event_def notify_one_def new_job_def)
  have job: "get_job 2 s0 \<noteq> None" using self_update_open(3) [OF r, of 2] by simp
  have "case run_mutation 9 20 (\<lambda>t. t) (Overruns (with_threshold_and_jitter None 3600 0) []) mu s0 (with_threshold_and_jitter None 3600 0) [] of
      None \<Rightarrow> s_active_mutation s0 \<noteq> None \<or> s_max_concurrent s0 \<le> running_count s0
    | Some (s2, cache2, w2) \<Rightarrow> s_self_update s2 = None \<and>
        (\<exists>j. get_job 2 s2 = Some j \<and>
           j_status j = (case dispatch_try 9 2 s0 of
                           Started g b s' \<Rightarrow>
                             if upgraded quiet_backend (Overruns (with_threshold_and_jitter None 3600 0) []) (with_threshold_and_jitter None 3600 0) [] then Completed
                             else Failed
                         | _ \<Rightarrow> Failed))"
    by (rule self_update_released [OF h job refl]) simp_all
  then show ?thesis using h s0 by (auto simp: upgraded_def split: option.splits dispatch_outcome.splits)
qed

text \<open>The agent can be upgraded around its own guard. Installing packages through POST, the agent's own
  included, reserves no self-update: other jobs go on being admitted next to it.\<close>

theorem install_bypasses_self_update_guard:
  assumes acc: "h_install_packages dbg now i boot be req s = (resp, s', Some mu)"
    and room: "user_active_count s' < s_max_queue_depth s'"
  shows "s_self_update s' = None \<and> is_ok (admit_job n k boot' oper ps s')"
proof -
  obtain s1 where a: "admit_job now i boot Install (map sp_name (ir_packages req)) s = Inr (i, s1)" "s' = s1"
    using acc admit_job_Inr(1)
    by (fastforce simp: h_install_packages_def Let_def admit_and_spawn_def split: sum.splits)
  show ?thesis
    using admit_job_Inr [OF a(1)] admit_job_open [OF a(1)] room a(2)
    by (simp add: admit_job_def admit_job_inner_def)
qed

theorem install_bypasses_self_update_guard_witness:
  "\<exists>resp s' mu.
     h_install_packages (\<lambda>_. []) 5 2 None quiet_backend
       \<lparr>ir_packages = [\<lparr>sp_name = SELF_PACKAGE_NAME, sp_version = None\<rparr>],
        ir_options = \<lparr>io_force = False, io_no_recommends = False\<rparr>\<rparr> (new_scheduler 2 10) = (resp, s', Some mu) \<and>
     is_ok (admit_job 6 3 None Install [''vim''] s')"
proof -
  let ?req = "\<lparr>ir_packages = [\<lparr>sp_name = SELF_PACKAGE_NAME, sp_version = None\<rparr>],
               ir_options = \<lparr>io_force = False, io_no_recommends = False\<rparr>\<rparr>"
  have valid: "validate_package_names [\<lparr>sp_name = SELF_PACKAGE_NAME, sp_version = None\<rparr>] = Ok ()" by code_simp
  obtain s' where a: "admit_job 5 2 None Install [SELF_PACKAGE_NAME] (new_scheduler 2 10) = Inr (2, s')"
    by (simp add: admit_job_def admit_job_inner_def new_scheduler_def user_active_count_def Let_def)
  obtain resp mu where h: "h_install_packages (\<lambda>_. []) 5 2 None quiet_backend ?req (new_scheduler 2 10) = (resp, s', Some mu)"
    by (simp add: h_install_packages_def Let_def valid admit_and_spawn_def a)
  have "user_active_count s' \<le> 1 \<and> s_max_queue_depth s' = 10"
    using a user_active_count_insert_new [of 2 "new_scheduler 2 10" "new_job 2 5 None Install [SELF_PACKAGE_NAME]"]
    by (auto simp: admit_job_def admit_job_inner_def new_scheduler_def Let_def get_job_def user_active_count_def
        insert_job_def emit_event_def notify_one_def user_active_def split: if_splits)
  then have "user_active_count s' < s_max_queue_depth s'" by simp
  from install_bypasses_self_update_guard [OF h this] h show ?thesis by blast
qed

text \<open>C40: a rollback job is never executed, and it blocks the agent. The handler spawns no task for the
  job it admits; while the job is as it was created it cannot be deleted, no self-update can be reserved
  and no reboot that is not forced.\<close>

theorem rollback_job_blocks:
  assumes wf: "sched_wf s" and orig: "parse_uuid t = Some i" "get_job i s = Some j" "\<not> is_internal j"
    and fresh: "get_job k s = None"
    and acc: "h_rollback_job parse_uuid id_text now k boot t s = (resp, s', task)" "hr_status resp = 202"
    and later: "get_job k s'' = get_job k s'" "parse_uuid t' = Some k"
  shows "task = None \<and> hr_status (fst (h_delete_job parse_uuid t' s'')) = 409 \<and>
    snd (h_delete_job parse_uuid t' s'') = s'' \<and>
    \<not> is_ok (try_reserve_self_update n m b ps fv tv s'') \<and>
    \<not> is_ok (reserve_reboot n m b False ack s'')"
proof -
  have st: "hr_status (admission_error_response e :: json http_response) \<noteq> 202" for e
    by (cases e) (simp_all add: http_retry_def)
  obtain a s1 where inner: "admit_job_inner now k boot Rollback (j_packages j) s = Inr (a, s1)"
    and s': "s' = notify_one (modify_job a
       (\<lambda>j. j\<lparr>j_exclusive_mode := True, j_rollback_job_id := Some i\<rparr>) s1)" and task: "task = None"
  proof (cases "j_status j = Failed \<or> j_status j = Completed")
    case False
    then show ?thesis using acc orig by (auto simp: h_rollback_job_def create_rollback_job_def http_def)
  next
    case True
    show ?thesis
    proof (cases "admit_job_inner now k boot Rollback (j_packages j) s")
      case (Inl e)
      then show ?thesis using acc orig True st [of e] by (auto simp: h_rollback_job_def create_rollback_job_def)
    next
      case (Inr p)
      obtain a s1 where "p = (a, s1)" by (cases p)
      then show ?thesis using acc orig True Inr that [of a s1]
        by (simp add: h_rollback_job_def create_rollback_job_def)
    qed
  qed
  have a: "a = k" and s1: "get_job k s1 = Some (new_job k now boot Rollback (j_packages j))"
    using inner by (auto simp: admit_job_inner_def Let_def split: if_splits)
  obtain r where r: "get_job k s'' = Some r" "j_status r = Pending" "\<not> is_internal r"
    using later(1) s1 orig(3) by (auto simp: s' a is_internal_def)
  then have "0 < user_active_count s''" by (auto intro!: active_user_mutation_count simp: user_active_def)
  then show ?thesis
    using task r later(2)
    by (auto simp: h_delete_job_def delete_job_def http_def try_reserve_self_update_def reserve_reboot_def Let_def)
qed

theorem rollback_job_blocks_witness:
  "\<exists>resp s'. h_rollback_job (\<lambda>t. if t = ''k'' then Some 2 else Some 1) (\<lambda>_. ''k'') 9 2 None ''orig''
       (insert_job 1 (fail 8 ''boom'' (new_job 1 0 None Install [''vim''])) (new_scheduler 2 10))
       = (resp, s', None :: unit mutation option) \<and> hr_status resp = 202 \<and>
     \<not> is_ok (try_reserve_self_update 9 3 None [] [] [] s')"
proof -
  let ?s = "insert_job 1 (fail 8 ''boom'' (new_job 1 0 None Install [''vim''])) (new_scheduler 2 10)"
  let ?j = "fail 8 ''boom'' (new_job 1 0 None Install [''vim''])"
  have wf: "sched_wf ?s" by (simp add: sched_wf_insert sched_wf_new)
  have new: "get_job x (new_scheduler 2 10) = None" for x by (simp add: get_job_def new_scheduler_def)
  have j: "get_job 1 ?s = Some ?j" "get_job 2 ?s = None" by (simp_all add: new)
  have int: "\<not> is_internal ?j" by (simp add: is_internal_def starts_with_def)
  have cnt: "user_active_count ?s = 0"
    using user_active_count_insert_new [OF new, of 1 ?j] by (simp add: user_active_def) (simp add: new_scheduler_def user_active_count_def)
  have op1: "s_admission (new_scheduler 2 10) = Open" "s_self_update (new_scheduler 2 10) = None"
    "s_reboot_pending (new_scheduler 2 10) = None" "s_max_queue_depth (new_scheduler 2 10) = 10"
    by (simp_all add: new_scheduler_def)
  obtain resp s' where h: "h_rollback_job (\<lambda>t. if t = ''k'' then Some 2 else Some 1) (\<lambda>_. ''k'') 9 2 None ''orig'' ?s
       = (resp, s', None :: unit mutation option)" "hr_status resp = 202"
    using cnt op1 j by (simp add: h_rollback_job_def create_rollback_job_def admit_job_inner_def Let_def http_def)
  have "\<not> is_ok (try_reserve_self_update 9 3 None [] [] [] s')"
    using rollback_job_blocks [OF wf _ j(1) int j(2) h refl, of "''k''"] by simp
  with h show ?thesis by blast
qed

text \<open>The status texts of the job list. Every status text the list itself prints is understood as a
  filter; of the texts the events use, only \<open>timed_out\<close> is not, and a filter that is not understood
  lists every job.\<close>

theorem job_status_text_roundtrip:
  "parse_job_status (to_lowercase (debug_status st)) = Some st \<and>
   (parse_job_status (as_str st) = Some st \<longleftrightarrow> st \<noteq> TimedOut) \<and>
   h_list_jobs (Some (as_str TimedOut)) limit s = h_list_jobs None limit s"
proof -
  have "parse_job_status (as_str TimedOut) = None" by code_simp
  then have "h_list_jobs (Some (as_str TimedOut)) limit s = h_list_jobs None limit s"
    by (simp add: h_list_jobs_def)
  moreover have "parse_job_status (to_lowercase (debug_status st)) = Some st" by (cases st) (simp_all, code_simp+)
  moreover have "parse_job_status (as_str st) = Some st \<longleftrightarrow> st \<noteq> TimedOut" by (cases st) (simp_all, code_simp+)
  ultimately show ?thesis by blast
qed

end
