(* ===== verification/System_Handlers.thy ===== *)
theory System_Handlers imports Handlers Repo_Health Crl begin

text \<open>
  \<open>src/api/handlers/system.rs\<close>: system information, the health check with the background refresh it may
  start, the reboot handler and its task, and the service status. What the health check reads (cache,
  CRL, repository sync, signing key, scheduler) are its arguments. \<open>rfc3339\<close> stands for chrono's rendering
  of a point in time, \<open>parse_f64\<close> for the truncated value of \<open>parse::<f64>\<close>.
\<close>

section \<open>Information\<close>

definition validate_path_no_traversal :: "string \<Rightarrow> bool" where
  "validate_path_no_traversal path = (\<not> (str_contains path ''..'' \<or> str_contains path ''//''))"

record system_info_data =
  sd_info :: system_info
  sd_package_db_clean :: bool

definition h_get_system_info :: "'w backend \<Rightarrow> 'w \<Rightarrow> system_info_data http_response \<times> 'w" where
  "h_get_system_info be w =
     (case be_get_system_info be w of
        (Inr i, w1) \<Rightarrow>
          (let (c, w2) = be_package_database_clean be w1;
               clean = (case c of Inr b \<Rightarrow> b | Inl _ \<Rightarrow> True)
           in (http 200 (api_success \<lparr>sd_info = i, sd_package_db_clean = clean\<rparr>), w2))
      | (Inl e, w1) \<Rightarrow> (internal_failure ''SYSTEM_INFO_ERROR'' ''Failed to get system info'' e, w1))"

section \<open>Health\<close>

record health_data =
  hd_status :: string
  hd_uptime_seconds :: nat
  hd_last_cache_update :: "int option"
  hd_cache_status :: string
  hd_crl_status :: "string option"
  hd_crl_age_seconds :: "int option"
  hd_crl_next_update :: "string option"
  hd_gpg_key_status :: "string option"
  hd_gpg_key_expires_at :: "string option"
  hd_repo_config_synced :: "bool option"
  hd_repo_config_last_sync :: "string option"

definition uptime_seconds :: "(string \<Rightarrow> nat option) \<Rightarrow> string option \<Rightarrow> nat" where
  "uptime_seconds parse_f64 content =
     (case content of None \<Rightarrow> 0
      | Some c \<Rightarrow> (case split_whitespace c of [] \<Rightarrow> 0 | x # _ \<Rightarrow> opt_or (parse_f64 x) 0))"

text \<open>A \<open>SystemTime\<close> before the epoch has no \<open>duration_since\<close>.\<close>

definition time_text :: "(int \<Rightarrow> string option) \<Rightarrow> int option \<Rightarrow> string option" where
  "time_text rfc3339 t = (case t of Some nu \<Rightarrow> if 0 \<le> nu then rfc3339 nu else None | None \<Rightarrow> None)"

record health_inputs =
  hi_now :: int
  hi_uptime :: "string option"
  hi_cache :: package_cache_state
  hi_crl :: crl_state
  hi_gpg :: "gpg_key_status \<times> string option"
  hi_sync :: repo_sync_state

text \<open>The status starts healthy and each check that fails sets it.\<close>

definition health_status :: "health_inputs \<Rightarrow> scheduler_state \<Rightarrow> string" where
  "health_status hi s =
     (let st0 = ''healthy'';
          st1 = (if s_admission s = Recovery then ''degraded'' else st0);
          st2 = (if is_self_update_in_progress s then ''degraded'' else st1);
          crl = reevaluate_expiry (hi_now hi) (hi_crl hi);
          st3 = (if crl = CrlInvalid then ''degraded'' else st2);
          st4 = (if crl = CrlExpired then ''degraded'' else st3);
          gpg = fst (hi_gpg hi);
          st5 = (if gpg = GpgMissing \<or> gpg = GpgExpired \<or> gpg = GpgRevoked then ''degraded'' else st4)
      in if rs_synced (hi_sync hi) = Some False then ''degraded'' else st5)"

definition health_data_of ::
    "(string \<Rightarrow> nat option) \<Rightarrow> (int \<Rightarrow> string option) \<Rightarrow> health_inputs \<Rightarrow> scheduler_state \<Rightarrow> health_data" where
  "health_data_of parse_f64 rfc3339 hi s =
     \<lparr>hd_status = health_status hi s,
      hd_uptime_seconds = uptime_seconds parse_f64 (hi_uptime hi),
      hd_last_cache_update = pc_last_update (hi_cache hi),
      hd_cache_status = (if is_stale (hi_now hi) (hi_cache hi) then ''stale'' else ''fresh''),
      hd_crl_status = Some (crl_status_text (reevaluate_expiry (hi_now hi) (hi_crl hi))),
      hd_crl_age_seconds = crl_age_seconds (hi_now hi) (hi_crl hi),
      hd_crl_next_update = time_text rfc3339 (next_update (hi_crl hi)),
      hd_gpg_key_status = Some (gpg_as_str (fst (hi_gpg hi))),
      hd_gpg_key_expires_at = snd (hi_gpg hi),
      hd_repo_config_synced = rs_synced (hi_sync hi),
      hd_repo_config_last_sync = time_text rfc3339 (rs_last_sync_at (hi_sync hi))\<rparr>"

text \<open>The refresh is spawned and admits its tracking job on its own: the answer may be computed from the
  scheduler's state before or after that (\<open>seen\<close>).\<close>

definition h_health_check ::
    "(string \<Rightarrow> nat option) \<Rightarrow> (int \<Rightarrow> string option) \<Rightarrow> time \<Rightarrow> uuid \<Rightarrow> string option \<Rightarrow> 'w backend
     \<Rightarrow> health_inputs \<Rightarrow> scheduler_state \<Rightarrow> scheduler_state
     \<Rightarrow> health_data http_response \<times> scheduler_state \<times> 'w mutation option" where
  "h_health_check parse_f64 rfc3339 now new_id boot be hi seen s =
     (let (task, s1) = (if is_stale (hi_now hi) (hi_cache hi)
                        then background_refresh ''__health_refresh__'' now new_id boot be s
                        else (None, s))
      in (http 200 (api_success (health_data_of parse_f64 rfc3339 hi seen)), s1, task))"

section \<open>Reboot\<close>

record reboot_request =
  rr_delay_seconds :: u64
  rr_force :: bool
  rr_acknowledge_risk :: bool

definition admit_reboot ::
    "time \<Rightarrow> uuid \<Rightarrow> string option \<Rightarrow> bool \<Rightarrow> bool \<Rightarrow> scheduler_state
     \<Rightarrow> (reboot_admission_error, uuid \<times> scheduler_state) result" where
  "admit_reboot now new_id boot force ack s =
     bind_res (reserve_reboot now new_id boot force ack s)
       (\<lambda>(i, s1). Ok (i, drop_reboot_guard now i True s1))"

text \<open>The spawned task: it runs the command only while it owns the reservation.\<close>

definition reboot_task ::
    "time \<Rightarrow> uuid \<Rightarrow> nat \<Rightarrow> 'w backend \<Rightarrow> scheduler_state \<Rightarrow> 'w \<Rightarrow> scheduler_state \<times> 'w" where
  "reboot_task now i delay be s w =
     (case begin_reboot_execution now i s of
        (False, s1) \<Rightarrow> (s1, w)
      | (True, s1) \<Rightarrow>
          (case be_reboot_system be delay w of
             (Inr _, w1) \<Rightarrow> (add_job_log now i ''Reboot command executed'' s1, w1)
           | (Inl e, w1) \<Rightarrow> (snd (rollback_reboot now i (Some (error_to_string e)) s1), w1)))"

fun reboot_error_response :: "reboot_admission_error \<Rightarrow> 'd http_response" where
  "reboot_error_response RSelfUpdateInProgress =
     http 409 (api_failure ''SELF_UPDATE_IN_PROGRESS''
       ''Cannot reboot while a self-update is in progress. Use force=true with acknowledge_package_database_corruption_risk=true to override.''
       None False)"
| "reboot_error_response PackageMutationInProgress =
     http 409 (api_failure ''PACKAGE_DB_MUTATION_IN_PROGRESS''
       ''A package-manager operation is in progress. A forced reboot now may corrupt the package database. Set acknowledge_package_database_corruption_risk=true to override.''
       (Some (JObj [(''package_operation_in_progress'', JBool True)])) False)"
| "reboot_error_response (RJobsInProgress n) =
     http 409 (api_failure ''REBOOT_BLOCKED''
       (''Cannot reboot while '' @ show_nat n @ '' jobs are running or pending. Use force=true to override.'')
       (Some (JObj [(''active_jobs'', JNum n)])) False)"
| "reboot_error_response RQueueFull =
     http 409 (api_failure ''QUEUE_FULL'' ''Job queue is at capacity. Please retry later.'' None True)"
| "reboot_error_response AdmissionClosed =
     http 409 (api_failure ''ADMISSION_CLOSED'' ''Admission is closed (shutdown or recovery in progress).'' None False)"

text \<open>\<open>Utc::now() + chrono::Duration::seconds(delay as i64)\<close>: the cast wraps, and \<open>add_seconds\<close> is chrono's
  addition, \<open>None\<close> where it panics.\<close>

definition scheduled_at :: "(time \<Rightarrow> int \<Rightarrow> time option) \<Rightarrow> time \<Rightarrow> u64 \<Rightarrow> time option" where
  "scheduled_at add_seconds now delay =
     (if delay > 0 then add_seconds now (sint delay) else Some now)"

definition reboot_accepted ::
    "(uuid \<Rightarrow> string) \<Rightarrow> (time \<Rightarrow> string) \<Rightarrow> uuid \<Rightarrow> time \<Rightarrow> reboot_request \<Rightarrow> json http_response" where
  "reboot_accepted id_text rfc3339 i at req =
     http 202 (api_success (JObj [(''job_id'', JStr (id_text i)), (''status'', JStr ''pending''),
       (''operation'', JStr ''reboot''), (''scheduled_at'', JStr (rfc3339 at)),
       (''delay_seconds'', JNum (unat (rr_delay_seconds req))), (''force'', JBool (rr_force req))]))"

text \<open>The response (\<open>None\<close>: the handler panics), the scheduler, and the job whose task was spawned. The task
  is spawned before the time is computed.\<close>

definition h_reboot_system ::
    "(uuid \<Rightarrow> string) \<Rightarrow> (time \<Rightarrow> string) \<Rightarrow> (time \<Rightarrow> int \<Rightarrow> time option) \<Rightarrow> time \<Rightarrow> uuid \<Rightarrow> string option
     \<Rightarrow> reboot_request \<Rightarrow> scheduler_state \<Rightarrow> json http_response option \<times> scheduler_state \<times> uuid option" where
  "h_reboot_system id_text rfc3339 add_seconds now new_id boot req s =
     (case admit_reboot now new_id boot (rr_force req) (rr_acknowledge_risk req) s of
        Inl e \<Rightarrow> (Some (reboot_error_response e), s, None)
      | Inr (i, s1) \<Rightarrow>
          (map_option (\<lambda>at. reboot_accepted id_text rfc3339 i at req)
             (scheduled_at add_seconds now (rr_delay_seconds req)), s1, Some i))"

section \<open>Services\<close>

definition h_get_service_status :: "'w backend \<Rightarrow> string \<Rightarrow> 'w \<Rightarrow> service_status http_response \<times> 'w" where
  "h_get_service_status be name w =
     (if name = [] \<or> CHR ''/'' \<in> set name \<or> str_contains name ''..''
      then (http 400 (api_failure ''INVALID_SERVICE_NAME'' (''Invalid service name: '' @ name) None False), w)
      else case be_get_service_status be name w of
        (Inr (Some st), w1) \<Rightarrow> (http 200 (api_success st), w1)
      | (Inr None, w1) \<Rightarrow>
          (http 404 (api_failure ''SERVICE_NOT_FOUND'' (''Service '' @ quoted name @ '' not found'') None False), w1)
      | (Inl e, w1) \<Rightarrow> (internal_failure ''SERVICE_STATUS_ERROR'' ''Failed to get service status'' e, w1))"

section \<open>Properties\<close>

text \<open>C36: health. The agent reports itself degraded exactly when it recovers, updates itself, has an invalid or
  expired CRL at the time of the question, has no usable signing key or failed its last repository sync, and the answer
  is a 200 then too. This is what the handler does, not what the documents say: a missing CRL, a CRL that could only be
  loaded as degraded and a stale cache or failed cache refresh leave the status healthy, and there is no 503. The check itself never runs a package command: all it can
  change is one internal tracking job, and only when the cache is stale.\<close>

theorem health_check_correct:
  "let (resp, s', task) = h_health_check pf rfc now i boot be hi seen s;
       crl = reevaluate_expiry (hi_now hi) (hi_crl hi)
   in hr_status resp = 200 \<and>
      (\<exists>h. ar_data (hr_body resp) = Some h \<and>
         hd_status h = (if s_admission seen \<noteq> Recovery \<and> s_self_update seen = None \<and> crl \<notin> {CrlInvalid, CrlExpired}
                           \<and> fst (hi_gpg hi) \<notin> {GpgMissing, GpgExpired, GpgRevoked} \<and> rs_synced (hi_sync hi) \<noteq> Some False
                        then ''healthy'' else ''degraded'')) \<and>
      (case task of
         None \<Rightarrow> s' = s
       | Some mu \<Rightarrow> is_stale (hi_now hi) (hi_cache hi) \<and> mu_job mu = i \<and>
           (\<forall>x. get_job x s' = (if x = i then Some (new_job i now boot Install [''__health_refresh__'']) else get_job x s)) \<and>
           is_internal (new_job i now boot Install [''__health_refresh__'']))"
proof -
  have st: "health_status hi seen = (if s_admission seen \<noteq> Recovery \<and> s_self_update seen = None
      \<and> reevaluate_expiry (hi_now hi) (hi_crl hi) \<notin> {CrlInvalid, CrlExpired}
      \<and> fst (hi_gpg hi) \<notin> {GpgMissing, GpgExpired, GpgRevoked} \<and> rs_synced (hi_sync hi) \<noteq> Some False
      then ''healthy'' else ''degraded'')"
    by (simp add: health_status_def Let_def is_self_update_in_progress_def)
  have internal: "is_internal (new_job i now boot Install [''__health_refresh__''])"
    by (simp add: is_internal_def) code_simp
  show ?thesis
  proof (cases "is_stale (hi_now hi) (hi_cache hi)")
    case False
    then show ?thesis by (simp add: h_health_check_def http_def api_success_def health_data_of_def st)
  next
    case True
    show ?thesis
    proof (cases "admit_job now i boot Install [''__health_refresh__''] s")
      case (Inl e)
      with True show ?thesis
        by (simp add: h_health_check_def background_refresh_def http_def api_success_def health_data_of_def st)
    next
      case (Inr ks)
      then obtain k s1 where a: "admit_job now i boot Install [''__health_refresh__''] s = Inr (k, s1)" by (cases ks) auto
      with True admit_job_Inr [OF a] internal show ?thesis
        by (simp add: h_health_check_def background_refresh_def http_def api_success_def health_data_of_def st)
    qed
  qed
qed

text \<open>C25: a reboot request ends in one of two ways. If it is refused nothing changes. If it is accepted, the
  barrier is up for its job and the task runs the command exactly once: when the command is accepted the job
  is \<open>Rebooting\<close> and the barrier stays, when it fails the job is \<open>Failed\<close> with the error and the barrier is down
  again. This holds even when the handler panics on the requested delay, which it does only after the task was
  spawned.\<close>

theorem reboot_request_settles:
  assumes wf: "sched_wf s" and fresh: "get_job i s = None"
    and req: "h_reboot_system idt rfc add now i boot req s = (resp, s1, task)"
    and run: "reboot_task n i (unat (rr_delay_seconds req)) be s1 w = (s2, w2)"
  shows "(case task of
      None \<Rightarrow> s1 = s \<and> resp \<noteq> None \<and> hr_status (the resp) = 409 \<and> w2 = w
    | Some k \<Rightarrow> k = i \<and> s_reboot_pending s1 = Some i \<and>
        w2 = snd (be_reboot_system be (unat (rr_delay_seconds req)) w) \<and>
        (\<exists>j. get_job i s2 = Some j \<and>
           (case fst (be_reboot_system be (unat (rr_delay_seconds req)) w) of
              Inr _ \<Rightarrow> j_status j = Rebooting \<and> s_reboot_pending s2 = Some i
            | Inl e \<Rightarrow> j_status j = Failed \<and> j_error j = Some (error_to_string e) \<and> s_reboot_pending s2 = None)))"
proof (cases "reserve_reboot now i boot (rr_force req) (rr_acknowledge_risk req) s")
  case (Inl e)
  have "hr_status (reboot_error_response e :: json http_response) = 409" by (cases e) (simp_all add: http_def)
  moreover have "\<exists>s3. begin_reboot_execution n i s = (False, s3)"
    using fresh by (simp add: begin_reboot_execution_def)
  ultimately show ?thesis using Inl req run by (auto simp: h_reboot_system_def admit_reboot_def reboot_task_def)
next
  case (Inr ks)
  then obtain k s' where r: "reserve_reboot now i boot (rr_force req) (rr_acknowledge_risk req) s = Inr (k, s')"
    by (cases ks) auto
  note c = reserve_reboot_clears_queue_aux [OF wf fresh r]
  have s1: "s1 = s'" "task = Some i" using req r c(1) by (auto simp: h_reboot_system_def admit_reboot_def drop_reboot_guard_def)
  have j: "get_job i s1 = Some (new_job i now boot Reboot [])" "s_reboot_pending s1 = Some i" using c s1 by auto
  show ?thesis
    using run s1(2) j
    by (auto simp: reboot_task_def begin_reboot_execution_def rollback_reboot_def Let_def get_job_add_log
        add_job_log.reboot fail_def add_log_def split: sum.splits prod.splits)
qed

theorem reboot_request_settles_witness:
  "\<exists>resp s1. h_reboot_system (\<lambda>_. ''id'') (\<lambda>_. ''t'') (\<lambda>_ _. None) 5 2 None
       \<lparr>rr_delay_seconds = - 1, rr_force = False, rr_acknowledge_risk = False\<rparr> (new_scheduler 2 10) = (resp, s1, Some 2) \<and>
     resp = None \<and> s_reboot_pending s1 = Some 2"
proof -
  let ?req = "\<lparr>rr_delay_seconds = - 1, rr_force = False, rr_acknowledge_risk = False\<rparr>"
  have fresh: "get_job 2 (new_scheduler 2 10) = None" by (simp add: get_job_def new_scheduler_def)
  obtain s1 where "reserve_reboot 5 2 None False False (new_scheduler 2 10) = Ok (2, s1)"
    by (simp add: reserve_reboot_def new_scheduler_def user_active_count_def Let_def)
  then have h: "h_reboot_system (\<lambda>_. ''id'') (\<lambda>_. ''t'') (\<lambda>_ _. None) 5 2 None ?req (new_scheduler 2 10) = (None, s1, Some 2)"
    by (simp add: h_reboot_system_def admit_reboot_def drop_reboot_guard_def scheduled_at_def word_greater_zero_iff)
  obtain s2 w2 where "reboot_task 6 2 (unat (rr_delay_seconds ?req)) quiet_backend s1 [] = (s2, w2)"
    by (cases "reboot_task 6 2 (unat (rr_delay_seconds ?req)) quiet_backend s1 []")
  from reboot_request_settles [OF sched_wf_new fresh h this] h show ?thesis by simp
qed

end
