(* ===== verification/WebSocket.thy ===== *)
theory WebSocket imports Scheduler begin

text \<open>
  \<open>src/jobs/websocket.rs\<close> and \<open>src/api/handlers/websocket.rs\<close>: the actor behind one WebSocket
  connection and the task that feeds it from the scheduler's broadcast channel.

  What the actor sends through its context is a list of actions, oldest first; after
  \<open>ctx.stop()\<close> the actor handles nothing more. Arguments stand for the crates' code:
  \<open>id_text\<close> is the text of a UUID, \<open>parse\<close> is \<open>serde_json\<close> on the client's message (the error
  is its text) and the result of \<open>try_send\<close> comes with each received event. The timestamps
  \<open>chrono\<close> renders stay numbers. Serialising a message record cannot fail, so the branches
  for a failed \<open>to_string\<close> are not modelled.
\<close>

section \<open>Messages\<close>

datatype ws_client_message = Subscribe "string option" | Unsubscribe string

record ws_server_message =
  ws_event :: string
  ws_job_id :: string
  ws_status :: string
  ws_progress :: u8
  ws_message :: string
  ws_timestamp :: time
  ws_error :: "string option"
  ws_error_code :: "string option"

definition from_job_status_event :: "(uuid \<Rightarrow> string) \<Rightarrow> job_status_event \<Rightarrow> ws_server_message" where
  "from_job_status_event id_text ev =
     \<lparr>ws_event = ev_event ev, ws_job_id = id_text (ev_job_id ev), ws_status = ev_status ev,
      ws_progress = ev_progress ev, ws_message = ev_message ev, ws_timestamp = ev_timestamp ev,
      ws_error = ev_error ev, ws_error_code = ev_error_code ev\<rparr>"

definition connected :: "(uuid \<Rightarrow> string) \<Rightarrow> time \<Rightarrow> uuid \<Rightarrow> ws_server_message" where
  "connected id_text now ws_id =
     \<lparr>ws_event = ''connected'', ws_job_id = [], ws_status = ''connected'', ws_progress = 0,
      ws_message = ''WebSocket connected: '' @ id_text ws_id, ws_timestamp = now,
      ws_error = None, ws_error_code = None\<rparr>"

definition subscribed :: "time \<Rightarrow> string option \<Rightarrow> ws_server_message" where
  "subscribed now job_id =
     (case job_id of
        Some i \<Rightarrow>
          \<lparr>ws_event = ''subscribed'', ws_job_id = i, ws_status = ''subscribed'', ws_progress = 0,
           ws_message = ''Subscribed to job: '' @ i, ws_timestamp = now,
           ws_error = None, ws_error_code = None\<rparr>
      | None \<Rightarrow>
          \<lparr>ws_event = ''subscribed'', ws_job_id = ''all'', ws_status = ''subscribed'', ws_progress = 0,
           ws_message = ''Subscribed to all job events'', ws_timestamp = now,
           ws_error = None, ws_error_code = None\<rparr>)"

definition unsubscribed :: "time \<Rightarrow> string \<Rightarrow> ws_server_message" where
  "unsubscribed now job_id =
     \<lparr>ws_event = ''unsubscribed'', ws_job_id = job_id, ws_status = ''unsubscribed'', ws_progress = 0,
      ws_message = ''Unsubscribed from job: '' @ job_id, ws_timestamp = now,
      ws_error = None, ws_error_code = None\<rparr>"

definition ws_error_message :: "time \<Rightarrow> string \<Rightarrow> string \<Rightarrow> ws_server_message" where
  "ws_error_message now code message =
     \<lparr>ws_event = ''error'', ws_job_id = [], ws_status = code, ws_progress = 0,
      ws_message = message, ws_timestamp = now, ws_error = None, ws_error_code = None\<rparr>"

section \<open>The actor\<close>

definition HEARTBEAT_INTERVAL :: time where "HEARTBEAT_INTERVAL = 5000000000"
definition CLIENT_TIMEOUT :: time where "CLIENT_TIMEOUT = 10000000000"

record ws_actor =
  wa_id :: uuid
  wa_subscribed_jobs :: "string list"
  wa_subscribed_all :: bool
  wa_last_heartbeat :: time

datatype ws_action =
    SendText ws_server_message | SendPing | SendPong string | SendClose "string option" | Stop

text \<open>A connection: the actor and what it did so far, the last action being \<open>Stop\<close> once it
  has stopped itself.\<close>

record ws_conn =
  wc_actor :: ws_actor
  wc_out :: "ws_action list"

definition new_ws_actor :: "uuid \<Rightarrow> time \<Rightarrow> ws_actor" where
  "new_ws_actor ws_id now =
     \<lparr>wa_id = ws_id, wa_subscribed_jobs = [], wa_subscribed_all = True, wa_last_heartbeat = now\<rparr>"

definition act_out :: "ws_action list \<Rightarrow> ws_conn \<Rightarrow> ws_conn" where
  "act_out acts c = c\<lparr>wc_out := wc_out c @ acts\<rparr>"

definition started :: "(uuid \<Rightarrow> string) \<Rightarrow> time \<Rightarrow> ws_actor \<Rightarrow> ws_conn" where
  "started id_text now a =
     \<lparr>wc_actor = a, wc_out = [SendText (connected id_text now (wa_id a))]\<rparr>"

definition heartbeat_tick :: "time \<Rightarrow> ws_conn \<Rightarrow> ws_conn" where
  "heartbeat_tick now c =
     (if now - wa_last_heartbeat (wc_actor c) > CLIENT_TIMEOUT then act_out [Stop] c
      else act_out [SendPing] c)"

definition should_forward :: "(uuid \<Rightarrow> string) \<Rightarrow> ws_actor \<Rightarrow> job_status_event \<Rightarrow> bool" where
  "should_forward id_text a ev =
     (wa_subscribed_all a \<or> List.member (wa_subscribed_jobs a) (id_text (ev_job_id ev)))"

definition handle_broadcast :: "(uuid \<Rightarrow> string) \<Rightarrow> job_status_event \<Rightarrow> ws_conn \<Rightarrow> ws_conn" where
  "handle_broadcast id_text ev c =
     (if should_forward id_text (wc_actor c) ev
      then act_out [SendText (from_job_status_event id_text ev)] c else c)"

definition handle_client :: "time \<Rightarrow> ws_client_message \<Rightarrow> ws_conn \<Rightarrow> ws_conn" where
  "handle_client now m c =
     (let a = wc_actor c in
      case m of
        Subscribe (Some i) \<Rightarrow>
          act_out [SendText (subscribed now (Some i))]
            (c\<lparr>wc_actor := a\<lparr>wa_subscribed_jobs := List.insert i (wa_subscribed_jobs a)\<rparr>\<rparr>)
      | Subscribe None \<Rightarrow>
          act_out [SendText (subscribed now None)] (c\<lparr>wc_actor := a\<lparr>wa_subscribed_all := True\<rparr>\<rparr>)
      | Unsubscribe i \<Rightarrow>
          act_out [SendText (unsubscribed now i)]
            (c\<lparr>wc_actor := a\<lparr>wa_subscribed_jobs := removeAll i (wa_subscribed_jobs a)\<rparr>\<rparr>))"

datatype ws_frame =
    Ping string | Pong string | Text string | Binary string | Close "string option"
  | Continuation | Nop

definition beat :: "time \<Rightarrow> ws_conn \<Rightarrow> ws_conn" where
  "beat now c = c\<lparr>wc_actor := (wc_actor c)\<lparr>wa_last_heartbeat := now\<rparr>\<rparr>"

fun handle_frame ::
    "(string \<Rightarrow> (string, ws_client_message) result) \<Rightarrow> time \<Rightarrow> ws_frame \<Rightarrow> ws_conn \<Rightarrow> ws_conn" where
  "handle_frame parse now (Ping m) c = act_out [SendPong m] (beat now c)"
| "handle_frame parse now (Pong m) c = beat now c"
| "handle_frame parse now (Text t) c =
     (case parse t of
        Ok m \<Rightarrow> handle_client now m c
      | Err e \<Rightarrow> act_out [SendText (ws_error_message now ''invalid_message''
                                    (''Invalid message: '' @ e))] c)"
| "handle_frame parse now (Binary b) c = c"
| "handle_frame parse now (Close reason) c = act_out [SendClose reason, Stop] c"
| "handle_frame parse now Continuation c = act_out [Stop] c"
| "handle_frame parse now Nop c = c"

text \<open>What reaches the actor: the heartbeat timer, a broadcast event, a frame of the client or
  an error of the protocol. A stopped actor handles nothing.\<close>

datatype ws_input = Tick time | Broadcast job_status_event | Frame time ws_frame | ProtocolError

definition stopped :: "ws_conn \<Rightarrow> bool" where
  "stopped c = (Stop \<in> set (wc_out c))"

definition ws_step ::
    "(uuid \<Rightarrow> string) \<Rightarrow> (string \<Rightarrow> (string, ws_client_message) result) \<Rightarrow> ws_input
     \<Rightarrow> ws_conn \<Rightarrow> ws_conn" where
  "ws_step id_text parse i c =
     (if stopped c then c
      else case i of
        Tick now \<Rightarrow> heartbeat_tick now c
      | Broadcast ev \<Rightarrow> handle_broadcast id_text ev c
      | Frame now f \<Rightarrow> handle_frame parse now f c
      | ProtocolError \<Rightarrow> act_out [Stop] c)"

definition ws_run ::
    "(uuid \<Rightarrow> string) \<Rightarrow> (string \<Rightarrow> (string, ws_client_message) result) \<Rightarrow> ws_input list
     \<Rightarrow> ws_conn \<Rightarrow> ws_conn" where
  "ws_run id_text parse is c = fold (ws_step id_text parse) is c"

section \<open>The broadcast listener\<close>

text \<open>\<open>rx.recv()\<close> gives an event, the number of events overwritten before they were read, or
  the end of the channel. \<open>addr.try_send\<close> fails when the actor's mailbox is closed and also when
  it is full.\<close>

datatype send_outcome = Sent | MailboxFull | MailboxClosed
datatype recv_outcome = Received job_status_event send_outcome | Lagged nat | Closed

fun broadcast_listener :: "recv_outcome list \<Rightarrow> job_status_event list" where
  "broadcast_listener [] = []"
| "broadcast_listener (Received ev out # rs) =
     (if out \<noteq> Sent then [] else ev # broadcast_listener rs)"
| "broadcast_listener (Lagged n # rs) = broadcast_listener rs"
| "broadcast_listener (Closed # rs) = []"

text \<open>\<open>subscribe_async\<close>: the receiver sees what is sent after it was made.\<close>

definition subscribe_async :: "scheduler_state \<Rightarrow> nat" where
  "subscribe_async s = length (s_events s)"

definition receiver_view :: "nat \<Rightarrow> scheduler_state \<Rightarrow> job_status_event list" where
  "receiver_view pos s = drop pos (s_events s)"

definition websocket_handler :: "uuid \<Rightarrow> time \<Rightarrow> scheduler_state \<Rightarrow> nat \<times> ws_actor" where
  "websocket_handler ws_id now s = (subscribe_async s, new_ws_actor ws_id now)"

fun received :: "recv_outcome list \<Rightarrow> job_status_event list" where
  "received [] = []"
| "received (Received ev out # rs) = ev # received rs"
| "received (Lagged n # rs) = received rs"
| "received (Closed # rs) = received rs"

section \<open>Lemmas\<close>

lemma act_out_simps [simp]:
  "wc_out (act_out acts c) = wc_out c @ acts" "wc_actor (act_out acts c) = wc_actor c"
  by (simp_all add: act_out_def)

lemma stopped_act_out [simp]: "stopped (act_out acts c) \<longleftrightarrow> stopped c \<or> Stop \<in> set acts"
  by (auto simp: stopped_def)

lemma stopped_actor_update [simp]: "stopped (c\<lparr>wc_actor := a\<rparr>) \<longleftrightarrow> stopped c"
  by (simp add: stopped_def)

lemma stopped_beat [simp]: "stopped (beat now c) \<longleftrightarrow> stopped c"
  by (simp add: beat_def)

lemma beat_simps [simp]:
  "wc_out (beat now c) = wc_out c"
  "wa_subscribed_all (wc_actor (beat now c)) = wa_subscribed_all (wc_actor c)"
  by (simp_all add: beat_def)

lemma ws_run_Nil [simp]: "ws_run idt parse [] c = c"
  by (simp add: ws_run_def)

lemma ws_run_Cons [simp]: "ws_run idt parse (i # is) c = ws_run idt parse is (ws_step idt parse i c)"
  by (simp add: ws_run_def)

lemma ws_run_append: "ws_run idt parse (is @ js) c = ws_run idt parse js (ws_run idt parse is c)"
  by (simp add: ws_run_def)

lemma ws_step_stopped: "stopped c \<Longrightarrow> ws_step idt parse i c = c"
  by (simp add: ws_step_def)

lemma ws_run_stopped: "stopped c \<Longrightarrow> ws_run idt parse is c = c"
  by (induction "is") (simp_all add: ws_step_stopped)

lemma handle_client_all:
  "wa_subscribed_all (wc_actor c) \<Longrightarrow> wa_subscribed_all (wc_actor (handle_client now m c))"
  by (cases m) (auto simp: handle_client_def Let_def split: option.splits)

lemma handle_frame_all:
  "wa_subscribed_all (wc_actor c) \<Longrightarrow> wa_subscribed_all (wc_actor (handle_frame parse now f c))"
  by (cases f) (auto simp: handle_client_all split: sum.splits)

lemma ws_step_all:
  "wa_subscribed_all (wc_actor c) \<Longrightarrow> wa_subscribed_all (wc_actor (ws_step idt parse i c))"
  by (auto simp: ws_step_def heartbeat_tick_def handle_broadcast_def handle_frame_all
      split: ws_input.splits)

lemma ws_run_all:
  "wa_subscribed_all (wc_actor c) \<Longrightarrow> wa_subscribed_all (wc_actor (ws_run idt parse is c))"
  by (induction "is" arbitrary: c) (simp_all add: ws_step_all)

lemma started_simps [simp]:
  "wa_subscribed_all (wc_actor (started idt now (new_ws_actor w t)))"
  "\<not> stopped (started idt now a)"
  by (simp_all add: started_def new_ws_actor_def stopped_def)

lemma handle_client_quiet [simp]:
  "stopped (handle_client now m c) \<longleftrightarrow> stopped c"
  "wa_last_heartbeat (wc_actor (handle_client now m c)) = wa_last_heartbeat (wc_actor c)"
  by (cases m; auto simp: handle_client_def Let_def split: option.splits)+

text \<open>Inputs that neither refresh the heartbeat nor end the connection of themselves.\<close>

fun silent :: "ws_input \<Rightarrow> bool" where
  "silent (Frame now (Text t)) = True"
| "silent (Frame now (Binary b)) = True"
| "silent (Frame now Nop) = True"
| "silent (Frame now f) = False"
| "silent (Tick now) = True"
| "silent (Broadcast ev) = True"
| "silent ProtocolError = False"

lemma silent_step:
  assumes "silent i" "\<not> stopped c"
  shows "stopped (ws_step idt parse i c)
           \<longleftrightarrow> (\<exists>now. i = Tick now \<and> now - wa_last_heartbeat (wc_actor c) > CLIENT_TIMEOUT)"
    and "wa_last_heartbeat (wc_actor (ws_step idt parse i c)) = wa_last_heartbeat (wc_actor c)"
  using assms by (induction i rule: silent.induct)
    (auto simp: ws_step_def heartbeat_tick_def handle_broadcast_def split: sum.splits)

lemma broadcasts_run:
  assumes "\<not> stopped c" "wa_subscribed_all (wc_actor c)"
  shows "wc_out (ws_run idt parse (map Broadcast evs) c)
           = wc_out c @ map (SendText \<circ> from_job_status_event idt) evs \<and>
         \<not> stopped (ws_run idt parse (map Broadcast evs) c)"
  using assms by (induction evs arbitrary: c)
    (simp_all add: ws_step_def handle_broadcast_def should_forward_def)

lemma listener_prefix: "prefix (broadcast_listener rs) (received rs)"
  by (induction rs rule: broadcast_listener.induct) auto

lemma listener_full:
  "broadcast_listener (pre @ Received ev MailboxFull # rest) = broadcast_listener pre"
  by (induction pre rule: broadcast_listener.induct) auto

lemma listener_lossless:
  "(\<And>r. r \<in> set rs \<Longrightarrow> \<exists>ev. r = Received ev Sent) \<Longrightarrow> broadcast_listener rs = received rs"
  by (induction rs rule: broadcast_listener.induct) fastforce+

lemma receiver_view_new: "receiver_view (subscribe_async s) s = []"
  by (simp add: receiver_view_def subscribe_async_def)

section \<open>Properties\<close>

text \<open>The subscription messages filter nothing. Whatever a client sent before, subscriptions
  to single jobs and unsubscriptions included, a connection that is still open forwards the next
  event of any job, once and unchanged.\<close>

theorem ws_forwards_every_event:
  assumes "\<not> stopped (ws_run idt parse is (started idt t (new_ws_actor w t0)))"
  shows "wc_out (ws_run idt parse (is @ [Broadcast ev]) (started idt t (new_ws_actor w t0)))
           = wc_out (ws_run idt parse is (started idt t (new_ws_actor w t0)))
             @ [SendText (from_job_status_event idt ev)]"
proof -
  have "wa_subscribed_all (wc_actor (ws_run idt parse is (started idt t (new_ws_actor w t0))))"
    by (rule ws_run_all) simp
  with assms show ?thesis
    by (simp add: ws_run_append ws_step_def handle_broadcast_def should_forward_def)
qed

definition sample_event :: job_status_event where
  "sample_event = \<lparr>ev_event = ''job_status'', ev_job_id = 7, ev_status = ''running'', ev_progress = 5,
     ev_message = ''m'', ev_timestamp = 3, ev_error = None, ev_error_code = None\<rparr>"

theorem ws_forwards_every_event_witness:
  "SendText (from_job_status_event (\<lambda>_. ''seven'') sample_event)
     \<in> set (wc_out (ws_run (\<lambda>_. ''seven'') (\<lambda>t. Ok (Unsubscribe t))
         ([Frame 1 (Text ''seven'')] @ [Broadcast sample_event])
         (started (\<lambda>_. ''seven'') 0 (new_ws_actor 1 0))))"
proof -
  have open_conn: "\<not> stopped (ws_run (\<lambda>_. ''seven'') (\<lambda>t. Ok (Unsubscribe t)) [Frame 1 (Text ''seven'')]
      (started (\<lambda>_. ''seven'') 0 (new_ws_actor 1 0)))"
    by (simp add: ws_step_def)
  show ?thesis by (simp add: ws_forwards_every_event [OF open_conn] del: ws_run_Cons append.simps)
qed

text \<open>While a client sends no ping or pong (text frames and events do not count), the
  connection ends exactly at a heartbeat that fires more than the timeout after the last one it
  did send.\<close>

theorem heartbeat_decides:
  assumes "\<forall>i\<in>set is. silent i" "\<not> stopped c"
  shows "stopped (ws_run idt parse is c)
           \<longleftrightarrow> (\<exists>now. Tick now \<in> set is \<and> now - wa_last_heartbeat (wc_actor c) > CLIENT_TIMEOUT)"
  using assms
proof (induction "is" arbitrary: c)
  case Nil
  then show ?case by simp
next
  case (Cons i "is")
  show ?case
  proof (cases "stopped (ws_step idt parse i c)")
    case True
    with Cons.prems silent_step(1) [of i c idt parse] show ?thesis
      by (auto simp: ws_run_stopped)
  next
    case False
    with Cons.IH [of "ws_step idt parse i c"] Cons.prems silent_step [of i c idt parse]
    show ?thesis by auto
  qed
qed

theorem heartbeat_decides_witness:
  "stopped (ws_run (\<lambda>_. []) (\<lambda>t. Err t)
     [Tick 5000000000, Tick 10000000000, Frame 14000000000 (Text ''hello''), Tick 15000000000]
     (started (\<lambda>_. []) 0 (new_ws_actor 1 0)))"
  by (subst heartbeat_decides)
    (auto simp: started_def new_ws_actor_def CLIENT_TIMEOUT_def stopped_def)

text \<open>What the client is owed, said apart from the listener's code: the events read before the first one the actor's
  mailbox refuses or the channel closes; reading past overwritten events does not end it.\<close>

definition goes_through :: "recv_outcome \<Rightarrow> bool" where
  "goes_through r = (case r of Received ev out \<Rightarrow> out = Sent | Lagged n \<Rightarrow> True | Closed \<Rightarrow> False)"

definition deliverable :: "recv_outcome list \<Rightarrow> job_status_event list" where
  "deliverable rs = received (takeWhile goes_through rs)"

fun broadcasts :: "ws_input list \<Rightarrow> job_status_event list" where
  "broadcasts [] = []"
| "broadcasts (Broadcast ev # is) = ev # broadcasts is"
| "broadcasts (i # is) = broadcasts is"

definition is_broadcast :: "ws_input \<Rightarrow> bool" where
  "is_broadcast i = (case i of Broadcast ev \<Rightarrow> True | _ \<Rightarrow> False)"

text \<open>The kinds of the actor's own messages, and the messages of a connection that are of no such kind.\<close>

definition own_kinds :: "string list" where
  "own_kinds = [''connected'', ''subscribed'', ''unsubscribed'', ''error'']"

fun event_messages :: "ws_action list \<Rightarrow> ws_server_message list" where
  "event_messages [] = []"
| "event_messages (SendText m # acts) =
     (if List.member own_kinds (ws_event m) then event_messages acts else m # event_messages acts)"
| "event_messages (a # acts) = event_messages acts"

lemma listener_deliverable: "broadcast_listener rs = deliverable rs"
  by (induction rs rule: broadcast_listener.induct) (auto simp: deliverable_def goes_through_def)

lemma event_messages_append [simp]: "event_messages (xs @ ys) = event_messages xs @ event_messages ys"
  by (induction xs rule: event_messages.induct) auto

lemma ws_event_from [simp]: "ws_event (from_job_status_event idt ev) = ev_event ev"
  by (simp add: from_job_status_event_def)

lemma handle_client_messages: "event_messages (wc_out (handle_client now m c)) = event_messages (wc_out c)"
  by (cases m) (auto simp: handle_client_def subscribed_def unsubscribed_def own_kinds_def Let_def split: option.splits)

lemma handle_frame_messages: "event_messages (wc_out (handle_frame parse now f c)) = event_messages (wc_out c)"
  by (cases f) (auto simp: handle_client_messages ws_error_message_def own_kinds_def split: sum.splits)

lemma ws_step_messages:
  assumes "wa_subscribed_all (wc_actor c)" "\<forall>ev \<in> set (broadcasts [i]). \<not> List.member own_kinds (ev_event ev)" "\<not> stopped c"
  shows "event_messages (wc_out (ws_step idt parse i c))
           = event_messages (wc_out c) @ map (from_job_status_event idt) (broadcasts [i])"
  using assms by (cases i)
    (auto simp: ws_step_def heartbeat_tick_def handle_broadcast_def should_forward_def handle_frame_messages)

lemma broadcasts_Cons: "broadcasts (i # is) = broadcasts [i] @ broadcasts is"
  by (cases i) auto

lemma ws_run_messages:
  assumes "wa_subscribed_all (wc_actor c)" "\<forall>ev \<in> set (broadcasts is). \<not> List.member own_kinds (ev_event ev)"
  shows "\<exists>n. event_messages (wc_out (ws_run idt parse is c))
             = event_messages (wc_out c) @ map (from_job_status_event idt) (take n (broadcasts is)) \<and>
           (\<not> stopped (ws_run idt parse is c) \<longrightarrow> n = length (broadcasts is))"
  using assms
proof (induction "is" arbitrary: c)
  case Nil
  then show ?case by simp
next
  case (Cons i "is")
  show ?case
  proof (cases "stopped c")
    case True
    then show ?thesis by (intro exI [of _ 0]) (simp add: ws_run_stopped ws_step_stopped)
  next
    case False
    have fair: "\<forall>ev \<in> set (broadcasts [i]). \<not> List.member own_kinds (ev_event ev)"
      "\<forall>ev \<in> set (broadcasts is). \<not> List.member own_kinds (ev_event ev)"
      using Cons.prems(2) by (auto simp: broadcasts_Cons [of i "is"])
    from Cons.IH [OF ws_step_all [OF Cons.prems(1)] fair(2), of idt parse i] obtain n where
      n: "event_messages (wc_out (ws_run idt parse is (ws_step idt parse i c)))
          = event_messages (wc_out (ws_step idt parse i c)) @ map (from_job_status_event idt) (take n (broadcasts is))"
        "\<not> stopped (ws_run idt parse is (ws_step idt parse i c)) \<longrightarrow> n = length (broadcasts is)"
      by blast
    show ?thesis
      using n ws_step_messages [OF Cons.prems(1) fair(1) False, of idt parse]
      by (intro exI [of _ "length (broadcasts [i]) + n"]) (simp add: broadcasts_Cons [of i "is"])
  qed
qed

text \<open>Events are forwarded on the side: they change neither the actor nor whether the connection is open.\<close>

lemma ws_step_alike:
  assumes "wc_actor c = wc_actor d" "stopped c = stopped d"
  shows "wc_actor (ws_step idt parse i c) = wc_actor (ws_step idt parse i d) \<and>
    stopped (ws_step idt parse i c) = stopped (ws_step idt parse i d)"
proof (cases "stopped d \<or> (\<nexists>now f. i = Frame now f)")
  case True
  then show ?thesis using assms
    by (cases i) (auto simp: ws_step_def heartbeat_tick_def handle_broadcast_def)
next
  case False
  then obtain now f where i: "i = Frame now f" and open_d: "\<not> stopped d" by blast
  have client: "wc_actor (handle_client now m c) = wc_actor (handle_client now m d)" for m
    using assms by (cases m) (auto simp: handle_client_def Let_def split: option.splits)
  show ?thesis using assms open_d client unfolding i
    by (cases f) (auto simp: ws_step_def beat_def split: sum.splits)
qed

lemma ws_run_alike:
  assumes "wc_actor c = wc_actor d" "stopped c = stopped d"
  shows "stopped (ws_run idt parse is c) = stopped (ws_run idt parse (filter (\<lambda>i. \<not> is_broadcast i) is) d)"
  using assms
proof (induction "is" arbitrary: c d)
  case Nil
  then show ?case by simp
next
  case (Cons i "is")
  show ?case
  proof (cases "is_broadcast i")
    case True
    then have "wc_actor (ws_step idt parse i c) = wc_actor d" "stopped (ws_step idt parse i c) = stopped d"
      using Cons.prems by (auto simp: is_broadcast_def ws_step_def handle_broadcast_def split: ws_input.splits)
    with True Cons.IH show ?thesis by simp
  next
    case False
    with Cons.IH ws_step_alike [OF Cons.prems, of idt parse i] show ?thesis by simp
  qed
qed

text \<open>C39: end to end from the channel to the client. The events that reach the actor are exactly those the receiver
  reads, overwritten ones skipped, before the first one the mailbox refuses or the end of the channel; the first refusal,
  a full mailbox included, is the last the connection ever looks at. Whatever frames of the client, heartbeats and errors
  come between them, in any order, the client gets each of these events once, unchanged and in order, all of them while
  the connection is open, and the first of them when it was closed; and when it closes depends on the frames and
  heartbeats alone, so a connection whose mailbox was full stays open without ever seeing an event again.\<close>

theorem ws_end_to_end:
  assumes mailbox: "broadcasts is = broadcast_listener rs"
    and kinds: "\<forall>e \<in> set (received rs). \<not> List.member own_kinds (ev_event e)"
  shows "let conn = (\<lambda>is. ws_run idt parse is (started idt t (new_ws_actor w t0)));
             owed = map (from_job_status_event idt) (deliverable rs);
             got = event_messages (wc_out (conn is))
         in prefix got owed \<and> (\<not> stopped (conn is) \<longrightarrow> got = owed) \<and>
            stopped (conn is) = stopped (conn (filter (\<lambda>i. \<not> is_broadcast i) is)) \<and>
            wc_out (conn (map Broadcast (broadcast_listener rs))) = SendText (connected idt t w) # map SendText owed \<and>
            broadcast_listener (rs @ Received ev MailboxFull # rest) = deliverable rs"
proof -
  let ?c = "started idt t (new_ws_actor w t0)"
  have "set (broadcasts is) \<subseteq> set (received rs)"
    unfolding mailbox using set_mono_prefix [OF listener_prefix] .
  with kinds have k: "\<forall>ev \<in> set (broadcasts is). \<not> List.member own_kinds (ev_event ev)" by blast
  have start: "event_messages (wc_out ?c) = []" by (simp add: started_def connected_def own_kinds_def)
  from ws_run_messages [OF started_simps(1) k, of idt parse idt t w t0, unfolded start] obtain n where
    n: "event_messages (wc_out (ws_run idt parse is ?c)) = map (from_job_status_event idt) (take n (broadcasts is))"
       "\<not> stopped (ws_run idt parse is ?c) \<longrightarrow> n = length (broadcasts is)"
    by auto
  have out: "wc_out (ws_run idt parse (map Broadcast (broadcast_listener rs)) ?c)
      = wc_out ?c @ map (SendText \<circ> from_job_status_event idt) (broadcast_listener rs)"
    using broadcasts_run [of ?c idt parse "broadcast_listener rs"] by simp
  have alike: "stopped (ws_run idt parse is ?c) = stopped (ws_run idt parse (filter (\<lambda>i. \<not> is_broadcast i) is) ?c)"
    by (rule ws_run_alike) simp_all
  show ?thesis unfolding Let_def
    using n alike out by (simp add: mailbox listener_full [unfolded listener_deliverable] listener_deliverable take_is_prefix map_mono_prefix)
      (simp add: started_def new_ws_actor_def)
qed

theorem ws_end_to_end_witness:
  "event_messages (wc_out (ws_run (\<lambda>_. ''seven'') (\<lambda>t. Ok (Unsubscribe t))
       [Tick 5000000000, Frame 6000000000 (Text ''seven''), Broadcast sample_event, Frame 7000000000 (Ping [])]
       (started (\<lambda>_. ''seven'') 0 (new_ws_actor 1 0))))
     = [from_job_status_event (\<lambda>_. ''seven'') sample_event]"
proof -
  let ?rs = "[Lagged 3, Received sample_event Sent, Received sample_event MailboxFull, Received sample_event Sent]"
  let ?is = "[Tick 5000000000, Frame 6000000000 (Text ''seven''), Broadcast sample_event, Frame 7000000000 (Ping [])]"
  let ?c = "ws_run (\<lambda>_. ''seven'') (\<lambda>t. Ok (Unsubscribe t)) ?is (started (\<lambda>_. ''seven'') 0 (new_ws_actor 1 0))"
  have pre: "broadcasts ?is = broadcast_listener ?rs"
    "\<forall>e \<in> set (received ?rs). \<not> List.member own_kinds (ev_event e)"
    by (simp_all add: sample_event_def own_kinds_def)
  have "\<not> stopped ?c" by code_simp
  then show ?thesis
    using ws_end_to_end [OF pre, of "\<lambda>_. ''seven''" "\<lambda>t. Ok (Unsubscribe t)" 0 1 0 sample_event "[]"]
    by (simp add: Let_def deliverable_def goes_through_def del: ws_run_Cons)
qed

end
