(* ===== verification/Router.thy ===== *)
theory Router imports Middleware begin

text \<open>
  The routing table: \<open>src/api/routes.rs\<close> and the \<open>configure_routes\<close> of the modules under
  \<open>src/api/handlers\<close>. A scope puts its prefix before the patterns registered in it; services are tried in the
  order of their registration. Matching a pattern against a path is the work of the crate actix-router: \<open>matches\<close>
  is an argument, which gives the text that the pattern's parameter stands for (the empty text for a pattern
  without one), and \<open>pattern_contract\<close> is what its documentation says of the two kinds of patterns used here.
\<close>

section \<open>The table\<close>

datatype endpoint =
    ListPackages | InstallPackages | GetPackage | UpdatePackage | RemovePackage
  | ListPatches | ApplyPatches
  | GetSystemInfo | RebootSystem | GetServiceStatus | HealthCheck
  | ListJobs | GetJob | RollbackJob | DeleteJob
  | WebsocketHandler

record route =
  rt_pattern :: string
  rt_method :: http_method
  rt_endpoint :: endpoint

definition route_to :: "string \<Rightarrow> http_method \<Rightarrow> endpoint \<Rightarrow> route" where
  "route_to pattern meth e = \<lparr>rt_pattern = pattern, rt_method = meth, rt_endpoint = e\<rparr>"

definition scope :: "string \<Rightarrow> route list \<Rightarrow> route list" where
  "scope pre rs = map (\<lambda>r. r\<lparr>rt_pattern := pre @ rt_pattern r\<rparr>) rs"

definition package_routes :: "route list" where
  "package_routes = scope ''/packages''
     [route_to '''' GET ListPackages,
      route_to '''' POST InstallPackages,
      route_to ''/{name}'' GET GetPackage,
      route_to ''/{name}'' PUT UpdatePackage,
      route_to ''/{name}'' DELETE RemovePackage]"

definition patch_routes :: "route list" where
  "patch_routes = scope ''/patches''
     [route_to '''' GET ListPatches,
      route_to ''/apply'' POST ApplyPatches]"

definition system_routes :: "route list" where
  "system_routes = scope ''/system''
     [route_to ''/info'' GET GetSystemInfo,
      route_to ''/reboot'' POST RebootSystem,
      route_to ''/services/{name}'' GET GetServiceStatus]
     @ [route_to ''/health'' GET HealthCheck]"

definition job_routes :: "route list" where
  "job_routes = scope ''/jobs''
     [route_to '''' GET ListJobs,
      route_to ''/{id}'' GET GetJob,
      route_to ''/{id}/rollback'' POST RollbackJob,
      route_to ''/{id}'' DELETE DeleteJob]"

definition websocket_routes :: "route list" where
  "websocket_routes = [route_to ''/ws/jobs'' GET WebsocketHandler]"

definition configure_api_routes :: "route list" where
  "configure_api_routes =
     [route_to ''/api/v1/system/info'' GET GetSystemInfo]
     @ scope ''/api/v1'' (package_routes @ patch_routes @ system_routes @ job_routes @ websocket_routes)"

definition configure_health_route :: "route list" where
  "configure_health_route = [route_to ''/health'' GET HealthCheck]"

definition app_routes :: "route list" where
  "app_routes = configure_api_routes @ configure_health_route"

section \<open>Finding a route\<close>

type_synonym matcher = "string \<Rightarrow> string \<Rightarrow> string option"

definition route_param :: "matcher \<Rightarrow> http_method \<Rightarrow> string \<Rightarrow> route \<Rightarrow> string option" where
  "route_param matches meth path r = (if rt_method r = meth then matches (rt_pattern r) path else None)"

fun find_route :: "matcher \<Rightarrow> http_method \<Rightarrow> string \<Rightarrow> route list \<Rightarrow> (endpoint \<times> string) option" where
  "find_route matches meth path [] = None"
| "find_route matches meth path (r # rs) =
     (case route_param matches meth path r of
        Some v \<Rightarrow> Some (rt_endpoint r, v)
      | None \<Rightarrow> find_route matches meth path rs)"

text \<open>The default service of the scope: status, headers.\<close>

definition method_not_allowed :: "nat \<times> (string \<times> string) list" where
  "method_not_allowed = (405, [(''Allow'', ''GET, POST, PUT, DELETE'')])"

definition pattern_contract :: "matcher \<Rightarrow> bool" where
  "pattern_contract matches \<longleftrightarrow>
     (\<forall>p path v. CHR ''{'' \<notin> set p \<longrightarrow> (matches p path = Some v \<longleftrightarrow> path = p \<and> v = [])) \<and>
     (\<forall>pre name post path v. CHR ''{'' \<notin> set pre \<longrightarrow> CHR ''}'' \<notin> set name \<longrightarrow> CHR ''{'' \<notin> set post \<longrightarrow>
        (matches (pre @ ''{'' @ name @ ''}'' @ post) path = Some v \<longleftrightarrow>
           path = pre @ v @ post \<and> v \<noteq> [] \<and> CHR ''/'' \<notin> set v))"

text \<open>A matcher that satisfies the contract.\<close>

definition match_pattern :: matcher where
  "match_pattern p path =
     (case split_once CHR ''{'' p of
        None \<Rightarrow> if path = p then Some [] else None
      | Some (pre, rest) \<Rightarrow>
          (case split_once CHR ''}'' rest of
             None \<Rightarrow> None
           | Some (_, post) \<Rightarrow>
               (let v = take (length path - length pre - length post) (drop (length pre) path)
                in if path = pre @ v @ post \<and> v \<noteq> [] \<and> CHR ''/'' \<notin> set v then Some v else None)))"

section \<open>Lemmas\<close>

lemmas routes_unfold = app_routes_def configure_api_routes_def configure_health_route_def package_routes_def
  patch_routes_def system_routes_def job_routes_def websocket_routes_def scope_def route_to_def

text \<open>The method and the paths of each endpoint, with the text its parameter stands for: a reading of the table that knows
  nothing of scopes, of patterns and of the order of registration.\<close>

fun address :: "endpoint \<Rightarrow> string \<Rightarrow> http_method \<times> string \<Rightarrow> bool" where
  "address ListPackages v a = (a = (GET, ''/api/v1/packages'') \<and> v = [])"
| "address InstallPackages v a = (a = (POST, ''/api/v1/packages'') \<and> v = [])"
| "address GetPackage v a = (a = (GET, ''/api/v1/packages/'' @ v) \<and> v \<noteq> [] \<and> CHR ''/'' \<notin> set v)"
| "address UpdatePackage v a = (a = (PUT, ''/api/v1/packages/'' @ v) \<and> v \<noteq> [] \<and> CHR ''/'' \<notin> set v)"
| "address RemovePackage v a = (a = (DELETE, ''/api/v1/packages/'' @ v) \<and> v \<noteq> [] \<and> CHR ''/'' \<notin> set v)"
| "address ListPatches v a = (a = (GET, ''/api/v1/patches'') \<and> v = [])"
| "address ApplyPatches v a = (a = (POST, ''/api/v1/patches/apply'') \<and> v = [])"
| "address GetSystemInfo v a = (a = (GET, ''/api/v1/system/info'') \<and> v = [])"
| "address RebootSystem v a = (a = (POST, ''/api/v1/system/reboot'') \<and> v = [])"
| "address GetServiceStatus v a = (a = (GET, ''/api/v1/system/services/'' @ v) \<and> v \<noteq> [] \<and> CHR ''/'' \<notin> set v)"
| "address HealthCheck v a = (a \<in> {(GET, ''/api/v1/health''), (GET, ''/health'')} \<and> v = [])"
| "address ListJobs v a = (a = (GET, ''/api/v1/jobs'') \<and> v = [])"
| "address GetJob v a = (a = (GET, ''/api/v1/jobs/'' @ v) \<and> v \<noteq> [] \<and> CHR ''/'' \<notin> set v)"
| "address RollbackJob v a = (a = (POST, ''/api/v1/jobs/'' @ v @ ''/rollback'') \<and> v \<noteq> [] \<and> CHR ''/'' \<notin> set v)"
| "address DeleteJob v a = (a = (DELETE, ''/api/v1/jobs/'' @ v) \<and> v \<noteq> [] \<and> CHR ''/'' \<notin> set v)"
| "address WebsocketHandler v a = (a = (GET, ''/api/v1/ws/jobs'') \<and> v = [])"

text \<open>The endpoints of the agent that the headings of \<open>API_SPEC.md\<close> and \<open>API_DOCUMENTATION.md\<close> name, in their order.\<close>

definition documented_in_spec :: "(http_method \<times> string) list" where
  "documented_in_spec =
     [(POST, ''/api/v1/packages''), (GET, ''/api/v1/packages''), (GET, ''/api/v1/packages/{name}''),
      (PUT, ''/api/v1/packages/{name}''), (DELETE, ''/api/v1/packages/{name}''), (GET, ''/api/v1/patches''),
      (POST, ''/api/v1/patches/apply''), (GET, ''/api/v1/system/info''), (GET, ''/api/v1/health''),
      (POST, ''/api/v1/system/reboot''), (POST, ''/api/v1/system/update''), (GET, ''/api/v1/system/update/status''),
      (GET, ''/api/v1/pki/repo-config''), (GET, ''/api/v1/jobs''), (GET, ''/api/v1/jobs/{id}''),
      (POST, ''/api/v1/jobs/{id}/rollback''), (GET, ''/api/v1/ws/jobs'')]"

definition documented_in_guide :: "(http_method \<times> string) list" where
  "documented_in_guide =
     [(POST, ''/api/v1/packages''), (GET, ''/api/v1/packages''), (GET, ''/api/v1/packages/{name}''),
      (PUT, ''/api/v1/packages/{name}''), (DELETE, ''/api/v1/packages/{name}''), (GET, ''/api/v1/patches''),
      (POST, ''/api/v1/patches/apply''), (GET, ''/api/v1/system/info''), (GET, ''/health''), (POST, ''/api/v1/system/reboot''),
      (GET, ''/api/v1/jobs''), (GET, ''/api/v1/jobs/{id}''), (POST, ''/api/v1/jobs/{id}/rollback''),
      (DELETE, ''/api/v1/jobs/{id}''), (GET, ''/api/v1/ws/jobs'')]"

definition routed :: "(http_method \<times> string) list" where
  "routed = map (\<lambda>r. (rt_method r, rt_pattern r)) app_routes"

lemma routed_addresses:
  "routed =
     [(GET, ''/api/v1/system/info''), (GET, ''/api/v1/packages''), (POST, ''/api/v1/packages''), (GET, ''/api/v1/packages/{name}''),
      (PUT, ''/api/v1/packages/{name}''), (DELETE, ''/api/v1/packages/{name}''), (GET, ''/api/v1/patches''),
      (POST, ''/api/v1/patches/apply''), (GET, ''/api/v1/system/info''), (POST, ''/api/v1/system/reboot''),
      (GET, ''/api/v1/system/services/{name}''), (GET, ''/api/v1/health''), (GET, ''/api/v1/jobs''), (GET, ''/api/v1/jobs/{id}''),
      (POST, ''/api/v1/jobs/{id}/rollback''), (DELETE, ''/api/v1/jobs/{id}''), (GET, ''/api/v1/ws/jobs''), (GET, ''/health'')]"
  unfolding routed_def routes_unfold by simp

lemma find_route_Some:
  "find_route matches meth path rs = Some (e, v) \<Longrightarrow>
   \<exists>r \<in> set rs. rt_endpoint r = e \<and> rt_method r = meth \<and> matches (rt_pattern r) path = Some v"
  by (induction rs) (auto simp: route_param_def split: option.splits if_splits)

lemma find_route_exists:
  "\<exists>r \<in> set rs. rt_method r = meth \<and> matches (rt_pattern r) path = Some v \<Longrightarrow>
   \<exists>e' v'. find_route matches meth path rs = Some (e', v')"
  by (induction rs) (auto simp: route_param_def split: option.splits)

lemma static_matches:
  assumes "pattern_contract matches" "CHR ''{'' \<notin> set p"
  shows "matches p path = Some v \<longleftrightarrow> path = p \<and> v = []"
  by (rule assms(1) [unfolded pattern_contract_def, THEN conjunct1, rule_format, OF assms(2)])

lemma param_matches:
  assumes "pattern_contract matches" "CHR ''{'' \<notin> set pre" "CHR ''}'' \<notin> set name" "CHR ''{'' \<notin> set post"
  shows "matches (pre @ ''{'' @ name @ ''}'' @ post) path = Some v \<longleftrightarrow>
    path = pre @ v @ post \<and> v \<noteq> [] \<and> CHR ''/'' \<notin> set v"
  by (rule assms(1) [unfolded pattern_contract_def, THEN conjunct2, rule_format, OF assms(2-4)])

lemma matches_packages:
  assumes "pattern_contract matches"
  shows "matches ''/api/v1/packages/{name}'' path = Some v \<longleftrightarrow>
    path = ''/api/v1/packages/'' @ v \<and> v \<noteq> [] \<and> CHR ''/'' \<notin> set v"
  using param_matches [OF assms, of "''/api/v1/packages/''" "''name''" "[]" path v] by simp

lemma matches_services:
  assumes "pattern_contract matches"
  shows "matches ''/api/v1/system/services/{name}'' path = Some v \<longleftrightarrow>
    path = ''/api/v1/system/services/'' @ v \<and> v \<noteq> [] \<and> CHR ''/'' \<notin> set v"
  using param_matches [OF assms, of "''/api/v1/system/services/''" "''name''" "[]" path v] by simp

lemma matches_job:
  assumes "pattern_contract matches"
  shows "matches ''/api/v1/jobs/{id}'' path = Some v \<longleftrightarrow>
    path = ''/api/v1/jobs/'' @ v \<and> v \<noteq> [] \<and> CHR ''/'' \<notin> set v"
  using param_matches [OF assms, of "''/api/v1/jobs/''" "''id''" "[]" path v] by simp

lemma matches_rollback:
  assumes "pattern_contract matches"
  shows "matches ''/api/v1/jobs/{id}/rollback'' path = Some v \<longleftrightarrow>
    path = ''/api/v1/jobs/'' @ v @ ''/rollback'' \<and> v \<noteq> [] \<and> CHR ''/'' \<notin> set v"
  using param_matches [OF assms, of "''/api/v1/jobs/''" "''id''" "''/rollback''" path v] by simp

lemmas matches_param = matches_packages matches_services matches_job matches_rollback

lemma pattern_contract_match_pattern: "pattern_contract match_pattern"
proof -
  have static: "match_pattern p path = Some v \<longleftrightarrow> path = p \<and> v = []" if "CHR ''{'' \<notin> set p" for p path v
    using that by (auto simp: match_pattern_def split_once_None [THEN iffD2])
  have param: "match_pattern (pre @ ''{'' @ name @ ''}'' @ post) path = Some v \<longleftrightarrow>
      path = pre @ v @ post \<and> v \<noteq> [] \<and> CHR ''/'' \<notin> set v"
    if "CHR ''{'' \<notin> set pre" "CHR ''}'' \<notin> set name" for pre name post path v
  proof -
    let ?w = "take (length path - length pre - length post) (drop (length pre) path)"
    have "match_pattern (pre @ ''{'' @ name @ ''}'' @ post) path =
        (if path = pre @ ?w @ post \<and> ?w \<noteq> [] \<and> CHR ''/'' \<notin> set ?w then Some ?w else None)"
      by (simp add: match_pattern_def split_once_append that Let_def)
    moreover have "?w = v" if "path = pre @ v @ post" by (simp add: that)
    ultimately show ?thesis by (metis option.distinct(1) option.inject)
  qed
  show ?thesis unfolding pattern_contract_def by (intro conjI allI impI static param)
qed

lemma address_functional: "address e v (meth, path) \<Longrightarrow> address e' v' (meth, path) \<Longrightarrow> e' = e \<and> v' = v"
  by (cases e; cases e'; simp; auto)

lemma route_address:
  assumes c: "pattern_contract matches" and r: "r \<in> set app_routes" and v: "matches (rt_pattern r) path = Some v"
  shows "address (rt_endpoint r) v (rt_method r, path)"
  using r v unfolding routes_unfold
  by (simp; elim disjE; simp add: matches_param [OF c] static_matches [OF c])

lemma address_route:
  assumes c: "pattern_contract matches" and a: "address e v (meth, path)"
  shows "\<exists>r \<in> set app_routes. rt_endpoint r = e \<and> rt_method r = meth \<and> matches (rt_pattern r) path = Some v"
  using a unfolding routes_unfold
  by (cases e; simp add: matches_param [OF c] static_matches [OF c]; auto)

section \<open>Properties\<close>

text \<open>C13: what the routing table serves. Whatever the order of registration, a request is given to an endpoint with a
  parameter exactly when its method and path are the address of that endpoint with that parameter; addresses do not
  overlap, so no route shadows another endpoint's. Against the two interface documents the table has one endpoint more, the
  service status, and three fewer: both deprecated addresses of the self-update and the repository
  configuration, which no request reaches.\<close>

theorem routes_implement_interface:
  assumes "pattern_contract matches"
  shows "(find_route matches meth path app_routes = Some (e, v) \<longleftrightarrow> address e v (meth, path)) \<and>
    set routed - (set documented_in_spec \<union> set documented_in_guide) = {(GET, ''/api/v1/system/services/{name}'')} \<and>
    (set documented_in_spec \<union> set documented_in_guide) - set routed
      = {(POST, ''/api/v1/system/update''), (GET, ''/api/v1/system/update/status''), (GET, ''/api/v1/pki/repo-config'')}"
proof (intro conjI iffI)
  assume "find_route matches meth path app_routes = Some (e, v)"
  then show "address e v (meth, path)" using find_route_Some route_address [OF assms] by blast
next
  assume a: "address e v (meth, path)"
  then obtain e' v' where f: "find_route matches meth path app_routes = Some (e', v')"
    using find_route_exists [of app_routes meth matches path v] address_route [OF assms a] by blast
  then have "address e' v' (meth, path)" using find_route_Some route_address [OF assms] by blast
  then show "find_route matches meth path app_routes = Some (e, v)" using f address_functional [OF a] by blast
qed (auto simp: routed_addresses documented_in_spec_def documented_in_guide_def)

theorem routes_implement_interface_witness:
  "find_route match_pattern POST ''/api/v1/jobs/42/rollback'' app_routes = Some (RollbackJob, ''42'')"
  using routes_implement_interface [OF pattern_contract_match_pattern, of POST "''/api/v1/jobs/42/rollback''" RollbackJob "''42''"]
  by simp

end
