(* ===== verification/Api.thy ===== *)
theory Api imports System_Handlers WebSocket Router begin

text \<open>
  The application behind the pipeline: \<open>src/main.rs\<close> gives every handler the same shared data
  (\<open>web::Data\<close>), the routing table of theory \<open>Router\<close> picks the handler, the extractors in its signature
  read the request, and the handler of theories \<open>Handlers\<close>, \<open>System_Handlers\<close> and \<open>WebSocket\<close> runs on
  the shared state. The extractors (\<open>web::Path\<close>, \<open>web::Query\<close>, \<open>web::Json\<close>), the matcher and the renderings
  are fields of \<open>api_env\<close>; what one request reads from the clock, the random source and the machine is in
  \<open>request_inputs\<close>. Tasks that a handler spawns are appended to the state; running them is the subject of
  theories \<open>Dispatch\<close> and \<open>Backend\<close>.
\<close>

section \<open>State and environment\<close>

record 'w api_state =
  as_scheduler :: scheduler_state
  as_cache :: package_cache_state
  as_tasks :: "'w mutation list"
  as_reboots :: "(uuid \<times> u64) list"
  as_sockets :: "(nat \<times> ws_actor) list"
  as_world :: 'w

record api_env =
  ae_matches :: matcher
  ae_path :: "string \<Rightarrow> string option"
  ae_package_query :: "http_request \<Rightarrow> package_list_query option"
  ae_job_query :: "http_request \<Rightarrow> (string option \<times> nat option) option"
  ae_install :: "http_request \<Rightarrow> install_request option"
  ae_apply :: "http_request \<Rightarrow> patch_apply_request option"
  ae_reboot :: "http_request \<Rightarrow> reboot_request option"
  ae_upgrade :: "http_request \<Rightarrow> bool"                            \<comment> \<open>\<open>ws::start\<close> accepts the handshake\<close>
  ae_debug :: "anyhow \<Rightarrow> string"
  ae_parse_uuid :: "string \<Rightarrow> uuid option"
  ae_id_text :: "uuid \<Rightarrow> string"
  ae_time_text :: "time \<Rightarrow> string"
  ae_seconds_text :: "int \<Rightarrow> string option"
  ae_add_seconds :: "time \<Rightarrow> int \<Rightarrow> time option"
  ae_parse_f64 :: "string \<Rightarrow> nat option"

text \<open>\<open>ri_refresh_first\<close>: the refresh task of the health check ran before its answer was computed.\<close>

record request_inputs =
  ri_now :: time
  ri_new_id :: uuid
  ri_reboot_id :: uuid
  ri_boot :: "string option"
  ri_health :: health_inputs
  ri_refresh_first :: bool

datatype api_reply =
    PackagesReply "package list_data http_response"
  | PackageReply "package http_response"
  | JobReply "job_response_data http_response"
  | PatchesReply "patch_list_data http_response"
  | SystemInfoReply "system_info_data http_response"
  | HealthReply "health_data http_response"
  | ServiceReply "service_status http_response"
  | JobsReply "job_summary list_data http_response"
  | JobDetailReply "job_detail http_response"
  | JsonReply "json http_response"
  | SwitchingProtocols
  | UpgradeRefused
  | ExtractorError
  | HandlerPanic
  | Unrouted

section \<open>Endpoints\<close>

definition read_world ::
    "('d http_response \<Rightarrow> api_reply) \<Rightarrow> ('w \<Rightarrow> 'd http_response \<times> 'w) \<Rightarrow> 'w api_state \<Rightarrow> api_reply \<times> 'w api_state" where
  "read_world mk h a = (let (r, w) = h (as_world a) in (mk r, a\<lparr>as_world := w\<rparr>))"

definition spawned ::
    "('d http_response \<Rightarrow> api_reply) \<Rightarrow> 'd http_response \<times> scheduler_state \<times> 'w mutation option \<Rightarrow> 'w api_state
     \<Rightarrow> api_reply \<times> 'w api_state" where
  "spawned mk out a =
     (case out of (r, s, task) \<Rightarrow>
        (mk r, a\<lparr>as_scheduler := s, as_tasks := as_tasks a @ (case task of None \<Rightarrow> [] | Some t \<Rightarrow> [t])\<rparr>))"

definition with_extractor :: "'x option \<Rightarrow> ('x \<Rightarrow> 'w api_state \<Rightarrow> api_reply \<times> 'w api_state) \<Rightarrow> 'w api_state
     \<Rightarrow> api_reply \<times> 'w api_state" where
  "with_extractor x f a = (case x of None \<Rightarrow> (ExtractorError, a) | Some v \<Rightarrow> f v a)"

fun run_endpoint ::
    "api_env \<Rightarrow> 'w backend \<Rightarrow> request_inputs \<Rightarrow> http_request \<Rightarrow> endpoint \<Rightarrow> string \<Rightarrow> 'w api_state
     \<Rightarrow> api_reply \<times> 'w api_state" where
  "run_endpoint env be ri req ListPackages v =
     with_extractor (ae_package_query env req) (\<lambda>q. read_world PackagesReply (h_list_packages be q))"
| "run_endpoint env be ri req GetPackage v =
     with_extractor (ae_path env v) (\<lambda>name. read_world PackageReply (h_get_package be name))"
| "run_endpoint env be ri req InstallPackages v =
     with_extractor (ae_install env req) (\<lambda>r a. spawned JobReply
       (h_install_packages (ae_debug env) (ri_now ri) (ri_new_id ri) (ri_boot ri) be r (as_scheduler a)) a)"
| "run_endpoint env be ri req UpdatePackage v =
     with_extractor (ae_path env v) (\<lambda>name a. spawned JobReply
       (h_update_package (ae_debug env) (ri_now ri) (ri_new_id ri) (ri_boot ri) be name (as_scheduler a)) a)"
| "run_endpoint env be ri req RemovePackage v =
     with_extractor (ae_path env v) (\<lambda>name a. spawned JobReply
       (h_remove_package (ae_debug env) (ri_now ri) (ri_new_id ri) (ri_boot ri) be name (as_scheduler a)) a)"
| "run_endpoint env be ri req ListPatches v =
     (\<lambda>a. let (out, w) = h_list_patches (ri_now ri) (hi_now (ri_health ri)) (ri_new_id ri) (ri_boot ri) be (as_cache a)
                          (as_scheduler a) (as_world a)
          in spawned PatchesReply out (a\<lparr>as_world := w\<rparr>))"
| "run_endpoint env be ri req ApplyPatches v =
     with_extractor (ae_apply env req) (\<lambda>r a. spawned JobReply
       (h_apply_patches (ae_debug env) (ri_now ri) (ri_new_id ri) (ri_reboot_id ri) (ri_boot ri) be r
          (as_scheduler a)) a)"
| "run_endpoint env be ri req GetSystemInfo v = read_world SystemInfoReply (h_get_system_info be)"
| "run_endpoint env be ri req RebootSystem v =
     with_extractor (ae_reboot env req) (\<lambda>r a.
       case h_reboot_system (ae_id_text env) (ae_time_text env) (ae_add_seconds env) (ri_now ri) (ri_new_id ri)
              (ri_boot ri) r (as_scheduler a) of
         (resp, s, task) \<Rightarrow>
           (case resp of None \<Rightarrow> HandlerPanic | Some x \<Rightarrow> JsonReply x,
            a\<lparr>as_scheduler := s,
              as_reboots := as_reboots a @ (case task of None \<Rightarrow> [] | Some i \<Rightarrow> [(i, rr_delay_seconds r)])\<rparr>))"
| "run_endpoint env be ri req GetServiceStatus v =
     with_extractor (ae_path env v) (\<lambda>name. read_world ServiceReply (h_get_service_status be name))"
| "run_endpoint env be ri req HealthCheck v =
     (\<lambda>a. let s = as_scheduler a; hi = (ri_health ri)\<lparr>hi_cache := as_cache a\<rparr>;
              check = (\<lambda>seen. h_health_check (ae_parse_f64 env) (ae_seconds_text env) (ri_now ri) (ri_new_id ri)
                                (ri_boot ri) be hi seen s);
              seen = (if ri_refresh_first ri then fst (snd (check s)) else s)
          in spawned HealthReply (check seen) a)"
| "run_endpoint env be ri req ListJobs v =
     with_extractor (ae_job_query env req) (\<lambda>q a. (JobsReply (h_list_jobs (fst q) (snd q) (as_scheduler a)), a))"
| "run_endpoint env be ri req GetJob v =
     with_extractor (ae_path env v) (\<lambda>t a. (JobDetailReply (h_get_job (ae_parse_uuid env) t (as_scheduler a)), a))"
| "run_endpoint env be ri req RollbackJob v =
     with_extractor (ae_path env v) (\<lambda>t a. spawned JsonReply
       (h_rollback_job (ae_parse_uuid env) (ae_id_text env) (ri_now ri) (ri_new_id ri) (ri_boot ri) t (as_scheduler a)) a)"
| "run_endpoint env be ri req DeleteJob v =
     with_extractor (ae_path env v) (\<lambda>t a.
       let (r, s) = h_delete_job (ae_parse_uuid env) t (as_scheduler a) in (JsonReply r, a\<lparr>as_scheduler := s\<rparr>))"
| "run_endpoint env be ri req WebsocketHandler v =
     (\<lambda>a. if ae_upgrade env req
          then (SwitchingProtocols, a\<lparr>as_sockets := as_sockets a @ [websocket_handler (ri_new_id ri) (ri_now ri) (as_scheduler a)]\<rparr>)
          else (UpgradeRefused, a))"

text \<open>A request without a route is answered by actix or by the scope's default service; no handler runs.\<close>

definition api_handler ::
    "api_env \<Rightarrow> 'w backend \<Rightarrow> request_inputs \<Rightarrow> (('g, 'w api_state) server, api_reply) service" where
  "api_handler env be ri req s =
     (case find_route (ae_matches env) (rq_method req) (rq_path req) app_routes of
        None \<Rightarrow> (Handled Unrouted, s)
      | Some (e, v) \<Rightarrow>
          (let (reply, a) = run_endpoint env be ri req e v (sv_app s)
           in (Handled reply, s\<lparr>sv_app := a\<rparr>)))"

text \<open>The whole of it: the pipeline of \<open>main.rs\<close> around the application.\<close>

definition serve_request ::
    "('g \<Rightarrow> ip_addr \<Rightarrow> nat option \<times> 'g) \<Rightarrow> whitelist_entry list \<Rightarrow> api_env \<Rightarrow> 'w backend \<Rightarrow> request_inputs
     \<Rightarrow> (('g, 'w api_state) server, api_reply) service" where
  "serve_request check_key entries env be ri = app_service check_key entries (api_handler env be ri)"

section \<open>Requests that change nothing\<close>

text \<open>What a reading request may do: the package manager is asked, a socket is opened, and at most one task is added, which
  refreshes the package index under a job of the agent's own. The gates, the reboots and every job that a client
  may see stay as they are.\<close>

definition harmless :: "'w backend \<Rightarrow> 'w api_state \<Rightarrow> 'w api_state \<Rightarrow> bool" where
  "harmless be a a' \<longleftrightarrow>
     as_reboots a' = as_reboots a \<and> as_cache a' = as_cache a \<and>
     s_admission (as_scheduler a') = s_admission (as_scheduler a) \<and>
     s_reboot_pending (as_scheduler a') = s_reboot_pending (as_scheduler a) \<and>
     s_self_update (as_scheduler a') = s_self_update (as_scheduler a) \<and>
     (\<forall>i j. \<not> is_internal j \<longrightarrow> (get_job i (as_scheduler a') = Some j \<longleftrightarrow> get_job i (as_scheduler a) = Some j)) \<and>
     (\<exists>ts. as_tasks a' = as_tasks a @ ts \<and> length ts \<le> 1 \<and> (\<forall>t \<in> set ts. mu_closure t = be_refresh_package_cache be))"

definition reading :: "endpoint set" where
  "reading = {ListPackages, GetPackage, ListPatches, GetSystemInfo, GetServiceStatus, HealthCheck, ListJobs, GetJob, WebsocketHandler}"

lemma harmless_same:
  "as_reboots a' = as_reboots a \<Longrightarrow> as_cache a' = as_cache a \<Longrightarrow> as_scheduler a' = as_scheduler a \<Longrightarrow>
   as_tasks a' = as_tasks a \<Longrightarrow> harmless be a a'"
  by (simp add: harmless_def)

lemma read_world_harmless: "harmless be a (snd (read_world mk h a))"
  by (rule harmless_same) (simp_all add: read_world_def split: prod.splits)

lemma spawned_refresh_harmless:
  assumes fresh: "get_job i (as_scheduler a) = None" and internal: "is_internal (new_job i now boot Install [tag])"
    and r: "background_refresh tag now i boot be (as_scheduler a) = (task, s)"
  shows "harmless be a (snd (spawned mk (resp, s, task) (a\<lparr>as_world := w\<rparr>)))"
proof (cases "admit_job now i boot Install [tag] (as_scheduler a)")
  case (Inl e)
  then show ?thesis using r by (auto simp: background_refresh_def spawned_def intro: harmless_same)
next
  case (Inr ks)
  then obtain k s1 where a: "admit_job now i boot Install [tag] (as_scheduler a) = Inr (k, s1)" by (cases ks) auto
  note adm = admit_job_Inr [OF a]
  have s: "s = s1" "task = Some \<lparr>mu_job = i, mu_before = (\<lambda>_ s. s), mu_closure = be_refresh_package_cache be,
      mu_settle = (\<lambda>t r. apfst (settle_refresh t i r))\<rparr>"
    using r a adm(1) by (auto simp: background_refresh_def)
  show ?thesis
    using adm(2-5) fresh internal by (auto simp: harmless_def spawned_def s)
qed

lemma markers_internal:
  "is_internal (new_job i now boot Install [''__health_refresh__''])"
  "is_internal (new_job i now boot Install [''__patch_list_refresh__''])"
  by (simp_all add: is_internal_def) code_simp+

lemma health_harmless:
  assumes "get_job (ri_new_id ri) (as_scheduler a) = None"
  shows "harmless be a (snd (run_endpoint env be ri req HealthCheck v a))"
proof -
  have "harmless be a (snd (spawned HealthReply (h_health_check pf rfc now (ri_new_id ri) boot be hi seen (as_scheduler a)) a))"
    for pf rfc now boot hi seen
    using spawned_refresh_harmless [OF assms markers_internal(1), where w = "as_world a"]
    by (auto simp: h_health_check_def spawned_def intro: harmless_same split: prod.splits)
  then show ?thesis by (simp add: Let_def)
qed

lemma patches_harmless:
  assumes "get_job (ri_new_id ri) (as_scheduler a) = None"
  shows "harmless be a (snd (run_endpoint env be ri req ListPatches v a))"
  using spawned_refresh_harmless [OF assms markers_internal(2)]
  by (auto simp: h_list_patches_def spawned_def Let_def intro: harmless_same split: prod.splits)

lemma reading_harmless:
  assumes "e \<in> reading" and "get_job (ri_new_id ri) (as_scheduler a) = None"
  shows "harmless be a (snd (run_endpoint env be ri req e v a))"
proof -
  consider "e = HealthCheck" | "e = ListPatches" | "e \<in> reading - {HealthCheck, ListPatches}" using assms(1) by blast
  then show ?thesis
  proof cases
    case 3
    then show ?thesis
      by (auto simp: reading_def with_extractor_def read_world_harmless simp del: split_paired_All intro: harmless_same
          split: option.splits)
  qed (use health_harmless patches_harmless assms(2) in blast)+
qed

lemma reading_iff_GET: "address e v (meth, path) \<Longrightarrow> e \<in> reading \<longleftrightarrow> meth = GET"
  by (cases e) (auto simp: reading_def)

lemma address_method: "address e v (meth, path) \<Longrightarrow> meth \<in> {GET, POST, PUT, DELETE}"
  by (cases e) auto

lemma exempt_reads: "address e v (meth, path) \<Longrightarrow> path \<in> set WHITELIST_EXEMPT_PATHS \<Longrightarrow> meth = GET"
  by (cases e) (auto simp: WHITELIST_EXEMPT_PATHS_def)

lemma find_route_address:
  assumes "pattern_contract matches" "find_route matches meth path app_routes = Some (e, v)"
  shows "address e v (meth, path)"
  using find_route_Some [OF assms(2)] route_address [OF assms(1)] by blast

lemma spawned_sound:
  assumes sound: "sound_outcome oper i (as_scheduler a) out" and r: "spawned JobReply out a = (JobReply r, a')"
  shows "if ar_success (hr_body r)
    then hr_status r = 202 \<and>
      (\<exists>mu j. as_tasks a' = as_tasks a @ [mu] \<and> mu_job mu = i \<and> get_job i (as_scheduler a') = Some j \<and>
         j_status j = Pending \<and> j_operation j = oper \<and> \<not> is_internal j \<and>
         list_all (\<lambda>p. is_ok (validate_package_name p)) (j_packages j)) \<and>
      (\<forall>x. x \<noteq> i \<longrightarrow> get_job x (as_scheduler a') = get_job x (as_scheduler a)) \<and>
      s_admission (as_scheduler a) = Open \<and> s_reboot_pending (as_scheduler a) = None \<and> s_self_update (as_scheduler a) = None
    else hr_status r \<in> {400, 409, 429} \<and> a' = a"
proof -
  obtain resp s' task where out: "out = (resp, s', task)" by (cases out)
  show ?thesis
    using sound r unfolding out by (cases task) (auto simp: sound_outcome_def spawned_def)
qed

lemma job_reply_endpoint:
  assumes "run_endpoint env be ri req e v a = (JobReply r, a')"
  shows "\<exists>oper out. spawned JobReply out a = (JobReply r, a') \<and> sound_outcome oper (ri_new_id ri) (as_scheduler a) out \<and>
    (e, oper) \<in> {(InstallPackages, Install), (UpdatePackage, Update), (UpdatePackage, SelfUpdate), (RemovePackage, Remove),
                 (ApplyPatches, PatchApply)}"
proof (cases e)
  case InstallPackages
  then obtain q where "spawned JobReply (h_install_packages (ae_debug env) (ri_now ri) (ri_new_id ri) (ri_boot ri) be q
      (as_scheduler a)) a = (JobReply r, a')"
    using assms by (auto simp: with_extractor_def split: option.splits)
  with InstallPackages show ?thesis by (intro exI conjI) (assumption, rule h_install_sound, simp)
next
  case UpdatePackage
  then obtain name where "spawned JobReply (h_update_package (ae_debug env) (ri_now ri) (ri_new_id ri) (ri_boot ri) be name
      (as_scheduler a)) a = (JobReply r, a')"
    using assms by (auto simp: with_extractor_def split: option.splits)
  with UpdatePackage show ?thesis by (intro exI conjI) (assumption, rule h_update_sound, simp)
next
  case RemovePackage
  then obtain name where "spawned JobReply (h_remove_package (ae_debug env) (ri_now ri) (ri_new_id ri) (ri_boot ri) be name
      (as_scheduler a)) a = (JobReply r, a')"
    using assms by (auto simp: with_extractor_def split: option.splits)
  with RemovePackage show ?thesis by (intro exI conjI) (assumption, rule h_remove_sound, simp)
next
  case ApplyPatches
  then obtain q where "spawned JobReply (h_apply_patches (ae_debug env) (ri_now ri) (ri_new_id ri) (ri_reboot_id ri) (ri_boot ri)
      be q (as_scheduler a)) a = (JobReply r, a')"
    using assms by (auto simp: with_extractor_def split: option.splits)
  with ApplyPatches show ?thesis by (intro exI conjI) (assumption, rule h_apply_sound, simp)
qed (use assms in \<open>auto simp: with_extractor_def read_world_def spawned_def Let_def split: option.splits prod.splits if_splits\<close>)

text \<open>Who can change anything: through the whole pipeline, a request that has an effect is a POST, PUT or DELETE from an IPv4
  address of the whitelist, with no critical header given twice; no reading request has one, and the paths the whitelist
  lets anyone reach are reading only.\<close>

lemma effects_authorised:
  assumes routing: "pattern_contract (ae_matches env)"
    and fresh: "get_job (ri_new_id ri) (as_scheduler (sv_app s)) = None"
  shows "harmless be (sv_app s) (sv_app (snd (serve_request check_key entries env be ri req s))) \<or>
    (rq_method req \<in> {POST, PUT, DELETE} \<and> rq_path req \<notin> set WHITELIST_EXEMPT_PATHS \<and>
     (\<exists>addr. rq_peer req = Some addr \<and> is_socket_allowed entries addr) \<and>
     (\<forall>h \<in> set CRITICAL_HEADERS. length (filter (\<lambda>(name, v). eq_ignore_ascii_case name h) (rq_headers req)) \<le> 1))"
proof -
  let ?h = "api_handler env be ri" and ?r = "serve_request check_key entries env be ri req s"
  have same: "sv_app s' = sv_app s \<Longrightarrow> harmless be (sv_app s) (sv_app s')" for s' by (simp add: harmless_same)
  from app_service_cases [of s check_key entries ?h req] consider
    (handled) s1 where "sv_app s1 = sv_app s" "?r = ?h req s1"
      "rq_path req \<in> set WHITELIST_EXEMPT_PATHS \<or> (\<exists>addr. rq_peer req = Some addr \<and> is_socket_allowed entries addr)"
      "\<forall>h \<in> set CRITICAL_HEADERS. length (filter (\<lambda>(name, v). eq_ignore_ascii_case name h) (rq_headers req)) \<le> 1"
    | (refused) "sv_app (snd ?r) = sv_app s"
    unfolding serve_request_def by blast
  then show ?thesis
  proof cases
    case handled
    show ?thesis
    proof (cases "find_route (ae_matches env) (rq_method req) (rq_path req) app_routes")
      case None
      then show ?thesis using handled(1,2) by (simp add: api_handler_def harmless_same)
    next
      case (Some ev)
      obtain e v where ev: "ev = (e, v)" by (cases ev)
      note at = find_route_address [OF routing Some [unfolded ev]]
      have step: "sv_app (snd ?r) = snd (run_endpoint env be ri req e v (sv_app s))"
        using handled(1,2) Some ev by (simp add: api_handler_def split: prod.splits)
      show ?thesis
      proof (cases "rq_method req = GET")
        case True
        then show ?thesis unfolding step using reading_harmless [of e ri] reading_iff_GET [OF at] fresh by blast
      next
        case False
        then show ?thesis using address_method [OF at] exempt_reads [OF at] handled(3,4) by blast
      qed
    qed
  qed (use same in blast)
qed

section \<open>Properties\<close>

definition demo_api :: api_env where
  "demo_api =
     \<lparr>ae_matches = match_pattern, ae_path = Some, ae_package_query = (\<lambda>_. None), ae_job_query = (\<lambda>_. Some (None, None)),
      ae_install = (\<lambda>_. None), ae_apply = (\<lambda>_. None), ae_reboot = (\<lambda>_. None), ae_upgrade = (\<lambda>_. True),
      ae_debug = (\<lambda>_. []), ae_parse_uuid = (\<lambda>_. None), ae_id_text = (\<lambda>_. ''id''), ae_time_text = (\<lambda>_. ''t''),
      ae_seconds_text = (\<lambda>_. None), ae_add_seconds = (\<lambda>n d. Some (n + d)), ae_parse_f64 = (\<lambda>_. None)\<rparr>"

definition demo_inputs :: request_inputs where
  "demo_inputs =
     \<lparr>ri_now = 5, ri_new_id = 7, ri_reboot_id = 8, ri_boot = None,
      ri_health = \<lparr>hi_now = 5, hi_uptime = None, hi_cache = with_threshold_and_jitter None 3600 0,
        hi_crl = new_shared_state 0, hi_gpg = (GpgMissing, None), hi_sync = new_shared_sync_state\<rparr>,
      ri_refresh_first = False\<rparr>"

definition demo_server :: "(unit, cmd list api_state) server" where
  "demo_server =
     \<lparr>sv_limiters = \<lparr>rl_destructive = (), rl_read = (), rl_enabled = True\<rparr>,
      sv_app = \<lparr>as_scheduler = new_scheduler 2 10, as_cache = with_threshold_and_jitter None 3600 0, as_tasks = [],
                as_reboots = [], as_sockets = [], as_world = []\<rparr>\<rparr>"

definition demo_delete :: "ipv4 \<Rightarrow> http_request" where
  "demo_delete ip =
     \<lparr>rq_method = DELETE, rq_path = ''/api/v1/packages/curl'', rq_peer = Some \<lparr>sa_ip = V4 ip, sa_port = 1\<rparr>,
      rq_headers = [], rq_query = [], rq_body = []\<rparr>"

lemma demo_fresh: "get_job i (as_scheduler (sv_app demo_server)) = None"
  by (simp add: demo_server_def get_job_def new_scheduler_def)

lemma demo_matches: "ae_matches demo_api = match_pattern" "ae_path demo_api = Some"
  by (simp_all add: demo_api_def)

lemma demo_delete_fields:
  "rq_peer (demo_delete ip) = Some \<lparr>sa_ip = V4 ip, sa_port = 1\<rparr>" "rq_method (demo_delete ip) = DELETE"
  "rq_path (demo_delete ip) = ''/api/v1/packages/curl''" "rq_headers (demo_delete ip) = []"
  by (simp_all add: demo_delete_def)

lemma demo_delete_serves:
  assumes adm: "\<exists>i s1. admit_job (ri_now demo_inputs) (ri_new_id demo_inputs) (ri_boot demo_inputs) Remove [''curl'']
      (as_scheduler (sv_app s)) = Inr (i, s1)" and allowed: "is_allowed entries ip"
  shows "\<exists>r s'. serve_request (\<lambda>g ip. (None, g)) entries demo_api quiet_backend demo_inputs (demo_delete ip) s
      = (Handled (JobReply r), s') \<and> ar_success (hr_body r) \<and> as_tasks (sv_app s') \<noteq> as_tasks (sv_app s) \<and>
    (\<exists>j. get_job (ri_new_id demo_inputs) (as_scheduler (sv_app s')) = Some j \<and> \<not> is_internal j)"
proof -
  let ?a = "sv_app s"
  have route: "find_route match_pattern DELETE ''/api/v1/packages/curl'' app_routes = Some (RemovePackage, ''curl'')" by code_simp
  have exempt: "''/api/v1/packages/curl'' \<notin> set WHITELIST_EXEMPT_PATHS" by (simp add: WHITELIST_EXEMPT_PATHS_def)
  obtain s1 where s1: "sv_app s1 = ?a" and pass: "serve_request (\<lambda>g ip. (None, g)) entries demo_api quiet_backend demo_inputs
      (demo_delete ip) s = api_handler demo_api quiet_backend demo_inputs (demo_delete ip) s1"
    using exempt allowed
    by (simp add: serve_request_def app_service_def rate_limit_def check_rate_def security_headers_def whitelist_service_def
        has_duplicate_iff demo_delete_fields is_socket_allowed_def Let_def split: if_splits)
  have valid: "validate_package_name ''curl'' = Inr ()" by code_simp
  obtain r a' where run: "run_endpoint demo_api quiet_backend demo_inputs (demo_delete ip) RemovePackage ''curl'' ?a = (JobReply r, a')"
    and ok: "ar_success (hr_body r)"
    using adm by (auto simp: demo_matches with_extractor_def spawned_def h_remove_package_def valid admit_and_spawn_def)
  obtain out oper where "spawned JobReply out ?a = (JobReply r, a')" "sound_outcome oper (ri_new_id demo_inputs) (as_scheduler ?a) out"
    using job_reply_endpoint [OF run] by blast
  note effect = spawned_sound [OF this(2,1)]
  have "serve_request (\<lambda>g ip. (None, g)) entries demo_api quiet_backend demo_inputs (demo_delete ip) s
      = (Handled (JobReply r), s1\<lparr>sv_app := a'\<rparr>)"
    using run unfolding pass by (simp add: api_handler_def demo_matches demo_delete_fields route s1 del: run_endpoint.simps)
  then show ?thesis using ok effect by auto
qed

text \<open>C6: every answer about a job tells the truth. When the pipeline answers a package or patch request with an accepted
  job, the job exists, pending and visible to the limits, with validated names and the operation of the address that was
  asked; exactly one task was added, for this job; no other job changed; and the gates were open. When it answers
  with a refusal, nothing at all has changed.\<close>

theorem job_replies_true:
  assumes "serve_request check_key entries env be ri req s = (Handled (JobReply r), s')"
  shows "if ar_success (hr_body r)
    then hr_status r = 202 \<and>
      (\<exists>mu j e v. as_tasks (sv_app s') = as_tasks (sv_app s) @ [mu] \<and> mu_job mu = ri_new_id ri \<and>
         get_job (ri_new_id ri) (as_scheduler (sv_app s')) = Some j \<and> j_status j = Pending \<and> \<not> is_internal j \<and>
         list_all (\<lambda>p. is_ok (validate_package_name p)) (j_packages j) \<and>
         find_route (ae_matches env) (rq_method req) (rq_path req) app_routes = Some (e, v) \<and>
         (e, j_operation j) \<in> {(InstallPackages, Install), (UpdatePackage, Update), (UpdatePackage, SelfUpdate),
                                (RemovePackage, Remove), (ApplyPatches, PatchApply)}) \<and>
      (\<forall>x. x \<noteq> ri_new_id ri \<longrightarrow> get_job x (as_scheduler (sv_app s')) = get_job x (as_scheduler (sv_app s))) \<and>
      s_admission (as_scheduler (sv_app s)) = Open \<and> s_reboot_pending (as_scheduler (sv_app s)) = None \<and>
      s_self_update (as_scheduler (sv_app s)) = None
    else hr_status r \<in> {400, 409, 429} \<and> sv_app s' = sv_app s"
proof -
  from app_service_cases [of s check_key entries "api_handler env be ri" req] assms
  obtain s1 where s1: "sv_app s1 = sv_app s" "api_handler env be ri req s1 = (Handled (JobReply r), s')"
    unfolding serve_request_def by fastforce
  then obtain e v a' where route: "find_route (ae_matches env) (rq_method req) (rq_path req) app_routes = Some (e, v)"
    and run: "run_endpoint env be ri req e v (sv_app s) = (JobReply r, a')" and a': "sv_app s' = a'"
    by (auto simp: api_handler_def split: option.splits prod.splits)
  obtain oper out where o: "spawned JobReply out (sv_app s) = (JobReply r, a')"
    "sound_outcome oper (ri_new_id ri) (as_scheduler (sv_app s)) out"
    "(e, oper) \<in> {(InstallPackages, Install), (UpdatePackage, Update), (UpdatePackage, SelfUpdate),
                   (RemovePackage, Remove), (ApplyPatches, PatchApply)}"
    using job_reply_endpoint [OF run] by blast
  show ?thesis
  proof (cases "ar_success (hr_body r)")
    case True
    obtain mu j where m: "as_tasks a' = as_tasks (sv_app s) @ [mu]" "mu_job mu = ri_new_id ri"
      "get_job (ri_new_id ri) (as_scheduler a') = Some j" "j_status j = Pending" "\<not> is_internal j" "j_operation j = oper"
      "list_all (\<lambda>p. is_ok (validate_package_name p)) (j_packages j)"
      using spawned_sound [OF o(2,1)] True by auto
    show ?thesis unfolding a' using spawned_sound [OF o(2,1)] True route o(3) m by (simp only: if_True) blast
  next
    case False
    then show ?thesis using spawned_sound [OF o(2,1)] by (simp add: a')
  qed
qed

theorem job_replies_true_witness:
  "\<exists>r s'. serve_request (\<lambda>g ip. (None, g)) [WIp 5] demo_api quiet_backend demo_inputs (demo_delete 5) demo_server
       = (Handled (JobReply r), s') \<and> hr_status r = 202 \<and> length (as_tasks (sv_app s')) = 1"
proof -
  have adm: "\<exists>i s1. admit_job (ri_now demo_inputs) (ri_new_id demo_inputs) (ri_boot demo_inputs) Remove [''curl'']
      (as_scheduler (sv_app demo_server)) = Inr (i, s1)"
    by (simp add: demo_server_def demo_inputs_def admit_job_def admit_job_inner_def new_scheduler_def user_active_count_def Let_def)
  obtain r s' where run: "serve_request (\<lambda>g ip. (None, g)) [WIp 5] demo_api quiet_backend demo_inputs (demo_delete 5) demo_server
      = (Handled (JobReply r), s')" and ok: "ar_success (hr_body r)"
    using demo_delete_serves [OF adm, of "[WIp 5]" 5] by (auto simp: is_allowed_def)
  from run job_replies_true [OF run] ok show ?thesis by (auto simp: demo_server_def)
qed

end
