(* ===== verification/Cache_File.thy ===== *)
theory Cache_File imports Cache Files begin

text \<open>
  The state file of \<open>src/packages/cache.rs\<close>: writing it through a temporary file and reading it at the start, on
  the store of theory \<open>Files\<close>; and the command runner of that file. \<open>ser\<close> and \<open>de\<close> are \<open>serde_json\<close> and
  the RFC 3339 texts of \<open>chrono\<close> on the content of the file.
\<close>

section \<open>The file\<close>

definition CACHE_STATE_PATH :: string where
  "CACHE_STATE_PATH = ''/var/lib/linux_patch_api/state/cache.json''"

definition fs_remove :: "string \<Rightarrow> unit io" where
  "fs_remove p = io_call (\<lambda>s. case file_at s p of
      None \<Rightarrow> Err ''No such file or directory''
    | Some _ \<Rightarrow> Ok ((), drop_file p s))"

text \<open>\<open>let _ = ...\<close>: the error of a call is ignored.\<close>

definition io_ignore :: "unit io \<Rightarrow> unit io" where
  "io_ignore m s = (Ok (), snd (m s))"

definition load_state_file :: "(string \<Rightarrow> cache_state_file option) \<Rightarrow> cache_state_file option io" where
  "load_state_file de s =
     (case read_to_string CACHE_STATE_PATH s of
        (Inl _, s1) \<Rightarrow> (Ok None, s1)
      | (Inr content, s1) \<Rightarrow> (Ok (de content), s1))"

definition with_threshold_from_file ::
    "(string \<Rightarrow> cache_state_file option) \<Rightarrow> u64 \<Rightarrow> u64 \<Rightarrow> fs \<Rightarrow> package_cache_state" where
  "with_threshold_from_file de secs jitter s =
     (case fst (load_state_file de s) of
        Inl _ \<Rightarrow> with_threshold_and_jitter None secs jitter
      | Inr f \<Rightarrow> with_threshold_and_jitter f secs jitter)"

text \<open>The constructor \<open>main\<close> uses draws the jitter; \<open>gen_range\<close> is the crate \<open>rand\<close>.\<close>

definition with_threshold ::
    "(u64 \<Rightarrow> u64 \<Rightarrow> u64) \<Rightarrow> (string \<Rightarrow> cache_state_file option) \<Rightarrow> u64 \<Rightarrow> fs \<Rightarrow> package_cache_state" where
  "with_threshold gen_range de secs s = with_threshold_from_file de secs (gen_range 0 (of_nat JITTER_MAX_SECS)) s"

definition new_cache_state ::
    "(u64 \<Rightarrow> u64 \<Rightarrow> u64) \<Rightarrow> (string \<Rightarrow> cache_state_file option) \<Rightarrow> fs \<Rightarrow> package_cache_state" where
  "new_cache_state gen_range de = with_threshold gen_range de DEFAULT_STALE_THRESHOLD_SECS"

record package_cache_status =
  pcs_last_update :: "int option"
  pcs_last_update_success :: bool
  pcs_last_update_error :: "string option"

definition cache_status :: "package_cache_state \<Rightarrow> package_cache_status" where
  "cache_status c =
     \<lparr>pcs_last_update = pc_last_update c, pcs_last_update_success = pc_last_update_success c,
      pcs_last_update_error = pc_last_update_error c\<rparr>"

definition last_cache_update :: "package_cache_state \<Rightarrow> int option" where
  "last_cache_update c = pcs_last_update (cache_status c)"

text \<open>The temporary file is removed first if it exists, created exclusively, written and synchronised; then it is
  renamed, and removed if that fails. The outcome is only logged.\<close>

definition persist_state :: "(cache_state_file \<Rightarrow> string option) \<Rightarrow> package_cache_state \<Rightarrow> unit io" where
  "persist_state ser c =
     (let tmp_path = with_extension CACHE_STATE_PATH ''json.tmp'' in
      io_then (io_ignore (fs_mkdir (path_parent CACHE_STATE_PATH))) (\<lambda>_.
        case ser (persisted_state c) of
          None \<Rightarrow> io_ok ()
        | Some json \<Rightarrow>
            io_then (\<lambda>s. if path_exists s tmp_path then io_ignore (fs_remove tmp_path) s else io_ok () s) (\<lambda>_ s.
              case io_then (fs_create_new tmp_path mode_0644) (\<lambda>_. io_then (fs_write_all tmp_path json) (\<lambda>_. fs_flush)) s of
                (Inl e, s1) \<Rightarrow> (Ok (), s1)
              | (Inr _, s1) \<Rightarrow>
                  (case fs_rename tmp_path CACHE_STATE_PATH s1 of
                     (Inl e, s2) \<Rightarrow> io_ignore (fs_remove tmp_path) s2
                   | (Inr _, s2) \<Rightarrow> (Ok (), s2)))))"

definition refresh_succeeded ::
    "(cache_state_file \<Rightarrow> string option) \<Rightarrow> int \<Rightarrow> package_cache_state \<Rightarrow> fs \<Rightarrow> package_cache_state \<times> fs" where
  "refresh_succeeded ser now c s = (let c1 = update_success now c in (c1, snd (persist_state ser c1 s)))"

definition refresh_failed ::
    "(cache_state_file \<Rightarrow> string option) \<Rightarrow> int \<Rightarrow> string \<Rightarrow> package_cache_state \<Rightarrow> fs \<Rightarrow> package_cache_state \<times> fs" where
  "refresh_failed ser now e c s = (let c1 = update_failure now e c in (c1, snd (persist_state ser c1 s)))"

section \<open>The runner of cache.rs\<close>

definition CACHE_REFRESH_TIMEOUT_SECS :: nat where "CACHE_REFRESH_TIMEOUT_SECS = 300"

definition cache_command :: "string \<Rightarrow> string list \<Rightarrow> child_fate \<Rightarrow> (anyhow, string) result" where
  "cache_command program args fate =
     (case fate of
        SpawnFailed e \<Rightarrow>
          Err (add_context ''Cache refresh command failed to start'' (anyhow_new (from_spawn_error program args e)))
      | WaitFailed e \<Rightarrow>
          Err (add_context ''Cache refresh command failed to wait'' (anyhow_new (from_spawn_error program args e)))
      | Overran code out err \<Rightarrow> Err (anyhow_new (from_timeout program args CACHE_REFRESH_TIMEOUT_SECS))
      | Exited code out err \<Rightarrow>
          if code \<noteq> Some 0 then Err (anyhow_new (from_output program args code out err)) else Ok out)"

section \<open>Lemmas\<close>

lemma cache_paths:
  "with_extension CACHE_STATE_PATH ''json.tmp'' = ''/var/lib/linux_patch_api/state/cache.json.tmp''"
  "path_parent CACHE_STATE_PATH = ''/var/lib/linux_patch_api/state''"
  by code_simp+

lemma tmp_differs: "''/var/lib/linux_patch_api/state/cache.json.tmp'' \<noteq> CACHE_STATE_PATH"
  by (simp add: CACHE_STATE_PATH_def)

lemma io_ignore_simps [simp]: "snd (io_ignore m s) = snd (m s)" "io_ignore m s = (Inr (), snd (m s))"
  by (simp_all add: io_ignore_def)

definition put_new :: "string \<Rightarrow> string \<Rightarrow> unit io" where
  "put_new p json = io_then (fs_create_new p mode_0644) (\<lambda>_. io_then (fs_write_all p json) (\<lambda>_. fs_flush))"

lemma put_new_frame: "q \<noteq> p \<Longrightarrow> file_at (snd (put_new p json s)) q = file_at s q"
proof -
  assume "q \<noteq> p"
  moreover have "writes_only {p} (put_new p json)" unfolding put_new_def by (intro writes_only_then) simp_all
  ultimately show ?thesis by (auto simp: writes_only_def)
qed

lemma put_new_Ok: "put_new p json s = (Inr u, s1) \<Longrightarrow> file_at s1 p = Some (json, mode_0644)"
  by (auto simp: put_new_def io_then_def fs_create_new_def fs_write_all_def fs_flush_def io_call_def Let_def
      split: option.splits sum.splits prod.splits if_splits)

lemma put_new_ready:
  assumes "\<And>n. fs_fault s n = None" and "file_at s p = None" and "p \<notin> set (fs_dirs s)"
  shows "\<exists>s1. put_new p json s = (Inr (), s1) \<and> fs_fault s1 = fs_fault s \<and> fs_text s1 = fs_text s"
  using assms
  by (simp add: put_new_def io_then_def fs_create_new_def fs_write_all_def fs_flush_def io_call_def Let_def path_exists_def)

lemma fs_remove_frame: "q \<noteq> p \<Longrightarrow> file_at (snd (fs_remove p s)) q = file_at s q"
  by (auto simp: fs_remove_def io_call_def Let_def split: option.splits)

lemma fs_mkdir_frame: "file_at (snd (fs_mkdir d s)) q = file_at s q"
  by (auto simp: fs_mkdir_def io_call_def Let_def split: option.splits)

text \<open>The state before the temporary file is made, and the whole as three steps.\<close>

definition cleared :: "string \<Rightarrow> fs \<Rightarrow> fs" where
  "cleared tmp s =
     (let s1 = snd (fs_mkdir (path_parent CACHE_STATE_PATH) s)
      in if path_exists s1 tmp then snd (fs_remove tmp s1) else s1)"

lemma persist_state_steps:
  assumes "ser (persisted_state c) = Some json"
  defines "tmp \<equiv> with_extension CACHE_STATE_PATH ''json.tmp''"
  shows "persist_state ser c s =
    (case put_new tmp json (cleared tmp s) of
       (Inl e, s1) \<Rightarrow> (Ok (), s1)
     | (Inr _, s1) \<Rightarrow>
         (case fs_rename tmp CACHE_STATE_PATH s1 of
            (Inl e, s2) \<Rightarrow> (Ok (), snd (fs_remove tmp s2))
          | (Inr _, s2) \<Rightarrow> (Ok (), s2)))"
  unfolding persist_state_def Let_def put_new_def [symmetric] tmp_def [symmetric]
  by (auto simp: assms(1) io_then_def cleared_def io_ok_def Let_def split: sum.splits prod.splits)

lemma cleared_frame: "q \<noteq> tmp \<Longrightarrow> file_at (cleared tmp s) q = file_at s q"
  by (simp add: cleared_def Let_def fs_remove_frame fs_mkdir_frame)

lemma rename_outcome:
  "file_at s a = Some c \<Longrightarrow> a \<noteq> b \<Longrightarrow>
   (case fs_rename a b s of
      (Inl e, s1) \<Rightarrow> file_at s1 b = file_at s b
    | (Inr _, s1) \<Rightarrow> file_at s1 b = Some c)"
  by (auto simp: fs_rename_def io_call_def Let_def split: option.splits)

lemma cleared_ready:
  assumes ok: "\<And>n. fs_fault s n = None" and dirs: "''/var/lib/linux_patch_api/state/cache.json.tmp'' \<notin> set (fs_dirs s)"
  defines "tmp \<equiv> ''/var/lib/linux_patch_api/state/cache.json.tmp''"
  shows "fs_fault (cleared tmp s) n = None" "file_at (cleared tmp s) tmp = None" "tmp \<notin> set (fs_dirs (cleared tmp s))"
    "fs_text (cleared tmp s) = fs_text s"
  using assms
  by (auto simp: cleared_def Let_def cache_paths fs_mkdir_def fs_remove_def io_call_def path_exists_def
      split: option.splits)

lemma persist_ready:
  assumes codec: "ser (persisted_state c) = Some json" and ok: "\<And>n. fs_fault s n = None"
    and dirs: "''/var/lib/linux_patch_api/state/cache.json.tmp'' \<notin> set (fs_dirs s)"
  shows "file_at (snd (persist_state ser c s)) CACHE_STATE_PATH = Some (json, mode_0644)"
    "fs_fault (snd (persist_state ser c s)) n = None" "fs_text (snd (persist_state ser c s)) = fs_text s"
proof -
  let ?tmp = "''/var/lib/linux_patch_api/state/cache.json.tmp''"
  note r = cleared_ready [OF ok dirs]
  obtain s1 where p: "put_new ?tmp json (cleared ?tmp s) = (Inr (), s1)" "fs_fault s1 = fs_fault (cleared ?tmp s)"
    "fs_text s1 = fs_text (cleared ?tmp s)"
    using put_new_ready [OF r(1-3)] by blast
  note st = persist_state_steps [of ser c json s, OF codec] cache_paths p(1) put_new_Ok [OF p(1)]
  show "file_at (snd (persist_state ser c s)) CACHE_STATE_PATH = Some (json, mode_0644)"
    "fs_fault (snd (persist_state ser c s)) n = None" "fs_text (snd (persist_state ser c s)) = fs_text s"
    using tmp_differs r(1) r(4) p(2,3) by (simp_all add: st fs_rename_def io_call_def Let_def)
qed

text \<open>What the jitter is for: the agents of a fleet go stale at different times, none before the threshold and none more than five
  minutes after it.\<close>

lemma threshold_spread:
  assumes "\<And>a b. a \<le> b \<Longrightarrow> a \<le> gen_range a b \<and> gen_range a b \<le> b" and "uint secs + 300 < 2 ^ 64"
  shows "uint (effective_threshold_secs (with_threshold gen_range de secs s)) \<in> {uint secs .. uint secs + 300}"
proof -
  let ?c = "with_threshold gen_range de secs s"
  have c: "pc_stale_threshold_secs ?c = secs" "pc_jitter_secs ?c = gen_range 0 300"
    by (simp_all add: with_threshold_def with_threshold_from_file_def with_threshold_and_jitter_def JITTER_MAX_SECS_def
        split: sum.split option.split)
  have "uint (gen_range 0 300) \<le> 300" using assms(1) [of 0 300] by (simp add: word_le_def)
  then have "uint secs + uint (gen_range 0 300) < 2 ^ 64" using assms(2) by simp
  moreover from this have "uint (secs + gen_range 0 300) = uint secs + uint (gen_range 0 300)"
    using uint_add_lem [of secs "gen_range 0 300"] by simp
  ultimately show ?thesis using \<open>uint (gen_range 0 300) \<le> 300\<close> by (simp add: effective_threshold_secs_def c)
qed

section \<open>Properties\<close>

text \<open>C15: the state of the index survives a restart and is never torn. Whichever file operation fails, the state file holds
  afterwards either what it held before or the complete new state; a temporary file left by an earlier failure
  is no obstacle; and when no operation fails, the next start reads the timestamp and the outcome of the last
  refresh back, so it does not refresh an index that is fresh.\<close>

theorem cache_state_survives:
  assumes codec: "ser (persisted_state c) = Some json" "de json = Some (persisted_state c)"
  shows "(file_at (snd (persist_state ser c s)) CACHE_STATE_PATH \<in> {file_at s CACHE_STATE_PATH, Some (json, mode_0644)}) \<and>
    ((\<forall>n. fs_fault s n = None) \<and> fs_text s json \<and> ''/var/lib/linux_patch_api/state/cache.json.tmp'' \<notin> set (fs_dirs s) \<longrightarrow>
       with_threshold_from_file de secs jitter (snd (persist_state ser c s)) =
         \<lparr>pc_last_update = pc_last_update c, pc_last_update_success = pc_last_update_success c, pc_last_update_error = None,
          pc_stale_threshold_secs = secs, pc_jitter_secs = jitter\<rparr>)"
proof (intro conjI impI)
  let ?tmp = "''/var/lib/linux_patch_api/state/cache.json.tmp''"
  note st = persist_state_steps [of ser c json s, OF codec(1)] cache_paths
  obtain r s1 where p: "put_new ?tmp json (cleared ?tmp s) = (r, s1)" by fastforce
  have old: "file_at s1 CACHE_STATE_PATH = file_at s CACHE_STATE_PATH"
    using put_new_frame [of CACHE_STATE_PATH ?tmp json "cleared ?tmp s"] cleared_frame [of CACHE_STATE_PATH ?tmp s] tmp_differs p
    by simp
  show "file_at (snd (persist_state ser c s)) CACHE_STATE_PATH \<in> {file_at s CACHE_STATE_PATH, Some (json, mode_0644)}"
  proof (cases r)
    case (Inl e)
    then show ?thesis using old by (simp add: st p)
  next
    case (Inr u)
    then show ?thesis
      using old p put_new_Ok [of ?tmp json "cleared ?tmp s" u s1] tmp_differs rename_outcome [of s1 ?tmp "(json, mode_0644)" CACHE_STATE_PATH]
      by (auto simp: st fs_remove_frame split: prod.splits sum.splits)
  qed
next
  assume a: "(\<forall>n. fs_fault s n = None) \<and> fs_text s json \<and> ''/var/lib/linux_patch_api/state/cache.json.tmp'' \<notin> set (fs_dirs s)"
  then have ok: "fs_fault s n = None" for n by blast
  note r = persist_ready [of ser c json s, OF codec(1) ok]
  show "with_threshold_from_file de secs jitter (snd (persist_state ser c s)) =
         \<lparr>pc_last_update = pc_last_update c, pc_last_update_success = pc_last_update_success c, pc_last_update_error = None,
          pc_stale_threshold_secs = secs, pc_jitter_secs = jitter\<rparr>"
    using a r codec(2)
    by (simp add: with_threshold_from_file_def load_state_file_def read_to_string_def io_call_def Let_def
        with_threshold_and_jitter_def persisted_state_def)
qed

definition demo_ser :: "cache_state_file \<Rightarrow> string option" where
  "demo_ser f = (if f = (Some 7, True) then Some ''seven'' else None)"

definition demo_de :: "string \<Rightarrow> cache_state_file option" where
  "demo_de t = (if t = ''seven'' then Some (Some 7, True) else None)"

theorem cache_state_survives_witness:
  "with_threshold_from_file demo_de 3600 5
     (snd (persist_state demo_ser (update_success 7 (with_threshold_and_jitter None 3600 0))
        \<lparr>fs_files = [(''/var/lib/linux_patch_api/state/cache.json.tmp'', ''half'', 420)], fs_dirs = [], fs_text = (\<lambda>_. True),
         fs_fault = (\<lambda>_. None), fs_calls = 0\<rparr>))
   = \<lparr>pc_last_update = Some 7, pc_last_update_success = True, pc_last_update_error = None,
      pc_stale_threshold_secs = 3600, pc_jitter_secs = 5\<rparr>"
proof -
  let ?c = "update_success 7 (with_threshold_and_jitter None 3600 0)"
  have p: "persisted_state ?c = (Some 7, True)" "pc_last_update ?c = Some 7" "pc_last_update_success ?c"
    by (simp_all add: persisted_state_def update_success_def with_threshold_and_jitter_def)
  have codec: "demo_ser (persisted_state ?c) = Some ''seven''" "demo_de ''seven'' = Some (persisted_state ?c)"
    by (simp_all add: p demo_ser_def demo_de_def)
  show ?thesis using cache_state_survives [of demo_ser ?c "''seven''" demo_de, OF codec] p(2,3) by simp
qed

end
