(* ===== verification/Server.thy ===== *)
theory Server imports Startup Agent Mtls Api Cache_File begin

text \<open>
  The rest of \<open>main\<close> in \<open>src/main.rs\<close>: what happens between the decision to serve (theory \<open>Startup\<close>) and the running
  server, the server's steps, and what holds from the first byte of a connection to the effect of a request. Job
  recovery, whitelist, CRL, TLS configuration, pipeline and handlers are those of the theories that model
  them; here they are composed in the order of the code.

  What the process finds on its machine is in \<open>boot_env\<close>: the crates, the history file, the network, the outcome of
  each socket call. The CRL file is kept apart from the other files. Log lines and \<open>sd_notify\<close> are left out.
\<close>

section \<open>Opening the socket\<close>

datatype socket_outcome =
    SocketFails string
  | ReuseFails string
  | BadAddress string
  | BindFails string
  | ListenFails string
  | ListenerFails string   \<comment> \<open>actix refuses the listener\<close>
  | Listening

definition bind_address :: "app_config \<Rightarrow> string" where
  "bind_address c = sc_bind (ac_server c) @ '':'' @ show_nat (unat (sc_port (ac_server c)))"

fun open_listener :: "string \<Rightarrow> socket_outcome \<Rightarrow> (anyhow, unit) result" where
  "open_listener addr (SocketFails e) = Err (anyhow_msg (''Failed to create socket: '' @ e))"
| "open_listener addr (ReuseFails e) = Err (anyhow_msg (''Failed to set SO_REUSEADDR: '' @ e))"
| "open_listener addr (BadAddress e) = Err (anyhow_msg (''Invalid bind address '' @ quoted addr @ '': '' @ e))"
| "open_listener addr (BindFails e) = Err (anyhow_msg (''Failed to bind socket to '' @ addr @ '': '' @ e))"
| "open_listener addr (ListenFails e) = Err (anyhow_msg (''Failed to listen on socket: '' @ e))"
| "open_listener addr (ListenerFails e) = Err (anyhow_msg e)"
| "open_listener addr Listening = Ok ()"

section \<open>Booting\<close>

record ('sig, 'pub, 'key, 't, 'w, 'g) boot_env =
  bo_start :: "(string, 'key) start_env"
  bo_x509 :: "('sig, 'pub) x509"
  bo_rustls :: "'key rustls_crates"
  bo_ser :: "'t ser"
  bo_de :: "'t de"
  bo_write1 :: write_outcome
  bo_write2 :: write_outcome
  bo_now :: time
  bo_boot :: "string option"
  bo_history :: "'t disk"
  bo_backend :: "(anyhow, 'w backend) result"         \<comment> \<open>the result of \<open>create_backend\<close>\<close>
  bo_world :: 'w
  bo_gpg :: "string \<Rightarrow> gpg_outcome"
  bo_os_release :: "string option"
  bo_repo :: "string \<Rightarrow> (anyhow, repo_config) result"
  bo_watch :: watch_env
  bo_whitelist_yaml :: "string \<Rightarrow> string list option"
  bo_dns :: "string \<Rightarrow> ip_addr list option"
  bo_cache_de :: "string \<Rightarrow> cache_state_file option"
  bo_jitter :: u64
  bo_clock :: int
  bo_crl_file :: read_outcome
  bo_crl_fetch :: fetch_outcome
  bo_crl_write :: crl_write
  bo_keyed :: "nat \<Rightarrow> nat \<Rightarrow> 'g"
  bo_socket :: socket_outcome

text \<open>The running server. Each of the four workers has rate limiters of its own, since \<open>new_transform\<close> runs once per worker;
  \<open>None\<close> is a worker that panicked making them.\<close>

record ('key, 'w, 'g) running =
  rn_config :: app_config
  rn_tls :: "'key rustls_config option"
  rn_entries :: "whitelist_entry list"
  rn_backend :: "'w backend"
  rn_workers :: "'g rate_limiters option list"
  rn_app :: "'w api_state"
  rn_crl :: crl_env

datatype ('key, 'w, 'g) booted_agent = Serving "('key, 'w, 'g) running" | Stopped start_decision

definition WORKERS :: nat where "WORKERS = 4"

definition file_text :: "string \<Rightarrow> fs \<Rightarrow> string option \<times> fs" where
  "file_text path s = (case read_to_string path s of (Inl _, s1) \<Rightarrow> (None, s1) | (Inr c, s1) \<Rightarrow> (Some c, s1))"

text \<open>\<open>std::fs::read(..).unwrap_or_default()\<close>.\<close>

definition read_or_default :: "string \<Rightarrow> fs \<Rightarrow> string \<times> fs" where
  "read_or_default path s =
     (case io_call (\<lambda>s. case file_at s path of None \<Rightarrow> Err ''No such file or directory'' | Some (c, _) \<Rightarrow> Ok (c, s)) s of
        (Inl _, s1) \<Rightarrow> ([], s1) | (Inr c, s1) \<Rightarrow> (c, s1))"

text \<open>The TLS branch up to the socket: the CRL, then the TLS configuration.\<close>

definition init_tls ::
    "('sig, 'pub, 'key, 't, 'w, 'g) boot_env \<Rightarrow> app_config \<Rightarrow> tls_config \<Rightarrow> crl_env \<Rightarrow> fs
     \<Rightarrow> (start_decision, 'key rustls_config \<times> crl_env) result \<times> fs" where
  "init_tls bo config tls crl s =
     (let (ca_cert_der, s1) = read_or_default (tc_ca_cert tls) s in
      case startup_crl (bo_x509 bo) (bo_clock bo) (enrollment_manager_url config \<noteq> None) (bo_crl_fetch bo)
             (bo_crl_write bo) ca_cert_der crl of
        None \<Rightarrow> (Err (Exit ErrorExit), s1)
      | Some crl1 \<Rightarrow>
          (case build_rustls_config (bo_x509 bo) (bo_rustls bo) (mtls_config_of tls) True s1 of
             (Inl e, s2) \<Rightarrow>
               (Err (Failed_start (anyhow_msg (''Failed to build rustls config: '' @ mtls_error_text e))), s2)
           | (Inr cfg, s2) \<Rightarrow> (Ok (cfg, crl1), s2)))"

definition boot_with ::
    "('sig, 'pub, 'key, 't, 'w, 'g) boot_env \<Rightarrow> app_config \<Rightarrow> fs \<Rightarrow> ('key, 'w, 'g) booted_agent \<times> 't disk \<times> fs" where
  "boot_with bo config s =
     (let agent = startup (bo_ser bo) (bo_de bo) (bo_write1 bo) (bo_write2 bo) (bo_now bo) (bo_boot bo)
                    (jc_max_concurrent (ac_jobs config)) (jc_max_queue_depth (ac_jobs config)) (bo_history bo);
          disk = a_disk agent
      in case bo_backend bo of
        Inl e \<Rightarrow> (Stopped (Failed_start (anyhow_msg (''Package backend error: '' @ error_to_string e))), disk, s)
      | Inr backend \<Rightarrow>
          (let s1 = startup_self_heal (bo_gpg bo) (bo_os_release bo) (bo_repo bo) config s;
               (text, s2) = file_text (whitelist_path config) s1;
               whitelist = init_whitelist (bo_watch bo) (bo_whitelist_yaml bo) (bo_dns bo) text;
               cache = with_threshold_from_file (bo_cache_de bo) (of_nat (ac_cache_stale_threshold_secs config)) (bo_jitter bo) s2;
               crl = \<lparr>ce_disk = bo_crl_file bo, ce_shared = new_shared_state (bo_clock bo)\<rparr>;
               run = (\<lambda>tls crl. \<lparr>rn_config = config, rn_tls = tls, rn_entries = wm_entries whitelist, rn_backend = backend,
                   rn_workers = replicate WORKERS (new_rate_limiters (bo_keyed bo) (ac_rate_limit config)),
                   rn_app = \<lparr>as_scheduler = a_sched agent, as_cache = cache, as_tasks = [], as_reboots = [], as_sockets = [],
                             as_world = bo_world bo\<rparr>,
                   rn_crl = crl\<rparr>);
               listen = (\<lambda>tls crl. case open_listener (bind_address config) (bo_socket bo) of
                   Inl e \<Rightarrow> Stopped (Failed_start e) | Inr _ \<Rightarrow> Serving (run tls crl))
           in case tls_config_of config of
             None \<Rightarrow> (listen None crl, disk, s2)
           | Some tls \<Rightarrow>
               (case init_tls bo config tls crl s2 of
                  (Inl d, s3) \<Rightarrow> (Stopped d, disk, s3)
                | (Inr (cfg, crl1), s3) \<Rightarrow> (listen (Some cfg) crl1, disk, s3))))"

definition boot_agent ::
    "('sig, 'pub, 'key, 't, 'w, 'g) boot_env \<Rightarrow> args \<Rightarrow> fs \<Rightarrow> ('key, 'w, 'g) booted_agent \<times> 't disk \<times> fs" where
  "boot_agent bo a s =
     (case decide_start (bo_start bo) a s of
        (Serve config, s1) \<Rightarrow> boot_with bo config s1
      | (d, s1) \<Rightarrow> (Stopped d, bo_history bo, s1))"

section \<open>The running server\<close>

text \<open>One request on one connection, which worker \<open>k\<close> serves: with TLS the handshake comes first, and it looks at the CRL
  in force then. \<open>None\<close>: no handler and no middleware sees the request.\<close>

definition exchange ::
    "(client_verifier \<Rightarrow> int \<Rightarrow> client_hello \<Rightarrow> bool) \<Rightarrow> int \<Rightarrow> client_hello
     \<Rightarrow> ('g \<Rightarrow> ip_addr \<Rightarrow> nat option \<times> 'g) \<Rightarrow> api_env \<Rightarrow> request_inputs \<Rightarrow> nat \<Rightarrow> http_request
     \<Rightarrow> ('key, 'w, 'g) running \<Rightarrow> (api_reply Middleware.outcome \<times> ('key, 'w, 'g) running) option" where
  "exchange handshake now hello check_key env ri k req srv =
     (if k < length (rn_workers srv) \<and>
         (case rn_tls srv of None \<Rightarrow> True
          | Some tls \<Rightarrow> handshake (rc_client_verifier tls (ce_shared (rn_crl srv))) now hello)
      then case rn_workers srv ! k of
             None \<Rightarrow> None
           | Some limiters \<Rightarrow>
               (let (out, sv) = serve_request check_key (rn_entries srv) env (rn_backend srv) ri req
                                  \<lparr>sv_limiters = limiters, sv_app = rn_app srv\<rparr>
                in Some (out, srv\<lparr>rn_workers := (rn_workers srv)[k := Some (sv_limiters sv)], rn_app := sv_app sv\<rparr>))
      else None)"

text \<open>The steps: a request, a run of the CRL refresh or of the hourly CRL check, and anything the spawned tasks do to the
  shared application state, of which nothing is assumed here.\<close>

inductive server_step ::
    "('sig, 'pub) x509 \<Rightarrow> (client_verifier \<Rightarrow> int \<Rightarrow> client_hello \<Rightarrow> bool) \<Rightarrow> ('g \<Rightarrow> ip_addr \<Rightarrow> nat option \<times> 'g)
     \<Rightarrow> ('key, 'w, 'g) running \<Rightarrow> ('key, 'w, 'g) running \<Rightarrow> bool"
  for x handshake check_key where
  Request: "exchange handshake now hello check_key env ri k req srv = Some (out, srv') \<Longrightarrow>
     server_step x handshake check_key srv srv'"
| Refresh: "server_step x handshake check_key srv (srv\<lparr>rn_crl := snd (refresh_crl x now fetch wr ca (rn_crl srv))\<rparr>)"
| Recheck: "server_step x handshake check_key srv (srv\<lparr>rn_crl := crl_health_step x now ca (rn_crl srv)\<rparr>)"
| Tasks: "server_step x handshake check_key srv (srv\<lparr>rn_app := app\<rparr>)"

inductive server_run ::
    "('sig, 'pub) x509 \<Rightarrow> (client_verifier \<Rightarrow> int \<Rightarrow> client_hello \<Rightarrow> bool) \<Rightarrow> ('g \<Rightarrow> ip_addr \<Rightarrow> nat option \<times> 'g)
     \<Rightarrow> ('key, 'w, 'g) running \<Rightarrow> ('key, 'w, 'g) running \<Rightarrow> bool"
  for x handshake check_key srv where
  Start: "server_run x handshake check_key srv srv"
| More: "server_run x handshake check_key srv srv' \<Longrightarrow> server_step x handshake check_key srv' srv'' \<Longrightarrow>
     server_run x handshake check_key srv srv''"

inductive_cases server_stepE: "server_step x handshake check_key srv srv'"

section \<open>Lemmas\<close>

text \<open>What a run never changes.\<close>

definition same_gate :: "('key, 'w, 'g) running \<Rightarrow> ('key, 'w, 'g) running \<Rightarrow> bool" where
  "same_gate srv srv' \<longleftrightarrow>
     rn_config srv' = rn_config srv \<and> rn_tls srv' = rn_tls srv \<and> rn_entries srv' = rn_entries srv \<and>
     rn_backend srv' = rn_backend srv \<and> length (rn_workers srv') = length (rn_workers srv)"

lemma exchange_gate: "exchange hs now hello ck env ri k req srv = Some (out, srv') \<Longrightarrow> same_gate srv srv'"
  by (auto simp: exchange_def same_gate_def split: if_splits option.splits prod.splits)

lemma exchange_serves:
  assumes "exchange handshake now hello check_key env ri k req srv = Some (out, srv')"
  shows "\<exists>limiters sv. rn_workers srv ! k = Some limiters \<and> rn_app srv' = sv_app sv \<and>
    rn_workers srv' = (rn_workers srv)[k := Some (sv_limiters sv)] \<and>
    serve_request check_key (rn_entries srv) env (rn_backend srv) ri req \<lparr>sv_limiters = limiters, sv_app = rn_app srv\<rparr> = (out, sv)"
  using assms by (fastforce simp: exchange_def split: if_splits option.splits prod.splits)

text \<open>The limits are per worker: a request uses the limiters of the worker that got its connection and no others, so a
  client that one worker refuses has the quota of each other worker still.\<close>

lemma limits_are_per_worker:
  assumes "exchange handshake now hello check_key env ri k req srv = Some (out, srv')" and "k' \<noteq> k"
  shows "rn_workers srv' ! k' = rn_workers srv ! k'"
  using exchange_serves [OF assms(1)] assms(2) by auto

lemma step_gate: "server_step x hs ck srv srv' \<Longrightarrow> same_gate srv srv'"
  by (erule server_stepE) (auto simp: same_gate_def dest: exchange_gate)

lemma run_gate: "server_run x hs ck srv srv' \<Longrightarrow> same_gate srv srv'"
proof (induction rule: server_run.induct)
  case (More srv' srv'')
  then show ?case using step_gate [of x hs ck srv' srv''] by (simp add: same_gate_def)
qed (simp add: same_gate_def)

lemma boot_agent_Running:
  assumes "boot_agent bo a s = (Serving srv, disk, s')"
  shows "\<exists>config s1. decide_start (bo_start bo) a s = (Serve config, s1) \<and> boot_with bo config s1 = (Serving srv, disk, s')"
  using assms by (auto simp: boot_agent_def split: start_decision.splits prod.splits)

lemma init_tls_Ok:
  assumes "init_tls bo config tls crl s = (Inr (cfg, crl1), s')"
  shows "\<exists>s1. fs_files s1 = fs_files s \<and> build_rustls_config (bo_x509 bo) (bo_rustls bo) (mtls_config_of tls) True s1 = (Inr cfg, s')"
    and "startup_crl (bo_x509 bo) (bo_clock bo) (enrollment_manager_url config \<noteq> None) (bo_crl_fetch bo) (bo_crl_write bo)
           (fst (read_or_default (tc_ca_cert tls) s)) crl = Some crl1"
proof -
  obtain ca s1 where r: "read_or_default (tc_ca_cert tls) s = (ca, s1)" by fastforce
  then have "fs_files s1 = fs_files s"
    by (auto simp: read_or_default_def io_call_def Let_def split: sum.splits prod.splits option.splits)
  with assms r show "\<exists>s1. fs_files s1 = fs_files s \<and> build_rustls_config (bo_x509 bo) (bo_rustls bo) (mtls_config_of tls) True s1 = (Inr cfg, s')"
    by (auto simp: init_tls_def split: prod.splits sum.splits option.splits)
  show "startup_crl (bo_x509 bo) (bo_clock bo) (enrollment_manager_url config \<noteq> None) (bo_crl_fetch bo) (bo_crl_write bo)
           (fst (read_or_default (tc_ca_cert tls) s)) crl = Some crl1"
    using assms r by (auto simp: init_tls_def split: prod.splits sum.splits option.splits)
qed

lemma file_text_files: "fs_files (snd (file_text p s)) = fs_files s"
  by (auto simp: file_text_def read_to_string_def io_call_def Let_def split: option.splits sum.splits prod.splits)

lemma file_text_Some: "fst (file_text p s) = Some t \<Longrightarrow> map_option fst (file_at s p) = Some t"
  by (auto simp: file_text_def read_to_string_def io_call_def Let_def split: option.splits sum.splits prod.splits if_splits)

lemma init_tls_files:
  assumes "init_tls bo config tls crl s = (Inr (cfg, crl1), s')"
  shows "fs_files s' = fs_files s"
proof -
  obtain s1 where "fs_files s1 = fs_files s"
    and "build_rustls_config (bo_x509 bo) (bo_rustls bo) (mtls_config_of tls) True s1 = (Inr cfg, s')"
    using init_tls_Ok(1) [OF assms] by blast
  then show ?thesis using build_rustls_config_Ok(6) by fastforce
qed

lemma boot_with_Running:
  assumes "boot_with bo config s = (Serving srv, disk, s')"
  defines "s1 \<equiv> startup_self_heal (bo_gpg bo) (bo_os_release bo) (bo_repo bo) config s"
  shows "bo_backend bo = Inr (rn_backend srv)" "bo_socket bo = Listening" "rn_config srv = config"
    "rn_entries srv = wm_entries (init_whitelist (bo_watch bo) (bo_whitelist_yaml bo) (bo_dns bo) (fst (file_text (whitelist_path config) s1)))"
    "rn_workers srv = replicate WORKERS (new_rate_limiters (bo_keyed bo) (ac_rate_limit config))"
    "as_scheduler (rn_app srv) = booted (bo_now bo) (bo_boot bo) (jc_max_concurrent (ac_jobs config))
       (jc_max_queue_depth (ac_jobs config)) (fst (load_all_jobs (bo_ser bo) (bo_de bo) (bo_write1 bo) (bo_history bo)))"
    "as_tasks (rn_app srv) = [] \<and> as_reboots (rn_app srv) = []"
    "case tls_config_of config of
       None \<Rightarrow> rn_tls srv = None
     | Some tls \<Rightarrow> \<exists>cfg. rn_tls srv = Some cfg \<and>
         init_tls bo config tls \<lparr>ce_disk = bo_crl_file bo, ce_shared = new_shared_state (bo_clock bo)\<rparr>
           (snd (file_text (whitelist_path config) s1)) = (Inr (cfg, rn_crl srv), s')"
proof -
  have sock: "open_listener addr o1 = Inr u \<Longrightarrow> o1 = Listening" for addr o1 u by (cases o1) auto
  obtain be where be: "bo_backend bo = Inr be" using assms(1) by (auto simp: boot_with_def Let_def split: sum.splits)
  obtain content s2 where f: "file_text (whitelist_path config) s1 = (content, s2)" by (cases "file_text (whitelist_path config) s1")
  note r = assms(1) [unfolded boot_with_def Let_def be sum.case s1_def [symmetric] f prod.case]
  show "bo_backend bo = Inr (rn_backend srv)" "bo_socket bo = Listening" "rn_config srv = config"
    "rn_entries srv = wm_entries (init_whitelist (bo_watch bo) (bo_whitelist_yaml bo) (bo_dns bo) (fst (file_text (whitelist_path config) s1)))"
    "rn_workers srv = replicate WORKERS (new_rate_limiters (bo_keyed bo) (ac_rate_limit config))"
    "as_scheduler (rn_app srv) = booted (bo_now bo) (bo_boot bo) (jc_max_concurrent (ac_jobs config))
       (jc_max_queue_depth (ac_jobs config)) (fst (load_all_jobs (bo_ser bo) (bo_de bo) (bo_write1 bo) (bo_history bo)))"
    "as_tasks (rn_app srv) = [] \<and> as_reboots (rn_app srv) = []"
    using r sock by (auto simp: be f startup_sched split: option.splits sum.splits prod.splits)
  show "case tls_config_of config of
       None \<Rightarrow> rn_tls srv = None
     | Some tls \<Rightarrow> \<exists>cfg. rn_tls srv = Some cfg \<and>
         init_tls bo config tls \<lparr>ce_disk = bo_crl_file bo, ce_shared = new_shared_state (bo_clock bo)\<rparr>
           (snd (file_text (whitelist_path config) s1)) = (Inr (cfg, rn_crl srv), s')"
    using r by (auto simp: f split: option.splits sum.splits prod.splits)
qed

lemma boot_with_files:
  assumes "boot_with bo config s = (Serving srv, disk, s')"
  shows "fs_files s' = fs_files (startup_self_heal (bo_gpg bo) (bo_os_release bo) (bo_repo bo) config s)"
proof -
  let ?s1 = "startup_self_heal (bo_gpg bo) (bo_os_release bo) (bo_repo bo) config s"
  obtain be where be: "bo_backend bo = Inr be" using boot_with_Running(1) [OF assms] by blast
  obtain content s2 where f: "file_text (whitelist_path config) ?s1 = (content, s2)" by fastforce
  have s2: "fs_files s2 = fs_files ?s1" using file_text_files [of "whitelist_path config" ?s1] f by simp
  show ?thesis
    using assms s2 unfolding boot_with_def Let_def be sum.case f prod.case
    by (auto split: option.splits sum.splits prod.splits dest!: init_tls_files)
qed

lemma new_shared_not_invalid: "cs_status (new_shared_state t) \<noteq> CrlInvalid"
  by (simp add: new_shared_state_def empty_crl_state_def)

lemma no_active_jobs:
  assumes "hm_wf (s_jobs s)" and "\<And>i j. get_job i s = Some j \<Longrightarrow> is_terminal (j_status j)"
  shows "get_active_jobs s = []"
proof -
  have "is_terminal (j_status j)" if "(i, j) \<in> set (s_jobs s)" for i j
    using assms that by (simp add: get_job_def hm_wf_def)
  then show ?thesis by (fastforce simp: get_active_jobs_def filter_empty_conv)
qed

lemma booted_tls:
  assumes "boot_agent bo a s = (Serving srv, disk, s')" "tls_config_of (rn_config srv) = Some t"
  shows "\<exists>cfg s1. rn_tls srv = Some cfg \<and>
    build_rustls_config (bo_x509 bo) (bo_rustls bo) (mtls_config_of t) True s1 = (Inr cfg, s')"
proof -
  obtain config s1 where b: "boot_with bo config s1 = (Serving srv, disk, s')" using boot_agent_Running [OF assms(1)] by blast
  note r = boot_with_Running [OF b]
  then show ?thesis using assms(2) init_tls_Ok(1) by fastforce
qed

section \<open>Properties\<close>

definition demo_store :: fs where
  "demo_store =
     \<lparr>fs_files = [(''/etc/config.yaml'', ''yaml'', 420), (''/etc/linux_patch_api/whitelist.yaml'', ''list'', 420),
        (''/c/ca.pem'', ''ca'', 420), (''/c/server.pem'', ''B'', 420), (''/c/server.key.pem'', ''K'', 384)],
      fs_dirs = [''/c''], fs_text = (\<lambda>_. True), fs_fault = (\<lambda>_. None), fs_calls = 0\<rparr>"

definition demo_boot :: "(unit, unit, string, unit, cmd list, unit) boot_env" where
  "demo_boot =
     \<lparr>bo_start = \<lparr>se_crates = cert_crates.truncate demo_rustls, se_now = 1900000000, se_yaml = (\<lambda>_. Ok sample_config),
        se_enroll = demo_manager (PollReply (Reply 200 (Ok ''denied'')))\<rparr>,
      bo_x509 = demo_x509, bo_rustls = demo_rustls, bo_ser = (\<lambda>_. None), bo_de = (\<lambda>_. None), bo_write1 = Written,
      bo_write2 = Written, bo_now = 5, bo_boot = None, bo_history = \<lparr>history_file = Absent, legacy_file = Absent\<rparr>,
      bo_backend = Ok quiet_backend, bo_world = [], bo_gpg = (\<lambda>_. GpgNotFound), bo_os_release = None, bo_repo = (\<lambda>_. Err (anyhow_msg ''down'')),
      bo_watch = \<lparr>we_new = Ok (), we_watch = Ok ()\<rparr>, bo_whitelist_yaml = (\<lambda>_. Some [''10.0.0.5'']), bo_dns = (\<lambda>_. None), bo_cache_de = (\<lambda>_. None), bo_jitter = 0,
      bo_clock = 50, bo_crl_file = ReadBytes ''crl'' None, bo_crl_fetch = SendError ''down'', bo_crl_write = MkdirFails,
      bo_keyed = (\<lambda>_ _. ()), bo_socket = Listening\<rparr>"

lemma demo_decide: "fst (decide_start (bo_start demo_boot) serve_args demo_store) = Serve sample_config"
  by code_simp

definition demo_ready :: fs where
  "demo_ready = snd (decide_start (bo_start demo_boot) serve_args demo_store)"

lemma demo_ready_fields:
  "fs_files demo_ready = fs_files demo_store" "fs_fault demo_ready n = None" "fs_text demo_ready c"
  unfolding demo_ready_def by code_simp+

lemma demo_decided: "decide_start (bo_start demo_boot) serve_args demo_store = (Serve sample_config, demo_ready)"
  using demo_decide by (simp add: demo_ready_def prod_eq_iff)

lemma demo_configured:
  "enrollment_manager_url sample_config = None" "whitelist_path sample_config = ''/etc/linux_patch_api/whitelist.yaml''"
  "tls_config_of sample_config = Some (the (ac_tls sample_config))" "tc_ca_cert (the (ac_tls sample_config)) = ''/c/ca.pem''"
  by code_simp+

definition demo_crl :: crl_env where
  "demo_crl = \<lparr>ce_disk = ReadBytes ''crl'' None, ce_shared = load_crl_from_bytes demo_x509 50 ''crl'' None ''ca''\<rparr>"

lemma demo_startup_crl:
  "startup_crl demo_x509 50 False fetch wr ''ca'' \<lparr>ce_disk = ReadBytes ''crl'' None, ce_shared = new_shared_state 50\<rparr> = Some demo_crl"
proof -
  have "cs_status (load_crl_from_bytes demo_x509 50 ''crl'' None ''ca'') = CrlValid" by code_simp
  then show ?thesis by (simp add: startup_crl_def load_crl_def demo_crl_def)
qed

lemma demo_boot_fields:
  "bo_x509 demo_boot = demo_x509" "bo_rustls demo_boot = demo_rustls" "bo_clock demo_boot = 50" "bo_crl_file demo_boot = ReadBytes ''crl'' None"
  "bo_backend demo_boot = Inr quiet_backend" "bo_socket demo_boot = Listening"
  by (simp_all add: demo_boot_def)

lemma demo_init_tls:
  assumes files: "fs_files s = fs_files demo_store" and ok: "\<And>n. fs_fault s n = None"
  shows "\<exists>cfg s'. init_tls demo_boot sample_config (the (ac_tls sample_config))
    \<lparr>ce_disk = ReadBytes ''crl'' None, ce_shared = new_shared_state 50\<rparr> s = (Inr (cfg, demo_crl), s')"
proof -
  have at: "file_at s ''/c/ca.pem'' = Some (''ca'', 420)" "file_at s ''/c/server.pem'' = Some (''B'', 420)"
    "file_at s ''/c/server.key.pem'' = Some (''K'', 384)"
    by (simp_all add: file_at_def files demo_store_def)
  obtain s1 where r: "read_or_default ''/c/ca.pem'' s = (''ca'', s1)" "fs_files s1 = fs_files s" "\<And>n. fs_fault s1 n = None"
    using ok at by (simp add: read_or_default_def io_call_def Let_def)
  have at1: "file_at s1 p = file_at s p" for p by (rule file_at_cong [OF r(2)])
  have "\<exists>tls s'. build_rustls_config demo_x509 demo_rustls (mtls_config_of (the (ac_tls sample_config))) True s1 = (Inr tls, s')"
    by (rule build_rustls_config_ready [OF r(3), where roots = "[''ca'']" and webpki = demo_webpki and servers = "[''B'']" and key = "''K''"])
      (simp_all add: at1 at mtls_config_of_def sample_config_def demo_rustls_def is_ok_def)
  then show ?thesis
    by (auto simp: init_tls_def demo_configured r(1) demo_boot_fields demo_startup_crl)
qed

lemma demo_boots: "\<exists>srv disk s'. boot_agent demo_boot serve_args demo_store = (Serving srv, disk, s')"
proof -
  obtain content s2 where f: "file_text ''/etc/linux_patch_api/whitelist.yaml'' demo_ready = (content, s2)" by fastforce
  have s2: "fs_files s2 = fs_files demo_store" "\<And>n. fs_fault s2 n = None"
    using f demo_ready_fields
    by (auto simp: file_text_def read_to_string_def io_call_def Let_def split: option.splits sum.splits prod.splits if_splits)
  obtain cfg s' where t: "init_tls demo_boot sample_config (the (ac_tls sample_config))
    \<lparr>ce_disk = ReadBytes ''crl'' None, ce_shared = new_shared_state 50\<rparr> s2 = (Inr (cfg, demo_crl), s')"
    using demo_init_tls [OF s2] by blast
  show ?thesis
    by (simp add: boot_agent_def demo_decided boot_with_def demo_boot_fields startup_self_heal_def demo_configured(1-3) f t Let_def)
qed

lemma demo_idle: "booted (bo_now demo_boot) (bo_boot demo_boot) c q
    (fst (load_all_jobs (bo_ser demo_boot) (bo_de demo_boot) (bo_write1 demo_boot) (bo_history demo_boot))) = new_scheduler c q"
  by (simp add: demo_boot_def load_all_jobs_def read_history_def booted_def load_history_def recover_orphaned_jobs_def)

lemma demo_whitelisted:
  "is_allowed (wm_entries (init_whitelist (bo_watch demo_boot) (bo_whitelist_yaml demo_boot) (bo_dns demo_boot) (Some ''list''))) (mk_ipv4 10 0 0 5)"
  by code_simp

lemma demo_exchange:
  assumes w: "boot_with demo_boot sample_config demo_ready = (Serving srv, disk, s')"
  shows "\<exists>srv' out. exchange demo_handshake 60 \<lparr>ch_certificate = Some (''good'', []), ch_message = ''m'', ch_signature = ''goodm''\<rparr>
      (\<lambda>g ip. (None, g)) demo_api demo_inputs 0 (demo_delete (mk_ipv4 10 0 0 5)) srv = Some (out, srv') \<and>
    \<not> harmless (rn_backend srv) (rn_app srv) (rn_app srv')"
proof -
  let ?ip = "mk_ipv4 10 0 0 5" and ?hello = "\<lparr>ch_certificate = Some (''good'', []), ch_message = ''m'', ch_signature = ''goodm''\<rparr>"
  note r = boot_with_Running [OF w]
  have heal: "startup_self_heal (bo_gpg demo_boot) (bo_os_release demo_boot) (bo_repo demo_boot) sample_config demo_ready = demo_ready"
    by (simp add: startup_self_heal_def demo_configured)
  have "fst (file_text ''/etc/linux_patch_api/whitelist.yaml'' demo_ready) = Some ''list''"
    by (simp add: file_text_def read_to_string_def io_call_def file_at_def demo_ready_fields demo_store_def Let_def)
  then have allowed: "is_allowed (rn_entries srv) ?ip" using heal r(4) demo_whitelisted demo_configured(2) by simp
  obtain cfg where c: "rn_tls srv = Some cfg" "init_tls demo_boot sample_config (the (ac_tls sample_config))
      \<lparr>ce_disk = ReadBytes ''crl'' None, ce_shared = new_shared_state 50\<rparr>
      (snd (file_text ''/etc/linux_patch_api/whitelist.yaml'' demo_ready)) = (Inr (cfg, rn_crl srv), s')"
    using r(8) heal by (auto simp: demo_configured(2,3) demo_boot_fields)
  have v: "rc_client_verifier cfg = crl_aware_verifier demo_x509 demo_webpki"
  proof -
    obtain s1 where "build_rustls_config demo_x509 demo_rustls (mtls_config_of (the (ac_tls sample_config))) True s1 = (Inr cfg, s')"
      using init_tls_Ok(1) [OF c(2)] by (auto simp: demo_boot_fields)
    from build_rustls_config_Ok(1) [OF this] show ?thesis by (simp add: demo_rustls_def)
  qed
  have "fst (read_or_default ''/c/ca.pem'' (snd (file_text ''/etc/linux_patch_api/whitelist.yaml'' demo_ready))) = ''ca''"
    by (simp add: read_or_default_def file_text_def read_to_string_def io_call_def file_at_def demo_ready_fields demo_store_def Let_def)
  then have crl: "rn_crl srv = demo_crl"
    using init_tls_Ok(2) [OF c(2)] by (simp add: demo_boot_fields demo_configured demo_startup_crl)
  have shake: "demo_handshake (rc_client_verifier cfg (ce_shared (rn_crl srv))) 60 ?hello"
    unfolding v crl demo_crl_def by code_simp
  obtain lim where lim: "rn_workers srv = replicate WORKERS (Some lim)"
    using r(5) by (auto simp: sample_config_def default_rate_limit_def new_rate_limiters_def)
  have adm: "\<exists>i s1. admit_job (ri_now demo_inputs) (ri_new_id demo_inputs) (ri_boot demo_inputs) Remove [''curl'']
      (as_scheduler (rn_app srv)) = Inr (i, s1)"
    unfolding r(6) demo_idle
    by (simp add: demo_inputs_def sample_config_def default_max_queue_depth_def admit_job_def admit_job_inner_def
        new_scheduler_def user_active_count_def Let_def)
  obtain r0 sv where s: "serve_request (\<lambda>g ip. (None, g)) (rn_entries srv) demo_api quiet_backend demo_inputs (demo_delete ?ip)
      \<lparr>sv_limiters = lim, sv_app = rn_app srv\<rparr> = (Handled (JobReply r0), sv)"
    and e: "as_tasks (sv_app sv) \<noteq> as_tasks (rn_app srv)"
      "\<exists>j. get_job (ri_new_id demo_inputs) (as_scheduler (sv_app sv)) = Some j \<and> \<not> is_internal j"
    using demo_delete_serves [of "\<lparr>sv_limiters = lim, sv_app = rn_app srv\<rparr>", OF _ allowed] adm by auto
  have "get_job (ri_new_id demo_inputs) (as_scheduler (rn_app srv)) = None" unfolding r(6) demo_idle by simp
  then have "\<not> harmless be (rn_app srv) (sv_app sv)" for be :: "cmd list backend"
    using e(2) unfolding harmless_def by fastforce
  moreover have "rn_backend srv = quiet_backend" using r(1) by (simp add: demo_boot_fields)
  ultimately show ?thesis
    using s c(1) shake lim by (simp add: exchange_def WORKERS_def)
qed

text \<open>C11: a server that runs was started soundly. It runs with TLS exactly when the configuration it serves with asks for it, and
  then with TLS 1.3 only and a CRL that did not fail verification; its gates are open and no job it knows is still active, whatever
  the history file said; the backend and the socket were there; there are four workers, each with its own limiters; and
  the addresses it serves come from a whitelist file that parsed completely.\<close>

theorem running_server_sound:
  assumes "boot_agent bo a s = (Serving srv, disk, s')"
  shows "(rn_tls srv = None \<longleftrightarrow> tls_config_of (rn_config srv) = None) \<and>
    (case rn_tls srv of None \<Rightarrow> True
     | Some tls \<Rightarrow> rc_versions tls = [TLS13] \<and> cs_status (ce_shared (rn_crl srv)) \<noteq> CrlInvalid) \<and>
    s_admission (as_scheduler (rn_app srv)) = Open \<and> s_reboot_pending (as_scheduler (rn_app srv)) = None \<and>
    s_self_update (as_scheduler (rn_app srv)) = None \<and> sched_inv (as_scheduler (rn_app srv)) \<and>
    get_active_jobs (as_scheduler (rn_app srv)) = [] \<and> as_tasks (rn_app srv) = [] \<and>
    bo_backend bo = Ok (rn_backend srv) \<and> bo_socket bo = Listening \<and> length (rn_workers srv) = 4 \<and>
    (is_allowed (rn_entries srv) ip \<longrightarrow>
       (\<exists>t es l e. map_option fst (file_at s' (whitelist_path (rn_config srv))) = Some t \<and> bo_whitelist_yaml bo t = Some es \<and>
          (\<forall>k \<in> set es. is_ok (parse_line (bo_dns bo) k)) \<and> l \<in> set es \<and>
          parse_line (bo_dns bo) l = Ok (Some e) \<and> entry_allows ip e))"
proof -
  obtain config s1 where b: "boot_with bo config s1 = (Serving srv, disk, s')" using boot_agent_Running [OF assms] by blast
  note r = boot_with_Running [OF b]
  let ?S = "as_scheduler (rn_app srv)"
  have gates: "s_admission ?S = Open" "s_reboot_pending ?S = None" "s_self_update ?S = None" "sched_inv ?S"
    unfolding r(6) by (simp_all add: booted_gates booted_inv)
  have idle: "get_active_jobs ?S = []"
    by (rule no_active_jobs) (use booted_terminal gates(4) r(6) in \<open>auto simp: sched_inv_def sched_wf_def\<close>)
  have tls: "(rn_tls srv = None \<longleftrightarrow> tls_config_of config = None) \<and>
      (case rn_tls srv of None \<Rightarrow> True
       | Some tls \<Rightarrow> rc_versions tls = [TLS13] \<and> cs_status (ce_shared (rn_crl srv)) \<noteq> CrlInvalid)"
  proof (cases "tls_config_of config")
    case None
    then show ?thesis using r(8) by simp
  next
    case (Some t)
    then obtain cfg s2 where c: "rn_tls srv = Some cfg"
      "init_tls bo config t \<lparr>ce_disk = bo_crl_file bo, ce_shared = new_shared_state (bo_clock bo)\<rparr> s2 = (Inr (cfg, rn_crl srv), s')"
      using r(8) by auto
    have "cs_status (ce_shared (rn_crl srv)) \<noteq> CrlInvalid"
      using startup_crl_not_invalid [OF _ init_tls_Ok(2) [OF c(2)]] by (simp add: new_shared_not_invalid)
    then show ?thesis using init_tls_Ok(1) [OF c(2)] build_rustls_config_Ok(5) Some c(1) by auto
  qed
  define s2 where "s2 = startup_self_heal (bo_gpg bo) (bo_os_release bo) (bo_repo bo) config s1"
  have "fs_files s' = fs_files s2" using boot_with_files [OF b] by (simp add: s2_def)
  then have wl: "is_allowed (rn_entries srv) ip \<Longrightarrow>
       \<exists>t es l e. map_option fst (file_at s' (whitelist_path config)) = Some t \<and> bo_whitelist_yaml bo t = Some es \<and>
          (\<forall>k \<in> set es. is_ok (parse_line (bo_dns bo) k)) \<and> l \<in> set es \<and>
          parse_line (bo_dns bo) l = Inr (Some e) \<and> entry_allows ip e"
    unfolding r(4) init_whitelist_allowed s2_def [symmetric] using file_text_Some [of "whitelist_path config" s2] file_at_cong
    by metis
  show ?thesis
    using gates idle tls wl r(1,2,3,5,7) by (auto simp: WORKERS_def)
qed

theorem running_server_sound_witness:
  "\<exists>srv disk s' tls. boot_agent demo_boot serve_args demo_store = (Serving srv, disk, s') \<and>
     rn_tls srv = Some tls \<and> rc_versions tls = [TLS13] \<and> length (rn_workers srv) = 4"
proof -
  obtain srv disk s' where b: "boot_agent demo_boot serve_args demo_store = (Serving srv, disk, s')" using demo_boots by blast
  have "rn_config srv = sample_config" using b boot_with_Running(3) by (fastforce simp: boot_agent_def demo_decided)
  then have "tls_config_of (rn_config srv) \<noteq> None" using demo_configured(3) by simp
  then show ?thesis using b running_server_sound [OF b, of 0] by (cases "rn_tls srv") auto
qed

text \<open>C4: from the connection to the effect. Let a server that was booted with TLS have run for any time, through any
  requests, CRL refreshes and checks and whatever its tasks did. If a request then has an effect (more than the refresh
  of the package index a reading request may start), its client has completed a handshake with a certificate that
  the verifier for the CA file read at boot accepts and whose key signed the handshake, not revoked by the CRL
  in force, which has not failed verification; its IPv4 address is allowed by the whitelist file read at boot; its
  method is POST, PUT or DELETE; and no critical header is given twice.\<close>

theorem effects_are_authenticated:
  assumes boot: "boot_agent bo a s = (Serving srv0, disk, s')" and tls: "tls_config_of (rn_config srv0) = Some t"
    and run: "server_run (bo_x509 bo) handshake check_key srv0 srv"
    and crates: "rustls_contract handshake" "webpki_contract (bo_rustls bo)" "pattern_contract (ae_matches env)"
    and request: "exchange handshake now hello check_key env ri k req srv = Some (out, srv')"
    and fresh: "get_job (ri_new_id ri) (as_scheduler (rn_app srv)) = None"
    and effect: "\<not> harmless (rn_backend srv) (rn_app srv) (rn_app srv')"
  shows "(\<exists>ee ints roots webpki ca m.
      ch_certificate hello = Some (ee, ints) \<and> file_at s' (tc_ca_cert t) = Some (ca, m) \<and>
      cc_certs (bo_rustls bo) ca = Ok roots \<and> rx_build_verifier (bo_rustls bo) roots = Ok webpki \<and>
      is_ok (cv_verify_client_cert webpki ee ints now) \<and>
      is_ok (cv_verify_tls13_signature webpki (ch_message hello) ee (ch_signature hello)) \<and>
      cs_status (ce_shared (rn_crl srv)) \<noteq> CrlInvalid \<and>
      (\<forall>serial key. cs_status (ce_shared (rn_crl srv)) \<in> {CrlValid, CrlExpired} \<and>
          x_parse_cert (bo_x509 bo) ee = Some (serial, key) \<longrightarrow>
          format_serial_hex serial \<notin> set (revoked_serials (ce_shared (rn_crl srv))))) \<and>
    (\<exists>ip addr. rq_peer req = Some addr \<and> sa_ip addr = V4 ip \<and> is_allowed (rn_entries srv0) ip) \<and>
    rq_method req \<in> {POST, PUT, DELETE} \<and>
    (\<forall>h \<in> set CRITICAL_HEADERS. length (filter (\<lambda>(name, v). eq_ignore_ascii_case name h) (rq_headers req)) \<le> 1)"
proof -
  have gate: "rn_tls srv = rn_tls srv0" "rn_entries srv = rn_entries srv0" using run_gate [OF run] by (simp_all add: same_gate_def)
  obtain cfg s1 where c: "rn_tls srv0 = Some cfg"
    "build_rustls_config (bo_x509 bo) (bo_rustls bo) (mtls_config_of t) True s1 = (Inr cfg, s')"
    using booted_tls [OF boot tls] by blast
  have shake: "handshake (rc_client_verifier cfg (ce_shared (rn_crl srv))) now hello"
    using request by (auto simp: exchange_def gate c(1) split: if_splits)
  obtain limiters where app: "rn_app srv' = sv_app (snd (serve_request check_key (rn_entries srv) env (rn_backend srv) ri req
      \<lparr>sv_limiters = limiters, sv_app = rn_app srv\<rparr>))"
    using exchange_serves [OF request] by (metis snd_conv)
  have auth: "rq_method req \<in> {POST, PUT, DELETE} \<and>
      (\<forall>h \<in> set CRITICAL_HEADERS. length (filter (\<lambda>(name, v). eq_ignore_ascii_case name h) (rq_headers req)) \<le> 1) \<and> (\<exists>addr. rq_peer req = Some addr \<and> is_socket_allowed (rn_entries srv0) addr)"
    using effects_authorised [OF crates(3), of ri "\<lparr>sv_limiters = limiters, sv_app = rn_app srv\<rparr>" "rn_backend srv"
        check_key "rn_entries srv" req] fresh effect unfolding app gate by auto
  moreover have "is_socket_allowed es addr \<Longrightarrow> \<exists>ip. sa_ip addr = V4 ip \<and> is_allowed es ip" for es addr
    by (auto simp: is_socket_allowed_def split: ip_addr.splits)
  ultimately show ?thesis
    using handshake_facts [OF c(2) crates(1,2) shake]
    unfolding file_at_cong [OF build_rustls_config_Ok(6) [OF c(2)]] mtls_config_of_def mtls_config.simps by blast
qed

theorem effects_are_authenticated_witness:
  "\<exists>srv disk s' srv' out. boot_agent demo_boot serve_args demo_store = (Serving srv, disk, s') \<and>
     exchange demo_handshake 60 \<lparr>ch_certificate = Some (''good'', []), ch_message = ''m'', ch_signature = ''goodm''\<rparr> (\<lambda>g ip. (None, g))
       demo_api demo_inputs 0 (demo_delete (mk_ipv4 10 0 0 5)) srv = Some (out, srv') \<and>
     \<not> harmless (rn_backend srv) (rn_app srv) (rn_app srv') \<and> cs_status (ce_shared (rn_crl srv)) \<noteq> CrlInvalid"
proof -
  let ?ip = "mk_ipv4 10 0 0 5" and ?hello = "\<lparr>ch_certificate = Some (''good'', []), ch_message = ''m'', ch_signature = ''goodm''\<rparr>"
  obtain srv disk s' where b: "boot_agent demo_boot serve_args demo_store = (Serving srv, disk, s')" using demo_boots by blast
  then have w: "boot_with demo_boot sample_config demo_ready = (Serving srv, disk, s')" by (simp add: boot_agent_def demo_decided)
  note r = boot_with_Running [OF w]
  obtain srv' out where x: "exchange demo_handshake 60 ?hello (\<lambda>g ip. (None, g)) demo_api demo_inputs 0 (demo_delete ?ip) srv
      = Some (out, srv')" and e: "\<not> harmless (rn_backend srv) (rn_app srv) (rn_app srv')"
    using demo_exchange [OF w] by blast
  have fresh: "get_job (ri_new_id demo_inputs) (as_scheduler (rn_app srv)) = None"
    unfolding r(6) by (simp add: demo_idle)
  have tls: "tls_config_of (rn_config srv) = Some (the (ac_tls sample_config))" using r(3) demo_configured(3) by simp
  from effects_are_authenticated [OF b tls server_run.Start demo_contracts(1) _ _ x fresh e] b x e
  show ?thesis by (auto simp: demo_boot_fields demo_contracts demo_matches pattern_contract_match_pattern)
qed

end
