(* ===== verification/Settlement.thy ===== *)
theory Settlement imports Handlers begin

text \<open>
  What becomes of a job after a handler of \<open>src/api/handlers\<close> accepted it: the task the handler spawned calls
  \<open>dispatch_mutation\<close>, its closure runs while other tasks go on using the scheduler, and the task settles the job with
  the result. The locale \<open>settling_task\<close> is what the tasks of all handlers promise of their first and last part;
  it is interpreted for package jobs, self-updates and patches.
\<close>

section \<open>Interference\<close>

text \<open>What the other tasks may do to the scheduler while a closure runs: anything that leaves the job, the identifier
  of the reboot job and the mutation slot alone.\<close>

definition leaves_alone :: "uuid \<Rightarrow> uuid \<Rightarrow> (scheduler_state \<Rightarrow> scheduler_state) \<Rightarrow> bool" where
  "leaves_alone i rid f \<longleftrightarrow>
     (\<forall>s. (sched_wf s \<longrightarrow> sched_wf (f s)) \<and> get_job i (f s) = get_job i s \<and>
          (get_job rid s = None \<longrightarrow> get_job rid (f s) = None) \<and>
          s_active_mutation (f s) = s_active_mutation s \<and> s_mutation_generation (f s) = s_mutation_generation s)"

lemma leaves_alone_id: "leaves_alone i rid (\<lambda>s. s)"
  by (simp add: leaves_alone_def)

lemma leaves_alone_comp: "leaves_alone i rid f \<Longrightarrow> leaves_alone i rid g \<Longrightarrow> leaves_alone i rid (\<lambda>s. f (g s))"
  by (simp add: leaves_alone_def)

text \<open>How a task leaves its job, given the result of the dispatch.\<close>

definition settled :: "uuid \<Rightarrow> (anyhow, unit) result \<Rightarrow> job \<Rightarrow> scheduler_state \<Rightarrow> bool" where
  "settled rid r j s \<longleftrightarrow>
     j_status j \<in> {Completed, Failed, Rebooting} \<and> (j_status j = Failed \<longleftrightarrow> \<not> is_ok r) \<and>
     (j_status j = Rebooting \<longrightarrow> s_reboot_pending s = Some rid)"

section \<open>The contract of a task\<close>

locale settling_task =
  fixes i rid :: uuid
    and before :: "time \<Rightarrow> scheduler_state \<Rightarrow> scheduler_state"
    and settle :: "time \<Rightarrow> (anyhow, unit) result \<Rightarrow> scheduler_state \<times> 'w \<Rightarrow> scheduler_state \<times> 'w"
    and host :: "(anyhow, unit) result \<Rightarrow> job_status \<Rightarrow> 'w \<Rightarrow> 'w \<Rightarrow> bool"   \<comment> \<open>what the last part does to the machine\<close>
  assumes before_job: "get_job i s = Some j \<Longrightarrow> \<exists>j'. get_job i (before t s) = Some j' \<and> j_status j' = j_status j"
    and before_fresh: "get_job rid s = None \<Longrightarrow> get_job rid (before t s) = None"
    and before_wf: "sched_wf s \<Longrightarrow> sched_wf (before t s)"
    and before_slot: "s_active_mutation (before t s) = s_active_mutation s"
    and settle_job: "\<lbrakk>sched_wf s; get_job i s = Some j; is_ok r \<Longrightarrow> j_status j = Running; get_job rid s = None\<rbrakk>
      \<Longrightarrow> \<exists>j'. get_job i (fst (settle t r (s, w))) = Some j' \<and> settled rid r j' (fst (settle t r (s, w))) \<and>
            host r (j_status j') w (snd (settle t r (s, w)))"
    and settle_slot: "s_active_mutation (fst (settle t r (s, w))) = s_active_mutation s"
begin

lemma started:
  fixes t' r
  assumes "sched_wf s" "get_job i s = Some j" "get_job rid s = None" "leaves_alone i rid f"
    and d: "dispatch_try t i s = Started gen b s'"
  defines "s2 \<equiv> watchdog_finish t' i gen r True (f s')"
  shows "sched_wf s2" "get_job rid s2 = None" "s_active_mutation s2 = None"
    "\<exists>j'. get_job i s2 = Some j' \<and> j_status j' = Running"
proof -
  have s': "s' = start_mutation t i s" and gen: "gen = s_mutation_generation s + 1"
    using dispatch_StartedD [OF d] by simp_all
  have wf: "sched_wf s'"
    using assms(1) by (simp add: s' start_mutation_def Let_def) (rule sched_wf_modify, simp_all)
  note f = assms(4) [unfolded leaves_alone_def, THEN spec, of s']
  have slot: "s_active_mutation (f s') = Some i" "s_mutation_generation (f s') = gen"
    using f by (simp_all add: s' gen start_mutation_fields)
  show "s_active_mutation s2 = None" unfolding s2_def by (rule finish_slot [OF slot])
  show "sched_wf s2" using f wf by (simp add: s2_def watchdog_finish_def Let_def)
  show "get_job rid s2 = None"
    using f assms(3) by (simp add: s2_def watchdog_keeps_job s' start_mutation_keeps)
  show "\<exists>j'. get_job i s2 = Some j' \<and> j_status j' = Running"
    using f assms(2) by (auto simp: s2_def watchdog_keeps_job s' start_mutation_def Let_def job_already_running_def)
qed

text \<open>The whole task: refused by the dispatch it runs nothing and fails the job; started it runs the closure once, frees
  the slot, and leaves the job as the result of the dispatch says, however the closure ended.\<close>

lemma run_settles:
  assumes mu: "mu_job mu = i" "mu_before mu = before" "mu_settle mu = settle"
    and s: "sched_wf s" "get_job i s = Some j" "get_job rid s = None" and f: "leaves_alone i rid f"
    and run: "run_mutation t1 t2 f fin mu s c w = Some (s2, c2, w2)"
  shows "\<exists>j. get_job i s2 = Some j \<and>
    (case dispatch_try t1 i (before t1 s) of
       Started gen b s' \<Rightarrow>
         (let r = watchdog_result b (fst (closure_run fin mu c w)); (c1, w1) = snd (closure_run fin mu c w)
          in settled rid r j s2 \<and> c2 = c1 \<and> host r (j_status j) w1 w2 \<and> s_active_mutation s2 = None)
     | _ \<Rightarrow> j_status j = Failed \<and> c2 = c \<and> (\<exists>e. host (Err e) Failed w w2) \<and> s_active_mutation s2 = s_active_mutation s)"
proof -
  obtain j0 where b: "sched_wf (before t1 s)" "get_job i (before t1 s) = Some j0" "get_job rid (before t1 s) = None"
    using before_wf before_job before_fresh s by blast
  show ?thesis
  proof (cases "dispatch_try t1 i (before t1 s)")
    case (Rejected m)
    let ?r = "Err (anyhow_msg m) :: (anyhow, unit) result"
    let ?out = "settle t2 ?r (before t1 s, w)"
    have out: "s2 = fst ?out" "c2 = c" "w2 = snd ?out"
      using run Rejected by (auto simp: run_mutation_def mu split: prod.splits)
    obtain j' where "get_job i (fst ?out) = Some j'" "settled rid ?r j' (fst ?out)" "host ?r (j_status j') w (snd ?out)"
      using settle_job [of "before t1 s" j0 ?r t2 w] b by auto
    then show ?thesis using Rejected out settle_slot [of t2 ?r "before t1 s" w] before_slot [of t1 s]
      by (auto simp: settled_def intro!: exI [of _ j'] exI [of _ "anyhow_msg m"])
  next
    case MustWait
    then show ?thesis using run by (simp add: run_mutation_def mu)
  next
    case (Started gen bs s')
    obtain o1 c1 w1 where cl: "closure_run fin mu c w = (o1, c1, w1)" by (cases "closure_run fin mu c w") auto
    let ?r = "watchdog_result bs o1"
    define s3 where "s3 = watchdog_finish t2 i gen ?r True (f s')"
    note st = started [OF b f Started, of t2 ?r, folded s3_def]
    obtain j1 where j1: "get_job i s3 = Some j1" "j_status j1 = Running" using st(4) by blast
    have out: "s2 = fst (settle t2 ?r (s3, w1))" "c2 = c1" "w2 = snd (settle t2 ?r (s3, w1))"
      using run Started cl by (auto simp: run_mutation_def mu s3_def Let_def split: prod.splits)
    show ?thesis
      using settle_job [OF st(1) j1(1) _ st(2), of ?r t2 w1] j1(2) st(3) settle_slot [of t2 ?r s3 w1] Started out cl by auto
  qed
qed

end

section \<open>The tasks of the handlers\<close>

text \<open>The machine is left as it is, and no reboot is announced.\<close>

definition host_idle :: "(anyhow, unit) result \<Rightarrow> job_status \<Rightarrow> 'w \<Rightarrow> 'w \<Rightarrow> bool" where
  "host_idle r st w w' \<longleftrightarrow> w' = w \<and> st \<noteq> Rebooting"

lemma settle_job_settles:
  "get_job i s = Some j \<Longrightarrow>
     \<exists>j'. get_job i (settle_job dbg t i r s) = Some j' \<and> settled rid r j' s' \<and> host_idle r (j_status j') w w"
  by (cases r) (simp_all add: get_job_settle settled_def fail_with_diagnostics_def Let_def host_idle_def)

text \<open>After a patch transaction that succeeded, when the request allows a reboot: the queries for a pending one, and then
  perhaps the reboot command, which was accepted if the job is \<open>Rebooting\<close>.\<close>

definition host_patched ::
    "'w backend \<Rightarrow> patch_apply_request \<Rightarrow> (anyhow, unit) result \<Rightarrow> job_status \<Rightarrow> 'w \<Rightarrow> 'w \<Rightarrow> bool" where
  "host_patched be req r st w w' \<longleftrightarrow>
     (let w1 = snd (be_get_system_info be w);
          (answer, w2) = be_reboot_system be (pr_reboot_delay_seconds req) w1
      in if is_ok r \<and> pr_allow_reboot req
         then w' \<in> {w1, w2} \<and> (st = Rebooting \<longrightarrow> w' = w2 \<and> is_ok answer)
         else w' = w \<and> st \<noteq> Rebooting)"

interpretation package_task: settling_task i rid "\<lambda>_ s. s" "\<lambda>t r. apfst (settle_job dbg t i r)" host_idle for i rid dbg
  by unfold_locales (auto intro: settle_job_settles)

lemma get_job_release: "get_job x (snd (release_self_update i s)) = get_job x s"
  by (simp add: release_self_update_def get_job_def split: option.splits)

interpretation self_update_task: settling_task i rid "\<lambda>_ s. s" "\<lambda>t r. apfst (settle_self_update dbg t i r)" host_idle
  for i rid dbg
  by unfold_locales
    (auto simp: settle_self_update_def get_job_release release_su.slot intro: settle_job_settles)

lemma reboot_after_patch_slot: "s_active_mutation (reboot_after_patch now i k rr s) = s_active_mutation s"
proof -
  define s2 where "s2 = add_job_log now i ''Reboot reservation acquired by scheduler''
    (res_state1 s (set_job_rebooting now i ''Patches applied; awaiting reboot'' s))"
  obtain b s3 where b: "begin_reboot_execution now k s2 = (b, s3)" by fastforce
  have "s_active_mutation s3 = s_active_mutation s"
    using begin_rb.slot [where now = now and i = k and s = s2]
    unfolding b by (simp add: s2_def add_job_log.slot set_rb.slot)
  then show ?thesis
    using b by (simp add: reboot_after_patch_def Let_def s2_def [symmetric] drop_rb.slot rollback_rb.slot complete_job.slot
        add_job_log.slot split: bool.split sum.split)
qed

lemma finish_patch_slot:
  fixes r rr :: "(anyhow, unit) result"
  shows "s_active_mutation (finish_patch_job dbg now boot i k req need r rr s) = s_active_mutation s"
proof -
  have "s_active_mutation s' = s_active_mutation t" if "reserve_reboot now k boot True False t = Inr (x, s')" for t x s'
    using reserve_rb.slot [where now = now and i = k and b = boot and force = True and ack = False and s = t] that by simp
  then show ?thesis
    by (auto simp: finish_patch_job_def Let_def reboot_after_patch_slot complete_job.slot add_job_log.slot fail_job_diag.slot
        split: sum.split)
qed

text \<open>The reboot command is run exactly where \<open>finish_patch_job\<close> reads its answer: a job ends up \<open>Rebooting\<close> only when it was
  run.\<close>

lemma rebooting_commanded:
  assumes wf: "sched_wf s" and job: "get_job i s = Some j" "j_status j = Running" and fresh: "get_job k s = None"
    and out: "get_job i (finish_patch_job dbg now boot i k req need (Inr u) rr s) = Some j'" "j_status j' = Rebooting"
  shows "reboot_commanded now i k boot req need s"
proof (rule ccontr)
  assume no: "\<not> reboot_commanded now i k boot req need s"
  have lost: "reboot_after_patch now i a rr b = reboot_after_patch now i a rr' b"
    if "\<not> fst (begin_reboot_execution now a (add_job_log now i ''Reboot reservation acquired by scheduler''
             (res_state1 b (set_job_rebooting now i ''Patches applied; awaiting reboot'' b))))" for a b rr'
    using that unfolding reboot_after_patch_def Let_def by (auto split: prod.split)
  have "finish_patch_job dbg now boot i k req need (Inr u) rr s = finish_patch_job dbg now boot i k req need (Inr u) rr' s" for rr'
    using no by (auto simp: finish_patch_job_def reboot_commanded_def Let_def lost split: sum.split)
  from this [of "Err (anyhow_msg [])"] finish_patch_cases [OF wf job fresh refl, of dbg now boot req need "Inr u" "Err (anyhow_msg [])"]
  show False using out by auto
qed

lemma settle_patch_settles:
  assumes wf: "sched_wf s" and j: "get_job i s = Some j" and run: "is_ok r \<Longrightarrow> j_status j = Running" and fresh: "get_job rid s = None"
  shows "\<exists>j'. get_job i (fst (settle_patch dbg t boot i rid be req r (s, w))) = Some j' \<and>
    settled rid r j' (fst (settle_patch dbg t boot i rid be req r (s, w))) \<and>
    host_patched be req r (j_status j') w (snd (settle_patch dbg t boot i rid be req r (s, w)))"
proof (cases r)
  case (Inl e)
  then show ?thesis using j
    by (simp add: settle_patch_def finish_patch_job_def get_job_fail_diag fail_with_diagnostics_def Let_def settled_def
        host_patched_def split: prod.split)
next
  case (Inr u)
  obtain need w1 where a: "asks_pending_reboot be req w = (need, w1)" by fastforce
  define go where "go = reboot_commanded t i rid boot req need s"
  obtain rr w2 where c: "(if go then be_reboot_system be (pr_reboot_delay_seconds req) w1 else (Ok (), w1)) = (rr, w2)"
    by fastforce
  let ?s' = "finish_patch_job dbg t boot i rid req need r rr s"
  have out: "settle_patch dbg t boot i rid be req r (s, w) = (?s', w2)"
    using a c Inr by (simp add: settle_patch_def go_def [symmetric])
  have running: "j_status j = Running" using run Inr by simp
  obtain j' where j': "get_job i ?s' = Some j'" "settled rid r j' ?s'"
    "j_status j' = Rebooting \<Longrightarrow> should_reboot req need \<and> is_ok rr"
    using finish_patch_cases [OF wf j running fresh refl, of dbg t boot req need r rr] Inr by (auto simp: settled_def)
  have commanded: "go" if "j_status j' = Rebooting"
    using rebooting_commanded [OF wf j running fresh, of dbg t boot req need u rr j'] j'(1) that Inr by (simp add: go_def)
  have "host_patched be req r (j_status j') w w2"
  proof (cases "pr_allow_reboot req")
    case True
    then have "w1 = snd (be_get_system_info be w)"
      using a by (auto simp: asks_pending_reboot_def split: prod.splits sum.splits)
    then show ?thesis using True Inr c commanded j'(3) by (auto simp: host_patched_def Let_def split: prod.splits if_splits)
  next
    case False
    then have "w1 = w" "\<not> should_reboot req need" using a by (simp_all add: asks_pending_reboot_def should_reboot_def)
    moreover from this have "\<not> go" by (simp add: go_def reboot_commanded_def)
    ultimately show ?thesis using False c j'(3) by (auto simp: host_patched_def Let_def split: prod.splits)
  qed
  then show ?thesis unfolding out using j'(1,2) by auto
qed

lemma settle_patch_slot: "s_active_mutation (fst (settle_patch dbg t boot i rid be req r (s, w))) = s_active_mutation s"
  by (simp add: settle_patch_def finish_patch_slot split: sum.split prod.split)

interpretation patch_task: settling_task i rid "\<lambda>t. add_job_log t i m"
    "\<lambda>t. settle_patch dbg t boot i rid be req" "host_patched be req" for i rid m dbg boot be req
  by unfold_locales
    (auto simp: get_job_add_log add_log_def add_job_log.slot add_job_log.wf settle_patch_slot intro: settle_patch_settles)

section \<open>Properties\<close>

lemma admit_and_spawn_task:
  assumes "admit_and_spawn dbg t i boot oper ps cl op l p s = (resp, s0, Some mu)"
  shows "mu_job mu = i \<and> mu_before mu = (\<lambda>_ s. s) \<and> mu_settle mu = (\<lambda>t r. apfst (settle_job dbg t i r)) \<and> get_job i s0 \<noteq> None"
proof -
  obtain k where a: "admit_job t i boot oper ps s = Inr (k, s0)"
    and mu: "mu = \<lparr>mu_job = k, mu_before = (\<lambda>_ s. s), mu_closure = cl, mu_settle = (\<lambda>t r. apfst (settle_job dbg t k r))\<rparr>"
    using assms by (auto simp: admit_and_spawn_def split: sum.splits)
  show ?thesis using admit_job_Inr(1) [OF a] admit_job_Inr(2) [OF a, of i] by (simp add: mu)
qed

text \<open>The task of an accepted request keeps the contract, with the machine touched after the closure by patch requests only.\<close>

definition host_after ::
    "bool \<Rightarrow> 'w backend \<Rightarrow> patch_apply_request \<Rightarrow> (anyhow, unit) result \<Rightarrow> job_status \<Rightarrow> 'w \<Rightarrow> 'w \<Rightarrow> bool" where
  "host_after patching be req = (if patching then host_patched be req else host_idle)"

lemma accepted_task:
  assumes "(resp, s0, Some mu) \<in> {h_install_packages dbg t i boot be ireq s, h_update_package dbg t i boot be name s,
      h_remove_package dbg t i boot be name s, h_apply_patches dbg t i rid boot be preq s}"
  shows "(\<exists>patching. (patching \<longrightarrow> (resp, s0, Some mu) = h_apply_patches dbg t i rid boot be preq s) \<and>
      settling_task i rid (mu_before mu) (mu_settle mu) (host_after patching be preq)) \<and> mu_job mu = i \<and> get_job i s0 \<noteq> None"
proof -
  have plain: ?thesis if "admit_and_spawn dbg t i boot oper ps cl op l p s = (resp, s0, Some mu)" for oper ps cl op l p
    using admit_and_spawn_task [OF that] package_task.settling_task_axioms
    by (auto simp: host_after_def intro!: exI [of _ False])
  from assms consider "h_install_packages dbg t i boot be ireq s = (resp, s0, Some mu)"
    | "name \<noteq> SELF_PACKAGE_NAME" "h_update_package dbg t i boot be name s = (resp, s0, Some mu)"
    | "h_update_package dbg t i boot be SELF_PACKAGE_NAME s = (resp, s0, Some mu)"
    | "h_remove_package dbg t i boot be name s = (resp, s0, Some mu)"
    | "h_apply_patches dbg t i rid boot be preq s = (resp, s0, Some mu)"
    by fastforce
  then show ?thesis
  proof cases
    case 1
    then have "admit_and_spawn dbg t i boot Install (map sp_name (ir_packages ireq))
        (keeping_cache (be_install_packages be (ir_packages ireq) (ir_options ireq))) ''install''
        (Some (map sp_name (ir_packages ireq))) None s = (resp, s0, Some mu)"
      by (auto simp: h_install_packages_def Let_def split: sum.splits)
    then show ?thesis by (rule plain)
  next
    case 2
    then have "admit_and_spawn dbg t i boot Update [name] (keeping_cache (be_update_package be name)) ''update'' None
        (Some name) s = (resp, s0, Some mu)"
      by (auto simp: h_update_package_def split: sum.splits)
    then show ?thesis by (rule plain)
  next
    case 3
    note u = h_update_self [OF 3]
    show ?thesis using u self_update_open(3) [OF conjunct1 [OF u], of i] self_update_task.settling_task_axioms
      by (auto simp: host_after_def intro!: exI [of _ False])
  next
    case 4
    then have "admit_and_spawn dbg t i boot Remove [name] (keeping_cache (be_remove_package be name False)) ''remove'' None
        (Some name) s = (resp, s0, Some mu)"
      by (auto simp: h_remove_package_def split: sum.splits)
    then show ?thesis by (rule plain)
  next
    case 5
    then obtain k where a: "admit_job t i boot PatchApply (opt_or (pr_packages preq) []) s = Inr (k, s0)"
      and mu: "mu = \<lparr>mu_job = k, mu_before = (\<lambda>t. add_job_log t k ''Refreshing package cache...''),
        mu_closure = transaction be preq,
        mu_settle = (\<lambda>t. settle_patch dbg t boot k rid be preq)\<rparr>"
      by (auto simp: h_apply_patches_def split: sum.splits)
    show ?thesis
      using admit_job_Inr(1) [OF a] admit_job_Inr(2) [OF a, of i] patch_task.settling_task_axioms 5
      by (auto simp: mu host_after_def intro!: exI [of _ True])
  qed
qed

text \<open>C7: every accepted job is settled. Once the task that the handler spawned for an accepted package or patch request has
  run, its job is \<open>Completed\<close>, \<open>Failed\<close> or, under a granted reboot reservation, \<open>Rebooting\<close>. It is \<open>Failed\<close> exactly when the
  dispatch refused it or its closure failed, panicked or was detached by the backstop. A refused job ran no command; a
  started one ran its closure once, and the mutation slot is free again. After the closure only a patch request that
  succeeded and allows a reboot touches the machine again: it asks for a pending reboot and then perhaps runs the reboot
  command, which was accepted if the job is \<open>Rebooting\<close>. This holds whatever the other tasks did between the
  admission and the dispatch and while the closure ran, as long as they left this job and the slot alone.\<close>

theorem accepted_jobs_settle:
  assumes acc: "(resp, s0, Some mu) \<in> {h_install_packages dbg t i boot be ireq s, h_update_package dbg t i boot be name s,
      h_remove_package dbg t i boot be name s, h_apply_patches dbg t i rid boot be preq s}"
    and later: "get_job i s1 = get_job i s0" "sched_wf s1" "get_job rid s1 = None"
    and other: "leaves_alone i rid f"
    and run: "run_mutation t1 t2 f fin mu s1 c w = Some (s2, c2, w2)"
  shows "\<exists>j. get_job i s2 = Some j \<and>
    (case dispatch_try t1 i (mu_before mu t1 s1) of
       Started gen b s' \<Rightarrow>
         (let (outcome, c1, w1) = closure_run fin mu c w; r = watchdog_result b outcome;
              asked = snd (be_get_system_info be w1);
              (answer, rebooted) = be_reboot_system be (pr_reboot_delay_seconds preq) asked
          in settled rid r j s2 \<and> c2 = c1 \<and> s_active_mutation s2 = None \<and>
             (w2 = w1 \<or> (resp, s0, Some mu) = h_apply_patches dbg t i rid boot be preq s \<and> is_ok r \<and>
                pr_allow_reboot preq \<and> w2 \<in> {asked, rebooted}) \<and>
             (j_status j \<noteq> Rebooting \<or> w2 = rebooted \<and> is_ok answer))
     | _ \<Rightarrow> j_status j = Failed \<and> c2 = c \<and> w2 = w \<and> s_active_mutation s2 = s_active_mutation s1)"
proof -
  obtain patching where p: "patching \<longrightarrow> (resp, s0, Some mu) = h_apply_patches dbg t i rid boot be preq s"
    and task: "settling_task i rid (mu_before mu) (mu_settle mu) (host_after patching be preq)" "mu_job mu = i" "get_job i s0 \<noteq> None"
    using accepted_task [OF acc] by blast
  then obtain j0 where "get_job i s1 = Some j0" using later(1) by auto
  from settling_task.run_settles [OF task(1,2) refl refl later(2) this later(3) other run]
  obtain j where j: "get_job i s2 = Some j" and out: "case dispatch_try t1 i (mu_before mu t1 s1) of
       Started gen b s' \<Rightarrow>
         (let r = watchdog_result b (fst (closure_run fin mu c w)); (c1, w1) = snd (closure_run fin mu c w)
          in settled rid r j s2 \<and> c2 = c1 \<and> host_after patching be preq r (j_status j) w1 w2 \<and> s_active_mutation s2 = None)
     | _ \<Rightarrow> j_status j = Failed \<and> c2 = c \<and> (\<exists>e. host_after patching be preq (Err e) Failed w w2) \<and>
         s_active_mutation s2 = s_active_mutation s1" by blast
  have failed: "w2 = w" if "host_after patching be preq (Err e) Failed w w2" for e
    using that by (auto simp: host_after_def host_idle_def host_patched_def Let_def split: prod.splits if_splits)
  show ?thesis
  proof (cases "dispatch_try t1 i (mu_before mu t1 s1)")
    case (Started gen b s')
    obtain o1 c1 w1 where cl: "closure_run fin mu c w = (o1, c1, w1)" by (cases "closure_run fin mu c w") auto
    show ?thesis using j out Started p cl
      by (cases "be_reboot_system be (pr_reboot_delay_seconds preq) (snd (be_get_system_info be w1))")
        (auto simp: host_after_def host_idle_def host_patched_def Let_def split: if_splits)
  qed (use j out failed in auto)
qed

theorem accepted_jobs_settle_witness:
  "\<exists>resp s0 mu s2 c2 w2 j.
     h_remove_package (\<lambda>_. []) 5 2 None quiet_backend ''vim'' (new_scheduler 2 10) = (resp, s0, Some mu) \<and>
     run_mutation 9 20 (\<lambda>t. t) Returns mu s0 (with_threshold_and_jitter None 3600 0) [] = Some (s2, c2, w2) \<and>
     get_job 2 s2 = Some j \<and> j_status j \<in> {Completed, Failed, Rebooting}"
proof -
  let ?c = "with_threshold_and_jitter None 3600 0" and ?new = "new_scheduler 2 10"
  have valid: "validate_package_name ''vim'' = Ok ()" by code_simp
  obtain s0 where a: "admit_job 5 2 None Remove [''vim''] ?new = Inr (2, s0)"
    by (simp add: admit_job_def admit_job_inner_def new_scheduler_def user_active_count_def Let_def)
  then obtain resp mu where h: "h_remove_package (\<lambda>_. []) 5 2 None quiet_backend ''vim'' ?new = (resp, s0, Some mu)"
    and task: "mu_job mu = 2" "mu_before mu = (\<lambda>_ s. s)"
    by (simp add: h_remove_package_def valid admit_and_spawn_def)
  have s0: "sched_wf s0" "get_job 3 s0 = None" "s_active_mutation s0 = None"
    using sched_op.wf [OF admit_job.sched_op_axioms sched_wf_new, of 2 10 5 2 None Remove "[''vim'']"]
      sched_op.slot [OF admit_job.sched_op_axioms, of ?new 5 2 None Remove "[''vim'']"] admit_job_Inr(2) [OF a, of 3] a
    by (simp_all add: get_job_def new_scheduler_def)
  have gates: "s_admission s0 = Open" "s_reboot_pending s0 = None" "s_self_update s0 = None"
    using admit_job_Inr(3-5) [OF a] by (simp_all add: new_scheduler_def)
  have "running_count s0 = 0 \<and> s_max_concurrent s0 = 2"
    using a by (auto simp: admit_job_def admit_job_inner_def new_scheduler_def Let_def running_count_def insert_job_def
        emit_event_def notify_one_def new_job_def split: if_splits)
  then have "dispatch_try 9 (mu_job mu) (mu_before mu 9 s0) \<noteq> MustWait"
    using gates s0(3) task by (simp add: dispatch_try_def Let_def)
  then have "run_mutation 9 20 (\<lambda>t. t) Returns mu s0 ?c [] \<noteq> None"
    by (cases "dispatch_try 9 (mu_job mu) (mu_before mu 9 s0)") (simp_all add: run_mutation_def case_prod_unfold Let_def)
  then obtain s2 c2 w2 where run: "run_mutation 9 20 (\<lambda>t. t) Returns mu s0 ?c [] = Some (s2, c2, w2)" by auto
  obtain j where "get_job 2 s2 = Some j" "j_status j \<in> {Completed, Failed, Rebooting}"
    using accepted_jobs_settle [OF _ refl s0(1,2) leaves_alone_id run, where name = "''vim''" and s = ?new and resp = resp
        and dbg = "\<lambda>_. []" and t = 5 and boot = None and be = quiet_backend and i = 2
        and preq = "\<lparr>pr_packages = None, pr_allow_reboot = False, pr_reboot_delay_seconds = 0\<rparr>"] h
    by (cases "dispatch_try 9 2 (mu_before mu 9 s0)") (auto simp: settled_def Let_def case_prod_beta)
  with h run show ?thesis by blast
qed

end
