(* ===== verification/Refinement.thy ===== *)
theory Refinement imports Coordination begin

text \<open>
  What the scheduler promises its callers, as a small abstract machine, and the proof that the dispatch system of theory
  \<open>Dispatch\<close> refines it: every step of the system, an operation of the API, a caller, a watchdog or a cancellation, is
  a step of the machine, and so is every run. The machine knows only who holds the right to mutate the host and
  which of the three gates (shutdown, reboot, self-update) are closed.
\<close>

section \<open>The contract\<close>

record agent_spec =
  sp_holder :: "uuid option"
  sp_frozen :: bool
  sp_reboot :: "uuid option"
  sp_update :: "uuid option"

definition spec_init :: agent_spec where
  "spec_init = \<lparr>sp_holder = None, sp_frozen = False, sp_reboot = None, sp_update = None\<rparr>"

text \<open>A mutation starts only when nobody holds the right and every gate lets this job through, and only its holder
  ends it. A gate closes only while the agent is open, a self-update only when no reboot is reserved, and a closed
  gate is never passed from one owner to another; shutdown is for ever.\<close>

inductive spec_step :: "agent_spec \<Rightarrow> agent_spec \<Rightarrow> bool" where
  spec_start: "sp_holder a = None \<Longrightarrow> \<not> sp_frozen a \<Longrightarrow> sp_reboot a = None \<Longrightarrow> sp_update a \<in> {None, Some i} \<Longrightarrow>
     spec_step a (a\<lparr>sp_holder := Some i\<rparr>)"
| spec_end: "sp_holder a = Some i \<Longrightarrow> spec_step a (a\<lparr>sp_holder := None\<rparr>)"
| spec_freeze: "spec_step a (a\<lparr>sp_frozen := True\<rparr>)"
| spec_reboot: "\<not> sp_frozen a \<Longrightarrow> sp_reboot a = None \<Longrightarrow> spec_step a (a\<lparr>sp_reboot := Some r\<rparr>)"
| spec_reboot_over: "spec_step a (a\<lparr>sp_reboot := None\<rparr>)"
| spec_update: "\<not> sp_frozen a \<Longrightarrow> sp_reboot a = None \<Longrightarrow> sp_update a = None \<Longrightarrow> spec_step a (a\<lparr>sp_update := Some u\<rparr>)"
| spec_update_over: "spec_step a (a\<lparr>sp_update := None\<rparr>)"
| spec_idle: "spec_step a a"

inductive_simps spec_step_from: "spec_step a a'"

definition abstract_sched :: "scheduler_state \<Rightarrow> agent_spec" where
  "abstract_sched s =
     \<lparr>sp_holder = s_active_mutation s, sp_frozen = (s_admission s = Frozen), sp_reboot = s_reboot_pending s,
      sp_update = map_option su_job_id (s_self_update s)\<rparr>"

section \<open>Lemmas\<close>

text \<open>How the gates move under one operation.\<close>

definition gates_move :: "scheduler_state \<Rightarrow> scheduler_state \<Rightarrow> bool" where
  "gates_move s s' \<longleftrightarrow> spec_step (abstract_sched s) (abstract_sched s')"

lemma gates_moveI:
  assumes "s_active_mutation s' = s_active_mutation s"
    and "s_admission s' = s_admission s \<and> s_reboot_pending s' = s_reboot_pending s \<and> s_self_update s' = s_self_update s"
  shows "gates_move s s'"
  using assms by (simp add: gates_move_def abstract_sched_def spec_idle)

lemma gate_op_moves: "gate_op f \<Longrightarrow> gates_move s (f s)"
  by (rule gates_moveI) (simp_all add: gate_op_def gate_op_axioms_def sched_op_def)

lemmas gate_ops = admit_job.gate_op_axioms rollback_job.gate_op_axioms begin_rb.gate_op_axioms set_rb.gate_op_axioms
  update_job.gate_op_axioms add_job_log.gate_op_axioms complete_job.gate_op_axioms fail_job.gate_op_axioms
  fail_job_diag.gate_op_axioms delete_job.gate_op_axioms recover.gate_op_axioms

lemma api_step_moves: "api_step s s' \<Longrightarrow> gates_move s s'"
proof (induction rule: api_step.induct)
  case (api_reserve_su i s now b ps fv tv)
  show ?case
    by (auto simp: gates_move_def abstract_sched_def try_reserve_self_update_def Let_def spec_step_from)
next
  case (api_release_su i s)
  show ?case by (auto simp: gates_move_def abstract_sched_def release_self_update_def spec_step_from split: option.splits)
next
  case (api_drop_su i c s)
  show ?case
    by (auto simp: gates_move_def abstract_sched_def drop_self_update_guard_def release_self_update_def spec_step_from
        split: option.splits)
next
  case (api_reserve_rb i s now b force ack)
  let ?s' = "res_state s (reserve_reboot now i b force ack s)"
  have "s_active_mutation ?s' = s_active_mutation s"
    using api_step_slot [OF api_step.api_reserve_rb [OF api_reserve_rb]] by blast
  moreover have "s_admission ?s' = s_admission s \<and> s_self_update ?s' = s_self_update s \<and>
      (s_reboot_pending ?s' = s_reboot_pending s \<or>
       (s_reboot_pending s = None \<and> s_admission s = Open \<and> s_reboot_pending ?s' = Some i))"
    by (auto simp: reserve_reboot_def Let_def fold_cancel_gates)
  ultimately show ?case by (auto simp: gates_move_def abstract_sched_def spec_step_from)
next
  case (api_rollback_rb now i e s)
  show ?case
    by (auto simp: gates_move_def abstract_sched_def rollback_reboot_def Let_def spec_step_from split: option.splits)
next
  case (api_drop_rb now i c s)
  show ?case
    by (auto simp: gates_move_def abstract_sched_def drop_reboot_guard_def rollback_reboot_def Let_def spec_step_from
        split: option.splits)
next
  case (api_freeze s)
  show ?case by (auto simp: gates_move_def abstract_sched_def freeze_admission_def spec_step_from)
next
  case (api_history js s)
  show ?case by (rule gates_moveI) (simp_all add: load_history_gates sched_op.slot [OF sched_op_load_history] api_history)
qed (rule gate_op_moves, rule gate_ops)+

lemma start_moves:
  assumes "dispatch_try now i s = Started gen backstop s'"
  shows "spec_step (abstract_sched s) (abstract_sched s')"
proof -
  note st = dispatch_StartedD [OF assms]
  have "sp_update (abstract_sched s) \<in> {None, Some i}"
    using st(7) by (cases "s_self_update s") (auto simp: abstract_sched_def)
  then have "spec_step (abstract_sched s) (abstract_sched s\<lparr>sp_holder := Some i\<rparr>)"
    using st(1-3) by (intro spec_start) (simp_all add: abstract_sched_def)
  then show ?thesis by (simp add: st(5) abstract_sched_def start_mutation_fields start_gates)
qed

lemma finish_moves:
  "spec_step (abstract_sched s) (abstract_sched (watchdog_finish now i gen r alive s))"
proof -
  have "s_active_mutation (watchdog_finish now i gen r alive s) \<in> {s_active_mutation s, None}"
    by (auto simp: watchdog_finish_def Let_def split: option.splits)
  then show ?thesis
    by (cases "s_active_mutation s") (auto simp: abstract_sched_def finish_gates spec_step_from)
qed

lemma sys_step_refines: "sys_step d d' \<Longrightarrow> spec_step (abstract_sched (d_state d)) (abstract_sched (d_state d'))"
proof (induction rule: sys_step.induct)
  case (sys_api d s')
  then show ?case using api_step_moves [of "d_state d" s'] by (simp add: gates_move_def)
next
  case (sys_start i d now gen backstop s')
  then show ?case using start_moves by simp
next
  case (sys_finish t d now outcome alive)
  then show ?case using finish_moves by simp
qed (simp_all add: spec_idle)

lemma reachable_refines: "reachable c q d \<Longrightarrow> spec_step\<^sup>*\<^sup>* spec_init (abstract_sched (d_state d))"
proof (induction rule: reachable.induct)
  case reach_init
  show ?case by (simp add: init_sys_def new_scheduler_def abstract_sched_def spec_init_def)
next
  case (reach_step d d')
  then show ?case using sys_step_refines by (meson rtranclp.rtrancl_into_rtrancl)
qed

text \<open>What the machine guarantees whatever runs on it.\<close>

lemma spec_frozen_stays: "spec_step a a' \<Longrightarrow> sp_frozen a \<Longrightarrow> sp_frozen a' \<and> sp_holder a' \<in> {sp_holder a, None}"
  by (induction rule: spec_step.induct) auto

lemma spec_holder_changes:
  "spec_step a a' \<Longrightarrow> sp_holder a' = Some i \<Longrightarrow> sp_holder a = Some i \<or>
     (sp_holder a = None \<and> \<not> sp_frozen a \<and> sp_reboot a = None \<and> sp_update a \<in> {None, Some i})"
  by (induction rule: spec_step.induct) auto

section \<open>Properties\<close>

text \<open>C2: the scheduler refines its contract. From the state the agent starts in, every reachable state of the dispatch
  system stands for a reachable state of the abstract machine, and every step of the system, by any caller, handler,
  watchdog or cancellation, is one step of the machine or none.\<close>

theorem dispatch_refines_contract:
  assumes "reachable c q d"
  shows "spec_step\<^sup>*\<^sup>* spec_init (abstract_sched (d_state d)) \<and>
    (\<forall>d'. sys_step d d' \<longrightarrow> spec_step (abstract_sched (d_state d)) (abstract_sched (d_state d')))"
  using assms reachable_refines sys_step_refines by blast

theorem dispatch_refines_contract_witness:
  "spec_step\<^sup>*\<^sup>* spec_init (abstract_sched (d_state witness_running)) \<and> sp_holder (abstract_sched (d_state witness_running)) \<noteq> None"
proof
  show "spec_step\<^sup>*\<^sup>* spec_init (abstract_sched (d_state witness_running))"
    using dispatch_refines_contract [OF reachable_witness_running] by blast
  have "owners witness_running \<noteq> []" by (simp add: witness_running_def owners_def)
  then show "sp_holder (abstract_sched (d_state witness_running)) \<noteq> None"
    using reachable_slot_inv [OF reachable_witness_running] by (auto simp: slot_inv_def abstract_sched_def)
qed

text \<open>C32: the job table keeps its type. In every reachable state no identifier occurs twice, every entry is stored under
  its own identifier, and so looking a listed job up gives that job.\<close>

theorem job_table_well_typed:
  assumes "reachable c q d"
  shows "distinct (map fst (s_jobs (d_state d))) \<and>
    (\<forall>i j. get_job i (d_state d) = Some j \<longrightarrow> j_id j = i) \<and>
    (\<forall>j. j \<in> set (get_all_jobs (d_state d)) \<longleftrightarrow> get_job (j_id j) (d_state d) = Some j)"
proof (intro conjI)
  have wf: "sched_wf (d_state d)" using reachable_sched_inv [OF assms] by (simp add: sched_inv_def)
  then show dist: "distinct (map fst (s_jobs (d_state d)))" by (simp add: sched_wf_def hm_wf_def)
  show ids: "\<forall>i j. get_job i (d_state d) = Some j \<longrightarrow> j_id j = i" using wf by (simp add: sched_wf_def get_job_def)
  show "\<forall>j. j \<in> set (get_all_jobs (d_state d)) \<longleftrightarrow> get_job (j_id j) (d_state d) = Some j"
  proof
    fix j
    have "j \<in> set (get_all_jobs (d_state d)) \<longleftrightarrow> (\<exists>i. (i, j) \<in> set (s_jobs (d_state d)))"
      by (force simp: get_all_jobs_def image_iff)
    also have "\<dots> \<longleftrightarrow> (\<exists>i. get_job i (d_state d) = Some j)" using dist by (simp add: get_job_def)
    also have "\<dots> \<longleftrightarrow> get_job (j_id j) (d_state d) = Some j" using ids by blast
    finally show "j \<in> set (get_all_jobs (d_state d)) \<longleftrightarrow> get_job (j_id j) (d_state d) = Some j" .
  qed
qed

theorem job_table_well_typed_witness: "distinct (map fst (s_jobs (d_state witness_running)))"
  using job_table_well_typed [OF reachable_witness_running] by blast

end
