(* ===== verification/Live.thy ===== *)
theory Live imports Server Settlement Refinement begin

text \<open>
  The running agent as one system: the server of theory \<open>Server\<close>, whose handlers share the scheduler with the tasks they
  spawned, and the dispatch system of theory \<open>Dispatch\<close>, whose callers, watchdogs and closures those tasks are. The first
  lemmas show that everything a handler or a task does to the scheduler is a sequence of the steps the dispatch
  system knows; so what holds of its reachable states holds of the agent, whatever requests arrive.
\<close>

section \<open>Handlers take steps of the dispatch system\<close>

lemma admitted_step: "admit_job now i b oper ps s = Inr (k, s1) \<Longrightarrow> get_job i s = None \<Longrightarrow> api_step\<^sup>*\<^sup>* s s1"
  using api_step.api_admit [of i s now b oper ps] by auto

lemma reserved_su_step:
  "try_reserve_self_update now i b ps f t s = Inr (k, s1) \<Longrightarrow> get_job i s = None \<Longrightarrow> api_step\<^sup>*\<^sup>* s s1"
  using api_step.api_reserve_su [of i s now b ps f t] by auto

lemma reserved_rb_step:
  "reserve_reboot now i b force ack s = Inr (k, s1) \<Longrightarrow> get_job i s = None \<Longrightarrow> api_step\<^sup>*\<^sup>* s s1"
  using api_step.api_reserve_rb [of i s now b force ack] by auto

lemma admit_and_spawn_steps:
  "get_job i s = None \<Longrightarrow> api_step\<^sup>*\<^sup>* s (fst (snd (admit_and_spawn dbg now i b oper ps cl op l p s)))"
  by (auto simp: admit_and_spawn_def split: sum.split intro: admitted_step)

lemma background_refresh_steps: "get_job i s = None \<Longrightarrow> api_step\<^sup>*\<^sup>* s (snd (background_refresh tag now i b be s))"
  by (auto simp: background_refresh_def split: sum.split intro: admitted_step)

lemma h_install_steps: "get_job i s = None \<Longrightarrow> api_step\<^sup>*\<^sup>* s (fst (snd (h_install_packages dbg now i b be req s)))"
  by (simp add: h_install_packages_def Let_def admit_and_spawn_steps split: sum.split)

lemma h_update_steps: "get_job i s = None \<Longrightarrow> api_step\<^sup>*\<^sup>* s (fst (snd (h_update_package dbg now i b be name s)))"
  by (auto simp: h_update_package_def admit_and_spawn_steps drop_self_update_guard_def split: sum.split
      intro: reserved_su_step)

lemma h_remove_steps: "get_job i s = None \<Longrightarrow> api_step\<^sup>*\<^sup>* s (fst (snd (h_remove_package dbg now i b be name s)))"
  by (simp add: h_remove_package_def admit_and_spawn_steps split: sum.split)

lemma h_apply_steps:
  "get_job i s = None \<Longrightarrow> api_step\<^sup>*\<^sup>* s (fst (snd (h_apply_patches dbg now i rid b be req s)))"
  by (auto simp: h_apply_patches_def split: sum.split intro: admitted_step)

lemma h_list_patches_steps:
  "get_job i s = None \<Longrightarrow> api_step\<^sup>*\<^sup>* s (fst (snd (fst (h_list_patches now n i b be cache s w))))"
  using background_refresh_steps [of i s "''__patch_list_refresh__''" now b be]
  by (auto simp: h_list_patches_def Let_def split: prod.split)

lemma h_health_steps: "get_job i s = None \<Longrightarrow> api_step\<^sup>*\<^sup>* s (fst (snd (h_health_check pf rfc now i b be hi seen s)))"
  using background_refresh_steps [of i s "''__health_refresh__''" now b be]
  by (auto simp: h_health_check_def Let_def split: prod.split)

lemma h_reboot_steps: "get_job i s = None \<Longrightarrow> api_step\<^sup>*\<^sup>* s (fst (snd (h_reboot_system idt rfc add now i b req s)))"
  by (auto simp: h_reboot_system_def admit_reboot_def bind_res_def drop_reboot_guard_def split: sum.split
      intro: reserved_rb_step)

lemma h_rollback_steps: "get_job k s = None \<Longrightarrow> api_step\<^sup>*\<^sup>* s (fst (snd (h_rollback_job pu idt now k b t s)))"
proof (cases "pu t")
  case (Some i)
  assume "get_job k s = None"
  from api_step.api_rollback_job [OF this, of now b i] Some show ?thesis
    by (cases "create_rollback_job now k b i s") (auto simp: h_rollback_job_def split: option.split)
qed (simp add: h_rollback_job_def)

lemma h_delete_steps: "api_step\<^sup>*\<^sup>* s (snd (h_delete_job pu t s))"
proof (cases "pu t")
  case (Some i)
  with api_step.api_delete [of s i] show ?thesis
    by (cases "delete_job i s") (auto simp: h_delete_job_def split: option.split bool.split)
qed (simp add: h_delete_job_def)

lemma as_scheduler_spawned: "as_scheduler (snd (spawned mk out a)) = fst (snd out)"
  by (simp add: spawned_def split: prod.split)

lemma endpoint_steps:
  assumes "get_job (ri_new_id ri) (as_scheduler a) = None"
  shows "api_step\<^sup>*\<^sup>* (as_scheduler a) (as_scheduler (snd (run_endpoint env be ri req e v a)))"
  using assms
  by (cases e) (auto simp: with_extractor_def as_scheduler_spawned read_world_def Let_def case_prod_unfold
      h_install_steps h_update_steps h_remove_steps h_apply_steps h_list_patches_steps h_health_steps h_reboot_steps
      h_rollback_steps h_delete_steps split: option.split)

lemma serve_request_steps:
  assumes "get_job (ri_new_id ri) (as_scheduler (sv_app s)) = None"
  shows "api_step\<^sup>*\<^sup>* (as_scheduler (sv_app s))
    (as_scheduler (sv_app (snd (serve_request check_key entries env be ri req s))))"
proof -
  let ?h = "api_handler env be ri" and ?r = "serve_request check_key entries env be ri req s"
  have handled: "api_step\<^sup>*\<^sup>* (as_scheduler (sv_app s)) (as_scheduler (sv_app (snd (?h req s1))))" if "sv_app s1 = sv_app s" for s1
    using assms endpoint_steps [of ri "sv_app s" env be req] that
    by (auto simp: api_handler_def case_prod_unfold Let_def split: option.split)
  from app_service_cases [of s check_key entries ?h req] consider
    (handled) s1 where "sv_app s1 = sv_app s" "?r = ?h req s1" | (refused) "sv_app (snd ?r) = sv_app s"
    unfolding serve_request_def by blast
  then show ?thesis using handled by cases auto
qed

lemma exchange_steps:
  assumes "exchange handshake now hello check_key env ri k req srv = Some (out, srv')"
    and "get_job (ri_new_id ri) (as_scheduler (rn_app srv)) = None"
  shows "api_step\<^sup>*\<^sup>* (as_scheduler (rn_app srv)) (as_scheduler (rn_app srv'))"
proof -
  obtain limiters where "rn_app srv' = sv_app (snd (serve_request check_key (rn_entries srv) env (rn_backend srv) ri req
      \<lparr>sv_limiters = limiters, sv_app = rn_app srv\<rparr>))"
    using exchange_serves [OF assms(1)] by (metis snd_conv)
  then show ?thesis using serve_request_steps [of ri "\<lparr>sv_limiters = limiters, sv_app = rn_app srv\<rparr>"] assms(2) by simp
qed

section \<open>The agent\<close>

text \<open>A state is the dispatch system beside the server. A request gets an identifier no job has; the refresh and the check of the
  revocation list do not touch the scheduler; a task, a caller, a watchdog or a cancellation takes a step of the
  dispatch system, and may do anything to the rest of the shared state.\<close>

type_synonym ('key, 'w, 'g) live = "dispatch_sys \<times> ('key, 'w, 'g) running"

inductive live_step ::
    "('sig, 'pub) x509 \<Rightarrow> (client_verifier \<Rightarrow> int \<Rightarrow> client_hello \<Rightarrow> bool) \<Rightarrow> ('g \<Rightarrow> ip_addr \<Rightarrow> nat option \<times> 'g)
     \<Rightarrow> ('key, 'w, 'g) live \<Rightarrow> ('key, 'w, 'g) live \<Rightarrow> bool"
  for x handshake check_key where
  live_request: "exchange handshake now hello check_key env ri k req srv = Some (out, srv') \<Longrightarrow>
     get_job (ri_new_id ri) (as_scheduler (rn_app srv)) = None \<Longrightarrow>
     live_step x handshake check_key (d, srv) (d\<lparr>d_state := as_scheduler (rn_app srv')\<rparr>, srv')"
| live_refresh: "live_step x handshake check_key (d, srv) (d, srv\<lparr>rn_crl := snd (refresh_crl x now fetch wr ca (rn_crl srv))\<rparr>)"
| live_recheck: "live_step x handshake check_key (d, srv) (d, srv\<lparr>rn_crl := crl_health_step x now ca (rn_crl srv)\<rparr>)"
| live_task: "sys_step d d' \<Longrightarrow> as_scheduler app = d_state d' \<Longrightarrow>
     live_step x handshake check_key (d, srv) (d', srv\<lparr>rn_app := app\<rparr>)"

text \<open>The moment \<open>main\<close> has opened the socket: nobody waits for the slot and nobody has it.\<close>

definition idle_sys :: "scheduler_state \<Rightarrow> dispatch_sys" where
  "idle_sys s = \<lparr>d_state = s, d_callers = [], d_acquired = [], d_tasks = [], d_detached = [], d_abandoned = []\<rparr>"

inductive live_run ::
    "('sig, 'pub) x509 \<Rightarrow> (client_verifier \<Rightarrow> int \<Rightarrow> client_hello \<Rightarrow> bool) \<Rightarrow> ('g \<Rightarrow> ip_addr \<Rightarrow> nat option \<times> 'g)
     \<Rightarrow> ('key, 'w, 'g) running \<Rightarrow> ('key, 'w, 'g) live \<Rightarrow> bool"
  for x handshake check_key srv where
  live_start: "live_run x handshake check_key srv (idle_sys (as_scheduler (rn_app srv)), srv)"
| live_more: "live_run x handshake check_key srv l \<Longrightarrow> live_step x handshake check_key l l' \<Longrightarrow>
     live_run x handshake check_key srv l'"

inductive_cases live_stepE: "live_step x handshake check_key l l'"

section \<open>Its runs are runs of the dispatch system and of the server\<close>

lemma sys_steps_api:
  assumes "api_step\<^sup>*\<^sup>* (d_state d) s'"
  shows "sys_step\<^sup>*\<^sup>* d (d\<lparr>d_state := s'\<rparr>)"
  using assms
proof (induction rule: rtranclp_induct)
  case (step s1 s2)
  have "sys_step (d\<lparr>d_state := s1\<rparr>) (d\<lparr>d_state := s2\<rparr>)" using sys_step.sys_api [of "d\<lparr>d_state := s1\<rparr>" s2] step(2) by simp
  with step(3) show ?case by simp
qed simp

lemma reachable_steps: "sys_step\<^sup>*\<^sup>* d d' \<Longrightarrow> reachable c q d \<Longrightarrow> reachable c q d'"
  by (induction rule: rtranclp_induct) (blast intro: reach_step)+

lemma live_step_sim:
  assumes "live_step x hs ck l l'" "d_state (fst l) = as_scheduler (rn_app (snd l))"
  shows "sys_step\<^sup>*\<^sup>* (fst l) (fst l') \<and> d_state (fst l') = as_scheduler (rn_app (snd l')) \<and> server_step x hs ck (snd l) (snd l')"
  using assms(1)
proof (cases rule: live_step.cases)
  case (live_request now hello env ri k req srv out srv' d)
  then show ?thesis
    using exchange_steps [OF live_request(3,4)] sys_steps_api [of d] assms(2) by (auto intro: server_step.Request)
qed (use assms(2) in \<open>auto intro: server_step.intros\<close>)

lemma live_run_sim:
  assumes "live_run x hs ck srv0 l"
  shows "sys_step\<^sup>*\<^sup>* (idle_sys (as_scheduler (rn_app srv0))) (fst l) \<and> d_state (fst l) = as_scheduler (rn_app (snd l)) \<and>
    server_run x hs ck srv0 (snd l)"
  using assms
proof (induction rule: live_run.induct)
  case live_start
  show ?case by (simp add: idle_sys_def server_run.Start)
next
  case (live_more l l')
  with live_step_sim [OF live_more.hyps(2)] show ?case by (auto intro: server_run.More)
qed

text \<open>The scheduler \<open>main\<close> starts with, its history loaded and its orphans recovered, is one the dispatch system reaches.\<close>

lemma booted_reachable: "reachable c q (idle_sys (booted now boot c q js))"
proof -
  let ?old = "filter (\<lambda>j. is_terminal (j_status j)) js"
  have "api_step\<^sup>*\<^sup>* (d_state (init_sys c q)) (booted now boot c q js)"
    unfolding booted_def
    using api_history [of ?old "new_scheduler c q"] api_recover
    by (force simp: init_sys_def intro: converse_rtranclp_into_rtranclp)
  from reachable_steps [OF sys_steps_api [OF this] reach_init] show ?thesis by (simp add: init_sys_def idle_sys_def)
qed

lemma live_reachable:
  assumes "boot_agent bo a s = (Serving srv0, disk, s')" and "live_run x hs ck srv0 (d, srv)"
  shows "reachable (jc_max_concurrent (ac_jobs (rn_config srv))) (jc_max_queue_depth (ac_jobs (rn_config srv))) d \<and>
    d_state d = as_scheduler (rn_app srv)"
proof -
  obtain config s1 where b: "boot_with bo config s1 = (Serving srv0, disk, s')" using boot_agent_Running [OF assms(1)] by blast
  note sim = live_run_sim [OF assms(2), unfolded fst_conv snd_conv]
  have "rn_config srv = config" using sim run_gate [of x hs ck srv0 srv] boot_with_Running(3) [OF b] by (simp add: same_gate_def)
  then show ?thesis using sim boot_with_Running(6) [OF b] reachable_steps booted_reachable by metis
qed

section \<open>Properties\<close>

text \<open>C5: the running agent mutates the host once at a time. However an agent that was booted has run since (requests on
  all workers, tasks, watchdogs, dropped callers and revocation lists, in any order), the mutation slot is held
  exactly while there is one owner, by its job under the current generation; the running jobs are at most as many as the
  configuration file allows, or one; and the scheduler stands for a reachable state of its contract.\<close>

theorem agent_mutations_exclusive:
  assumes "boot_agent bo a s = (Serving srv0, disk, s')"
    and "live_run (bo_x509 bo) handshake check_key srv0 (d, srv)"
  shows "length (owners d) \<le> 1 \<and>
    (s_active_mutation (as_scheduler (rn_app srv)) = None \<longleftrightarrow> owners d = []) \<and>
    (\<forall>t \<in> set (owners d). s_active_mutation (as_scheduler (rn_app srv)) = Some (mt_job t) \<and>
       s_mutation_generation (as_scheduler (rn_app srv)) = mt_generation t) \<and>
    running_count (as_scheduler (rn_app srv)) \<le> max (jc_max_concurrent (ac_jobs (rn_config srv))) 1 \<and>
    spec_step\<^sup>*\<^sup>* spec_init (abstract_sched (as_scheduler (rn_app srv)))"
proof -
  note r = live_reachable [OF assms]
  show ?thesis
    using r reachable_slot_inv [OF conjunct1 [OF r]] reachable_sched_inv [OF conjunct1 [OF r]] reachable_limit [OF conjunct1 [OF r]]
      reachable_refines [OF conjunct1 [OF r]]
    by (auto simp: slot_inv_def sched_inv_def)
qed

lemma demo_starts:
  "dispatch_try 1 7 (new_scheduler c q) = Started 1 2400 (start_mutation 1 7 (new_scheduler c q))"
  by (simp add: dispatch_try_def start_mutation_def job_already_running_def get_job_def new_scheduler_def running_count_def
      hm_modify_def CACHE_REFRESH_TIMEOUT_def PACKAGE_OP_TIMEOUT_def Let_def)

theorem agent_mutations_exclusive_witness:
  "\<exists>srv0 disk s' d srv. boot_agent demo_boot serve_args demo_store = (Serving srv0, disk, s') \<and>
     live_run demo_x509 demo_handshake (\<lambda>g ip. (None, g)) srv0 (d, srv) \<and> owners d \<noteq> [] \<and>
     s_active_mutation (as_scheduler (rn_app srv)) = Some 7"
proof -
  let ?run = "live_run demo_x509 demo_handshake (\<lambda>g ip. (None, g))" and ?t = "\<lparr>mt_job = 7, mt_generation = 1, mt_backstop = 2400\<rparr>"
  obtain srv0 disk s' where b: "boot_agent demo_boot serve_args demo_store = (Serving srv0, disk, s')" using demo_boots by blast
  then have w: "boot_with demo_boot sample_config demo_ready = (Serving srv0, disk, s')" by (simp add: boot_agent_def demo_decided)
  obtain c q where idle: "as_scheduler (rn_app srv0) = new_scheduler c q" using boot_with_Running(6) [OF w] by (simp add: demo_idle)
  let ?s1 = "start_mutation 1 7 (new_scheduler c q)"
  let ?d0 = "idle_sys (new_scheduler c q)" and ?d2 = "(idle_sys ?s1)\<lparr>d_acquired := [?t]\<rparr>"
  let ?srv = "srv0\<lparr>rn_app := (rn_app srv0)\<lparr>as_scheduler := ?s1\<rparr>\<rparr>"
  have "?run srv0 (?d0, srv0)" using live_start [of demo_x509 demo_handshake "\<lambda>g ip. (None, g)" srv0] idle by simp
  from live_more [OF this live_task [OF sys_call [of ?d0 7], of "rn_app srv0"]]
  have called: "?run srv0 (?d0\<lparr>d_callers := [7]\<rparr>, srv0)" by (simp add: idle idle_sys_def)
  have "sys_step (?d0\<lparr>d_callers := [7]\<rparr>) ?d2"
    using sys_start [of 7 "?d0\<lparr>d_callers := [7]\<rparr>" 1 1 2400 ?s1] demo_starts by (simp add: idle_sys_def)
  from live_more [OF called live_task [OF this, of "(rn_app srv0)\<lparr>as_scheduler := ?s1\<rparr>"]]
  have run: "?run srv0 (?d2, ?srv)" by (simp add: idle_sys_def)
  have own: "owners ?d2 = [?t]" by (simp add: owners_def idle_sys_def)
  from agent_mutations_exclusive [OF b run [folded demo_boot_fields(1)]] own
  have "s_active_mutation (as_scheduler (rn_app ?srv)) = Some 7" by auto
  with b run own show ?thesis by (intro exI [of _ srv0] exI [of _ disk] exI [of _ s'] exI [of _ ?d2] exI [of _ ?srv]) simp
qed

end
