(* ===== verification/Logging.thy ===== *)
theory Logging imports Startup begin

text \<open>
  \<open>src/logging/init.rs\<close>: the subscriber that \<open>main\<close> installs before anything else. A layer is the list of settings
  given to the builder of \<open>tracing_subscriber::fmt\<close>; what a setting does is the crate's. The directives of
  \<open>RUST_LOG\<close>, as the crate parsed them, and whether the log file could be opened are arguments.
\<close>

section \<open>Definitions\<close>

datatype log_filter = Directives string | LevelFilter string

datatype log_writer = RollingDaily string string | Stdout

datatype layer_setting =
    WithWriter log_writer
  | WithAnsi bool
  | WithTarget bool
  | WithThreadIds bool
  | JsonFormat

record subscriber =
  su_filter :: log_filter
  su_layers :: "layer_setting list list"

definition log_file_writer :: log_writer where
  "log_file_writer = RollingDaily ''/var/log/linux_patch_api'' ''audit.log''"

definition log_level :: "bool \<Rightarrow> string" where
  "log_level verbose = (if verbose then ''debug'' else ''info'')"

definition log_filter_for :: "bool \<Rightarrow> (string, string) result \<Rightarrow> log_filter" where
  "log_filter_for verbose default_env =
     (case default_env of Inr d \<Rightarrow> Directives d | Inl _ \<Rightarrow> LevelFilter (log_level verbose))"

definition file_layer :: "layer_setting list" where
  "file_layer = [WithWriter log_file_writer, WithAnsi False, WithTarget True, WithThreadIds True]"

definition stdout_layer :: "layer_setting list" where
  "stdout_layer = [WithWriter Stdout, WithAnsi True]"

text \<open>\<open>try_init().ok()\<close>: the first subscriber of the process stays. The result is the guard of the writer that
  writes in the background, or \<open>None\<close> where \<open>rolling::daily\<close> panics because it cannot open the file.\<close>

definition try_init :: "subscriber \<Rightarrow> subscriber option \<Rightarrow> subscriber option" where
  "try_init s global = (case global of None \<Rightarrow> Some s | Some g \<Rightarrow> Some g)"

definition init_logging ::
    "bool \<Rightarrow> (string, string) result \<Rightarrow> bool \<Rightarrow> subscriber option \<Rightarrow> (log_writer \<times> subscriber option) option" where
  "init_logging verbose default_env opens global =
     (if opens
      then Some (log_file_writer,
             try_init \<lparr>su_filter = log_filter_for verbose default_env, su_layers = [file_layer, stdout_layer]\<rparr> global)
      else None)"

text \<open>The first lines of \<open>main\<close>: without the log there is no agent; with it the arguments decide. The configuration is read
  only then, so its section on logging has no part in this.\<close>

definition main_begins ::
    "(string, 'key) start_env \<Rightarrow> (string, string) result \<Rightarrow> bool \<Rightarrow> args \<Rightarrow> fs
     \<Rightarrow> (subscriber option \<times> start_decision \<times> fs) option" where
  "main_begins se default_env opens a s =
     map_option (\<lambda>(_, global). (global, decide_start se a s)) (init_logging (ag_verbose a) default_env opens None)"

section \<open>Lemmas\<close>

lemma init_logging_again:
  "init_logging v e opens None = Some (g, global) \<Longrightarrow> init_logging v' e' True global = Some (g, global)"
  by (auto simp: init_logging_def try_init_def split: if_splits)

lemma verbose_needs_no_directives:
  "log_filter_for v (Ok d) = log_filter_for v' (Ok d)" "log_filter_for v (Err e) = log_filter_for v' (Err e) \<longleftrightarrow> v = v'"
  by (simp_all add: log_filter_for_def log_level_def)

text \<open>The comments promise lines in JSON and the systemd journal; both layers keep the text format, and the writers are the file and
  the standard output.\<close>

lemma installed_layers:
  assumes "main_begins se default_env opens a s = Some (global, d)"
  shows "\<exists>sub. global = Some sub \<and> d = decide_start se a s \<and>
    su_filter sub = log_filter_for (ag_verbose a) default_env \<and>
    (\<forall>l \<in> set (su_layers sub). JsonFormat \<notin> set l) \<and>
    {w. \<exists>l \<in> set (su_layers sub). WithWriter w \<in> set l} = {log_file_writer, Stdout}"
  using assms
  by (auto simp: main_begins_def init_logging_def try_init_def file_layer_def stdout_layer_def split: if_splits)

lemma main_begins_iff: "main_begins se default_env opens a s \<noteq> None \<longleftrightarrow> opens"
  by (simp add: main_begins_def init_logging_def)

end
