(* ===== verification/Child.thy ===== *)
theory Child imports Runner begin

text \<open>
  \<open>SystemCommandRunner\<close> of \<open>src/packages/coordinator.rs\<close> in time: waiting for a child with a deadline, killing its
  process group, reaping it, collecting what its pipes still hold, and the thread that bridges to the asynchronous
  code. A child is given by when and how it would end; theory \<open>Runner\<close> abstracts it to a \<open>child_fate\<close>, and the
  theorem here shows that the abstraction is right and that a deadline really bounds the wait. Times are milliseconds.
\<close>

section \<open>A child process\<close>

datatype wait_end = WExit "i32 option" | WError string

text \<open>\<open>cd_end\<close>: how the child ends when it is left alone, \<open>cd_term\<close>: after SIGTERM, counted from the signal,
  \<open>cd_reap\<close>: when it is waited for again, counted from then; \<open>None\<close> is never. A pipe reaches its end some
  time after the child has ended.\<close>

record child =
  cd_spawn_error :: "string option"
  cd_end :: "(nat \<times> wait_end) option"
  cd_term :: "(nat \<times> wait_end) option"
  cd_reap :: "(nat \<times> wait_end) option"
  cd_stdout :: "nat option \<times> string"
  cd_stderr :: "nat option \<times> string"

text \<open>\<open>tokio::time::timeout\<close>: the value, if it comes in time, and the time spent.\<close>

definition timed :: "nat \<Rightarrow> (nat \<times> 'a) option \<Rightarrow> 'a option \<times> nat" where
  "timed bound e =
     (case e of Some (t, a) \<Rightarrow> if t \<le> bound then (Some a, t) else (None, bound) | None \<Rightarrow> (None, bound))"

text \<open>\<open>start\<close>: how long the pipe has already been drained; the result comes with the time when it is collected.\<close>

definition collect_drain :: "nat \<Rightarrow> nat \<Rightarrow> nat option \<times> string \<Rightarrow> string \<times> nat" where
  "collect_drain start bound pipe =
     (case fst pipe of
        Some t \<Rightarrow> if t \<le> start + bound then (snd pipe, max start t) else ([], start + bound)
      | None \<Rightarrow> ([], start + bound))"

definition collect_both :: "nat \<Rightarrow> child \<Rightarrow> string \<times> string \<times> nat" where
  "collect_both bound c =
     (let (out, t1) = collect_drain 0 bound (cd_stdout c);
          (err, t2) = collect_drain t1 bound (cd_stderr c)
      in (out, err, t2))"

text \<open>SIGTERM to the group, five seconds of grace, then SIGKILL.\<close>

definition kill_child :: "child \<Rightarrow> i32 option option \<times> nat" where
  "kill_child c =
     (case timed 5000 (cd_term c) of
        (Some (WExit code), t) \<Rightarrow> (Some code, t)
      | (Some (WError e), t) \<Rightarrow> (None, t)
      | (None, t) \<Rightarrow> (None, t))"

definition kill_and_reap :: "child \<Rightarrow> i32 option \<times> nat" where
  "kill_and_reap c =
     (case kill_child c of
        (Some code, t) \<Rightarrow> (code, t)
      | (None, t) \<Rightarrow>
          (case timed 5000 (cd_reap c) of
             (Some (WExit code), t1) \<Rightarrow> (code, t + t1)
           | (_, t1) \<Rightarrow> (None, t + t1)))"

text \<open>The result with the time it takes; \<open>None\<close>: it never returns.\<close>

definition run_child ::
    "string \<Rightarrow> string list \<Rightarrow> nat option \<Rightarrow> child \<Rightarrow> ((anyhow, command_output) result \<times> nat) option" where
  "run_child program args timeout c =
     (let spawn_error = (\<lambda>e. Err (add_context (''Failed to execute '' @ program)
                              (anyhow_new (from_spawn_error program args e))));
          wait_error = (\<lambda>e. Err (add_context (''Failed to wait on '' @ program)
                              (anyhow_new (from_spawn_error program args e))));
          finish = (\<lambda>code t. let (out, err, t1) = collect_both 5000 c
                             in (if code \<noteq> Some 0 then Err (exit_error program args code out err)
                                 else Ok \<lparr>co_status_code = code, co_stdout = out, co_stderr = err, co_timed_out = False\<rparr>,
                                 t + t1))
      in case cd_spawn_error c of
        Some e \<Rightarrow> Some (spawn_error e, 0)
      | None \<Rightarrow>
          (case timeout of
             Some secs \<Rightarrow>
               Some (case timed (secs * 1000) (cd_end c) of
                  (Some (WExit code), t) \<Rightarrow> finish code t
                | (Some (WError e), t) \<Rightarrow> (wait_error e, t)
                | (None, t) \<Rightarrow>
                    (let (reaped_code, t1) = kill_and_reap c;
                         (out, err, t2) = collect_both 2000 c;
                         msg = program @ '' timed out after '' @ show_nat secs @ ''s''
                     in (Err (add_context msg
                           (anyhow_new \<lparr>ce_program = program, ce_args = args, ce_exit_code = reaped_code,
                              ce_stdout = out, ce_stderr = (if err = [] then msg else err),
                              ce_spawn_error = None, ce_timed_out = True\<rparr>)), t + t1 + t2)))
           | None \<Rightarrow>
               (case cd_end c of
                  None \<Rightarrow> None
                | Some (t, WExit code) \<Rightarrow> Some (finish code t)
                | Some (t, WError e) \<Rightarrow> Some (wait_error e, t))))"

text \<open>The bridge from synchronous code: inside a runtime a thread with its own runtime does the work.\<close>

datatype bridge = Bridged | RuntimeFails string | ThreadLost string

definition block_on_async ::
    "bool \<Rightarrow> bridge \<Rightarrow> string \<Rightarrow> string list \<Rightarrow> nat option \<Rightarrow> child \<Rightarrow> ((anyhow, command_output) result \<times> nat) option" where
  "block_on_async in_runtime b program args timeout c =
     (case b of
        RuntimeFails e \<Rightarrow> Some (Err (anyhow_msg (''failed to create tokio runtime: '' @ e)), 0)
      | ThreadLost e \<Rightarrow>
          if in_runtime then Some (Err (anyhow_msg (''command thread panicked or was cancelled: '' @ e)), 0)
          else run_child program args timeout c
      | Bridged \<Rightarrow> run_child program args timeout c)"

section \<open>The abstraction\<close>

definition fate_of :: "nat option \<Rightarrow> child \<Rightarrow> child_fate" where
  "fate_of timeout c =
     (case cd_spawn_error c of
        Some e \<Rightarrow> SpawnFailed e
      | None \<Rightarrow>
          (let ended = (case timeout of Some secs \<Rightarrow> fst (timed (secs * 1000) (cd_end c)) | None \<Rightarrow> map_option snd (cd_end c))
           in case ended of
             Some (WExit code) \<Rightarrow> (let (out, err, _) = collect_both 5000 c in Exited code out err)
           | Some (WError e) \<Rightarrow> WaitFailed e
           | None \<Rightarrow> (let (out, err, _) = collect_both 2000 c in Overran (fst (kill_and_reap c)) out err)))"

section \<open>Lemmas\<close>

lemma timed_bound: "snd (timed b e) \<le> b"
  by (auto simp: timed_def split: option.splits)

lemma collect_drain_bound: "snd (collect_drain s b p) \<le> s + b"
  by (auto simp: collect_drain_def split: option.splits)

lemma collect_both_bound: "snd (snd (collect_both b c)) \<le> 2 * b"
proof -
  obtain out t1 where 1: "collect_drain 0 b (cd_stdout c) = (out, t1)" by fastforce
  obtain err t2 where 2: "collect_drain t1 b (cd_stderr c) = (err, t2)" by fastforce
  have "t1 \<le> b" "t2 \<le> t1 + b"
    using collect_drain_bound [of 0 b "cd_stdout c"] collect_drain_bound [of t1 b "cd_stderr c"] 1 2 by simp_all
  then show ?thesis by (simp add: collect_both_def 1 2)
qed

lemma kill_and_reap_bound: "snd (kill_and_reap c) \<le> 10000"
proof -
  have "snd (kill_child c) \<le> 5000"
    using timed_bound [of 5000 "cd_term c"] by (auto simp: kill_child_def split: option.splits wait_end.splits prod.splits)
  then show ?thesis
    using timed_bound [of 5000 "cd_reap c"]
    by (auto simp: kill_and_reap_def split: option.splits wait_end.splits prod.splits)
qed

lemma run_child_fate:
  assumes "run_child program args timeout c = Some (r, t)"
  shows "r = run_async program args timeout (fate_of timeout c)"
  using assms
  by (auto simp: run_child_def run_async_def fate_of_def exited_result_def Let_def
      split: option.splits prod.splits wait_end.splits if_splits)

section \<open>Properties\<close>

text \<open>C12: a deadline bounds the wait. Whatever the child does, ignores SIGTERM, keeps its pipes open, is never reaped, a
  command with a deadline returns at most 14 seconds after it, with the result that the abstract runner gives for
  the child's fate. Without a deadline the call never returns exactly when the child was started and never ends.\<close>

theorem command_deadline_holds:
  "(\<exists>r t. run_child program args (Some secs) c = Some (r, t) \<and> t \<le> secs * 1000 + 14000 \<and>
      r = run_async program args (Some secs) (fate_of (Some secs) c)) \<and>
   (run_child program args None c = None \<longleftrightarrow> cd_spawn_error c = None \<and> cd_end c = None)"
proof
  have "\<exists>r t. run_child program args (Some secs) c = Some (r, t) \<and> t \<le> secs * 1000 + 14000"
    using timed_bound [of "secs * 1000" "cd_end c"] collect_both_bound [of 5000 c] collect_both_bound [of 2000 c]
      kill_and_reap_bound [of c]
    by (auto simp: run_child_def Let_def split: option.splits prod.splits wait_end.splits)
  then show "\<exists>r t. run_child program args (Some secs) c = Some (r, t) \<and> t \<le> secs * 1000 + 14000 \<and>
      r = run_async program args (Some secs) (fate_of (Some secs) c)"
    using run_child_fate by blast
  show "run_child program args None c = None \<longleftrightarrow> cd_spawn_error c = None \<and> cd_end c = None"
    by (auto simp: run_child_def Let_def split: option.splits wait_end.splits)
qed

end
