(* ===== verification/Test_Utils.thy ===== *)
theory Test_Utils imports Admission begin

text \<open>
  The older ways into the mutation slot in \<open>src/jobs/scheduler.rs\<close>, compiled for tests and the feature \<open>test-utils\<close> only:
  \<open>run_mutation\<close>, \<open>try_run_mutation\<close>, \<open>start_job\<close> and \<open>wait_and_start_job\<close>. Each locked section is one definition; a closure
  that never returns is the outcome \<open>None\<close>. The lemmas compare them with \<open>dispatch_mutation\<close>.
\<close>

section \<open>The slot\<close>

datatype try_mutation_error = Busy | TryFailed anyhow

fun try_mutation_error_text :: "try_mutation_error \<Rightarrow> string" where
  "try_mutation_error_text Busy = ''A package-DB mutation is already in progress''"
| "try_mutation_error_text (TryFailed e) = ''Mutation failed: '' @ error_to_string e"

definition run_mutation_enter :: "uuid \<Rightarrow> scheduler_state \<Rightarrow> (anyhow, scheduler_state) result" where
  "run_mutation_enter i s =
     (if s_admission s = Frozen then Err (anyhow_msg ''Mutation admission frozen -- shutdown in progress'')
      else if s_admission s = Recovery then Err (anyhow_msg ''Mutation rejected -- system in recovery mode'')
      else if s_active_mutation s \<noteq> None then Err (anyhow_msg ''A package-DB mutation is already in progress'')
      else Ok (s\<lparr>s_active_mutation := Some i\<rparr>))"

definition try_run_mutation_enter :: "uuid \<Rightarrow> scheduler_state \<Rightarrow> (try_mutation_error, scheduler_state) result" where
  "try_run_mutation_enter i s =
     (if s_admission s \<noteq> Open then Err Busy
      else if s_active_mutation s \<noteq> None then Err Busy
      else if s_self_update s \<noteq> None then Err Busy
      else if s_reboot_pending s \<noteq> None then Err Busy
      else Ok (s\<lparr>s_active_mutation := Some i\<rparr>))"

text \<open>The end of the spawned task: the slot is cleared, whoever holds it by then.\<close>

definition leave_slot :: "scheduler_state \<Rightarrow> scheduler_state" where
  "leave_slot s = notify_one (s\<lparr>s_active_mutation := None\<rparr>)"

definition joined :: "string \<Rightarrow> (string, (anyhow, unit) result) result \<Rightarrow> (anyhow, unit) result" where
  "joined what out = (case out of Inr inner \<Rightarrow> inner | Inl p \<Rightarrow> Err (anyhow_msg (what @ '' panicked: '' @ p)))"

text \<open>Called from its start to its end; \<open>meanwhile\<close> is what the other tasks do while the closure runs. \<open>None\<close>: it never returns.\<close>

definition test_run_mutation ::
    "(scheduler_state \<Rightarrow> scheduler_state) \<Rightarrow> uuid \<Rightarrow> (string, (anyhow, unit) result) result option \<Rightarrow> scheduler_state
     \<Rightarrow> ((anyhow, unit) result \<times> scheduler_state) option" where
  "test_run_mutation meanwhile i out s =
     (case run_mutation_enter i s of
        Inl e \<Rightarrow> Some (Err e, s)
      | Inr s1 \<Rightarrow> map_option (\<lambda>r. (joined ''Mutation task'' r, leave_slot (meanwhile s1))) out)"

definition try_run_mutation ::
    "(scheduler_state \<Rightarrow> scheduler_state) \<Rightarrow> uuid \<Rightarrow> (string, (anyhow, unit) result) result option \<Rightarrow> scheduler_state
     \<Rightarrow> ((try_mutation_error, unit) result \<times> scheduler_state) option" where
  "try_run_mutation meanwhile i out s =
     (case try_run_mutation_enter i s of
        Inl e \<Rightarrow> Some (Err e, s)
      | Inr s1 \<Rightarrow> map_option (\<lambda>r. (case joined ''Task'' r of Inl e \<Rightarrow> Err (TryFailed e) | Inr v \<Rightarrow> Ok v,
                                    leave_slot (meanwhile s1))) out)"

section \<open>The running limit\<close>

definition start_job :: "time \<Rightarrow> uuid \<Rightarrow> scheduler_state \<Rightarrow> (string, scheduler_state) result" where
  "start_job now i s =
     (if s_admission s \<noteq> Open
      then Err (''Admission not open (mode='' @ (case s_admission s of Open \<Rightarrow> ''Open'' | Frozen \<Rightarrow> ''Frozen'' | Recovery \<Rightarrow> ''Recovery'')
                @ '') -- job remains pending'')
      else if \<not> job_already_running i s \<and> running_count s \<ge> s_max_concurrent s
      then Err (''max_concurrent limit ('' @ show_nat (s_max_concurrent s) @ '') reached -- job remains pending'')
      else Ok (emit_job now i (modify_job i
             (\<lambda>j. add_log now ''Job started'' (j\<lparr>j_status := Running, j_updated_at := now\<rparr>)) s)))"

text \<open>A loop that tries again at every wake-up, here over the states it wakes up in; \<open>None\<close>: it still waits.\<close>

fun wait_and_start_job :: "time \<Rightarrow> uuid \<Rightarrow> scheduler_state list \<Rightarrow> scheduler_state option" where
  "wait_and_start_job now i [] = None"
| "wait_and_start_job now i (s # woken) =
     (case start_job now i s of Inr s1 \<Rightarrow> Some s1 | Inl _ \<Rightarrow> wait_and_start_job now i woken)"

section \<open>Lemmas\<close>

lemma enters_only_a_free_slot:
  "run_mutation_enter i s = Inr s1 \<Longrightarrow> s_active_mutation s = None \<and> s_admission s = Open"
  "try_run_mutation_enter i s = Inr s1 \<Longrightarrow> s_active_mutation s = None \<and> s_admission s = Open"
  by (cases "s_admission s"; auto simp: run_mutation_enter_def try_run_mutation_enter_def split: if_splits)+

text \<open>\<open>try_run_mutation\<close> respects every gate, \<open>run_mutation\<close> only the admission mode.\<close>

lemma try_enter_gates:
  "is_ok (try_run_mutation_enter i s) \<longleftrightarrow>
     is_ok (run_mutation_enter i s) \<and> s_self_update s = None \<and> s_reboot_pending s = None"
  by (cases "s_admission s") (auto simp: run_mutation_enter_def try_run_mutation_enter_def)

text \<open>\<open>dispatch_mutation\<close> fuses \<open>start_job\<close> and \<open>try_run_mutation\<close>: with no self-update reserved, a turn of its loop starts the
  job exactly when starting the job and then trying the slot both succeed, and the two ways agree on the job's
  status, on the slot and on every other job.\<close>

lemma start_job_fields:
  assumes "start_job now i s = Inr s1"
  shows "s_admission s1 = s_admission s" "s_active_mutation s1 = s_active_mutation s" "s_self_update s1 = s_self_update s"
    "s_reboot_pending s1 = s_reboot_pending s"
    "get_job x s1 = (if x = i then map_option (\<lambda>j. add_log now ''Job started'' (j\<lparr>j_status := Running, j_updated_at := now\<rparr>)) (get_job i s)
                     else get_job x s)"
  using assms by (auto simp: start_job_def split: if_splits)

lemma dispatch_fuses:
  assumes "s_self_update s = None"
  shows "(\<exists>g b s'. dispatch_try now i s = Started g b s') \<longleftrightarrow>
     (\<exists>s1. start_job now i s = Inr s1 \<and> is_ok (try_run_mutation_enter i s1))"
proof
  assume "\<exists>g b s'. dispatch_try now i s = Started g b s'"
  then obtain g b s' where d: "dispatch_try now i s = Started g b s'" by blast
  note d = dispatch_StartedD [OF d]
  then obtain s1 where s1: "start_job now i s = Inr s1" by (fastforce simp: start_job_def)
  show "\<exists>s1. start_job now i s = Inr s1 \<and> is_ok (try_run_mutation_enter i s1)"
    using s1 start_job_fields [OF s1] d assms by (auto simp: try_run_mutation_enter_def)
next
  assume "\<exists>s1. start_job now i s = Inr s1 \<and> is_ok (try_run_mutation_enter i s1)"
  then obtain s1 where s1: "start_job now i s = Inr s1" and t: "is_ok (try_run_mutation_enter i s1)" by blast
  then have "s_admission s = Open" "s_active_mutation s = None" "s_reboot_pending s = None"
    using start_job_fields [OF s1] by (auto simp: try_run_mutation_enter_def split: if_splits)
  moreover have "job_already_running i s \<or> running_count s < s_max_concurrent s"
    using s1 by (auto simp: start_job_def split: if_splits)
  ultimately show "\<exists>g b s'. dispatch_try now i s = Started g b s'"
    using assms by (auto simp: dispatch_try_def Let_def)
qed

lemma fused_agrees:
  assumes d: "dispatch_try now i s = Started g b s'" and s1: "start_job now i s = Inr s1"
    and s2: "try_run_mutation_enter i s1 = Inr s2"
  shows "s_active_mutation s' = s_active_mutation s2"
    "x \<noteq> i \<Longrightarrow> get_job x s' = get_job x s2"
    "map_option j_status (get_job i s') = map_option j_status (get_job i s2)"
proof -
  note s' = dispatch_StartedD(5) [OF d]
  have s2': "s2 = s1\<lparr>s_active_mutation := Some i\<rparr>" using s2 by (auto simp: try_run_mutation_enter_def split: if_splits)
  then have g2: "get_job x s2 = get_job x s1" for x by (simp add: get_job_def)
  show "s_active_mutation s' = s_active_mutation s2" by (simp add: s' s2' start_mutation_fields)
  show "x \<noteq> i \<Longrightarrow> get_job x s' = get_job x s2"
    by (simp add: g2 s' start_job_fields(5) [OF s1] start_mutation_def Let_def)
  show "map_option j_status (get_job i s') = map_option j_status (get_job i s2)"
    by (cases "get_job i s") (auto simp: g2 s' start_job_fields(5) [OF s1] start_mutation_def Let_def job_already_running_def)
qed

text \<open>Waiting ends at the first wake-up that admits the job.\<close>

lemma wait_and_start_iff: "wait_and_start_job now i ss \<noteq> None \<longleftrightarrow> (\<exists>s \<in> set ss. is_ok (start_job now i s))"
  by (induction ss) (auto simp: is_ok_def split: sum.splits)

end
