(* ===== verification/Package_Text.thy ===== *)
theory Package_Text imports Backend begin

text \<open>
  What the APK, DNF, YUM and Pacman backends of \<open>src/packages/mod.rs\<close> share: the test of a queried name,
  the splitting of a package identifier, the patch record made of an available update, and the record of a
  package that is only known by name and version. The code repeats these in every backend.
\<close>

section \<open>Identifiers\<close>

text \<open>Name and version of \<open>name-version\<close>: they are separated at the first hyphen before a digit.\<close>

fun split_ident :: "string \<Rightarrow> string \<Rightarrow> string \<times> string" where
  "split_ident name [] = (rev name, [])"
| "split_ident name (c # s) =
     (if c = CHR ''-'' \<and> s \<noteq> [] \<and> is_digit_c (hd s) then (rev name, s) else split_ident (c # name) s)"

definition parse_name_version :: "string \<Rightarrow> string \<times> string" where
  "parse_name_version ident = split_ident [] ident"

text \<open>The test of \<open>get_package\<close> on the name it is asked for.\<close>

definition bad_query_name :: "string \<Rightarrow> bool" where
  "bad_query_name name =
     (name = [] \<or> CHR ''/'' \<in> set name \<or> str_contains name ''..'' \<or> CHR '' '' \<in> set name)"

definition invalid_name :: "string \<Rightarrow> anyhow" where
  "invalid_name name = anyhow_msg (''Invalid package name: '' @ name)"

section \<open>Records\<close>

definition listed_package :: "string \<times> string \<Rightarrow> package_status \<Rightarrow> string \<Rightarrow> package" where
  "listed_package nv status description =
     \<lparr>p_name = fst nv, p_version = snd nv, p_status = status, p_upgradable = False, p_latest_version = None,
      p_description = description, p_dependencies = [], p_reverse_dependencies = [], p_install_date = None,
      p_size_installed = None\<rparr>"

definition update_patch :: "string \<Rightarrow> string \<Rightarrow> string \<Rightarrow> string \<Rightarrow> patch" where
  "update_patch name current_version available_version description =
     \<lparr>pa_name = name, pa_current_version = current_version, pa_available_version = available_version,
      pa_severity = severity_of name, pa_description = description, pa_cve_ids = [],
      pa_requires_reboot = package_requires_reboot name\<rparr>"

text \<open>The refresh of a package index, in every backend: the command, then the cache is told how it went.\<close>

definition record_refresh ::
    "(anyhow \<Rightarrow> string) \<Rightarrow> int \<Rightarrow> string \<Rightarrow> (anyhow, string) result \<Rightarrow> package_cache_state
     \<Rightarrow> (anyhow, unit) result \<times> package_cache_state" where
  "record_refresh dbg now what r cache =
     (case r of
        Inr _ \<Rightarrow> (Ok (), update_success now cache)
      | Inl e \<Rightarrow> (Err e, update_failure now (what @ '' cache refresh failed: '' @ format_error_for_cache dbg e) cache))"

definition checked_service_status ::
    "(string \<Rightarrow> 'w \<Rightarrow> (anyhow, service_status option) result \<times> 'w) \<Rightarrow> string \<Rightarrow> 'w
     \<Rightarrow> (anyhow, service_status option) result \<times> 'w" where
  "checked_service_status query name w =
     (case validate_service_name name of
        Inl e \<Rightarrow> (Err (anyhow_msg e), w)
      | Inr _ \<Rightarrow> query name w)"

section \<open>Lemmas\<close>

text \<open>A name in which no hyphen is followed by a digit.\<close>

fun no_version :: "string \<Rightarrow> bool" where
  "no_version [] = True"
| "no_version (c # s) = (\<not> (c = CHR ''-'' \<and> s \<noteq> [] \<and> is_digit_c (hd s)) \<and> no_version s)"

lemma not_digit_hyphen [simp]: "\<not> is_digit_c CHR ''-''"
  by (simp add: is_digit_c_def)

lemma split_ident_join:
  assumes "no_version n" and "v \<noteq> []" and "is_digit_c (hd v)"
  shows "split_ident acc (n @ CHR ''-'' # v) = (rev acc @ n, v)"
  using assms(1)
proof (induction n arbitrary: acc)
  case Nil
  then show ?case using assms(2,3) by simp
next
  case (Cons c n)
  then show ?case by (cases n) auto
qed

lemma parse_name_version_join:
  "no_version n \<Longrightarrow> v \<noteq> [] \<Longrightarrow> is_digit_c (hd v) \<Longrightarrow> parse_name_version (n @ CHR ''-'' # v) = (n, v)"
  by (simp add: parse_name_version_def split_ident_join)

lemma split_ident_parts:
  "split_ident acc s = (n, v) \<Longrightarrow>
     (v = [] \<and> n = rev acc @ s \<and> no_version s) \<or>
     (\<exists>m. n = rev acc @ m \<and> s = m @ CHR ''-'' # v \<and> v \<noteq> [] \<and> is_digit_c (hd v) \<and> no_version m)"
proof (induction s arbitrary: acc)
  case (Cons c s)
  show ?case
  proof (cases "c = CHR ''-'' \<and> s \<noteq> [] \<and> is_digit_c (hd s)")
    case False
    then have "split_ident (c # acc) s = (n, v)" using Cons.prems by auto
    from Cons.IH [OF this] show ?thesis
    proof (elim disjE exE conjE)
      fix m
      assume m: "n = rev (c # acc) @ m" "s = m @ CHR ''-'' # v" "v \<noteq> []" "is_digit_c (hd v)" "no_version m"
      have "no_version (c # m)" using False m by (cases m) auto
      then show ?thesis using m by (intro disjI2 exI [of _ "c # m"]) simp
    qed (use False in auto)
  qed (use Cons.prems in auto)
qed simp

lemma split_ident_none: "no_version s \<Longrightarrow> split_ident acc s = (rev acc @ s, [])"
  by (induction s arbitrary: acc) auto

text \<open>What the parser of identifiers does on every text.\<close>

lemma parse_name_version_iff:
  "parse_name_version s = (n, v) \<longleftrightarrow>
     (v = [] \<and> n = s \<and> no_version s) \<or>
     (s = n @ CHR ''-'' # v \<and> v \<noteq> [] \<and> is_digit_c (hd v) \<and> no_version n)"
proof
  assume "parse_name_version s = (n, v)"
  then show "(v = [] \<and> n = s \<and> no_version s) \<or> (s = n @ CHR ''-'' # v \<and> v \<noteq> [] \<and> is_digit_c (hd v) \<and> no_version n)"
    using split_ident_parts [of "[]" s n v] by (simp add: parse_name_version_def)
next
  assume "(v = [] \<and> n = s \<and> no_version s) \<or> (s = n @ CHR ''-'' # v \<and> v \<noteq> [] \<and> is_digit_c (hd v) \<and> no_version n)"
  then show "parse_name_version s = (n, v)"
    using parse_name_version_join [of n v] by (auto simp: parse_name_version_def split_ident_none)
qed

lemma raw_lines_line: "nl \<notin> set l \<Longrightarrow> raw_lines acc (l @ nl # s) = strip_cr (rev acc @ l) # raw_lines [] s"
  by (induction l arbitrary: acc) auto

lemma str_lines_line: "nl \<notin> set l \<Longrightarrow> str_lines (l @ nl # s) = strip_cr l # str_lines s"
  by (simp add: str_lines_def raw_lines_line)

lemma trim_word:
  assumes "s \<noteq> []" and "\<not> is_whitespace (hd s)" and "\<not> is_whitespace (last s)"
  shows "trim s = s"
proof -
  have "trim_start s = s" using assms(1,2) by (cases s) (simp_all add: trim_start_def)
  moreover have "trim_end s = s" using assms(1,3) by (cases s rule: rev_cases) (simp_all add: trim_end_def)
  ultimately show ?thesis by (simp add: trim_def)
qed

lemma record_refresh_fresh:
  "record_refresh dbg now what r c = (r', c') \<Longrightarrow>
     (case r' of Inr _ \<Rightarrow> c' = update_success now c | Inl e \<Rightarrow> \<exists>m. c' = update_failure now m c)"
  by (auto simp: record_refresh_def split: sum.splits)

end
