(* ===== verification/Package_Contract.thy ===== *)
theory Package_Contract imports Package_Text begin

text \<open>
  What a client of a package backend may rely on, as the locale \<open>package_manager\<close>: the words a backend passes
  to the programs it runs, and what a refresh records in the cache. Each backend interprets it on its
  own operations. To speak of the commands a call runs, the runner writes them to a log kept beside the
  state of the machine; the rules \<open>issues\<close> derive them for an operation from its parts.
\<close>

section \<open>The log\<close>

type_synonym 'x logged = "cmd list \<times> 'x"

definition logged :: "'x runner \<Rightarrow> 'x logged runner" where
  "logged run p as t w =
     (let (r, x) = run p as t (snd w) in (r, (fst w @ [(p, as)], x)))"

text \<open>\<open>issues P f\<close>: every command that the operation \<open>f\<close> runs satisfies \<open>P\<close>.\<close>

definition issues :: "(cmd \<Rightarrow> bool) \<Rightarrow> ('x logged \<Rightarrow> 'r \<times> 'x logged) \<Rightarrow> bool" where
  "issues P f \<longleftrightarrow> (\<forall>w. \<exists>new. fst (snd (f w)) = fst w @ new \<and> list_all P new)"

named_theorems issues_intros \<open>rules that derive the commands of an operation from its parts\<close>

lemma issues_return [issues_intros]: "issues P (\<lambda>w. (r, w))"
  by (simp add: issues_def)

lemma issues_logged [issues_intros]: "P (p, as) \<Longrightarrow> issues P (\<lambda>w. logged run p as t w)"
  by (auto simp: issues_def logged_def Let_def split: prod.splits)

lemma issues_bind [issues_intros]:
  assumes "issues P f" and "\<And>r. issues P (g r)"
  shows "issues P (\<lambda>w. case f w of (r, w1) \<Rightarrow> g r w1)"
  unfolding issues_def
proof
  fix w
  obtain r w1 where f: "f w = (r, w1)" by (cases "f w")
  then obtain a where a: "fst w1 = fst w @ a" "list_all P a"
    using assms(1) [unfolded issues_def, rule_format, of w] by auto
  obtain b where "fst (snd (g r w1)) = fst w1 @ b" "list_all P b"
    using assms(2) [unfolded issues_def, rule_format, of r w1] by auto
  then show "\<exists>new. fst (snd (case f w of (r, w1) \<Rightarrow> g r w1)) = fst w @ new \<and> list_all P new"
    using f a by (intro exI [of _ "a @ b"]) simp
qed

lemma issues_step:
  assumes "\<And>w. fst (h w) = fst w" and "issues P g"
  shows "issues P (\<lambda>w. g (h w))"
  unfolding issues_def
proof
  fix w
  show "\<exists>new. fst (snd (g (h w))) = fst w @ new \<and> list_all P new"
    using assms(2) [unfolded issues_def, rule_format, of "h w"] assms(1) by simp
qed

lemma issues_ghost: "(\<And>w. fst (h w) = fst w) \<Longrightarrow> issues P (\<lambda>w. (r, h w))"
  by (simp add: issues_def)

lemma issues_snd: "issues P f \<Longrightarrow> issues P (\<lambda>w. (r, snd (f w)))"
  by (simp add: issues_def)

lemma issues_sum [issues_intros]:
  "(\<And>a. issues P (g a)) \<Longrightarrow> (\<And>b. issues P (h b)) \<Longrightarrow>
     issues P (\<lambda>w. case r of Inl a \<Rightarrow> g a w | Inr b \<Rightarrow> h b w)"
  by (cases r) simp_all

lemma issues_prod [issues_intros]:
  "(\<And>a b. issues P (g a b)) \<Longrightarrow> issues P (\<lambda>w. case r of (a, b) \<Rightarrow> g a b w)"
  by (cases r) simp

lemma issues_if [issues_intros]:
  "issues P f \<Longrightarrow> issues P g \<Longrightarrow> issues P (\<lambda>w. if c then f w else g w)"
  by (cases c) simp_all

lemma issues_option [issues_intros]:
  "issues P f \<Longrightarrow> (\<And>x. issues P (g x)) \<Longrightarrow> issues P (\<lambda>w. case r of None \<Rightarrow> f w | Some x \<Rightarrow> g x w)"
  by (cases r) simp_all

lemma issues_timed [issues_intros]: "P (p, as) \<Longrightarrow> issues P (\<lambda>w. run_command_timed (logged run) p as t w)"
  unfolding run_command_timed_def Let_def by (intro issues_intros)

lemma issues_acceptable [issues_intros]:
  "P (p, as) \<Longrightarrow> issues P (\<lambda>w. run_command_with_acceptable_exit_timed (logged run) p as codes t w)"
  unfolding run_command_with_acceptable_exit_timed_def Let_def by (intro issues_intros)

lemma issues_unit [issues_intros]: "issues P f \<Longrightarrow> issues P (\<lambda>w. unit_result (f w))"
  by (simp add: issues_def unit_result_def)

lemma issues_keeping [issues_intros]: "issues P f \<Longrightarrow> issues P (\<lambda>w. keeping_cache f c w)"
  unfolding keeping_cache_def Let_def by (intro issues_intros)

lemma issues_mono: "issues P f \<Longrightarrow> (\<And>c. P c \<Longrightarrow> Q c) \<Longrightarrow> issues Q f"
  unfolding issues_def by (metis list_all_cong list.pred_mono_strong)

section \<open>The words of a command\<close>

definition PROGRAMS :: "string list" where
  "PROGRAMS = [''apt-get'', ''dpkg'', ''apt-mark'', ''apk'', ''dnf'', ''yum'', ''rpm'', ''pacman'']"

text \<open>Every subcommand and option the sources write; \<open>*\<close> is the argument of \<open>--overwrite\<close>.\<close>

definition VOCABULARY :: "string list" where
  "VOCABULARY =
     [''install'', ''update'', ''upgrade'', ''dist-upgrade'', ''remove'', ''purge'', ''showhold'', ''add'', ''del'', ''fix'',
      ''check-update'', ''makecache'', ''-y'', ''-f'', ''-a'', ''--'', ''--configure'', ''--audit'', ''--only-upgrade'',
      ''--no-install-recommends'', ''--allow-unauthenticated'', ''--force'', ''--upgrade'', ''--noautoremove'',
      ''--setopt=install_weak_deps=0'', ''--allowerasing'', ''--refresh'', ''--rebuilddb'', ''-S'', ''-R'', ''-Sy'', ''-Syu'',
      ''--noconfirm'', ''--needed'', ''--overwrite'', ''*'']"

text \<open>The program is one of the sources', and each word is theirs or begins with a requested name, so is no
  option.\<close>

definition own_word :: "string list \<Rightarrow> string \<Rightarrow> bool" where
  "own_word names a \<longleftrightarrow>
     a \<in> set VOCABULARY \<or> (\<not> starts_with a ''-'' \<and> (\<exists>n\<in>set names. starts_with a n))"

definition own_command :: "string list \<Rightarrow> cmd \<Rightarrow> bool" where
  "own_command names c \<longleftrightarrow> fst c \<in> set PROGRAMS \<and> list_all (own_word names) (snd c)"

definition valid_names :: "string list \<Rightarrow> bool" where
  "valid_names names \<longleftrightarrow> list_all (\<lambda>n. is_ok (validate_package_name n)) names"

lemma valid_name_word:
  assumes "valid_names names" "n \<in> set names"
  shows "\<not> starts_with (n @ s) ''-''"
proof
  assume "starts_with (n @ s) ''-''"
  moreover have "n \<noteq> []" "is_ascii_alphanumeric (hd n)"
    using assms by (auto simp: valid_names_def list_all_iff validate_package_name_def split: if_splits)
  ultimately have "hd n = CHR ''-''" by (cases n) (auto simp: starts_with_def)
  with \<open>is_ascii_alphanumeric (hd n)\<close> show False by (simp add: is_ascii_alphanumeric_def is_upper_c_def is_lower_c_def is_digit_c_def)
qed

lemma own_word_name:
  "valid_names names \<Longrightarrow> n \<in> set names \<Longrightarrow> own_word names (n @ s)"
proof -
  assume n: "valid_names names" "n \<in> set names"
  have "starts_with (n @ s) n" by (simp add: starts_with_def)
  with n valid_name_word [OF n] show ?thesis unfolding own_word_def by blast
qed

lemma own_word_exact: "valid_names names \<Longrightarrow> n \<in> set names \<Longrightarrow> own_word names n"
  using own_word_name [of names n "[]"] by simp

lemma own_words_exact: "valid_names names \<Longrightarrow> list_all (own_word names) names"
  by (simp add: list_all_iff own_word_exact)

lemma own_word_fixed: "a \<in> set VOCABULARY \<Longrightarrow> own_word names a"
  by (simp add: own_word_def)

lemma own_command_mono: "own_command names c \<Longrightarrow> set names \<subseteq> set names' \<Longrightarrow> own_command names' c"
  unfolding own_command_def own_word_def list_all_iff by blast

lemmas own_command_simps =
  own_command_def own_word_fixed own_word_exact own_words_exact PROGRAMS_def VOCABULARY_def valid_names_def

section \<open>The commands of the host\<close>

text \<open>What the agent asks the host before it decides on a reboot: these commands, word for word.\<close>

definition HOST_QUERIES :: "cmd list" where
  "HOST_QUERIES =
     [(''hostname'', []), (''uname'', [''-r'']), (''uname'', [''-m'']), (''dnf'', [''needs-restarting'', ''-r'']),
      (''dpkg'', [''-l'']), (''rpm'', [''-q'', ''kernel'', ''--qf'', ''%{VERSION}-%{RELEASE}.%{ARCH}'' @ [nl]]),
      (''apk'', [''info'', ''-e'', ''linux-virt'']), (''apk'', [''info'', ''-e'', ''linux-lts'']),
      (''apk'', [''info'', ''-e'', ''linux-hardened'']), (''apk'', [''info'', ''-e'', ''linux-rpi'']),
      (''pacman'', [''-Q'', ''linux''])]"

definition host_query :: "cmd \<Rightarrow> bool" where
  "host_query c \<longleftrightarrow> c \<in> set HOST_QUERIES"

text \<open>A reboot after \<open>d\<close> seconds: at once, or in the least number of minutes that is no shorter.\<close>

definition reboots_after :: "nat \<Rightarrow> cmd \<Rightarrow> bool" where
  "reboots_after d c \<longleftrightarrow>
     c \<in> {(''systemctl'', [''reboot'']), (''reboot'', [])} \<or>
     (\<exists>m. c = (''shutdown'', [''-r'', ''+'' @ show_nat m]) \<and> d \<le> 60 * m \<and> 60 * m < d + 60)"

lemma issues_first_source:
  "(\<And>f. f \<in> set fs \<Longrightarrow> issues P f) \<Longrightarrow> issues P (\<lambda>w. first_source fs w)"
proof (induction fs)
  case Nil
  then show ?case by (simp add: issues_return)
next
  case (Cons f fs)
  have "issues P (\<lambda>w. case f w of (r, w1) \<Rightarrow> (case r of Some v \<Rightarrow> (\<lambda>w1. (Some v, w1)) | None \<Rightarrow> first_source fs) w1)"
    using Cons by (intro issues_bind) (auto split: option.split intro: issues_return)
  moreover have "(\<lambda>w. first_source (f # fs) w)
      = (\<lambda>w. case f w of (r, w1) \<Rightarrow> (case r of Some v \<Rightarrow> (\<lambda>w1. (Some v, w1)) | None \<Rightarrow> first_source fs) w1)"
    by (auto simp: fun_eq_iff split: prod.split option.split)
  ultimately show ?case by simp
qed

lemma issues_kernel_source:
  "P (prog, as) \<Longrightarrow> issues P (\<lambda>w. kernel_source (logged run) available prog as parse w)"
  unfolding kernel_source_def by (intro issues_intros)

lemma issues_installed_kernel: "issues host_query (\<lambda>w. get_installed_kernel_version (logged run) h w)"
  unfolding get_installed_kernel_version_def
  by (rule issues_first_source) (auto intro!: issues_kernel_source simp: host_query_def HOST_QUERIES_def)

lemma issues_needs_restarting: "issues host_query (\<lambda>w. needs_restarting (logged run) h w)"
  unfolding needs_restarting_def by (intro issues_intros) (simp add: host_query_def HOST_QUERIES_def)

lemma issues_kernel_differs: "issues host_query (\<lambda>w. kernel_differs (logged run) h w)"
proof -
  have "(\<lambda>w. kernel_differs (logged run) h w) =
      (\<lambda>w. if is_lxc_container h then (False, w) else case get_installed_kernel_version (logged run) h w of
         (r, w1) \<Rightarrow> (case r of None \<Rightarrow> False
            | Some installed \<Rightarrow> (case get_running_kernel_version h of None \<Rightarrow> False | Some running \<Rightarrow> installed \<noteq> running), w1))"
    by (auto simp: kernel_differs_def fun_eq_iff split: prod.split option.split)
  then show ?thesis by (simp only:) (intro issues_intros issues_installed_kernel)
qed

lemma issues_pending_reboot: "issues host_query (\<lambda>w. check_pending_reboot (logged run) h w)"
proof -
  have "(\<lambda>w. check_pending_reboot (logged run) h w) =
      (\<lambda>w. if he_reboot_required h \<or> he_boot_reboot_required h then (True, w)
        else case needs_restarting (logged run) h w of
          (r, w1) \<Rightarrow> if r then (True, w1) else kernel_differs (logged run) h w1)"
    by (auto simp: check_pending_reboot_def fun_eq_iff split: prod.split bool.split)
  then show ?thesis by (simp only:) (intro issues_intros issues_needs_restarting issues_kernel_differs)
qed

lemma issues_query_line: "P (prog, as) \<Longrightarrow> issues P (\<lambda>w. query_line (logged run) prog as w)"
  unfolding query_line_def by (intro issues_intros)

lemma issues_get_info [issues_intros]: "issues host_query (get_system_info (logged run) h)"
  unfolding get_system_info_def [abs_def] Let_def
  by (intro issues_intros issues_query_line issues_pending_reboot) (simp_all add: host_query_def HOST_QUERIES_def)

lemma issues_system_info [issues_intros]:
  "issues host_query (\<lambda>w. let (i, w1) = get_system_info (logged run) h w in (Inr i, w1))"
  unfolding Let_def by (intro issues_intros)

lemma issues_reboot_system [issues_intros]: "issues (reboots_after d) (\<lambda>w. reboot_system (logged run) d w)"
proof -
  obtain p as where c: "reboot_command d = (p, as)" by (cases "reboot_command d")
  have "reboots_after d (p, as)"
  proof (cases "d > 0")
    case True
    define m where "m = max 1 (div_ceil d 60)"
    obtain q r where d: "d div 60 = q" "d mod 60 = r" "d = 60 * q + r" "r < 60"
      using mult_div_mod_eq [of 60 d] by (metis mod_less_divisor zero_less_numeral)
    then have "m = (if r > 0 then q + 1 else q)" using True by (auto simp: m_def div_ceil_def)
    then have "d \<le> 60 * m \<and> 60 * m < d + 60" using d(3,4) by simp
    with True c show ?thesis by (auto simp: reboot_command_def reboots_after_def m_def)
  qed (use c in \<open>simp add: reboot_command_def reboots_after_def\<close>)
  then show ?thesis unfolding reboot_system_def c Let_def prod.case by (intro issues_intros)
qed

section \<open>The contract\<close>

locale package_manager =
  fixes be :: "'x logged backend" and now :: int
  assumes install: "valid_names (map sp_name ps) \<Longrightarrow>
      issues (own_command (map sp_name ps)) (be_install_packages be ps opts)"
    and update: "valid_names [n] \<Longrightarrow> issues (own_command [n]) (be_update_package be n)"
    and remove: "valid_names [n] \<Longrightarrow> issues (own_command [n]) (be_remove_package be n purge)"
    and patch_some: "valid_names ns \<Longrightarrow> issues (own_command ns) (be_apply_patches be (Some ns))"
    and patch_all: "issues (own_command []) (be_apply_patches be None)"
    and refresh: "issues (own_command []) (be_refresh_package_cache be c)"
    and repair: "issues (own_command []) (be_repair_package_database be)"
    and info: "issues host_query (be_get_system_info be)"
    and reboot: "issues (reboots_after d) (be_reboot_system be d)"
    and refresh_recorded: "be_refresh_package_cache be c w = ((r, c'), w') \<Longrightarrow>
      (case r of Inr _ \<Rightarrow> c' = update_success now c | Inl e \<Rightarrow> \<exists>m. c' = update_failure now m c)"
begin

lemma patches: "valid_names (opt_or ns []) \<Longrightarrow> issues (own_command (opt_or ns [])) (be_apply_patches be ns)"
  using patch_some patch_all by (cases ns) simp_all

lemma refresh_any: "issues (own_command ns) (be_refresh_package_cache be c)"
  by (rule issues_mono [OF refresh own_command_mono]) auto

text \<open>After a refresh that succeeded the index is fresh.\<close>

lemma refreshed_not_stale:
  assumes "be_refresh_package_cache be c w = ((Inr u, c'), w')"
  shows "\<not> is_stale now c'"
  using refresh_recorded [OF assms] by (simp add: is_stale_def update_success_def time_delta_max_def not_less)

text \<open>One that failed never makes an old index look newer.\<close>

lemma failed_refresh_keeps_age:
  assumes "be_refresh_package_cache be c w = ((Inl e, c'), w')" and "pc_last_update c = Some t"
  shows "pc_last_update c' = Some t \<and> \<not> pc_last_update_success c'"
  using refresh_recorded [OF assms(1)] assms(2) by (auto simp: update_failure_def Let_def)

end

end
