(* ===== verification/Apk.thy ===== *)
theory Apk imports Package_Contract begin

text \<open>
  The APK backend of \<open>src/packages/mod.rs\<close> (Alpine Linux): its commands, the parsers of the output of
  \<open>apk list\<close> and \<open>apk info\<close>, and the operations of the trait. Lengths of patterns and positions in a line
  are in characters.
\<close>

section \<open>Commands\<close>

definition run_apk :: "'w runner \<Rightarrow> string list \<Rightarrow> 'w \<Rightarrow> (anyhow, string) result \<times> 'w" where
  "run_apk runner args w =
     run_command_timed runner ''apk'' args (if args \<noteq> [] \<and> hd args = ''update'' then 300 else 1800) w"

section \<open>Parsers\<close>

definition apk_description :: "string \<Rightarrow> string" where
  "apk_description rest =
     (case str_find ''] '' rest of
        Some pos \<Rightarrow> drop (pos + 2) rest
      | None \<Rightarrow> (case split_once CHR '']'' rest of
                  Some (_, after) \<Rightarrow> trim after
                | None \<Rightarrow> rest))"

definition parse_apk_line :: "string \<Rightarrow> package option" where
  "parse_apk_line line =
     (if trim line = [] then None
      else case str_find '' ['' line of
        Some pos \<Rightarrow> Some (listed_package (parse_name_version (take pos line)) Installed (apk_description (drop (pos + 2) line)))
      | None \<Rightarrow>
          (case split_once CHR '' '' line of
             Some (ident, rest) \<Rightarrow> Some (listed_package (parse_name_version ident) Installed (apk_description rest))
           | None \<Rightarrow> Some (listed_package (parse_name_version (trim line)) Installed [])))"

definition parse_apk_package_list :: "string \<Rightarrow> package list" where
  "parse_apk_package_list out = List.map_filter parse_apk_line (str_lines out)"

text \<open>The state of the loop over the lines of \<open>apk info -a\<close>; the field is the section the loop is in.\<close>

record apk_info =
  ai_version :: string
  ai_description :: string
  ai_dependencies :: "string list"
  ai_reverse_dependencies :: "string list"
  ai_size_installed :: "string option"
  ai_current_field :: "string option"

definition no_info :: apk_info where
  "no_info = \<lparr>ai_version = [], ai_description = [], ai_dependencies = [], ai_reverse_dependencies = [],
     ai_size_installed = None, ai_current_field = None\<rparr>"

definition apk_dep_name :: "string \<Rightarrow> string" where
  "apk_dep_name dep = trim_start_matches ''pc:'' (trim_start_matches ''cmd:'' (trim_start_matches ''so:'' dep))"

definition in_bytes :: "string \<Rightarrow> string" where
  "in_bytes size_str = size_str @ '' bytes''"

definition apk_field_step :: "string option \<Rightarrow> string \<Rightarrow> apk_info \<Rightarrow> apk_info" where
  "apk_field_step field line st =
     (if field = Some ''description'' \<and> ai_description st = [] then st\<lparr>ai_description := trim line\<rparr>
      else if field = Some ''dependencies'' then
        st\<lparr>ai_dependencies := ai_dependencies st @ map apk_dep_name (split_whitespace line)\<rparr>
      else if field = Some ''required_by'' then
        st\<lparr>ai_reverse_dependencies :=
             ai_reverse_dependencies st @ map (\<lambda>req. fst (parse_name_version req)) (split_whitespace line)\<rparr>
      else if field = Some ''installed_size'' \<and> ai_size_installed st = None then
        st\<lparr>ai_size_installed := Some (in_bytes (trim line))\<rparr>
      else st)"

definition before_pattern :: "string \<Rightarrow> string \<Rightarrow> string" where
  "before_pattern p s = (case str_find p s of Some pos \<Rightarrow> take pos s | None \<Rightarrow> s)"

definition apk_description_header :: "string \<Rightarrow> string \<Rightarrow> apk_info \<Rightarrow> apk_info" where
  "apk_description_header name line st =
     (let (parsed_name, v) = parse_name_version (trim (before_pattern '' description:'' line));
          st1 = st\<lparr>ai_current_field := Some ''description''\<rparr>
      in if parsed_name = name \<or> ai_version st1 = [] then st1\<lparr>ai_version := v\<rparr> else st1)"

definition apk_size_header :: "string \<Rightarrow> apk_info \<Rightarrow> apk_info" where
  "apk_size_header line st =
     (let st1 = st\<lparr>ai_current_field := Some ''installed_size''\<rparr> in
      case str_find '' installed size:'' line of
        Some pos \<Rightarrow>
          (let size_str = trim (drop (pos + length '' installed size:'') line)
           in if size_str \<noteq> [] then st1\<lparr>ai_size_installed := Some (in_bytes size_str)\<rparr> else st1)
      | None \<Rightarrow> st1)"

definition apk_info_step :: "string \<Rightarrow> apk_info \<Rightarrow> string \<Rightarrow> apk_info" where
  "apk_info_step name st line =
     (if str_contains line '' description:'' then apk_description_header name line st
      else if str_contains line '' webpage:'' then st\<lparr>ai_current_field := Some ''webpage''\<rparr>
      else if str_contains line '' installed size:'' then apk_size_header line st
      else if str_contains line '' dependencies:'' then st\<lparr>ai_current_field := Some ''dependencies''\<rparr>
      else if str_contains line '' provides:'' then st\<lparr>ai_current_field := Some ''provides''\<rparr>
      else if str_contains line '' required by:'' then st\<lparr>ai_current_field := Some ''required_by''\<rparr>
      else if trim line \<noteq> [] then apk_field_step (ai_current_field st) line st
      else st\<lparr>ai_current_field := None\<rparr>)"

definition version_of_first_line :: "string \<Rightarrow> string option" where
  "version_of_first_line out =
     (case str_lines out of
        [] \<Rightarrow> None
      | l # _ \<Rightarrow> let v = snd (parse_name_version (trim l)) in if v = [] then None else Some v)"

definition parse_apk_info ::
    "'w runner \<Rightarrow> string \<Rightarrow> string \<Rightarrow> package_status \<Rightarrow> 'w \<Rightarrow> (anyhow, package option) result \<times> 'w" where
  "parse_apk_info runner out name status w =
     (let st = foldl (apk_info_step name) no_info (str_lines out);
          (up, w1) = run_apk runner [''list'', ''--upgradable'', name] w;
          upgradable = (case up of Inr o1 \<Rightarrow> trim o1 \<noteq> [] \<and> str_contains o1 name | Inl _ \<Rightarrow> False);
          (latest_version, w2) =
            (if upgradable then
               (case run_apk runner [''info'', name] w1 of
                  (Inr o1, w2) \<Rightarrow> (version_of_first_line o1, w2)
                | (Inl _, w2) \<Rightarrow> (None, w2))
             else (Some (ai_version st), w1))
      in (Ok (Some \<lparr>p_name = name, p_version = ai_version st, p_status = status, p_upgradable = upgradable,
            p_latest_version = latest_version, p_description = ai_description st,
            p_dependencies = ai_dependencies st, p_reverse_dependencies = ai_reverse_dependencies st,
            p_install_date = None, p_size_installed = ai_size_installed st\<rparr>), w2))"

section \<open>Operations\<close>

definition apk_list_packages ::
    "'w runner \<Rightarrow> string option \<Rightarrow> 'w \<Rightarrow> (anyhow, package list) result \<times> 'w" where
  "apk_list_packages runner flt w =
     (let (r, w1) = run_apk runner (case flt of Some f \<Rightarrow> [''list'', ''--installed'', f]
                                              | None \<Rightarrow> [''list'', ''--installed'']) w
      in (map_sum id parse_apk_package_list r, w1))"

definition apk_search :: "'w runner \<Rightarrow> string \<Rightarrow> 'w \<Rightarrow> package option \<times> 'w" where
  "apk_search runner name w =
     (case run_apk runner [''search'', name] w of
        (Inl _, w1) \<Rightarrow> (None, w1)
      | (Inr out, w1) \<Rightarrow>
          (if trim out \<noteq> [] \<and> str_contains out name then
             (case str_lines out of
                first_line # _ \<Rightarrow> Some (listed_package (parse_name_version (trim first_line)) Available [])
              | [] \<Rightarrow> None)
           else None, w1))"

definition apk_get_package ::
    "'w runner \<Rightarrow> string \<Rightarrow> 'w \<Rightarrow> (anyhow, package option) result \<times> 'w" where
  "apk_get_package runner name w =
     (if bad_query_name name then (Err (invalid_name name), w)
      else case run_apk runner [''list'', ''--installed'', name] w of
        (Inl e, w1) \<Rightarrow> (Err e, w1)
      | (Inr list_output, w1) \<Rightarrow>
          if trim list_output \<noteq> [] \<and> str_contains list_output name then
            (case run_apk runner [''info'', ''-a'', name] w1 of
               (Inl e, w2) \<Rightarrow> (Err e, w2)
             | (Inr info_output, w2) \<Rightarrow> parse_apk_info runner info_output name Installed w2)
          else let (found, w2) = apk_search runner name w1 in (Ok found, w2))"

definition apk_install_args :: "package_spec list \<Rightarrow> install_options \<Rightarrow> string list" where
  "apk_install_args packages opts =
     [''add''] @ (if io_force opts then [''--force''] else []) @ [''--''] @ map spec_arg packages"

definition apk_install_packages ::
    "'w runner \<Rightarrow> package_spec list \<Rightarrow> install_options \<Rightarrow> 'w \<Rightarrow> (anyhow, unit) result \<times> 'w" where
  "apk_install_packages runner packages opts w = unit_result (run_apk runner (apk_install_args packages opts) w)"

definition apk_update_package :: "'w runner \<Rightarrow> string \<Rightarrow> 'w \<Rightarrow> (anyhow, unit) result \<times> 'w" where
  "apk_update_package runner name w = unit_result (run_apk runner [''add'', ''--upgrade'', ''--'', name] w)"

definition apk_remove_package :: "'w runner \<Rightarrow> string \<Rightarrow> bool \<Rightarrow> 'w \<Rightarrow> (anyhow, unit) result \<times> 'w" where
  "apk_remove_package runner name purge w = unit_result (run_apk runner [''del'', ''--'', name] w)"

definition before_space :: "string \<Rightarrow> string" where
  "before_space s = (case split_once CHR '' '' s of Some (a, _) \<Rightarrow> a | None \<Rightarrow> s)"

definition parse_apk_patch_line :: "string \<Rightarrow> patch option" where
  "parse_apk_patch_line line =
     (if trim line = [] then None
      else let parts = (case str_find '' < '' line of
                 Some pos \<Rightarrow> Some (take pos line, before_space (drop (pos + 3) line))
               | None \<Rightarrow> (case split_once CHR '' '' line of
                           Some (ident, _) \<Rightarrow> Some (ident, [])
                         | None \<Rightarrow> None))
      in case parts of
           None \<Rightarrow> None
         | Some (ident, current_version) \<Rightarrow>
             (let (name, available_version) = parse_name_version ident
              in Some (update_patch name current_version available_version ''Package update available'')))"

definition apk_list_patches :: "'w runner \<Rightarrow> 'w \<Rightarrow> (anyhow, patch list) result \<times> 'w" where
  "apk_list_patches runner w =
     (let (r, w1) = run_apk runner [''list'', ''--upgradable''] w
      in (map_sum id (\<lambda>out. List.map_filter parse_apk_patch_line (str_lines out)) r, w1))"

definition apk_apply_patches :: "'w runner \<Rightarrow> string list option \<Rightarrow> 'w \<Rightarrow> (anyhow, unit) result \<times> 'w" where
  "apk_apply_patches runner packages w =
     unit_result (run_apk runner (case packages of Some pkgs \<Rightarrow> [''upgrade'', ''--''] @ pkgs | None \<Rightarrow> [''upgrade'']) w)"

definition apk_reboot_system :: "'w runner \<Rightarrow> host_env \<Rightarrow> nat \<Rightarrow> 'w \<Rightarrow> (anyhow, unit) result \<times> 'w" where
  "apk_reboot_system runner env delay_seconds w =
     (if delay_seconds > 0 \<and> he_available env ''shutdown'' then reboot_system runner delay_seconds w
      else unit_result (run_command_timed runner ''reboot'' [] 60 w))"

definition apk_refresh_package_cache ::
    "(anyhow \<Rightarrow> string) \<Rightarrow> int \<Rightarrow> 'w runner \<Rightarrow> package_cache_state \<Rightarrow> 'w
     \<Rightarrow> ((anyhow, unit) result \<times> package_cache_state) \<times> 'w" where
  "apk_refresh_package_cache dbg now runner cache w =
     (let (r, w1) = run_apk runner [''update''] w in (record_refresh dbg now ''APK'' r cache, w1))"

definition apk_get_installed_version ::
    "'w runner \<Rightarrow> string \<Rightarrow> 'w \<Rightarrow> (anyhow, string option) result \<times> 'w" where
  "apk_get_installed_version runner name w =
     (case run_apk runner [''list'', ''--installed'', name] w of
        (Inl _, w1) \<Rightarrow> (Ok None, w1)
      | (Inr out, w1) \<Rightarrow>
          (Ok (find (\<lambda>v. v \<noteq> []) (map (\<lambda>line. snd (parse_name_version (trim line)))
                 (filter (\<lambda>line. str_contains line name) (str_lines out)))), w1))"

definition apk_get_candidate_version ::
    "'w runner \<Rightarrow> string \<Rightarrow> 'w \<Rightarrow> (anyhow, string option) result \<times> 'w" where
  "apk_get_candidate_version runner name w =
     (case run_apk runner [''info'', name] w of
        (Inl _, w1) \<Rightarrow> (Ok None, w1)
      | (Inr out, w1) \<Rightarrow> (Ok (version_of_first_line out), w1))"

definition apk_repair_package_database :: "'w runner \<Rightarrow> 'w \<Rightarrow> (anyhow, unit) result \<times> 'w" where
  "apk_repair_package_database runner w = unit_result (run_apk runner [''fix''] w)"

definition apk_backend :: "(anyhow \<Rightarrow> string) \<Rightarrow> int \<Rightarrow> host_env \<Rightarrow> 'w runner \<Rightarrow> 'w backend" where
  "apk_backend dbg now env runner =
     \<lparr>be_list_packages = apk_list_packages runner, be_get_package = apk_get_package runner,
      be_install_packages = apk_install_packages runner, be_update_package = apk_update_package runner,
      be_remove_package = apk_remove_package runner, be_list_patches = apk_list_patches runner,
      be_apply_patches = apk_apply_patches runner,
      be_get_system_info = (\<lambda>w. let (i, w1) = get_system_info runner env w in (Ok i, w1)),
      be_reboot_system = apk_reboot_system runner env,
      be_get_service_status = checked_service_status (get_openrc_service_status runner),
      be_refresh_package_cache = apk_refresh_package_cache dbg now runner,
      be_get_installed_version = apk_get_installed_version runner,
      be_get_candidate_version = apk_get_candidate_version runner,
      be_repair_package_database = apk_repair_package_database runner,
      be_package_database_clean = default_package_database_clean\<rparr>"

section \<open>The contract\<close>

lemma issues_apk [issues_intros]: "P (''apk'', args) \<Longrightarrow> issues P (\<lambda>w. run_apk (logged run) args w)"
  unfolding run_apk_def by (intro issues_intros)

lemma own_spec_args:
  "valid_names (map sp_name ps) \<Longrightarrow> list_all (own_word (map sp_name ps)) (map spec_arg ps)"
  by (auto simp: list_all_iff spec_arg_def own_word_exact own_word_name split: option.splits)

lemmas apk_change_defs = apk_install_packages_def apk_update_package_def apk_remove_package_def
  apk_apply_patches_def apk_refresh_package_cache_def apk_repair_package_database_def

lemma issues_apk_reboot [issues_intros]: "issues (reboots_after d) (apk_reboot_system (logged run) env d)"
  unfolding apk_reboot_system_def [abs_def] by (intro issues_intros) (simp add: reboots_after_def)

interpretation apk: package_manager "apk_backend dbg now env (logged run)" now for dbg now env run
  by unfold_locales
    (auto simp: apk_backend_def apk_change_defs [abs_def] apk_install_args_def own_command_simps own_spec_args
        dest: record_refresh_fresh split: prod.splits intro!: issues_intros)

section \<open>Versions\<close>

text \<open>The first line of \<open>apk info name\<close> is a header, \<open>name-version description:\<close>. The version read from it, which
  \<open>get_package\<close> reports as the latest one and \<open>get_candidate_version\<close> returns, keeps the word of the header.\<close>

lemma apk_latest_version_header:
  assumes "n \<noteq> []" "\<not> is_whitespace (hd n)" "no_version n" "v \<noteq> []" "is_digit_c (hd v)" "nl \<notin> set n" "nl \<notin> set v"
  shows "version_of_first_line (n @ ''-'' @ v @ '' description:'' @ [nl] @ rest) = Some (v @ '' description:'')"
proof -
  let ?l = "n @ CHR ''-'' # v @ '' description:''"
  have "str_lines (?l @ nl # rest) = ?l # str_lines rest"
    using assms(6,7) str_lines_line [of ?l rest] by (simp add: strip_cr_def)
  moreover have "trim ?l = ?l" using assms(1,2) by (intro trim_word) (simp_all add: is_whitespace_def)
  moreover have "parse_name_version ?l = (n, v @ '' description:'')"
    using assms(3-5) by (intro parse_name_version_join) simp_all
  ultimately show ?thesis by (simp add: version_of_first_line_def Let_def)
qed

end
