(* ===== verification/Rpm.thy ===== *)
theory Rpm imports Package_Contract begin

text \<open>
  The DNF and the YUM backend of \<open>src/packages/mod.rs\<close>. Both query installed packages with \<open>rpm\<close> and share
  their parsers word for word, so these are one definition here, with the program (\<open>dnf\<close> or \<open>yum\<close>) as an
  argument; what differs, the commands that change packages and the refresh, has a definition for each.
\<close>

section \<open>Commands\<close>

definition run_dnf :: "'w runner \<Rightarrow> string list \<Rightarrow> 'w \<Rightarrow> (anyhow, string) result \<times> 'w" where
  "run_dnf runner args w =
     run_command_timed runner ''dnf'' args
       (if args \<noteq> [] \<and> (hd args = ''check-update'' \<or> hd args = ''makecache'') then 300 else 1800) w"

definition run_yum :: "'w runner \<Rightarrow> string list \<Rightarrow> 'w \<Rightarrow> (anyhow, string) result \<times> 'w" where
  "run_yum runner args w =
     run_command_timed runner ''yum'' args (if args \<noteq> [] \<and> hd args = ''makecache'' then 300 else 1800) w"

definition run_rpm :: "'w runner \<Rightarrow> string list \<Rightarrow> 'w \<Rightarrow> (anyhow, string) result \<times> 'w" where
  "run_rpm runner args w = run_command_timed runner ''rpm'' args 60 w"

section \<open>Parsers\<close>

text \<open>The architecture is what follows the last dot, when it is a word.\<close>

definition strip_arch :: "string \<Rightarrow> string" where
  "strip_arch trimmed =
     (case rsplit_once CHR ''.'' trimmed of
        None \<Rightarrow> trimmed
      | Some (before, after) \<Rightarrow>
          if list_all (\<lambda>c. is_ascii_alphanumeric c \<or> c = CHR ''_'') after then before else trimmed)"

text \<open>DNF and YUM each have their own copy of the split; both are the one of the APK backend.\<close>

definition parse_rpm_name_version :: "string \<Rightarrow> string \<times> string" where
  "parse_rpm_name_version ident = parse_name_version ident"

definition yum_parse_rpm_name_version :: "string \<Rightarrow> string \<times> string" where
  "yum_parse_rpm_name_version ident = parse_rpm_name_version ident"

definition parse_rpm_line :: "string \<Rightarrow> package option" where
  "parse_rpm_line line =
     (let trimmed = trim line in
      if trimmed = [] then None
      else Some (listed_package (parse_rpm_name_version (strip_arch trimmed)) Installed []))"

definition parse_rpm_package_list :: "string \<Rightarrow> package list" where
  "parse_rpm_package_list out = List.map_filter parse_rpm_line (str_lines out)"

definition colon_field :: "string \<Rightarrow> string" where
  "colon_field line = trim (case split_on CHR '':'' line of _ # v # _ \<Rightarrow> v | _ \<Rightarrow> [])"

record rpm_info =
  ri_version :: string
  ri_release :: string
  ri_description :: string
  ri_size_installed :: "string option"
  ri_install_date :: "string option"
  ri_in_description :: bool

definition no_rpm_info :: rpm_info where
  "no_rpm_info = \<lparr>ri_version = [], ri_release = [], ri_description = [], ri_size_installed = None,
     ri_install_date = None, ri_in_description = False\<rparr>"

definition rpm_field_step :: "rpm_info \<Rightarrow> string \<Rightarrow> rpm_info" where
  "rpm_field_step st line =
     (if starts_with line ''Version'' then st\<lparr>ri_version := colon_field line\<rparr>
      else if starts_with line ''Release'' then st\<lparr>ri_release := colon_field line\<rparr>
      else if starts_with line ''Install Date'' then st\<lparr>ri_install_date := Some (colon_field line)\<rparr>
      else if starts_with line ''Size'' then st\<lparr>ri_size_installed := Some (colon_field line)\<rparr>
      else if starts_with line ''Summary'' then
        (if ri_description st = [] then st\<lparr>ri_description := colon_field line\<rparr> else st)
      else if starts_with line ''Description'' then
        (let st1 = st\<lparr>ri_in_description := True\<rparr>
         in if colon_field line \<noteq> [] then st1\<lparr>ri_description := colon_field line\<rparr> else st1)
      else st)"

definition rpm_info_step :: "rpm_info \<Rightarrow> string \<Rightarrow> rpm_info" where
  "rpm_info_step st line =
     (if ri_in_description st then
        (if starts_with line '' '' \<or> line = []
         then st\<lparr>ri_description := (if ri_description st \<noteq> [] then ri_description st @ '' '' else []) @ trim line\<rparr>
         else rpm_field_step (st\<lparr>ri_in_description := False\<rparr>) line)
      else rpm_field_step st line)"

definition join_release :: "string \<Rightarrow> string \<Rightarrow> string" where
  "join_release version release = (if release = [] then version else version @ ''-'' @ release)"

definition update_candidate :: "string \<Rightarrow> string \<Rightarrow> string option" where
  "update_candidate name line =
     (case split_whitespace line of
        first # second # _ \<Rightarrow>
          if starts_with first name then
            (case rsplit_once CHR ''.'' first of
               Some (before, _) \<Rightarrow> if before = name then Some second else None
             | None \<Rightarrow> None)
          else None
      | _ \<Rightarrow> None)"

definition check_upgradable ::
    "'w runner \<Rightarrow> string \<Rightarrow> string \<Rightarrow> string \<Rightarrow> 'w \<Rightarrow> (bool \<times> string option) \<times> 'w" where
  "check_upgradable runner prog name full_version w =
     (case runner prog [''check-update'', ''-q'', name] (Some 60) w of
        (Inr o1, w1) \<Rightarrow>
          (if co_status_code o1 = Some 100
           then (True, find_map (update_candidate name) (str_lines (co_stdout o1)))
           else (False, Some full_version), w1)
      | (Inl _, w1) \<Rightarrow> ((False, Some full_version), w1))"

definition rpm_dep :: "string \<Rightarrow> string option" where
  "rpm_dep line =
     (if trim line = [] then None
      else let dep_name = first_word (trim line) in
        if starts_with dep_name ''rpmlib'' \<or> starts_with dep_name ''rtld'' then None else Some dep_name)"

definition rpm_dependencies :: "'w runner \<Rightarrow> string \<Rightarrow> 'w \<Rightarrow> string list \<times> 'w" where
  "rpm_dependencies runner name w =
     (case run_rpm runner [''-qR'', name] w of
        (Inr out, w1) \<Rightarrow> (List.map_filter rpm_dep (str_lines out), w1)
      | (Inl _, w1) \<Rightarrow> ([], w1))"

definition parse_rpm_info ::
    "'w runner \<Rightarrow> string \<Rightarrow> string \<Rightarrow> string \<Rightarrow> 'w \<Rightarrow> (anyhow, package option) result \<times> 'w" where
  "parse_rpm_info runner prog out name w =
     (let st = foldl rpm_info_step no_rpm_info (str_lines out);
          full_version = join_release (ri_version st) (ri_release st);
          ((upgradable, latest_version), w1) = check_upgradable runner prog name full_version w;
          (dependencies, w2) = rpm_dependencies runner name w1
      in (Ok (Some \<lparr>p_name = name, p_version = full_version, p_status = Installed, p_upgradable = upgradable,
            p_latest_version = latest_version, p_description = ri_description st,
            p_dependencies = dependencies, p_reverse_dependencies = [],
            p_install_date = ri_install_date st, p_size_installed = ri_size_installed st\<rparr>), w2))"

section \<open>Queries\<close>

definition rpm_list_packages ::
    "'w runner \<Rightarrow> string option \<Rightarrow> 'w \<Rightarrow> (anyhow, package list) result \<times> 'w" where
  "rpm_list_packages runner flt w =
     (let (r, w1) = run_rpm runner (case flt of Some f \<Rightarrow> [''-qa'', f] | None \<Rightarrow> [''-qa'']) w
      in (map_sum id (\<lambda>out. filter (\<lambda>p. case flt of Some f \<Rightarrow> str_contains (p_name p) f | None \<Rightarrow> True)
                              (parse_rpm_package_list out)) r, w1))"

definition available_step :: "string \<times> string \<times> string \<Rightarrow> string \<Rightarrow> string \<times> string \<times> string" where
  "available_step st line =
     (let (version, release, description) = st in
      if starts_with line ''Version'' then (colon_field line, release, description)
      else if starts_with line ''Release'' then (version, colon_field line, description)
      else if starts_with line ''Description'' then
        (version, release, if colon_field line \<noteq> [] then colon_field line else description)
      else st)"

definition available_info :: "string \<Rightarrow> string \<times> string \<times> string" where
  "available_info out = foldl available_step ([], [], []) (str_lines out)"

definition rpm_available ::
    "'w runner \<Rightarrow> string \<Rightarrow> string \<Rightarrow> 'w \<Rightarrow> package option \<times> 'w" where
  "rpm_available runner prog name w =
     (case runner prog [''info'', ''-q'', name] (Some 60) w of
        (Inl _, w1) \<Rightarrow> (None, w1)
      | (Inr o1, w1) \<Rightarrow>
          (if co_success o1 then
             (let (version, release, description) = available_info (co_stdout o1)
              in Some (listed_package (name, join_release version release) Available description))
           else None, w1))"

definition rpm_get_package ::
    "'w runner \<Rightarrow> string \<Rightarrow> string \<Rightarrow> 'w \<Rightarrow> (anyhow, package option) result \<times> 'w" where
  "rpm_get_package runner prog name w =
     (if bad_query_name name then (Err (invalid_name name), w)
      else case run_rpm runner [''-q'', name] w of
        (Inl _, w1) \<Rightarrow> (let (found, w2) = rpm_available runner prog name w1 in (Ok found, w2))
      | (Inr _, w1) \<Rightarrow>
          (case run_rpm runner [''-qi'', name] w1 of
             (Inl e, w2) \<Rightarrow> (Err e, w2)
           | (Inr info_output, w2) \<Rightarrow> parse_rpm_info runner prog info_output name w2))"

text \<open>The lines of \<open>check-update\<close>; the installed version of each package is asked from rpm.\<close>

definition rpm_patch_of_line :: "'w runner \<Rightarrow> string \<Rightarrow> 'w \<Rightarrow> patch option \<times> 'w" where
  "rpm_patch_of_line runner line w =
     (case split_whitespace (trim line) of
        full_name # available_version # repo # _ \<Rightarrow>
          (let name = (case rsplit_once CHR ''.'' full_name of Some (before, _) \<Rightarrow> before | None \<Rightarrow> full_name);
               (cur, w1) = run_rpm runner [''-q'', ''--qf'', ''%{VERSION}-%{RELEASE}'', name] w;
               current_version = (case cur of Inr out \<Rightarrow> trim out | Inl _ \<Rightarrow> [])
           in (Some (update_patch name current_version available_version (''Package update available from '' @ repo)), w1))
      | _ \<Rightarrow> (None, w))"

fun rpm_patches_of :: "'w runner \<Rightarrow> string list \<Rightarrow> 'w \<Rightarrow> patch list \<times> 'w" where
  "rpm_patches_of runner [] w = ([], w)"
| "rpm_patches_of runner (line # lines) w =
     (let (p, w1) = rpm_patch_of_line runner line w;
          (ps, w2) = rpm_patches_of runner lines w1
      in ((case p of Some x \<Rightarrow> x # ps | None \<Rightarrow> ps), w2))"

definition rpm_list_patches :: "'w runner \<Rightarrow> string \<Rightarrow> 'w \<Rightarrow> (anyhow, patch list) result \<times> 'w" where
  "rpm_list_patches runner prog w =
     (case run_command_with_acceptable_exit runner prog [''check-update'', ''-q''] [0, 100] w of
        (Inl e, w1) \<Rightarrow> (Err e, w1)
      | (Inr out, w1) \<Rightarrow> (let (ps, w2) = rpm_patches_of runner (str_lines out) w1 in (Ok ps, w2)))"

definition rpm_get_installed_version ::
    "'w runner \<Rightarrow> string \<Rightarrow> 'w \<Rightarrow> (anyhow, string option) result \<times> 'w" where
  "rpm_get_installed_version runner name w =
     (case run_rpm runner [''-q'', ''--qf'', ''%{VERSION}-%{RELEASE}'', name] w of
        (Inl _, w1) \<Rightarrow> (Ok None, w1)
      | (Inr out, w1) \<Rightarrow> (Ok (if trim out \<noteq> [] then Some (trim out) else None), w1))"

definition candidate_of_info :: "string \<Rightarrow> string option" where
  "candidate_of_info out =
     (let (version, release, _) = available_info out
      in if version \<noteq> [] then Some (join_release version release) else None)"

definition rpm_get_candidate_version ::
    "'w runner \<Rightarrow> string \<Rightarrow> string \<Rightarrow> 'w \<Rightarrow> (anyhow, string option) result \<times> 'w" where
  "rpm_get_candidate_version runner prog name w =
     (case runner prog [''info'', ''-q'', name] (Some 60) w of
        (Inl _, w1) \<Rightarrow> (Ok None, w1)
      | (Inr o1, w1) \<Rightarrow> (Ok (if co_success o1 then candidate_of_info (co_stdout o1) else None), w1))"

definition rpm_repair_package_database :: "'w runner \<Rightarrow> 'w \<Rightarrow> (anyhow, unit) result \<times> 'w" where
  "rpm_repair_package_database runner w = unit_result (run_rpm runner [''--rebuilddb''] w)"

section \<open>DNF\<close>

definition dashed_spec :: "package_spec \<Rightarrow> string" where
  "dashed_spec p = (case sp_version p of Some v \<Rightarrow> sp_name p @ ''-'' @ v | None \<Rightarrow> sp_name p)"

definition dnf_install_args :: "package_spec list \<Rightarrow> install_options \<Rightarrow> string list" where
  "dnf_install_args packages opts =
     [''install'', ''-y''] @ (if io_no_recommends opts then [''--setopt=install_weak_deps=0''] else [])
     @ (if io_force opts then [''--allowerasing''] else []) @ map dashed_spec packages"

definition dnf_install_packages ::
    "'w runner \<Rightarrow> package_spec list \<Rightarrow> install_options \<Rightarrow> 'w \<Rightarrow> (anyhow, unit) result \<times> 'w" where
  "dnf_install_packages runner packages opts w = unit_result (run_dnf runner (dnf_install_args packages opts) w)"

definition dnf_update_package :: "'w runner \<Rightarrow> string \<Rightarrow> 'w \<Rightarrow> (anyhow, unit) result \<times> 'w" where
  "dnf_update_package runner name w = unit_result (run_dnf runner [''upgrade'', ''-y'', name] w)"

definition dnf_remove_package :: "'w runner \<Rightarrow> string \<Rightarrow> bool \<Rightarrow> 'w \<Rightarrow> (anyhow, unit) result \<times> 'w" where
  "dnf_remove_package runner name purge w =
     unit_result (run_dnf runner (if purge then [''remove'', ''-y'', ''--noautoremove'', name]
                                  else [''remove'', ''-y'', name]) w)"

definition dnf_apply_patches :: "'w runner \<Rightarrow> string list option \<Rightarrow> 'w \<Rightarrow> (anyhow, unit) result \<times> 'w" where
  "dnf_apply_patches runner packages w =
     unit_result (run_dnf runner ([''upgrade'', ''-y''] @ (case packages of Some pkgs \<Rightarrow> pkgs | None \<Rightarrow> [])) w)"

definition dnf_refresh_package_cache ::
    "(anyhow \<Rightarrow> string) \<Rightarrow> int \<Rightarrow> 'w runner \<Rightarrow> package_cache_state \<Rightarrow> 'w
     \<Rightarrow> ((anyhow, unit) result \<times> package_cache_state) \<times> 'w" where
  "dnf_refresh_package_cache dbg now runner cache w =
     (let (r, w1) = run_command_with_acceptable_exit_timed runner ''dnf'' [''check-update'', ''--refresh'']
                      [0, 100] 300 w
      in (record_refresh dbg now ''DNF'' r cache, w1))"

definition dnf_get_package where "dnf_get_package runner = rpm_get_package runner ''dnf''"
definition dnf_list_patches where "dnf_list_patches runner = rpm_list_patches runner ''dnf''"
definition dnf_get_candidate_version where
  "dnf_get_candidate_version runner = rpm_get_candidate_version runner ''dnf''"

definition dnf_backend :: "(anyhow \<Rightarrow> string) \<Rightarrow> int \<Rightarrow> host_env \<Rightarrow> 'w runner \<Rightarrow> 'w backend" where
  "dnf_backend dbg now env runner =
     \<lparr>be_list_packages = rpm_list_packages runner, be_get_package = dnf_get_package runner,
      be_install_packages = dnf_install_packages runner, be_update_package = dnf_update_package runner,
      be_remove_package = dnf_remove_package runner, be_list_patches = dnf_list_patches runner,
      be_apply_patches = dnf_apply_patches runner,
      be_get_system_info = (\<lambda>w. let (i, w1) = get_system_info runner env w in (Ok i, w1)),
      be_reboot_system = reboot_system runner,
      be_get_service_status = checked_service_status (get_systemd_service_status runner),
      be_refresh_package_cache = dnf_refresh_package_cache dbg now runner,
      be_get_installed_version = rpm_get_installed_version runner,
      be_get_candidate_version = dnf_get_candidate_version runner,
      be_repair_package_database = rpm_repair_package_database runner,
      be_package_database_clean = default_package_database_clean\<rparr>"

section \<open>YUM\<close>

text \<open>YUM knows no weak dependencies and no \<open>--allowerasing\<close>: both options are ignored.\<close>

definition yum_install_args :: "package_spec list \<Rightarrow> install_options \<Rightarrow> string list" where
  "yum_install_args packages opts = [''install'', ''-y'', ''--''] @ map dashed_spec packages"

definition yum_install_packages ::
    "'w runner \<Rightarrow> package_spec list \<Rightarrow> install_options \<Rightarrow> 'w \<Rightarrow> (anyhow, unit) result \<times> 'w" where
  "yum_install_packages runner packages opts w = unit_result (run_yum runner (yum_install_args packages opts) w)"

definition yum_update_package :: "'w runner \<Rightarrow> string \<Rightarrow> 'w \<Rightarrow> (anyhow, unit) result \<times> 'w" where
  "yum_update_package runner name w = unit_result (run_yum runner [''update'', ''-y'', ''--'', name] w)"

definition yum_remove_package :: "'w runner \<Rightarrow> string \<Rightarrow> bool \<Rightarrow> 'w \<Rightarrow> (anyhow, unit) result \<times> 'w" where
  "yum_remove_package runner name purge w = unit_result (run_yum runner [''remove'', ''-y'', ''--'', name] w)"

definition yum_apply_patches :: "'w runner \<Rightarrow> string list option \<Rightarrow> 'w \<Rightarrow> (anyhow, unit) result \<times> 'w" where
  "yum_apply_patches runner packages w =
     unit_result (run_yum runner (case packages of Some pkgs \<Rightarrow> [''update'', ''-y'', ''--''] @ pkgs
                                                 | None \<Rightarrow> [''update'', ''-y'']) w)"

definition yum_refresh_package_cache ::
    "(anyhow \<Rightarrow> string) \<Rightarrow> int \<Rightarrow> 'w runner \<Rightarrow> package_cache_state \<Rightarrow> 'w
     \<Rightarrow> ((anyhow, unit) result \<times> package_cache_state) \<times> 'w" where
  "yum_refresh_package_cache dbg now runner cache w =
     (let (r, w1) = run_yum runner [''makecache''] w in (record_refresh dbg now ''YUM'' r cache, w1))"

text \<open>The YUM backend has copies of the parsers, the same text but for the name of the program.\<close>

definition yum_parse_rpm_package_list where "yum_parse_rpm_package_list = parse_rpm_package_list"
definition yum_parse_rpm_info where "yum_parse_rpm_info runner = parse_rpm_info runner ''yum''"
definition yum_list_packages where "yum_list_packages = rpm_list_packages"
definition yum_get_package where "yum_get_package runner = rpm_get_package runner ''yum''"
definition yum_list_patches where "yum_list_patches runner = rpm_list_patches runner ''yum''"
definition yum_get_installed_version where "yum_get_installed_version = rpm_get_installed_version"
definition yum_get_candidate_version where
  "yum_get_candidate_version runner = rpm_get_candidate_version runner ''yum''"
definition yum_repair_package_database where "yum_repair_package_database = rpm_repair_package_database"

definition yum_backend :: "(anyhow \<Rightarrow> string) \<Rightarrow> int \<Rightarrow> host_env \<Rightarrow> 'w runner \<Rightarrow> 'w backend" where
  "yum_backend dbg now env runner =
     \<lparr>be_list_packages = yum_list_packages runner, be_get_package = yum_get_package runner,
      be_install_packages = yum_install_packages runner, be_update_package = yum_update_package runner,
      be_remove_package = yum_remove_package runner, be_list_patches = yum_list_patches runner,
      be_apply_patches = yum_apply_patches runner,
      be_get_system_info = (\<lambda>w. let (i, w1) = get_system_info runner env w in (Ok i, w1)),
      be_reboot_system = reboot_system runner,
      be_get_service_status = checked_service_status (get_systemd_service_status runner),
      be_refresh_package_cache = yum_refresh_package_cache dbg now runner,
      be_get_installed_version = yum_get_installed_version runner,
      be_get_candidate_version = yum_get_candidate_version runner,
      be_repair_package_database = yum_repair_package_database runner,
      be_package_database_clean = default_package_database_clean\<rparr>"

section \<open>The contract\<close>

lemma issues_dnf [issues_intros]: "P (''dnf'', args) \<Longrightarrow> issues P (\<lambda>w. run_dnf (logged run) args w)"
  unfolding run_dnf_def by (intro issues_intros)

lemma issues_yum [issues_intros]: "P (''yum'', args) \<Longrightarrow> issues P (\<lambda>w. run_yum (logged run) args w)"
  unfolding run_yum_def by (intro issues_intros)

lemma issues_rpm [issues_intros]: "P (''rpm'', args) \<Longrightarrow> issues P (\<lambda>w. run_rpm (logged run) args w)"
  unfolding run_rpm_def by (intro issues_intros)

lemma own_dashed_specs:
  "valid_names (map sp_name ps) \<Longrightarrow> list_all (own_word (map sp_name ps)) (map dashed_spec ps)"
  by (auto simp: list_all_iff dashed_spec_def own_word_exact own_word_name split: option.splits)

lemmas dnf_change_defs = dnf_install_packages_def dnf_update_package_def dnf_remove_package_def
  dnf_apply_patches_def dnf_refresh_package_cache_def rpm_repair_package_database_def

lemmas yum_change_defs = yum_install_packages_def yum_update_package_def yum_remove_package_def
  yum_apply_patches_def yum_refresh_package_cache_def yum_repair_package_database_def
  rpm_repair_package_database_def

interpretation dnf: package_manager "dnf_backend dbg now env (logged run)" now for dbg now env run
  by unfold_locales
    (auto simp: dnf_backend_def dnf_change_defs [abs_def] dnf_install_args_def own_command_simps own_dashed_specs
        dest: record_refresh_fresh split: prod.splits intro!: issues_intros)

interpretation yum: package_manager "yum_backend dbg now env (logged run)" now for dbg now env run
  by unfold_locales
    (auto simp: yum_backend_def yum_change_defs [abs_def] yum_install_args_def own_command_simps own_dashed_specs
        dest: record_refresh_fresh split: prod.splits intro!: issues_intros)

section \<open>Properties\<close>

text \<open>The exit code 100 by which \<open>check-update\<close> announces an update never reaches \<open>get_package\<close>: a runner returns an error
  for it.\<close>

lemma check_upgradable_never:
  "fst (check_upgradable (sys_run os) prog name v w) = (False, Some v)"
proof (cases "sys_run os prog [''check-update'', ''-q'', name] (Some 60) w")
  case (Pair r w1)
  show ?thesis
  proof (cases r)
    case (Inr o1)
    have "co_status_code o1 = Some 0" by (rule sys.not_success [OF Pair [unfolded Inr]])
    with Pair Inr show ?thesis by (simp add: check_upgradable_def)
  qed (use Pair in \<open>simp add: check_upgradable_def\<close>)
qed

lemma check_upgradable_result:
  "check_upgradable (sys_run os) prog name v w = ((up, latest), w') \<Longrightarrow> \<not> up \<and> latest = Some v"
  using check_upgradable_never [of os prog name v w] by simp

text \<open>A field keeps what stands between its first two colons, so the time of an install date loses its minutes.\<close>

lemma colon_field_cut:
  assumes "CHR '':'' \<notin> set k" "CHR '':'' \<notin> set a"
  shows "colon_field (k @ CHR '':'' # a @ CHR '':'' # b) = trim a"
proof -
  have "split_on CHR '':'' (k @ CHR '':'' # s) = k # split_on CHR '':'' s" for s
    using assms(1) by (induction k) auto
  moreover have "\<exists>ws. split_on CHR '':'' (a @ CHR '':'' # b) = a # ws"
    using assms(2) by (induction a) auto
  ultimately show ?thesis by (auto simp: colon_field_def)
qed

text \<open>No package of a DNF or YUM host is ever reported as upgradable by \<open>get_package\<close>, whatever the commands answer.
  Updates are announced by exit code 100, which the runner turns into an error before the parser sees it; an
  installed package is reported with its own version as the latest one.\<close>

theorem rpm_never_upgradable:
  assumes "rpm_get_package (sys_run os) prog name w = (Ok (Some p), w')"
  shows "\<not> p_upgradable p \<and> p_name p = name \<and>
    (if p_status p = Installed then p_latest_version p = Some (p_version p) else p_latest_version p = None)"
proof -
  have installed: "p_status q = Installed \<and> \<not> p_upgradable q \<and> p_name q = name \<and> p_latest_version q = Some (p_version q)"
    if "parse_rpm_info (sys_run os) prog out name w1 = (Ok (Some q), w2)" for out q w1 w2
    using that by (auto simp: parse_rpm_info_def Let_def dest!: check_upgradable_result split: prod.splits)
  have available: "p_status q = Available \<and> \<not> p_upgradable q \<and> p_name q = name \<and> p_latest_version q = None"
    if "rpm_available (sys_run os) prog name w1 = (Some q, w2)" for q w1 w2
    using that by (auto simp: rpm_available_def listed_package_def split: prod.splits sum.splits if_splits)
  show ?thesis
    using assms installed available
    by (auto simp: rpm_get_package_def Let_def split: prod.splits sum.splits if_splits)
qed

definition bash_host :: "unit os" where
  "bash_host p as w =
     (if hd as = ''check-update'' then Exited (Some 100) ''bash.x86_64 5.3 updates'' []
      else Exited (Some 0) ''Version : 5.2'' [], w)"

theorem rpm_never_upgradable_witness:
  "\<exists>p. rpm_get_package (sys_run bash_host) ''dnf'' ''bash'' () = (Ok (Some p), ()) \<and> \<not> p_upgradable p"
proof -
  have "case rpm_get_package (sys_run bash_host) ''dnf'' ''bash'' () of (Inr (Some p), _) \<Rightarrow> True | _ \<Rightarrow> False" by code_simp
  then obtain p where p: "rpm_get_package (sys_run bash_host) ''dnf'' ''bash'' () = (Ok (Some p), ())"
    by (auto split: prod.splits sum.splits option.splits)
  with rpm_never_upgradable [OF p] show ?thesis by blast
qed

end
