(* ===== verification/Pacman.thy ===== *)
theory Pacman imports Package_Contract begin

text \<open>
  The Pacman backend of \<open>src/packages/mod.rs\<close> (Arch Linux). Every command but two first waits for the lock of
  the pacman database and removes it after a minute; a pacman that was killed leaves its lock, which is
  removed too. A \<open>pacman_host\<close> is the runner with that lock file: whether it exists, the attempt to
  remove it, and a sleep of five seconds, which may last longer and after which anything may have changed.
\<close>

section \<open>The lock\<close>

record 'w pacman_host =
  ph_run :: "'w runner"
  ph_locked :: "'w \<Rightarrow> bool"
  ph_unlock :: "'w \<Rightarrow> 'w"
  ph_sleep :: "'w \<Rightarrow> nat \<times> 'w"   \<comment> \<open>the seconds slept beyond five\<close>

definition LOCK_MAX_WAIT :: nat where "LOCK_MAX_WAIT = 60"

text \<open>The loop on the lock; \<open>waited\<close> are the seconds since it was entered.\<close>

function wait_for_lock :: "'w pacman_host \<Rightarrow> nat \<Rightarrow> 'w \<Rightarrow> 'w" where
  "wait_for_lock h waited w =
     (if \<not> ph_locked h w then w
      else if waited \<ge> LOCK_MAX_WAIT then ph_unlock h w
      else wait_for_lock h (waited + 5 + fst (ph_sleep h w)) (snd (ph_sleep h w)))"
  by pat_completeness auto
termination by (relation "measure (\<lambda>(h, waited, w). LOCK_MAX_WAIT - waited)") auto

declare wait_for_lock.simps [simp del]

section \<open>Commands\<close>

definition pacman_timeout :: "string list \<Rightarrow> nat" where
  "pacman_timeout args = (if args \<noteq> [] \<and> (hd args = ''-Sy'' \<or> hd args = ''-Syu'') then 300 else 1800)"

definition run_pacman_with_acceptable_exit ::
    "'w pacman_host \<Rightarrow> string list \<Rightarrow> i32 list \<Rightarrow> 'w \<Rightarrow> (anyhow, string) result \<times> 'w" where
  "run_pacman_with_acceptable_exit h args acceptable w =
     (case run_command_with_acceptable_exit_timed (ph_run h) ''pacman'' args acceptable (pacman_timeout args)
             (wait_for_lock h 0 w) of
        (Inr out, w1) \<Rightarrow> (Ok out, w1)
      | (Inl e, w1) \<Rightarrow> (Err e, if str_contains (error_to_string e) ''timed out'' then ph_unlock h w1 else w1))"

definition run_pacman :: "'w pacman_host \<Rightarrow> string list \<Rightarrow> 'w \<Rightarrow> (anyhow, string) result \<times> 'w" where
  "run_pacman h args w = run_pacman_with_acceptable_exit h args [0] w"

section \<open>Parsers\<close>

text \<open>\<open>splitn(2, char::is_whitespace)\<close> with two parts.\<close>

definition split_at_space :: "string \<Rightarrow> (string \<times> string) option" where
  "split_at_space s =
     (case dropWhile (\<lambda>c. \<not> is_whitespace c) s of
        [] \<Rightarrow> None
      | _ # rest \<Rightarrow> Some (takeWhile (\<lambda>c. \<not> is_whitespace c) s, rest))"

definition parse_pacman_line :: "string \<Rightarrow> package option" where
  "parse_pacman_line line =
     (if trim line = [] then None
      else map_option (\<lambda>nv. listed_package nv Installed []) (split_at_space (trim line)))"

definition parse_pacman_package_list :: "string \<Rightarrow> package list" where
  "parse_pacman_package_list out = List.map_filter parse_pacman_line (str_lines out)"

definition listed_values :: "string \<Rightarrow> string list" where
  "listed_values value = (if value \<noteq> [] \<and> value \<noteq> ''None'' then split_whitespace value else [])"

definition pacman_info_step :: "package \<Rightarrow> string \<Rightarrow> package" where
  "pacman_info_step p line =
     (case split_once CHR '':'' line of
        None \<Rightarrow> p
      | Some (k, v) \<Rightarrow>
          (let key = trim k; value = trim v in
           if key = ''Version'' then p\<lparr>p_version := value\<rparr>
           else if key = ''Description'' then p\<lparr>p_description := value\<rparr>
           else if key = ''Installed Size'' then p\<lparr>p_size_installed := Some value\<rparr>
           else if key = ''Install Date'' then p\<lparr>p_install_date := Some value\<rparr>
           else if key = ''Depends On'' then p\<lparr>p_dependencies := p_dependencies p @ listed_values value\<rparr>
           else if key = ''Required By'' then
             p\<lparr>p_reverse_dependencies := p_reverse_dependencies p @ listed_values value\<rparr>
           else p))"

definition upgrade_target :: "string \<Rightarrow> string \<Rightarrow> string option" where
  "upgrade_target name line =
     (case split_whitespace line of
        a # _ # _ # d # _ \<Rightarrow> if a = name then Some d else None
      | _ \<Rightarrow> None)"

definition parse_pacman_info ::
    "'w pacman_host \<Rightarrow> string \<Rightarrow> string \<Rightarrow> 'w \<Rightarrow> (anyhow, package option) result \<times> 'w" where
  "parse_pacman_info h out name w =
     (let p = foldl pacman_info_step (listed_package (name, []) Installed []) (str_lines out);
          (up, w1) = run_pacman h [''-Qu'', name] w;
          upgradable = (case up of Inr o1 \<Rightarrow> trim o1 \<noteq> [] | Inl _ \<Rightarrow> False);
          (latest_version, w2) =
            (if upgradable then
               (case run_pacman h [''-Qu'', name] w1 of
                  (Inr o1, w2) \<Rightarrow> (find_map (upgrade_target name) (str_lines o1), w2)
                | (Inl _, w2) \<Rightarrow> (None, w2))
             else (Some (p_version p), w1))
      in (Ok (Some (p\<lparr>p_upgradable := upgradable, p_latest_version := latest_version\<rparr>)), w2))"

section \<open>Operations\<close>

definition pacman_list_packages ::
    "'w pacman_host \<Rightarrow> string option \<Rightarrow> 'w \<Rightarrow> (anyhow, package list) result \<times> 'w" where
  "pacman_list_packages h flt w =
     (let (r, w1) = run_pacman h (case flt of Some f \<Rightarrow> [''-Q'', f] | None \<Rightarrow> [''-Q'']) w
      in (map_sum id (\<lambda>out. filter (\<lambda>p. case flt of Some f \<Rightarrow> str_contains (p_name p) f | None \<Rightarrow> True)
                              (parse_pacman_package_list out)) r, w1))"

definition sync_info_step :: "string \<times> string \<Rightarrow> string \<Rightarrow> string \<times> string" where
  "sync_info_step st line =
     (case split_once CHR '':'' line of
        None \<Rightarrow> st
      | Some (k, v) \<Rightarrow>
          if trim k = ''Version'' then (trim v, snd st)
          else if trim k = ''Description'' then (fst st, trim v)
          else st)"

definition pacman_available :: "'w pacman_host \<Rightarrow> string \<Rightarrow> 'w \<Rightarrow> package option \<times> 'w" where
  "pacman_available h name w =
     (case ph_run h ''pacman'' [''-Si'', name] (Some 60) w of
        (Inl _, w1) \<Rightarrow> (None, w1)
      | (Inr o1, w1) \<Rightarrow>
          (if co_success o1 then
             (let (version, description) = foldl sync_info_step ([], []) (str_lines (co_stdout o1))
              in Some (listed_package (name, version) Available description))
           else None, w1))"

definition pacman_get_package ::
    "'w pacman_host \<Rightarrow> string \<Rightarrow> 'w \<Rightarrow> (anyhow, package option) result \<times> 'w" where
  "pacman_get_package h name w =
     (if bad_query_name name then (Err (invalid_name name), w)
      else case run_pacman h [''-Q'', name] w of
        (Inl _, w1) \<Rightarrow> (let (found, w2) = pacman_available h name w1 in (Ok found, w2))
      | (Inr _, w1) \<Rightarrow>
          (case run_pacman h [''-Qi'', name] w1 of
             (Inl e, w2) \<Rightarrow> (Err e, w2)
           | (Inr info_output, w2) \<Rightarrow> parse_pacman_info h info_output name w2))"

definition pacman_install_args :: "package_spec list \<Rightarrow> install_options \<Rightarrow> string list" where
  "pacman_install_args packages opts =
     [''-S'', ''--noconfirm'', ''--needed''] @ (if io_force opts then [''--overwrite'', ''*''] else [])
     @ [''--''] @ map sp_name packages"

definition pacman_install_packages ::
    "'w pacman_host \<Rightarrow> package_spec list \<Rightarrow> install_options \<Rightarrow> 'w \<Rightarrow> (anyhow, unit) result \<times> 'w" where
  "pacman_install_packages h packages opts w = unit_result (run_pacman h (pacman_install_args packages opts) w)"

definition pacman_update_package :: "'w pacman_host \<Rightarrow> string \<Rightarrow> 'w \<Rightarrow> (anyhow, unit) result \<times> 'w" where
  "pacman_update_package h name w = unit_result (run_pacman h [''-S'', ''--noconfirm'', ''--'', name] w)"

definition pacman_remove_package :: "'w pacman_host \<Rightarrow> string \<Rightarrow> bool \<Rightarrow> 'w \<Rightarrow> (anyhow, unit) result \<times> 'w" where
  "pacman_remove_package h name purge w = unit_result (run_pacman h [''-R'', ''--noconfirm'', ''--'', name] w)"

definition parse_pacman_patch_line :: "string \<Rightarrow> patch option" where
  "parse_pacman_patch_line line =
     (case split_whitespace (trim line) of
        name # current_version # arrow # available_version # _ \<Rightarrow>
          if arrow = ''->'' then Some (update_patch name current_version available_version ''Package update available'')
          else None
      | _ \<Rightarrow> None)"

definition pacman_list_patches :: "'w pacman_host \<Rightarrow> 'w \<Rightarrow> (anyhow, patch list) result \<times> 'w" where
  "pacman_list_patches h w =
     (let (r, w1) = run_pacman_with_acceptable_exit h [''-Qu''] [0, 1] w
      in (map_sum id (\<lambda>out. List.map_filter parse_pacman_patch_line (str_lines out)) r, w1))"

definition pacman_apply_patches ::
    "'w pacman_host \<Rightarrow> string list option \<Rightarrow> 'w \<Rightarrow> (anyhow, unit) result \<times> 'w" where
  "pacman_apply_patches h packages w =
     unit_result (run_pacman h (case packages of Some pkgs \<Rightarrow> [''-S'', ''--noconfirm'', ''--needed'', ''--''] @ pkgs
                                               | None \<Rightarrow> [''-Syu'', ''--noconfirm'']) w)"

definition pacman_refresh_package_cache ::
    "(anyhow \<Rightarrow> string) \<Rightarrow> int \<Rightarrow> 'w pacman_host \<Rightarrow> package_cache_state \<Rightarrow> 'w
     \<Rightarrow> ((anyhow, unit) result \<times> package_cache_state) \<times> 'w" where
  "pacman_refresh_package_cache dbg now h cache w =
     (let (r, w1) = run_pacman h [''-Sy''] w in (record_refresh dbg now ''Pacman'' r cache, w1))"

definition pacman_get_installed_version ::
    "'w pacman_host \<Rightarrow> string \<Rightarrow> 'w \<Rightarrow> (anyhow, string option) result \<times> 'w" where
  "pacman_get_installed_version h name w =
     (case run_pacman h [''-Q'', name] w of
        (Inl _, w1) \<Rightarrow> (Ok None, w1)
      | (Inr out, w1) \<Rightarrow>
          (Ok (map_option snd (split_at_space (trim (case str_lines out of l # _ \<Rightarrow> l | [] \<Rightarrow> [])))), w1))"

definition version_field :: "string \<Rightarrow> string option" where
  "version_field line =
     (case split_once CHR '':'' line of
        Some (k, v) \<Rightarrow> if trim k = ''Version'' \<and> trim v \<noteq> [] then Some (trim v) else None
      | None \<Rightarrow> None)"

definition pacman_get_candidate_version ::
    "'w pacman_host \<Rightarrow> string \<Rightarrow> 'w \<Rightarrow> (anyhow, string option) result \<times> 'w" where
  "pacman_get_candidate_version h name w =
     (case ph_run h ''pacman'' [''-Si'', name] (Some 60) w of
        (Inl _, w1) \<Rightarrow> (Ok None, w1)
      | (Inr o1, w1) \<Rightarrow>
          (Ok (if co_success o1 then find_map version_field (str_lines (co_stdout o1)) else None), w1))"

definition pacman_backend :: "(anyhow \<Rightarrow> string) \<Rightarrow> int \<Rightarrow> host_env \<Rightarrow> 'w pacman_host \<Rightarrow> 'w backend" where
  "pacman_backend dbg now env h =
     \<lparr>be_list_packages = pacman_list_packages h, be_get_package = pacman_get_package h,
      be_install_packages = pacman_install_packages h, be_update_package = pacman_update_package h,
      be_remove_package = pacman_remove_package h, be_list_patches = pacman_list_patches h,
      be_apply_patches = pacman_apply_patches h,
      be_get_system_info = (\<lambda>w. let (i, w1) = get_system_info (ph_run h) env w in (Ok i, w1)),
      be_reboot_system = reboot_system (ph_run h),
      be_get_service_status = checked_service_status (get_systemd_service_status (ph_run h)),
      be_refresh_package_cache = pacman_refresh_package_cache dbg now h,
      be_get_installed_version = pacman_get_installed_version h,
      be_get_candidate_version = pacman_get_candidate_version h,
      be_repair_package_database = default_repair_package_database,
      be_package_database_clean = default_package_database_clean\<rparr>"

section \<open>The contract\<close>

definition logged_host :: "'x pacman_host \<Rightarrow> 'x logged pacman_host" where
  "logged_host h =
     \<lparr>ph_run = logged (ph_run h), ph_locked = (\<lambda>w. ph_locked h (snd w)),
      ph_unlock = (\<lambda>w. (fst w, ph_unlock h (snd w))),
      ph_sleep = (\<lambda>w. let (late, x) = ph_sleep h (snd w) in (late, (fst w, x)))\<rparr>"

lemma wait_keeps_log [simp]: "fst (wait_for_lock (logged_host h) n w) = fst w"
proof (induction "logged_host h" n w rule: wait_for_lock.induct)
  case (1 n w)
  have "fst (snd (ph_sleep (logged_host h) w)) = fst w" "fst (ph_unlock (logged_host h) w) = fst w"
    by (simp_all add: logged_host_def Let_def split: prod.splits)
  with 1 show ?case by (subst wait_for_lock.simps) simp
qed

lemma issues_pacman [issues_intros]:
  assumes "P (''pacman'', args)"
  shows "issues P (\<lambda>w. run_pacman_with_acceptable_exit (logged_host h) args codes w)"
proof -
  have run: "ph_run (logged_host h) = logged (ph_run h)" by (simp add: logged_host_def)
  have unlock: "fst (ph_unlock (logged_host h) w) = fst w" for w by (simp add: logged_host_def)
  have "issues P (\<lambda>w. case run_command_with_acceptable_exit_timed (logged (ph_run h)) ''pacman'' args codes
          (pacman_timeout args) w of
        (Inr out, w1) \<Rightarrow> (Ok out, w1)
      | (Inl e, w1) \<Rightarrow>
          (Err e, if str_contains (error_to_string e) ''timed out'' then ph_unlock (logged_host h) w1 else w1))"
    by (intro issues_bind issues_acceptable issues_sum issues_ghost assms) (simp_all add: unlock)
  then show ?thesis
    unfolding run_pacman_with_acceptable_exit_def run by (rule issues_step [rotated]) simp
qed

lemma issues_run_pacman [issues_intros]:
  "P (''pacman'', args) \<Longrightarrow> issues P (\<lambda>w. run_pacman (logged_host h) args w)"
  unfolding run_pacman_def by (intro issues_intros)

lemmas pacman_change_defs = pacman_install_packages_def pacman_update_package_def pacman_remove_package_def
  pacman_apply_patches_def pacman_refresh_package_cache_def default_repair_package_database_def

lemma logged_host_run: "ph_run (logged_host h) = logged (ph_run h)"
  by (simp add: logged_host_def)

interpretation pacman: package_manager "pacman_backend dbg now env (logged_host h)" now for dbg now env h
  by unfold_locales
    (auto simp: pacman_backend_def pacman_change_defs [abs_def] pacman_install_args_def own_command_simps
        list_all_iff logged_host_run dest: record_refresh_fresh split: prod.splits intro!: issues_intros)

section \<open>Properties\<close>

text \<open>The world after \<open>n\<close> sleeps, and the seconds they took.\<close>

fun slept :: "'w pacman_host \<Rightarrow> nat \<Rightarrow> 'w \<Rightarrow> nat \<times> 'w" where
  "slept h 0 w = (0, w)"
| "slept h (Suc n) w =
     (let (secs, w1) = slept h n (snd (ph_sleep h w)) in (5 + fst (ph_sleep h w) + secs, w1))"

text \<open>C30: waiting for the lock of pacman's database ends. Whatever other processes do to the lock, the loop sleeps at most
  twelve times, each time because the lock is there and a minute has not passed; it leaves with the lock free, or
  removes the lock after at least a minute. The removal asks nobody: a pacman that works longer loses its lock.\<close>

theorem pacman_lock_wait_bounded:
  "\<exists>n\<le>12. (\<forall>k<n. ph_locked h (snd (slept h k w)) \<and> fst (slept h k w) < LOCK_MAX_WAIT) \<and>
     (if ph_locked h (snd (slept h n w))
      then LOCK_MAX_WAIT \<le> fst (slept h n w) \<and> wait_for_lock h 0 w = ph_unlock h (snd (slept h n w))
      else wait_for_lock h 0 w = snd (slept h n w))"
proof -
  have "\<exists>n. 5 * n < LOCK_MAX_WAIT - waited + 5 \<and>
     (\<forall>k<n. ph_locked h (snd (slept h k w)) \<and> waited + fst (slept h k w) < LOCK_MAX_WAIT) \<and>
     (if ph_locked h (snd (slept h n w))
      then LOCK_MAX_WAIT \<le> waited + fst (slept h n w) \<and> wait_for_lock h waited w = ph_unlock h (snd (slept h n w))
      else wait_for_lock h waited w = snd (slept h n w))" for waited
  proof (induction h waited w rule: wait_for_lock.induct)
    case (1 h waited w)
    show ?case
    proof (cases "ph_locked h w \<and> waited < LOCK_MAX_WAIT")
      case False
      then show ?thesis by (intro exI [of _ 0]) (auto simp: wait_for_lock.simps [of h waited w])
    next
      case True
      let ?w = "snd (ph_sleep h w)"
      let ?t = "waited + 5 + fst (ph_sleep h w)"
      from 1 True obtain n where n: "5 * n < LOCK_MAX_WAIT - ?t + 5"
        "\<forall>k<n. ph_locked h (snd (slept h k ?w)) \<and> ?t + fst (slept h k ?w) < LOCK_MAX_WAIT"
        "if ph_locked h (snd (slept h n ?w))
         then LOCK_MAX_WAIT \<le> ?t + fst (slept h n ?w) \<and> wait_for_lock h ?t ?w = ph_unlock h (snd (slept h n ?w))
         else wait_for_lock h ?t ?w = snd (slept h n ?w)"
        by auto
      have step: "slept h (Suc k) w = (5 + fst (ph_sleep h w) + fst (slept h k ?w), snd (slept h k ?w))" for k
        by (simp split: prod.splits)
      have "wait_for_lock h waited w = wait_for_lock h ?t ?w" using True by (simp add: wait_for_lock.simps [of h waited w])
      moreover have "5 * Suc n < LOCK_MAX_WAIT - waited + 5" using n(1) conjunct2 [OF True] by (cases n) simp_all
      ultimately show ?thesis
        using n(2,3) True step
        by (intro exI [of _ "Suc n"]) (auto simp: less_Suc_eq_0_disj add.assoc simp del: slept.simps(2) mult_Suc_right)
    qed
  qed
  from this [of 0] obtain n where n: "5 * n < LOCK_MAX_WAIT - 0 + 5"
    "\<forall>k<n. ph_locked h (snd (slept h k w)) \<and> 0 + fst (slept h k w) < LOCK_MAX_WAIT"
    "if ph_locked h (snd (slept h n w))
     then LOCK_MAX_WAIT \<le> 0 + fst (slept h n w) \<and> wait_for_lock h 0 w = ph_unlock h (snd (slept h n w))
     else wait_for_lock h 0 w = snd (slept h n w)" by blast
  from n(1) have "n \<le> 12" by (simp add: LOCK_MAX_WAIT_def)
  with n(2,3) show ?thesis by (intro exI [of _ n]) (simp split: if_splits)
qed

text \<open>A lock whose owner never releases it: the world counts the sleeps, and the attempt to remove the lock sets it to
  1000.\<close>

definition stuck_host :: "nat pacman_host" where
  "stuck_host = \<lparr>ph_run = sys_run (\<lambda>p as w. (Exited (Some 0) [] [], w)), ph_locked = (\<lambda>w. w < 1000),
     ph_unlock = (\<lambda>w. 1000), ph_sleep = (\<lambda>w. (0, Suc w))\<rparr>"

theorem pacman_lock_wait_bounded_witness: "wait_for_lock stuck_host 0 0 = 1000"
proof -
  have slept: "slept stuck_host n w = (5 * n, w + n)" for n w
    by (induction n arbitrary: w) (simp_all add: stuck_host_def)
  obtain n where "n \<le> 12" "if ph_locked stuck_host (snd (slept stuck_host n 0))
      then LOCK_MAX_WAIT \<le> fst (slept stuck_host n 0) \<and> wait_for_lock stuck_host 0 0 = ph_unlock stuck_host (snd (slept stuck_host n 0))
      else wait_for_lock stuck_host 0 0 = snd (slept stuck_host n 0)"
    using pacman_lock_wait_bounded [of stuck_host 0] by blast
  then show ?thesis unfolding slept by (simp add: stuck_host_def)
qed

end
