(* ===== verification/Managers.thy ===== *)
theory Managers imports Apk Rpm Pacman Handlers begin

text \<open>
  The choice of the backend (\<open>create_backend_with_runner\<close> of \<open>src/packages/mod.rs\<close>), the contract for APT, and what
  follows for every backend and every request: the commands a request can make the agent run.
\<close>

section \<open>The factory\<close>

text \<open>\<open>exists\<close> tells which paths are there. The runner of the APT machine and of the pacman host is the same one.\<close>

definition create_backend ::
    "(anyhow \<Rightarrow> string) \<Rightarrow> int \<Rightarrow> host_env \<Rightarrow> bool \<Rightarrow> bool \<Rightarrow> (string \<Rightarrow> bool) \<Rightarrow> 'w machine \<Rightarrow> 'w pacman_host
     \<Rightarrow> (anyhow, 'w backend) result" where
  "create_backend dbg now env is_systemd is_openrc exists m h =
     (if exists ''/usr/bin/apt'' then Ok (apt_backend dbg now env is_systemd is_openrc m)
      else if exists ''/usr/bin/dnf'' then Ok (dnf_backend dbg now env (m_run m))
      else if exists ''/usr/bin/yum'' then Ok (yum_backend dbg now env (m_run m))
      else if exists ''/usr/bin/apk'' \<or> exists ''/sbin/apk'' then Ok (apk_backend dbg now env (m_run m))
      else if exists ''/usr/bin/pacman'' then Ok (pacman_backend dbg now env h)
      else Err (anyhow_msg ''No supported package manager found''))"

section \<open>The contract for APT\<close>

definition logged_machine :: "'x machine \<Rightarrow> 'x logged machine" where
  "logged_machine m =
     \<lparr>m_run = logged (m_run m), m_lock = (\<lambda>path w. m_lock m path (snd w)),
      m_remove = (\<lambda>path w. (fst w, m_remove m path (snd w))), m_poisoned = m_poisoned m\<rparr>"

lemma run_logged_machine [simp]: "m_run (logged_machine m) = logged (m_run m)"
  by (simp add: logged_machine_def)

lemma cleanup_keeps_log [simp]: "fst (cleanup_stale_apt_locks (logged_machine m) w) = fst w"
proof -
  let ?step = "\<lambda>w path. case m_lock (logged_machine m) path w of None \<Rightarrow> w
      | Some v \<Rightarrow> if lock_is_stale v then m_remove (logged_machine m) path w else w"
  have "fst (foldl ?step w ps) = fst w" for ps w
  proof (induction ps arbitrary: w)
    case (Cons p ps)
    have "fst (?step w p) = fst w" by (simp add: logged_machine_def split: option.splits)
    with Cons show ?case by simp
  qed simp
  then show ?thesis by (simp add: cleanup_stale_apt_locks_def)
qed

lemma issues_dpkg [issues_intros]: "P (''dpkg'', args) \<Longrightarrow> issues P (\<lambda>w. run_dpkg (logged_machine m) args w)"
  unfolding run_dpkg_def run_logged_machine by (intro issues_intros)

lemma issues_ensure:
  assumes "P CONFIGURE"
  shows "issues P (\<lambda>w. ensure_dpkg_clean (logged_machine m) w)"
proof -
  have "issues P (\<lambda>w. case run_dpkg (logged_machine m) [''--configure'', ''-a''] w of
        (Inr _, w1) \<Rightarrow> (Ok (), w1)
      | (Inl e, w1) \<Rightarrow>
          (Err (add_context ''dpkg --configure -a failed: package manager is in a broken state that requires manual intervention'' e), w1))"
    using assms unfolding CONFIGURE_def by (intro issues_intros)
  then show ?thesis unfolding ensure_dpkg_clean_def by (rule issues_step [rotated]) simp
qed

lemma issues_verify:
  "P CONFIGURE \<Longrightarrow> P AUDIT \<Longrightarrow> issues P (\<lambda>w. verify_dpkg_clean (logged_machine m) w)"
  unfolding verify_dpkg_clean_def AUDIT_def by (intro issues_intros issues_ensure)

lemma issues_apt_safe:
  assumes "P CONFIGURE" "P AUDIT" "P (''apt-get'', args)"
  shows "issues P (\<lambda>w. run_apt_safe (logged_machine m) args w)"
  unfolding run_apt_safe_def run_logged_machine
  by (intro issues_intros issues_ensure issues_verify issues_snd assms)

lemma own_dpkg [simp]: "own_command names CONFIGURE" "own_command names AUDIT"
  by (simp_all add: CONFIGURE_def AUDIT_def own_command_simps)

lemmas issues_apt = issues_apt_safe [where P = "own_command names" for names, OF own_dpkg]

lemma issues_held_fallback: "issues (own_command names) (\<lambda>w. held_fallback (logged_machine m) ctx w)"
  unfolding held_fallback_def fallback_to_hold_respecting_upgrade_def Let_def run_logged_machine
  by (intro issues_intros issues_apt) (simp_all add: own_command_simps)

lemma own_patch_args:
  "valid_names (opt_or ns []) \<Longrightarrow> own_command (opt_or ns []) (''apt-get'', patch_args ns)"
  by (cases ns) (simp_all add: patch_args_def own_command_simps)

lemma own_fix_broken: "own_command names (''apt-get'', FIX_BROKEN)"
  by (simp add: FIX_BROKEN_def own_command_simps)

lemma issues_apt_patches:
  assumes "valid_names (opt_or ns [])"
  shows "issues (own_command (opt_or ns [])) (\<lambda>w. Apt.apply_patches (logged_machine m) ns w)"
  unfolding Apt.apply_patches_def upgrade_with_recovery_def retry_upgrade_def Let_def
  by (intro issues_intros issues_apt issues_held_fallback own_patch_args own_fix_broken assms)

lemmas apt_change_defs = Apt.install_packages_def Apt.update_package_def Apt.remove_package_def
  Apt.repair_package_database_def

interpretation apt: package_manager "apt_backend dbg now env sysd orc (logged_machine m)" now
  for dbg now env sysd orc m
proof
  fix ps opts n ns c w r c' w' purge
  let ?be = "apt_backend dbg now env sysd orc (logged_machine m)"
  show "issues (own_command (map sp_name ps)) (be_install_packages ?be ps opts)" if "valid_names (map sp_name ps)"
    using that own_spec_args [OF that]
    by (auto simp: apt_backend_def apt_change_defs [abs_def] install_args_def own_command_simps
        intro!: issues_unit issues_apt)
  show "issues (own_command [n]) (be_update_package ?be n)" if "valid_names [n]"
    using that by (auto simp: apt_backend_def apt_change_defs [abs_def] own_command_simps intro!: issues_unit issues_apt)
  show "issues (own_command [n]) (be_remove_package ?be n purge)" if "valid_names [n]"
    using that by (auto simp: apt_backend_def apt_change_defs [abs_def] own_command_simps intro!: issues_unit issues_apt)
  show "issues (own_command ns) (be_apply_patches ?be (Some ns))" if "valid_names ns"
    using issues_apt_patches [of "Some ns" m] that by (simp add: apt_backend_def)
  show "issues (own_command []) (be_apply_patches ?be None)"
    using issues_apt_patches [of None m] by (simp add: apt_backend_def valid_names_def)
  show "issues (own_command []) (be_refresh_package_cache ?be c)"
    by (auto simp: apt_backend_def Apt.refresh_package_cache_def [abs_def] own_command_simps intro!: issues_intros issues_apt)
  show "issues (own_command []) (be_repair_package_database ?be)"
    by (auto simp: apt_backend_def apt_change_defs [abs_def] intro!: issues_intros issues_ensure issues_verify)
  show "issues host_query (be_get_system_info ?be)" "issues (reboots_after d) (be_reboot_system ?be d)" for d
    by (auto simp: apt_backend_def intro!: issues_intros)
  show "case r of Inr _ \<Rightarrow> c' = update_success now c | Inl e \<Rightarrow> \<exists>m. c' = update_failure now m c"
    if "be_refresh_package_cache ?be c w = ((r, c'), w')"
    using that by (auto simp: apt_backend_def Apt.refresh_package_cache_def split: prod.splits sum.splits)
qed

text \<open>Every backend the factory can choose keeps the contract.\<close>

lemma created_package_manager:
  assumes "create_backend dbg now env sysd orc exists (logged_machine m) (logged_host h) = Ok be"
  shows "package_manager be now"
  using assms apt.package_manager_axioms dnf.package_manager_axioms yum.package_manager_axioms
    apk.package_manager_axioms pacman.package_manager_axioms
  by (auto simp: create_backend_def split: if_splits)

section \<open>Requests\<close>

text \<open>The closure of each accepted request, for any backend that keeps the contract. The job records the requested
  names.\<close>

lemma admitted_packages:
  assumes "admit_job t i boot oper ps s = Inr (k, s1)" and "get_job i s1 = Some j"
  shows "j_packages j = ps"
  using admit_job_Inr [OF assms(1)] assms(2) by (auto simp: new_job_def)

context package_manager begin

lemma install_commands:
  assumes "h_install_packages dbg t i boot be req s = (resp, s', Some mu)" and "get_job i s' = Some j"
  shows "issues (own_command (j_packages j)) (mu_closure mu c)"
proof -
  have valid: "valid_names (map sp_name (ir_packages req))"
    using assms(1) validate_package_names_ok [of "ir_packages req"]
    by (auto simp: h_install_packages_def Let_def valid_names_def list_all_iff split: sum.splits)
  from assms have "j_packages j = map sp_name (ir_packages req)"
    "mu_closure mu = keeping_cache (be_install_packages be (ir_packages req) (ir_options req))"
    by (auto simp: h_install_packages_def admit_and_spawn_def Let_def split: sum.splits dest: admitted_packages)
  with install [OF valid] show ?thesis by (auto intro!: issues_keeping)
qed

lemma self_update_commands:
  "valid_names [n] \<Longrightarrow> issues (own_command [n]) (self_update_closure be n c)"
  unfolding self_update_closure_def [abs_def] Let_def
  by (intro issues_bind) (auto intro!: refresh_any issues_keeping update split: prod.splits)

lemma update_commands:
  assumes "h_update_package dbg t i boot be n s = (resp, s', Some mu)" and "get_job i s' = Some j"
  shows "issues (own_command (j_packages j)) (mu_closure mu c)"
proof -
  have valid: "valid_names [n]"
    using assms(1) by (auto simp: h_update_package_def valid_names_def split: sum.splits)
  have "j_packages j = [n] \<and> (mu_closure mu = keeping_cache (be_update_package be n) \<or> mu_closure mu = self_update_closure be n)"
  proof (cases "n = SELF_PACKAGE_NAME")
    case True
    then have "get_job i s' = Some (new_job i t boot SelfUpdate [n])"
      using assms(1) by (auto simp: h_update_package_def try_reserve_self_update_def drop_self_update_guard_def Let_def
          split: sum.splits if_splits)
    with True assms show ?thesis using h_update_self [of dbg t i boot be s resp s' mu] by (auto simp: new_job_def)
  next
    case False
    with assms show ?thesis
      by (auto simp: h_update_package_def admit_and_spawn_def split: sum.splits dest: admitted_packages)
  qed
  then show ?thesis using update [OF valid] self_update_commands [OF valid] by (auto intro!: issues_keeping)
qed

lemma remove_commands:
  assumes "h_remove_package dbg t i boot be n s = (resp, s', Some mu)" and "get_job i s' = Some j"
  shows "issues (own_command (j_packages j)) (mu_closure mu c)"
proof -
  have valid: "valid_names [n]"
    using assms(1) by (auto simp: h_remove_package_def valid_names_def split: sum.splits)
  from assms have "j_packages j = [n]" "mu_closure mu = keeping_cache (be_remove_package be n False)"
    by (auto simp: h_remove_package_def admit_and_spawn_def split: sum.splits dest: admitted_packages)
  with remove [OF valid] show ?thesis by (auto intro!: issues_keeping)
qed

lemma transaction_commands:
  assumes "valid_names (opt_or (pr_packages req) [])"
  shows "issues (own_command (opt_or (pr_packages req) [])) (transaction be req c)"
  unfolding transaction_def [abs_def]
  by (intro issues_bind issues_prod issues_sum issues_if issues_return refresh_any patches assms)

lemma patch_commands:
  assumes "h_apply_patches dbg t i rid boot be req s = (resp, s', Some mu)" and "get_job i s' = Some j"
  shows "issues (own_command (j_packages j)) (mu_closure mu c)"
proof -
  have valid: "valid_names (opt_or (pr_packages req) [])"
    using assms(1) foldl_bind_ok [of validate_package_name _ "opt_or (pr_packages req) []"]
    by (auto simp: h_apply_patches_def valid_names_def list_all_iff split: sum.splits)
  from assms have "j_packages j = opt_or (pr_packages req) []" "mu_closure mu = transaction be req"
    by (auto simp: h_apply_patches_def split: sum.splits dest: admitted_packages)
  with transaction_commands [OF valid] show ?thesis by simp
qed

text \<open>What a task runs after its closure: nothing, but for a patch request that allows a reboot.\<close>

lemma settle_patch_commands:
  "issues (\<lambda>c. pr_allow_reboot req \<and> is_ok r \<and> (host_query c \<or> reboots_after (pr_reboot_delay_seconds req) c))
     (\<lambda>w. settle_patch dbg t boot i rid be req r (sch, w))"
proof (cases "is_ok r \<and> pr_allow_reboot req")
  case False
  then show ?thesis
    by (cases r) (simp_all add: settle_patch_def asks_pending_reboot_def reboot_commanded_def should_reboot_def issues_return)
next
  case True
  let ?P = "\<lambda>c. host_query c \<or> reboots_after (pr_reboot_delay_seconds req) c"
  obtain u where r: "r = Inr u" using True by (cases r) auto
  have q: "issues ?P (be_get_system_info be)" by (rule issues_mono [OF info]) simp
  have b: "issues ?P (be_reboot_system be (pr_reboot_delay_seconds req))" by (rule issues_mono [OF reboot]) simp
  have asks: "issues ?P (\<lambda>w. asks_pending_reboot be req w)"
    unfolding asks_pending_reboot_def by (intro issues_if issues_bind [OF q] issues_sum issues_return)
  have run: "issues ?P (\<lambda>w. if go then be_reboot_system be (pr_reboot_delay_seconds req) w else (Ok (), w))" for go
    using b by (intro issues_if issues_return)
  let ?finish = "\<lambda>need. finish_patch_job dbg t boot i rid req need (Inr u)"
  let ?go = "\<lambda>need. reboot_commanded t i rid boot req need sch"
  have "issues ?P (\<lambda>w. case asks_pending_reboot be req w of (need, w1) \<Rightarrow>
      (case (if ?go need then be_reboot_system be (pr_reboot_delay_seconds req) w1 else (Ok (), w1)) of
         (rr, w2) \<Rightarrow> (?finish need rr sch, w2)))"
    by (intro issues_bind [OF asks] issues_bind [OF run] issues_return)
  then have "issues ?P (\<lambda>w. settle_patch dbg t boot i rid be req r (sch, w))"
    by (simp add: settle_patch_def r)
  with True show ?thesis by simp
qed

lemma plain_settle_commands: "issues P (\<lambda>w. apfst f (sch, w))"
  by (simp add: issues_return)

end

lemma admit_and_spawn_settle:
  "admit_and_spawn dbg t i boot oper ps cl op l p s = (resp, s0, Some mu) \<Longrightarrow>
     \<exists>k. mu_settle mu = (\<lambda>t r. apfst (settle_job dbg t k r))"
  by (auto simp: admit_and_spawn_def split: sum.splits)

lemma spawned_settle:
  "h_install_packages dbg t i boot be ireq s = (resp, s', Some mu) \<Longrightarrow> \<exists>k. mu_settle mu = (\<lambda>t r. apfst (settle_job dbg t k r))"
  "h_remove_package dbg t i boot be name s = (resp, s', Some mu) \<Longrightarrow> \<exists>k. mu_settle mu = (\<lambda>t r. apfst (settle_job dbg t k r))"
  "h_update_package dbg t i boot be name s = (resp, s', Some mu) \<Longrightarrow> \<exists>f. mu_settle mu = (\<lambda>t r. apfst (f t r))"
  "h_apply_patches dbg t i rid boot be preq s = (resp, s', Some mu) \<Longrightarrow>
     \<exists>k. mu_settle mu = (\<lambda>t. settle_patch dbg t boot k rid be preq)"
  by (auto simp: h_install_packages_def h_remove_package_def h_update_package_def h_apply_patches_def Let_def
      dest: admit_and_spawn_settle split: sum.splits if_splits)

section \<open>Properties\<close>


text \<open>A Fedora host on which every command succeeds; its state is empty.\<close>

definition quiet_machine :: "unit machine" where
  "quiet_machine = \<lparr>m_run = sys_run (\<lambda>p as w. (Exited (Some 0) [] [], w)), m_lock = (\<lambda>_ _. None), m_remove = (\<lambda>_ w. w), m_poisoned = None\<rparr>"

definition quiet_pacman :: "unit pacman_host" where
  "quiet_pacman = \<lparr>ph_run = m_run quiet_machine, ph_locked = (\<lambda>_. False), ph_unlock = (\<lambda>w. w), ph_sleep = (\<lambda>w. (0, w))\<rparr>"

definition fedora_backend :: "unit logged backend" where
  "fedora_backend = dnf_backend (\<lambda>_. []) 0 demo_env (logged (m_run quiet_machine))"

lemma fedora_created:
  "create_backend (\<lambda>_. []) 0 demo_env True False (\<lambda>path. path = ''/usr/bin/dnf'') (logged_machine quiet_machine)
     (logged_host quiet_pacman) = Ok fedora_backend"
  by (simp add: create_backend_def fedora_backend_def)


lemma logged_timed_log: "fst (snd (run_command_timed (logged run) p as t w)) = fst w @ [(p, as)]"
  by (simp add: run_command_timed_def logged_def Let_def split: prod.splits)

lemma pacman_log: "fst (snd (run_pacman (logged_host h) as w)) = fst w @ [(''pacman'', as)]"
proof -
  have "ph_run (logged_host h) = logged (ph_run h)" "\<And>w. fst (ph_unlock (logged_host h) w) = fst w"
    by (simp_all add: logged_host_def)
  then show ?thesis
    by (simp add: run_pacman_def run_pacman_with_acceptable_exit_def run_command_with_acceptable_exit_timed_def
        logged_def Let_def split: prod.splits sum.splits)
qed

text \<open>The package list does not check its filter. Whatever the filter \<open>f\<close> of \<open>GET /packages?name=f\<close> is, the agent runs one
  command with \<open>f\<close> as its last word, with nothing before it that ends the options: a filter that starts
  with a hyphen is an option of the package manager.\<close>

theorem list_filter_unchecked:
  assumes "create_backend dbg now env sysd orc exists (logged_machine m) (logged_host h) = Ok be"
    and "plq_name q = Some f"
  shows "\<exists>p sub. fst (snd (h_list_packages be q w)) = fst w @ [(p, [sub, f])] \<or>
           fst (snd (h_list_packages be q w)) = fst w @ [(p, [sub, ''--installed'', f])]"
proof -
  have list: "snd (h_list_packages be q w) = snd (be_list_packages be (Some f) w)"
    using assms(2) by (simp add: h_list_packages_def Let_def split: prod.splits sum.splits)
  show ?thesis
    using assms(1) unfolding list
    by (auto simp: create_backend_def apt_backend_def dnf_backend_def yum_backend_def apk_backend_def pacman_backend_def
        Apt.list_packages_def rpm_list_packages_def yum_list_packages_def apk_list_packages_def pacman_list_packages_def
        run_apt_cli_def run_rpm_def run_apk_def logged_timed_log pacman_log Let_def case_prod_unfold split: if_splits)
qed

theorem list_filter_unchecked_witness:
  "\<exists>p sub. fst (snd (h_list_packages fedora_backend
       \<lparr>plq_name = Some ''--root=/tmp'', plq_status = None, plq_upgradable = None, plq_sort = None, plq_order = None\<rparr> ([], ())))
     \<in> {[(p, [sub, ''--root=/tmp''])], [(p, [sub, ''--installed'', ''--root=/tmp''])]}"
  using list_filter_unchecked [OF fedora_created, of
      "\<lparr>plq_name = Some ''--root=/tmp'', plq_status = None, plq_upgradable = None, plq_sort = None, plq_order = None\<rparr>"
      "''--root=/tmp''" "([], ())"] by simp

end
