(* ===== verification/Spec2Isabelle.thy ===== *)
theory Spec2Isabelle imports Live Logging Child Test_Utils Managers begin

text \<open>
  A verification library for the Linux Patch API agent (the Rust crate under \<open>src/\<close>): a daemon that
  installs packages and patches on a host, runs every change as a job of one scheduler, reboots the
  host or updates itself on request, and serves all this over HTTPS to clients that hold a
  certificate and come from a whitelisted address.

  \<^bold>\<open>The program and its model.\<close> A request passes the rate limiter, the header check and the
  whitelist (theory \<open>Middleware\<close>: \<open>api/rate_limit.rs\<close>, \<open>auth/security_headers.rs\<close> and the middleware of
  \<open>auth/whitelist.rs\<close>, composed as \<open>main.rs\<close> wraps them), on a connection whose client certificate the
  verifier of \<open>auth/mtls.rs\<close> accepted against the revocation list of \<open>auth/crl.rs\<close> (theories \<open>Crl\<close>, \<open>Mtls\<close>). The
  routing table selects a handler (theories \<open>Router\<close>, \<open>Api\<close>). A handler admits a job (\<open>Scheduler::admit_job\<close>), spawns a task and hands a closure to
  \<open>Scheduler::dispatch_mutation\<close>; the closure runs the commands of the package backend through
  the command runner, and the task settles the job with its result.

  \<^item> \<open>Prelude\<close>: Rust's string functions on character lists, \<open>Result\<close> as a sum, hash maps as
    association lists with distinct keys, counting in them.
  \<^item> \<open>Error_Utils\<close> (\<open>packages/error_utils.rs\<close>): \<open>command_error\<close>, the cause chain of an
    \<open>anyhow::Error\<close>, its classification and log lines.
  \<^item> \<open>Jobs\<close> (\<open>jobs/manager.rs\<close>): the job record and its transitions.
  \<^item> \<open>Scheduler\<close> (\<open>jobs/scheduler.rs\<close>): \<open>scheduler_state\<close> is what the mutex protects; each definition
    is the locked section of the function with its name. \<open>Scheduler_Inv\<close>: the locale \<open>sched_op\<close> is what
    every operation but the dispatch promises (it leaves the mutation slot, its generation and the
    limits alone, keeps the well-formedness and the bound on running jobs); it is interpreted for
    every operation.
  \<^item> \<open>Dispatch\<close>: one turn of the wait loop of \<open>dispatch_mutation\<close>, the watchdog, and the transition
    system they form with all other operations: \<open>sys_step\<close> on \<open>dispatch_sys\<close>, where callers wait, acquire
    the slot, are dropped, and tasks finish by returning, panicking or overrunning their backstop.
  \<^item> \<open>Coordination\<close>: the locale \<open>gate_op\<close> extends \<open>sched_op\<close> by the three gates (admission mode, reboot
    barrier, self-update reservation); the properties say what each gate keeps out.
  \<^item> \<open>Admission\<close>: the functional behaviour of the operations that create jobs.
  \<^item> \<open>Test_Utils\<close>: the older entry points of the scheduler that only tests may use, compared with the dispatch.
  \<^item> \<open>Agent\<close> (\<open>jobs/persistence.rs\<close>, the \<open>persist_jobs\<close> calls, the recovery in \<open>main.rs\<close>): the scheduler
    together with its history file, and what a restart makes of it.
  \<^item> \<open>Net\<close>, \<open>Whitelist\<close> (\<open>auth/whitelist.rs\<close>): the integer and IPv4 parsers of the standard library,
    the whitelist manager, its file and its matching on 32-bit words.
  \<^item> \<open>Middleware\<close>: a service is a function on a request and the state behind it; the locale
    \<open>middleware\<close> is a wrapper that either answers itself or calls the inner service once.
  \<^item> \<open>Crl\<close>: loading, verifying and refreshing the revocation list, the refresh and health tasks, the
    certificate verifier, the decision at startup.
  \<^item> \<open>Mtls\<close> (\<open>auth/mtls.rs\<close>): the verifier as the record of its methods, reading the PEM files, the server
    configuration, and what rustls and WebPKI promise of a completed handshake.
  \<^item> \<open>Runner\<close> (\<open>packages/coordinator.rs\<close>): commands over an operating system that decides the fate of
    each child; the locale \<open>command_runner\<close> is the contract of the trait. \<open>Child\<close>: the same function in time,
    with the drains of the two pipes, the deadline and the kill sequence.
  \<^item> \<open>Cache\<close> (\<open>packages/cache.rs\<close>), \<open>System\<close> and \<open>Apt\<close> (\<open>packages/mod.rs\<close>): staleness of the package
    index, the validators, system queries and the reboot command, and the APT backend. \<open>Cache_File\<close>: the file that keeps the staleness over a restart.
  \<^item> \<open>Patch_Handler\<close> (\<open>api/handlers/patches.rs\<close>): the patch transaction and how its task settles the
    job, with the optional reboot.
  \<^item> \<open>Backend\<close>: the trait \<open>PackageManagerBackend\<close> as a record of operations, with the APT backend as an
    instance; the API envelope, and \<open>mutation\<close>, what a handler spawns: the job, its closure and how the
    task settles it; \<open>run_mutation\<close> runs it whole, its closure returning, panicking or overrunning its backstop. \<open>Sorting\<close>: Rust's stable sort, with the locale of a total preorder.
  \<^item> \<open>Apk\<close>, \<open>Rpm\<close> and \<open>Pacman\<close> (\<open>packages/mod.rs\<close>): the other backends as such records; DNF and YUM share
    their parsers, pacman has a lock file that other processes use. \<open>Package_Text\<close>: what they have in
    common. \<open>Package_Contract\<close>: the locale \<open>package_manager\<close>, the words a backend passes to programs, the
    commands by which it looks for a pending reboot and reboots, and what a refresh records; all five backends interpret it. \<open>Managers\<close>: the factory, and what a request can make
    the agent run.
  \<^item> \<open>Handlers\<close> (\<open>api/handlers/packages.rs\<close>, \<open>patches.rs\<close>, \<open>jobs.rs\<close>) and \<open>System_Handlers\<close>
    (\<open>api/handlers/system.rs\<close>): each handler maps a request and the scheduler to the answer, the new
    scheduler and the spawned task; the task of a patch, which alone runs commands after its closure, is
    \<open>settle_patch\<close>. \<open>Settlement\<close>: what the task makes of the job; the locale \<open>settling_task\<close> is the part
    of a task before and after its dispatch, interpreted for package jobs, self-updates and patches.
  \<^item> \<open>Router\<close> (\<open>api/routes.rs\<close> and the \<open>configure_routes\<close> of the handlers): the table of routes, in the order they
    are registered. \<open>Api\<close>: the application, with the state the handlers share, an endpoint's extractors and
    handler, and the pipeline around it.
  \<^item> \<open>WebSocket\<close> (\<open>jobs/websocket.rs\<close>): the actor of one connection, a step for each frame, tick and event,
    and the listener that moves events from the broadcast channel into its mailbox.
  \<^item> \<open>Files\<close>: a store of files with modes whose system calls may fail at any point, and the sequencing
    of such calls with \<open>?\<close>. \<open>Config\<close> (\<open>config/loader.rs\<close>): the configuration, the polling token saved in
    it, and the checks on the certificate files.
  \<^item> \<open>Provision\<close> (\<open>enroll/provision.rs\<close>): writing PEM files, the PKI bundle and the repository
    configuration. \<open>Repo_Health\<close> (\<open>enroll/repo_health.rs\<close>): the self-heal, the key status and the
    synchronisation task.
  \<^item> \<open>Identity\<close> (\<open>enroll/identity.rs\<close>): machine id, names, operating system and the address to report.
    \<open>Enroll\<close> (\<open>enroll/client.rs\<close>, \<open>enroll/mod.rs\<close>): registration, polling, and the three phases of an
    enrollment run.
  \<^item> \<open>Startup\<close> (\<open>main.rs\<close>): the decisions before the server runs with their exit codes, and SIGTERM. \<open>Server\<close>:
    the rest of \<open>main\<close>, from the scheduler to the listener, and the running server as a step relation: requests on
    four workers, CRL refreshes and checks, and whatever spawned tasks do to the application. \<open>Logging\<close> (\<open>logging/init.rs\<close>): what is installed before all that.
  \<^item> \<open>Refinement\<close>: an abstract machine of one holder and three gates, and the proof that the dispatch
    system refines it. \<open>Live\<close>: server and dispatch system side by side; whatever a handler does to the scheduler is a
    sequence of steps of the dispatch system, so every run of a booted agent is a run of it.

  \<^bold>\<open>Conventions.\<close> The clock, fresh UUIDs, the boot id and the outcomes of system calls are arguments.
  Code outside the repository is a parameter with its documented behaviour as a hypothesis where a
  property needs it: \<open>serde_json\<close> and \<open>serde_yaml\<close> (what was written is read back), \<open>governor\<close>,
  \<open>x509_parser\<close>, \<open>rustls\<close>, \<open>if_addrs\<close>, \<open>gpg\<close>, WebPKI, DNS, HTTP. Strings are lists of characters; a dash in
  a message is written as two hyphens. Integers keep their width where it matters: exit codes, progress,
  generations, addresses and thresholds are words.

  \<^bold>\<open>What is proved.\<close> Exclusion: the mutation slot has one owner in every reachable state and the number of
  running jobs stays within its limit, for the dispatch system and for every run of a booted agent; while a reboot is
  reserved, or after the freeze of a shutdown, nothing else starts; while a self-update is, only a forced and acknowledged
  reboot is let in; all of it is one refinement of an abstract contract.
  Progress: a spawned task always frees the slot and settles its job, an accepted request ends with its job settled, the patch task never leaves its job
  running, a self-update task that is no longer waiting ends its reservation, however its closure ended. Durability: a restart keeps every settled job
  and settles every other one, and a second restart changes nothing; certificates and keys are replaced
  whole or not at all. Access: which certificates, addresses and requests get through, with the
  fail-closed cases, composed from the boot over the handshake to a request's effect; the routing table serves exactly its addresses, and how these
  differ from the two interface documents is stated; an accepted request has added exactly one pending job; with every package manager an accepted request runs only commands whose words are
  the sources' or begin with a checked name, and after a patch that allows a reboot the fixed queries and the reboot, while the filter of the package list is not checked; the agent serves only with accepted
  certificates. Enrollment: polling ends within its bound, and success means that the manager is
  whitelisted and the polling token cleared in memory and on disk. Packages: the command protocol around apt-get, the bound on what a patch run may issue, the bounded
  wait for pacman's lock, and the time a command with a deadline takes at most.
  Parsers, validators, staleness and delays: their exact results. Some theorems exhibit behaviour that
  contradicts a comment of the code: the leaked slot of a dropped caller, the start of a cancelled job,
  the snapshot race, the retry gaps, the order of the middlewares, the unreachable fetch retry, the
  WebSocket filter, rollback jobs that never run, the dead enrollment token, the self-heal of APT and Alpine.

  \<^bold>\<open>Bounds.\<close> No definition needs fuel: every loop of the modelled code is a recursion on its data, on the
  list of outcomes it meets, or on the number of attempts left. The wait loop of \<open>dispatch_mutation\<close>,
  which may run for ever, is the step relation, one step for each turn.

  \<^bold>\<open>Not modelled.\<close> The lines written to the log; the timeouts \<open>main.rs\<close> hands to actix-web, and the plumbing of actix's
  \<open>Transform\<close> and \<open>Service\<close> traits; \<open>restart_own_service\<close>, which nothing calls; \<open>get_system_info\<close> and \<open>reboot_system\<close>
  of the backends other than APT, which only delegate to the shared helpers; hooks that only tests set; \<open>Default\<close>,
  \<open>Display\<close> and constructors that only hold a field; module declarations.
\<close>

end
